(* ===== verification/Prelude.thy ===== *)
theory Prelude
  imports Main
begin

text \<open>
  Shared ground of the development: the errors and panics of Go as values, Go maps that may be
  nil, the functions of Go's package \<open>strings\<close> the operator calls, and the generic lemmas and
  lemma collections the component theories use. Nothing here is specific to Quay.
\<close>

section \<open>Lemma collections\<close>

named_theorems model_defs \<open>unfolds the operations of a component\<close>
named_theorems name_defs \<open>unfolds constant names of the source\<close>

section \<open>Errors and panics\<close>

text \<open>
  An error value of the source is classified the way the code tests it (\<open>errors.IsNotFound\<close>,
  \<open>errors.IsAlreadyExists\<close>, \<open>errors.IsConflict\<close>, \<open>meta.IsNoMatchError\<close>,
  \<open>runtime.IsNotRegisteredError\<close>, \<open>apiutil.ErrResourceDiscoveryFailed\<close>, the probe sentinel of
  \<open>features.go\<close>). A wrapped error (\<open>%w\<close>) keeps its class, one rendered with \<open>%s\<close> loses it. A run
  time panic (nil map write, failed type assertion, index out of range) is a value of its own, that
  no handler of the source turns into an ordinary error.
\<close>

datatype err_class =
    PlainError | NotFoundError | AlreadyExistsError | ConflictError | NoMatchError
  | NotRegisteredError | DiscoveryFailedError | RouteProbeInProgress

datatype go_error = GoError err_class string | GoPanic string

type_synonym 'a result = "go_error + 'a"

fun error_text :: "go_error \<Rightarrow> string" where
  "error_text (GoError c m) = m"
| "error_text (GoPanic m) = m"

fun is_panic :: "go_error \<Rightarrow> bool" where
  "is_panic (GoPanic _) = True"
| "is_panic (GoError _ _) = False"

fun IsNotFound :: "go_error \<Rightarrow> bool" where
  "IsNotFound (GoError NotFoundError _) = True"
| "IsNotFound _ = False"

fun IsConflict :: "go_error \<Rightarrow> bool" where
  "IsConflict (GoError ConflictError _) = True"
| "IsConflict _ = False"

fun IsAlreadyExists :: "go_error \<Rightarrow> bool" where
  "IsAlreadyExists (GoError AlreadyExistsError _) = True"
| "IsAlreadyExists _ = False"

text \<open>\<open>fmt.Errorf(prefix + "%w", err)\<close> and \<open>fmt.Errorf(prefix + "%s", err)\<close>.\<close>

fun wrap_error :: "string \<Rightarrow> go_error \<Rightarrow> go_error" where
  "wrap_error p (GoError c m) = GoError c (p @ m)"
| "wrap_error p (GoPanic m) = GoPanic m"

fun format_error :: "string \<Rightarrow> go_error \<Rightarrow> go_error" where
  "format_error p (GoError c m) = GoError PlainError (p @ m)"
| "format_error p (GoPanic m) = GoPanic m"

abbreviation plain_error :: "string \<Rightarrow> go_error" where
  "plain_error \<equiv> GoError PlainError"

lemma IsNotFound_wrap [simp]: "IsNotFound (wrap_error p e) = IsNotFound e"
  by (cases e; cases "case e of GoError c _ \<Rightarrow> c | GoPanic _ \<Rightarrow> PlainError") auto

text \<open>Sequencing: the early return on a failed step.\<close>

definition and_then :: "'a result \<Rightarrow> ('a \<Rightarrow> 'b result) \<Rightarrow> 'b result" where
  "and_then r k = (case r of Inl e \<Rightarrow> Inl e | Inr x \<Rightarrow> k x)"

lemma and_then_simps [simp]:
  "and_then (Inl e) k = Inl e"
  "and_then (Inr x) k = k x"
  by (simp_all add: and_then_def)

lemma and_then_InrE:
  assumes "and_then r k = Inr y"
  obtains x where "r = Inr x" and "k x = Inr y"
  using assms by (cases r) auto

lemma and_then_Inr_iff: "and_then r k = Inr y \<longleftrightarrow> (\<exists>x. r = Inr x \<and> k x = Inr y)"
  by (cases r) auto

text \<open>The loop \<open>for _, x := range xs { s, err = f(s, x); if err != nil { return err } }\<close>.\<close>

fun fold_result :: "('s \<Rightarrow> 'a \<Rightarrow> 's result) \<Rightarrow> 's \<Rightarrow> 'a list \<Rightarrow> 's result" where
  "fold_result f s [] = Inr s"
| "fold_result f s (x # xs) = and_then (f s x) (\<lambda>s'. fold_result f s' xs)"

lemma fold_result_invariant:
  assumes "fold_result f s xs = Inr s'" and "P s"
    and "\<And>s x s'. P s \<Longrightarrow> x \<in> set xs \<Longrightarrow> f s x = Inr s' \<Longrightarrow> P s'"
  shows "P s'"
  using assms
proof (induction xs arbitrary: s)
  case Nil
  then show ?case by simp
next
  case (Cons x xs)
  from Cons.prems(1) obtain t where t: "f s x = Inr t" "fold_result f t xs = Inr s'"
    by (auto elim: and_then_InrE)
  have "P t" using Cons.prems(3)[OF Cons.prems(2) _ t(1)] by simp
  with t(2) show ?case by (rule Cons.IH) (use Cons.prems(3) in auto)
qed

section \<open>First matches\<close>

lemma find_append: "find P (xs @ ys) = (case find P xs of None \<Rightarrow> find P ys | Some x \<Rightarrow> Some x)"
  by (induction xs) auto

lemma find_None_set: "find P xs = None \<longleftrightarrow> (\<forall>x \<in> set xs. \<not> P x)"
  by (induction xs) auto

lemma find_Some_set: "find P xs = Some x \<Longrightarrow> x \<in> set xs \<and> P x"
  by (induction xs) (auto split: if_splits)

lemma find_first_split: "find P xs = Some x \<longleftrightarrow>
    (\<exists>pre post. xs = pre @ x # post \<and> P x \<and> \<not> list_ex P pre)"
proof (induction xs)
  case Nil
  then show ?case by simp
next
  case (Cons a xs)
  have "(\<exists>pre post. a # xs = pre @ x # post \<and> P x \<and> \<not> list_ex P pre) \<longleftrightarrow>
    (a = x \<and> P x) \<or> (\<not> P a \<and> (\<exists>pre post. xs = pre @ x # post \<and> P x \<and> \<not> list_ex P pre))"
    (is "?L \<longleftrightarrow> ?R")
  proof
    assume ?L
    then obtain pre post where "a # xs = pre @ x # post" "P x" "\<not> list_ex P pre" by blast
    then show ?R by (cases pre) auto
  next
    assume ?R
    then show ?L
    proof
      assume "a = x \<and> P x"
      then have "a # xs = [] @ x # xs \<and> P x \<and> \<not> list_ex P []" by simp
      then show ?L by blast
    next
      assume "\<not> P a \<and> (\<exists>pre post. xs = pre @ x # post \<and> P x \<and> \<not> list_ex P pre)"
      then obtain pre post where "xs = pre @ x # post" "P x" "\<not> list_ex P pre" "\<not> P a" by blast
      then have "a # xs = (a # pre) @ x # post \<and> P x \<and> \<not> list_ex P (a # pre)" by simp
      then show ?L by blast
    qed
  qed
  with Cons show ?case by auto
qed

lemma find_key_image: "find (\<lambda>x. f x = k) xs = None \<longleftrightarrow> k \<notin> f ` set xs"
  by (auto simp: find_None_set)

lemma find_rev_distinct:
  "distinct (map f xs) \<Longrightarrow> find (\<lambda>x. f x = k) (rev xs) = find (\<lambda>x. f x = k) xs"
proof (induction xs)
  case Nil
  then show ?case by simp
next
  case (Cons a xs)
  then have "find (\<lambda>x. f x = k) xs = None" if "f a = k"
    using that find_key_image [of f k xs] by auto
  with Cons show ?case by (auto simp: find_append split: option.split)
qed

lemma find_map_key: "(\<And>x. f (g x) = f x) \<Longrightarrow>
    find (\<lambda>x. f x = k) (map g xs) = map_option g (find (\<lambda>x. f x = k) xs)"
  by (induction xs) auto

section \<open>Go maps\<close>

text \<open>A Go map is nil (\<open>None\<close>) or a finite function. Reading and deleting work on nil, writing panics.\<close>

type_synonym ('k, 'v) gomap = "('k \<rightharpoonup> 'v) option"

definition gget :: "('k, 'v) gomap \<Rightarrow> 'k \<Rightarrow> 'v option" where
  "gget m k = (case m of None \<Rightarrow> None | Some f \<Rightarrow> f k)"

definition gput :: "('k, 'v) gomap \<Rightarrow> 'k \<Rightarrow> 'v \<Rightarrow> ('k, 'v) gomap result" where
  "gput m k v = (case m of None \<Rightarrow> Inl (GoPanic ''assignment to entry in nil map'')
                 | Some f \<Rightarrow> Inr (Some (f(k \<mapsto> v))))"

definition gdel :: "('k, 'v) gomap \<Rightarrow> 'k \<Rightarrow> ('k, 'v) gomap" where
  "gdel m k = map_option (\<lambda>f. f(k := None)) m"

text \<open>\<open>m[k]\<close> on a string map: the zero value where the key is missing.\<close>

definition gstr :: "(string, string) gomap \<Rightarrow> string \<Rightarrow> string" where
  "gstr m k = (case gget m k of None \<Rightarrow> '''' | Some v \<Rightarrow> v)"

text \<open>\<open>if m == nil { m = map[..]..{} }\<close>.\<close>

definition gmake :: "('k, 'v) gomap \<Rightarrow> ('k, 'v) gomap" where
  "gmake m = (case m of None \<Rightarrow> Some Map.empty | Some f \<Rightarrow> Some f)"

text \<open>\<open>for k, v := range src { if skip(k) { continue }; m[k] = v }\<close>: the keys of a map are distinct,
  so the order in which Go visits them does not show.\<close>

definition gcopy :: "('k \<Rightarrow> bool) \<Rightarrow> ('k \<rightharpoonup> 'v) \<Rightarrow> ('k, 'v) gomap \<Rightarrow> ('k, 'v) gomap" where
  "gcopy skip src m = map_option (\<lambda>f k. if skip k then f k else (case src k of None \<Rightarrow> f k | Some v \<Rightarrow> Some v)) m"

lemma gget_simps [simp]: "gget None k = None" "gget (Some f) k = f k"
  by (simp_all add: gget_def)

lemma gput_simps [simp]:
  "gput None k v = Inl (GoPanic ''assignment to entry in nil map'')"
  "gput (Some f) k v = Inr (Some (f(k \<mapsto> v)))"
  by (simp_all add: gput_def)

lemma gget_gput: "gput m k v = Inr m' \<Longrightarrow> gget m' j = (if j = k then Some v else gget m j)"
  by (cases m) auto

lemma gput_Inr_iff: "(\<exists>m'. gput m k v = Inr m') \<longleftrightarrow> m \<noteq> None"
  by (cases m) auto

lemma gget_gdel [simp]: "gget (gdel m k) j = (if j = k then None else gget m j)"
  by (cases m) (auto simp: gdel_def)

lemma gget_gmake [simp]: "gget (gmake m) j = gget m j"
  by (cases m) (auto simp: gmake_def)

lemma gmake_not_nil [simp]: "gmake m \<noteq> None"
  by (cases m) (auto simp: gmake_def)

lemma gdel_nil_iff [simp]: "gdel m k = None \<longleftrightarrow> m = None"
  by (simp add: gdel_def)

lemma gget_gcopy:
  "m \<noteq> None \<Longrightarrow> gget (gcopy skip src m) k =
     (if skip k then gget m k else case src k of None \<Rightarrow> gget m k | Some v \<Rightarrow> Some v)"
  by (cases m) (auto simp: gcopy_def split: option.splits)

lemma gcopy_nil_iff [simp]: "gcopy skip src m = None \<longleftrightarrow> m = None"
  by (simp add: gcopy_def)


section \<open>Package strings\<close>

text \<open>Each function of Go's \<open>strings\<close> package as the code uses it (bytes as characters).\<close>

fun HasPrefix :: "string \<Rightarrow> string \<Rightarrow> bool" where
  "HasPrefix s [] = True"
| "HasPrefix [] (p # ps) = False"
| "HasPrefix (c # s) (p # ps) = (c = p \<and> HasPrefix s ps)"

definition HasSuffix :: "string \<Rightarrow> string \<Rightarrow> bool" where
  "HasSuffix s p = HasPrefix (rev s) (rev p)"

fun Contains :: "string \<Rightarrow> string \<Rightarrow> bool" where
  "Contains [] p = (p = [])"
| "Contains (c # s) p = (HasPrefix (c # s) p \<or> Contains s p)"

definition TrimPrefix :: "string \<Rightarrow> string \<Rightarrow> string" where
  "TrimPrefix s p = (if HasPrefix s p then drop (length p) s else s)"

fun Join :: "string list \<Rightarrow> string \<Rightarrow> string" where
  "Join [] sep = []"
| "Join [x] sep = x"
| "Join (x # y # xs) sep = x @ sep @ Join (y # xs) sep"

text \<open>\<open>strings.Split\<close> at a separator of one byte: always at least one part.\<close>

fun Split :: "string \<Rightarrow> char \<Rightarrow> string list" where
  "Split [] c = [[]]"
| "Split (x # s) c =
     (if x = c then [] # Split s c
      else (case Split s c of [] \<Rightarrow> [[x]] | p # ps \<Rightarrow> (x # p) # ps))"

text \<open>\<open>s[strings.LastIndex(s, c)+1:]\<close>: what follows the last separator, or all of \<open>s\<close>.\<close>

fun AfterLast :: "string \<Rightarrow> char \<Rightarrow> string" where
  "AfterLast [] c = []"
| "AfterLast (x # s) c = (if c \<in> set s then AfterLast s c else if x = c then s else x # s)"

text \<open>\<open>strings.ReplaceAll\<close> for a non-empty \<open>old\<close>: left to right, without overlaps.\<close>

function ReplaceAll :: "string \<Rightarrow> string \<Rightarrow> string \<Rightarrow> string" where
  "ReplaceAll s old new =
     (case s of [] \<Rightarrow> []
      | c # cs \<Rightarrow> if old \<noteq> [] \<and> HasPrefix s old then new @ ReplaceAll (drop (length old) s) old new
                 else c # ReplaceAll cs old new)"
  by pat_completeness auto
termination
  by (relation "measure (\<lambda>(s, old, new). length s)") auto

declare ReplaceAll.simps [simp del]

lemma ReplaceAll_Nil [simp]: "ReplaceAll [] old new = []"
  by (simp add: ReplaceAll.simps)

lemma ReplaceAll_Cons:
  "ReplaceAll (c # cs) old new =
     (if old \<noteq> [] \<and> HasPrefix (c # cs) old then new @ ReplaceAll (drop (length old) (c # cs)) old new
      else c # ReplaceAll cs old new)"
  by (simp add: ReplaceAll.simps[of "c # cs"])

text \<open>The verb \<open>%q\<close> on printable text: double quotes around it, quotes and backslashes escaped.\<close>

definition Quote :: "string \<Rightarrow> string" where
  "Quote s = CHR 0x22 # concat (map (\<lambda>c. if c = CHR 0x22 \<or> c = CHR 0x5C then [CHR 0x5C, c] else [c]) s)
     @ [CHR 0x22]"

lemma HasPrefix_iff: "HasPrefix s p \<longleftrightarrow> (\<exists>t. s = p @ t)"
  by (induction s p rule: HasPrefix.induct) auto

lemma HasPrefix_append [simp]: "HasPrefix (p @ t) p"
  by (simp add: HasPrefix_iff)

lemma HasSuffix_iff: "HasSuffix s p \<longleftrightarrow> (\<exists>t. s = t @ p)"
proof -
  have "HasSuffix s p \<longleftrightarrow> (\<exists>t. rev s = rev p @ t)"
    by (simp add: HasSuffix_def HasPrefix_iff)
  also have "\<dots> \<longleftrightarrow> (\<exists>t. s = t @ p)"
    by (metis rev_append rev_rev_ident)
  finally show ?thesis .
qed

lemma Contains_iff: "Contains s p \<longleftrightarrow> (\<exists>a b. s = a @ p @ b)"
proof (induction s p rule: Contains.induct)
  case (1 p)
  then show ?case by auto
next
  case (2 c s p)
  show ?case
  proof
    assume "Contains (c # s) p"
    then consider "HasPrefix (c # s) p" | "Contains s p" by auto
    then show "\<exists>a b. c # s = a @ p @ b"
    proof cases
      case 1
      then obtain t where "c # s = [] @ p @ t" by (auto simp: HasPrefix_iff)
      then show ?thesis by blast
    next
      case 2
      with "2.IH" obtain a b where "s = a @ p @ b" by auto
      then have "c # s = (c # a) @ p @ b" by simp
      then show ?thesis by blast
    qed
  next
    assume "\<exists>a b. c # s = a @ p @ b"
    then obtain a b where ab: "c # s = a @ p @ b" by blast
    show "Contains (c # s) p"
    proof (cases a)
      case Nil
      with ab have "HasPrefix (c # s) p" by (auto simp: HasPrefix_iff)
      then show ?thesis by simp
    next
      case (Cons x a')
      with ab have "s = a' @ p @ b" by simp
      with "2.IH" show ?thesis by auto
    qed
  qed
qed

lemma Contains_append [simp]: "Contains (a @ p @ b) p"
  by (auto simp: Contains_iff)

lemma Split_not_Nil [simp]: "Split s c \<noteq> []"
  by (induction s) (auto split: list.splits)

text \<open>Splitting and joining are inverse: the parts of a split hold no separator, and joining
  parts without separators loses nothing.\<close>

lemma Split_single: "c \<notin> set s \<Longrightarrow> Split s c = [s]"
  by (induction s) auto

lemma Split_append: "c \<notin> set s \<Longrightarrow> Split (s @ c # t) c = s # Split t c"
  by (induction s) auto

lemma Split_hd_no_sep: "p \<in> set (Split s c) \<Longrightarrow> c \<notin> set p"
proof (induction s arbitrary: p)
  case Nil
  then show ?case by simp
next
  case (Cons x s)
  obtain q qs where q: "Split s c = q # qs" by (cases "Split s c") auto
  have IH: "c \<notin> set q" "\<And>r. r \<in> set qs \<Longrightarrow> c \<notin> set r"
    using Cons.IH q by auto
  from Cons.prems q IH show ?case by (auto split: if_splits)
qed

lemma Join_Split: "Join (Split s c) [c] = s"
proof (induction s)
  case Nil
  then show ?case by simp
next
  case (Cons x s)
  obtain p ps where p: "Split s c = p # ps" by (cases "Split s c") auto
  show ?case
  proof (cases "x = c")
    case True
    with Cons p show ?thesis by (cases ps) auto
  next
    case False
    with Cons p show ?thesis by (cases ps) auto
  qed
qed

lemma Split_Join: "xs \<noteq> [] \<Longrightarrow> \<forall>x \<in> set xs. c \<notin> set x \<Longrightarrow> Split (Join xs [c]) c = xs"
proof (induction xs "[c]" rule: Join.induct)
  case 1
  then show ?case by simp
next
  case (2 x)
  then show ?case by (simp add: Split_single)
next
  case (3 x y xs)
  then show ?case by (simp add: Split_append)
qed

lemma AfterLast_no_sep: "c \<notin> set s \<Longrightarrow> AfterLast s c = s"
  by (induction s) auto

lemma AfterLast_append: "c \<notin> set t \<Longrightarrow> AfterLast (s @ c # t) c = t"
  by (induction s) (auto simp: AfterLast_no_sep)

lemma ReplaceAll_contains:
  assumes "old \<noteq> []" and "Contains s old"
  shows "Contains (ReplaceAll s old new) new"
  using assms(2)
proof (induction s)
  case Nil
  then show ?case using assms(1) by simp
next
  case (Cons c s)
  show ?case
  proof (cases "HasPrefix (c # s) old")
    case True
    then show ?thesis
      using assms(1) Contains_append [of "[]" new] by (simp add: ReplaceAll_Cons)
  next
    case False
    with Cons show ?thesis by (simp add: ReplaceAll_Cons)
  qed
qed

end
