(* ===== verification/Kube_Objects.thy ===== *)
theory Kube_Objects
  imports Prelude
begin

text \<open>
  The Kubernetes data the operator handles and the cluster as its client reads it. The Go structs
  are those of \<open>k8s.io/api\<close>, \<open>k8s.io/apimachinery\<close> and \<open>github.com/openshift/api\<close>; each record
  keeps the fields the operator reads or writes, under the Go name behind a prefix. A pointer is an
  option, a map is a \<open>gomap\<close>, a slice is a list. Payloads the operator only copies (affinity,
  security context, the source of an environment variable) are opaque strings; a quantity is its
  amount, the only thing \<open>Quantity.Cmp\<close> looks at.
\<close>

type_synonym Time = int
type_synonym strmap = "(string, string) gomap"
type_synonym Quantity = int
type_synonym Affinity = string
type_synonym SecurityContext = string

abbreviation (input) zero_time :: Time where
  "zero_time \<equiv> 0"

section \<open>Metadata\<close>

record OwnerReference =
  or_APIVersion :: string
  or_Kind :: string
  or_Name :: string
  or_UID :: string
  or_Controller :: "bool option"

record ObjectMeta =
  om_Name :: string
  om_Namespace :: string
  om_UID :: string
  om_Generation :: int
  om_DeletionTimestamp :: "Time option"
  om_Labels :: strmap
  om_Annotations :: strmap
  om_OwnerReferences :: "OwnerReference list"
  om_Finalizers :: "string list"

record NamespacedName =
  nn_Namespace :: string
  nn_Name :: string

abbreviation nsn :: "string \<Rightarrow> string \<Rightarrow> NamespacedName" where
  "nsn ns n \<equiv> \<lparr>nn_Namespace = ns, nn_Name = n\<rparr>"

abbreviation meta_named :: "string \<Rightarrow> string \<Rightarrow> ObjectMeta" where
  "meta_named ns n \<equiv> \<lparr>om_Name = n, om_Namespace = ns, om_UID = [], om_Generation = 0,
     om_DeletionTimestamp = None, om_Labels = None, om_Annotations = None,
     om_OwnerReferences = [], om_Finalizers = []\<rparr>"

record GroupVersionKind =
  gvk_Group :: string
  gvk_Version :: string
  gvk_Kind :: string

section \<open>Workloads\<close>

record EnvVar =
  ev_Name :: string
  ev_Value :: string
  ev_ValueFrom :: "string option"

record ResourceRequirements =
  rr_Limits :: "(string, Quantity) gomap"
  rr_Requests :: "(string, Quantity) gomap"

record Container =
  cn_Name :: string
  cn_Image :: string
  cn_Env :: "EnvVar list"
  cn_Resources :: ResourceRequirements
  cn_SecurityContext :: "SecurityContext option"

record PVCSpec =
  ps_Requests :: "(string, Quantity) gomap"
  ps_StorageClassName :: "string option"

record Volume =
  vol_Name :: string
  vol_PVCClaimName :: "string option"
  vol_Ephemeral :: "PVCSpec option option"

record PodTemplate =
  pt_Labels :: strmap
  pt_Annotations :: strmap
  pt_Containers :: "Container list"
  pt_Volumes :: "Volume list"
  pt_Affinity :: "Affinity option"
  pt_TerminationGracePeriodSeconds :: "int option"

datatype CoreConditionStatus = CoreTrue | CoreFalse | CoreUnknown | CoreOther string

record DeploymentCondition =
  dc_Type :: string
  dc_Status :: CoreConditionStatus
  dc_Message :: string

record Deployment =
  dep_Meta :: ObjectMeta
  dep_Replicas :: "int option"
  dep_Selector :: string
  dep_Template :: PodTemplate
  dep_AvailableReplicas :: int
  dep_UpdatedReplicas :: int
  dep_ObservedGeneration :: int
  dep_Conditions :: "DeploymentCondition list"

record JobCondition =
  jc_Type :: string
  jc_Status :: CoreConditionStatus
  jc_Message :: string

record Job =
  job_Meta :: ObjectMeta
  job_Template :: PodTemplate
  job_Active :: int
  job_Succeeded :: int
  job_Conditions :: "JobCondition list"

section \<open>Routes, claims, secrets, events\<close>

record RouteIngressCondition =
  ric_Type :: string
  ric_Status :: CoreConditionStatus

record RouteIngress =
  ing_RouterName :: string
  ing_RouterCanonicalHostname :: string
  ing_Conditions :: "RouteIngressCondition list"

record TLSConfig =
  tc_Termination :: string
  tc_InsecureEdgeTerminationPolicy :: string

record Route =
  rt_Meta :: ObjectMeta
  rt_Host :: string
  rt_TLS :: "TLSConfig option"
  rt_PortTarget :: "string option"
  rt_Ingress :: "RouteIngress list"

record PersistentVolumeClaim =
  pvc_Meta :: ObjectMeta
  pvc_Spec :: PVCSpec
  pvc_Phase :: string

record Event =
  evt_Reason :: string
  evt_Message :: string

record Secret =
  sec_Meta :: ObjectMeta
  sec_Type :: string
  sec_Data :: strmap

record ConfigMap =
  cm_Meta :: ObjectMeta
  cm_Data :: strmap

record ObjectBucketClaim =
  obc_Meta :: ObjectMeta
  obc_Phase :: string

section \<open>The cluster as the client reads it\<close>

text \<open>
  The controller-runtime client is a library: what its \<open>Get\<close> and \<open>List\<close> answer is a parameter
  of every definition that reads the cluster. A reader is one snapshot: a status evaluation reads
  each object at most once, so its answers always form such a function. An answer is the object
  (or the list) or the error the client returned.
\<close>

record Reader =
  GetDeployment :: "NamespacedName \<Rightarrow> Deployment result"
  GetJob :: "NamespacedName \<Rightarrow> Job result"
  GetHPA :: "NamespacedName \<Rightarrow> ObjectMeta result"
  GetSecret :: "NamespacedName \<Rightarrow> Secret result"
  GetConfigMap :: "NamespacedName \<Rightarrow> ConfigMap result"
  GetPVC :: "NamespacedName \<Rightarrow> PersistentVolumeClaim result"
  GetUnstructured :: "GroupVersionKind \<Rightarrow> NamespacedName \<Rightarrow> ObjectMeta result"
  ListRoutes :: "string \<Rightarrow> Route list result"
  ListObjectBucketClaims :: "string \<Rightarrow> ObjectBucketClaim list result"
  ListEventsFor :: "string \<Rightarrow> string \<Rightarrow> Event list result"

text \<open>The reader of a cluster that holds nothing.\<close>

definition not_found :: "string \<Rightarrow> 'a result" where
  "not_found what = Inl (GoError NotFoundError (what @ '' not found''))"

definition empty_reader :: Reader where
  "empty_reader = \<lparr>
     GetDeployment = (\<lambda>n. not_found (nn_Name n)), GetJob = (\<lambda>n. not_found (nn_Name n)),
     GetHPA = (\<lambda>n. not_found (nn_Name n)), GetSecret = (\<lambda>n. not_found (nn_Name n)),
     GetConfigMap = (\<lambda>n. not_found (nn_Name n)), GetPVC = (\<lambda>n. not_found (nn_Name n)),
     GetUnstructured = (\<lambda>g n. not_found (nn_Name n)), ListRoutes = (\<lambda>_. Inr []),
     ListObjectBucketClaims = (\<lambda>_. Inr []), ListEventsFor = (\<lambda>_ _. Inr [])\<rparr>"

lemma not_found_IsNotFound [simp]: "\<exists>e. not_found what = Inl e \<and> IsNotFound e"
  by (simp add: not_found_def)

end
