(* ===== verification/Quay_Types.thy ===== *)
theory Quay_Types
  imports Kube_Objects
begin

text \<open>
  The types and constants of \<open>apis/quay/v1/quayregistry_types.go\<close> and the context of
  \<open>pkg/context/context.go\<close>. The string types \<open>ComponentKind\<close>, \<open>ConditionType\<close> and
  \<open>ConditionReason\<close> are datatypes with one constructor per declared constant and one for any
  other string; \<open>kind_name\<close> and \<open>kind_of_string\<close> are the conversions between kinds and strings.
\<close>

section \<open>Component kinds\<close>

datatype ComponentKind =
    ComponentQuay | ComponentPostgres | ComponentClair | ComponentClairPostgres | ComponentRedis
  | ComponentHPA | ComponentObjectStorage | ComponentRoute | ComponentMirror
  | ComponentMonitoring | ComponentTLS | ComponentOther string

fun kind_name :: "ComponentKind \<Rightarrow> string" where
  "kind_name ComponentQuay = ''quay''"
| "kind_name ComponentPostgres = ''postgres''"
| "kind_name ComponentClair = ''clair''"
| "kind_name ComponentClairPostgres = ''clairpostgres''"
| "kind_name ComponentRedis = ''redis''"
| "kind_name ComponentHPA = ''horizontalpodautoscaler''"
| "kind_name ComponentObjectStorage = ''objectstorage''"
| "kind_name ComponentRoute = ''route''"
| "kind_name ComponentMirror = ''mirror''"
| "kind_name ComponentMonitoring = ''monitoring''"
| "kind_name ComponentTLS = ''tls''"
| "kind_name (ComponentOther s) = s"

definition AllComponents :: "ComponentKind list" where
  "AllComponents = [ComponentQuay, ComponentPostgres, ComponentClair, ComponentRedis, ComponentHPA,
     ComponentObjectStorage, ComponentRoute, ComponentMirror, ComponentMonitoring, ComponentTLS,
     ComponentClairPostgres]"

text \<open>The conversion \<open>v1.ComponentKind(s)\<close>.\<close>

definition kind_of_string :: "string \<Rightarrow> ComponentKind" where
  "kind_of_string s = (case find (\<lambda>k. kind_name k = s) AllComponents of
     Some k \<Rightarrow> k | None \<Rightarrow> ComponentOther s)"

definition requiredComponents :: "ComponentKind list" where
  "requiredComponents = [ComponentPostgres, ComponentObjectStorage, ComponentRoute, ComponentRedis,
     ComponentTLS]"

definition supportsVolumeOverride :: "ComponentKind list" where
  "supportsVolumeOverride = [ComponentPostgres, ComponentClair, ComponentClairPostgres]"

definition supportsStorageClassOverride :: "ComponentKind list" where
  "supportsStorageClassOverride = [ComponentPostgres, ComponentClair, ComponentClairPostgres]"

definition supportsEnvOverride :: "ComponentKind list" where
  "supportsEnvOverride = [ComponentQuay, ComponentClair, ComponentMirror, ComponentPostgres,
     ComponentRedis, ComponentClairPostgres]"

definition supportsResourceOverrides :: "ComponentKind list" where
  "supportsResourceOverrides = [ComponentQuay, ComponentClair, ComponentMirror, ComponentPostgres,
     ComponentClairPostgres, ComponentRedis]"

definition supportsReplicasOverride :: "ComponentKind list" where
  "supportsReplicasOverride = [ComponentClair, ComponentMirror, ComponentQuay]"

definition supportsAffinityOverride :: "ComponentKind list" where
  "supportsAffinityOverride = [ComponentClair, ComponentMirror, ComponentQuay]"

definition supportsSecurityContextOverride :: "ComponentKind list" where
  "supportsSecurityContextOverride = [ComponentQuay, ComponentMirror]"

lemmas support_tables = supportsVolumeOverride_def supportsStorageClassOverride_def
  supportsEnvOverride_def supportsResourceOverrides_def supportsReplicasOverride_def
  supportsAffinityOverride_def supportsSecurityContextOverride_def

definition ManagedKeysName :: string where
  "ManagedKeysName = ''quay-registry-managed-secret-keys''"

definition QuayConfigTLSSecretName :: string where
  "QuayConfigTLSSecretName = ''quay-config-tls''"

definition QuayUpgradeJobName :: string where
  "QuayUpgradeJobName = ''quay-app-upgrade''"

definition PostgresUpgradeJobName :: string where
  "PostgresUpgradeJobName = ''quay-postgres-upgrade''"

definition ClairPostgresUpgradeJobName :: string where
  "ClairPostgresUpgradeJobName = ''clair-postgres-upgrade''"

definition ClusterServiceCAName :: string where
  "ClusterServiceCAName = ''cluster-service-ca''"

definition ClusterTrustedCAName :: string where
  "ClusterTrustedCAName = ''cluster-trusted-ca''"

definition TLSSecretHashAnnotation :: string where
  "TLSSecretHashAnnotation = ''quay.redhat.com/tls-secret-hash''"

definition TLSSecretLabel :: string where
  "TLSSecretLabel = ''quay.redhat.com/tls-secret''"

definition GroupVersion :: string where
  "GroupVersion = ''quay.redhat.com/v1''"

lemmas constant_names [name_defs] = ManagedKeysName_def QuayConfigTLSSecretName_def
  QuayUpgradeJobName_def PostgresUpgradeJobName_def ClairPostgresUpgradeJobName_def
  ClusterServiceCAName_def ClusterTrustedCAName_def TLSSecretHashAnnotation_def
  TLSSecretLabel_def GroupVersion_def

section \<open>The specification of a registry\<close>

record Resources =
  res_Limits :: "(string, Quantity) gomap"
  res_Requests :: "(string, Quantity) gomap"

record Override =
  ov_VolumeSize :: "Quantity option"
  ov_StorageClassName :: "string option"
  ov_Env :: "EnvVar list"
  ov_Replicas :: "int option"
  ov_Affinity :: "Affinity option"
  ov_Labels :: strmap
  ov_Annotations :: strmap
  ov_Resources :: "Resources option"
  ov_SecurityContext :: "SecurityContext option"

record Component =
  cmp_Kind :: ComponentKind
  cmp_Managed :: bool
  cmp_Overrides :: "Override option"
  cmp_SecretRef :: "string option"

record QuayRegistrySpec =
  spec_ConfigBundleSecret :: string
  spec_Components :: "Component list"

section \<open>Conditions and status\<close>

datatype ConditionType =
    ConditionTypeAvailable | ConditionTypeRolloutBlocked | ConditionComponentsCreated
  | ComponentQuayReady | ComponentPostgresReady | ComponentClairReady
  | ComponentClairPostgresReady | ComponentRedisReady | ComponentHPAReady
  | ComponentObjectStorageReady | ComponentRouteReady | ComponentMirrorReady
  | ComponentMonitoringReady | ComponentTLSReady | ConditionTypeOther string

datatype ConditionStatus =
  ConditionTrue | ConditionFalse | ConditionUnknown | ConditionStatusOther string

datatype ConditionReason =
    ReasonComponentNotReady | ReasonComponentReady | ReasonComponentUnmanaged
  | ReasonHealthChecksPassing | ReasonMigrationsInProgress | ReasonMigrationsFailed
  | ReasonMigrationsJobMissing | ReasonPostgresUpgradeInProgress | ReasonPostgresUpgradeFailed
  | ReasonPostgresUpgradeJobMissing | ReasonComponentsCreationSuccess | ReasonUpgradeUnsupported
  | ReasonComponentCreationFailed | ReasonRouteComponentDependencyError
  | ReasonObjectStorageComponentDependencyError | ReasonMonitoringComponentDependencyError
  | ReasonConfigInvalid | ReasonComponentOverrideInvalid | ReasonPVCPending
  | ReasonPVCProvisioningFailed | ReasonOther string

record Condition =
  c_Type :: ConditionType
  c_Status :: ConditionStatus
  c_Reason :: ConditionReason
  c_Message :: string
  c_LastUpdateTime :: Time
  c_LastTransitionTime :: Time

text \<open>\<open>var zero qv1.Condition\<close>: every field has its zero value.\<close>

definition zero_condition :: Condition where
  "zero_condition = \<lparr>c_Type = ConditionTypeOther '''', c_Status = ConditionStatusOther '''',
     c_Reason = ReasonOther '''', c_Message = '''', c_LastUpdateTime = zero_time,
     c_LastTransitionTime = zero_time\<rparr>"

text \<open>A condition literal as the checkers write it: the transition time is left zero.\<close>

definition mk_condition ::
  "ConditionType \<Rightarrow> ConditionStatus \<Rightarrow> ConditionReason \<Rightarrow> string \<Rightarrow> Time \<Rightarrow> Condition" where
  "mk_condition ty st rs msg now = \<lparr>c_Type = ty, c_Status = st, c_Reason = rs, c_Message = msg,
     c_LastUpdateTime = now, c_LastTransitionTime = zero_time\<rparr>"

record QuayRegistryStatus =
  st_CurrentVersion :: string
  st_RegistryEndpoint :: string
  st_LastUpdate :: Time
  st_Conditions :: "Condition list"
  st_ObservedGeneration :: int

record QuayRegistry =
  qr_Meta :: ObjectMeta
  qr_Spec :: QuayRegistrySpec
  qr_Status :: QuayRegistryStatus

abbreviation qr_Name :: "QuayRegistry \<Rightarrow> string" where
  "qr_Name q \<equiv> om_Name (qr_Meta q)"

abbreviation qr_Namespace :: "QuayRegistry \<Rightarrow> string" where
  "qr_Namespace q \<equiv> om_Namespace (qr_Meta q)"

abbreviation qr_UID :: "QuayRegistry \<Rightarrow> string" where
  "qr_UID q \<equiv> om_UID (qr_Meta q)"

abbreviation qr_Components :: "QuayRegistry \<Rightarrow> Component list" where
  "qr_Components q \<equiv> spec_Components (qr_Spec q)"

abbreviation qr_Conditions :: "QuayRegistry \<Rightarrow> Condition list" where
  "qr_Conditions q \<equiv> st_Conditions (qr_Status q)"

definition set_components :: "Component list \<Rightarrow> QuayRegistry \<Rightarrow> QuayRegistry" where
  "set_components cs q = q\<lparr>qr_Spec := (qr_Spec q)\<lparr>spec_Components := cs\<rparr>\<rparr>"

definition set_conditions :: "Condition list \<Rightarrow> QuayRegistry \<Rightarrow> QuayRegistry" where
  "set_conditions cs q = q\<lparr>qr_Status := (qr_Status q)\<lparr>st_Conditions := cs\<rparr>\<rparr>"

lemma set_components_simps [simp]:
  "qr_Components (set_components cs q) = cs"
  "qr_Meta (set_components cs q) = qr_Meta q"
  "qr_Status (set_components cs q) = qr_Status q"
  "spec_ConfigBundleSecret (qr_Spec (set_components cs q)) = spec_ConfigBundleSecret (qr_Spec q)"
  "set_components ds (set_components cs q) = set_components ds q"
  by (simp_all add: set_components_def)

lemma set_conditions_simps [simp]:
  "qr_Conditions (set_conditions cs q) = cs"
  "qr_Meta (set_conditions cs q) = qr_Meta q"
  "qr_Spec (set_conditions cs q) = qr_Spec q"
  "st_CurrentVersion (qr_Status (set_conditions cs q)) = st_CurrentVersion (qr_Status q)"
  "set_conditions ds (set_conditions cs q) = set_conditions ds q"
  by (simp_all add: set_conditions_def)

section \<open>The reconcile context\<close>

record QuayRegistryContext =
  SupportsRoutes :: bool
  ClusterHostname :: string
  ServerHostname :: string
  BuildManagerHostname :: string
  ClusterServiceCAHash :: string
  ClusterTrustedCAHash :: string
  ClusterWildcardCert :: "string option"
  TLSCert :: "string option"
  TLSKey :: "string option"
  TLSSecretHash :: string
  SSLProtocols :: string
  SSLCiphers :: string
  SupportsObjectStorage :: bool
  ObjectStorageInitialized :: bool
  StorageHostname :: string
  StorageBucketName :: string
  StorageAccessKey :: string
  StorageSecretKey :: string
  SupportsMonitoring :: bool
  DatabaseSecretKey :: string
  SecretKey :: string
  DatabaseInitialized :: bool
  DbUri :: string
  DbRootPw :: string
  NeedsPgUpgrade :: bool
  NeedsClairPgUpgrade :: bool
  ClairDatabaseInitialized :: bool
  ClairDbUser :: string
  ClairDbPassword :: string
  ClairDbName :: string
  ClairDbRootPw :: string
  SecurityScannerV4PSK :: string

definition NewQuayRegistryContext :: QuayRegistryContext where
  "NewQuayRegistryContext = \<lparr>
     SupportsRoutes = False, ClusterHostname = '''', ServerHostname = '''',
     BuildManagerHostname = '''', ClusterServiceCAHash = '''', ClusterTrustedCAHash = '''',
     ClusterWildcardCert = None, TLSCert = None, TLSKey = None, TLSSecretHash = '''',
     SSLProtocols = '''', SSLCiphers = '''', SupportsObjectStorage = False,
     ObjectStorageInitialized = False, StorageHostname = '''', StorageBucketName = '''',
     StorageAccessKey = '''', StorageSecretKey = '''', SupportsMonitoring = False,
     DatabaseSecretKey = '''', SecretKey = '''', DatabaseInitialized = False, DbUri = '''',
     DbRootPw = '''', NeedsPgUpgrade = False, NeedsClairPgUpgrade = False,
     ClairDatabaseInitialized = False, ClairDbUser = '''', ClairDbPassword = '''',
     ClairDbName = '''', ClairDbRootPw = '''', SecurityScannerV4PSK = ''''\<rparr>"

section \<open>Kinds and strings\<close>

definition known_kind :: "ComponentKind \<Rightarrow> bool" where
  "known_kind k \<longleftrightarrow> (\<forall>s. k \<noteq> ComponentOther s)"

lemma distinct_AllComponents [simp]: "distinct AllComponents"
  by (simp add: AllComponents_def)

lemma set_AllComponents: "set AllComponents = {k. known_kind k}"
proof -
  have "k \<in> set AllComponents \<longleftrightarrow> known_kind k" for k
    by (cases k) (simp_all add: AllComponents_def known_kind_def)
  then show ?thesis by blast
qed

lemma kind_of_string_kind_name: "known_kind k \<Longrightarrow> kind_of_string (kind_name k) = k"
  by (cases k) (simp_all add: kind_of_string_def AllComponents_def known_kind_def)

lemma kind_name_kind_of_string [simp]: "kind_name (kind_of_string s) = s"
  by (auto simp: kind_of_string_def find_Some_iff split: option.split)

end
