(* ===== verification/Keyed_Store.thy ===== *)
theory Keyed_Store
  imports Prelude
begin

text \<open>
  The interface of a slice used as a map: elements carry a key, reading takes the first element
  with the key, writing replaces the first element with the key or appends. The operator uses it
  twice: status conditions keyed by type (\<open>SetCondition\<close>) and environment variables keyed by name
  (\<open>UpsertContainerEnv\<close>). What clients need is proved here once, from three laws.
\<close>

locale keyed_store =
  fixes key :: "'a \<Rightarrow> 'k"
    and put :: "'a list \<Rightarrow> 'a \<Rightarrow> 'a list"
  assumes keys_put: "map key (put xs x) =
      (if key x \<in> key ` set xs then map key xs else map key xs @ [key x])"
    and find_put: "find (\<lambda>y. key y = k) (put xs x) =
      (if k = key x then Some x else find (\<lambda>y. key y = k) xs)"
    and put_same: "find (\<lambda>y. key y = key x) xs = Some x \<Longrightarrow> put xs x = xs"
begin

lemma distinct_put: "distinct (map key xs) \<Longrightarrow> distinct (map key (put xs x))"
  by (auto simp: keys_put)

lemma key_set_put: "key ` set (put xs x) = insert (key x) (key ` set xs)"
proof -
  have "key ` set (put xs x) = set (map key (put xs x))" by simp
  also have "\<dots> = insert (key x) (key ` set xs)" unfolding keys_put by auto
  finally show ?thesis .
qed

lemma put_put_same: "put (put xs x) x = put xs x"
  by (rule put_same) (simp add: find_put)

lemma distinct_foldl: "distinct (map key xs) \<Longrightarrow> distinct (map key (foldl put xs ys))"
  by (induction ys arbitrary: xs) (auto intro: distinct_put)

lemma key_set_foldl: "key ` set (foldl put xs ys) = key ` set xs \<union> key ` set ys"
  by (induction ys arbitrary: xs) (auto simp: key_set_put)

text \<open>After a sequence of writes a read answers the last write to its key, if there was one.\<close>

lemma find_foldl: "find (\<lambda>y. key y = k) (foldl put xs ys) =
    (case find (\<lambda>y. key y = k) (rev ys) of None \<Rightarrow> find (\<lambda>y. key y = k) xs | Some y \<Rightarrow> Some y)"
  by (induction ys rule: rev_induct) (auto simp: find_put)

lemma keys_foldl_prefix: "\<exists>ks. map key (foldl put xs ys) = map key xs @ ks"
proof (induction ys arbitrary: xs)
  case Nil
  then show ?case by simp
next
  case (Cons y ys)
  obtain ks where "map key (foldl put (put xs y) ys) = map key (put xs y) @ ks"
    using Cons.IH by blast
  moreover obtain ks' where "map key (put xs y) = map key xs @ ks'"
    by (cases "key y \<in> key ` set xs") (simp_all add: keys_put)
  ultimately show ?case by simp
qed

end

end
