(* ===== verification/Conditions.thy ===== *)
theory Conditions
  imports Quay_Types Keyed_Store
begin

text \<open>
  The condition list of a registry status (\<open>quayregistry_types.go\<close>): reading, writing and
  removing conditions, the trim of unused types, and the tests the reconcile loop makes on them.
  \<open>SetCondition\<close> interprets the keyed store, so conditions behave as a map keyed by type.
\<close>

section \<open>Operations\<close>

definition GetCondition :: "Condition list \<Rightarrow> ConditionType \<Rightarrow> Condition option" where
  "GetCondition conditions t = find (\<lambda>c. c_Type c = t) conditions"

fun SetCondition :: "Condition list \<Rightarrow> Condition \<Rightarrow> Condition list" where
  "SetCondition [] new = [new]"
| "SetCondition (c # cs) new = (if c_Type c = c_Type new then new # cs else c # SetCondition cs new)"

definition RemoveCondition :: "Condition list \<Rightarrow> ConditionType \<Rightarrow> Condition list" where
  "RemoveCondition conditions t = filter (\<lambda>c. c_Type c \<noteq> t) conditions"

definition validConditionTypes :: "ConditionType list" where
  "validConditionTypes = [ConditionTypeAvailable, ConditionTypeRolloutBlocked,
     ConditionComponentsCreated, ComponentQuayReady, ComponentPostgresReady, ComponentClairReady,
     ComponentClairPostgresReady, ComponentRedisReady, ComponentHPAReady,
     ComponentObjectStorageReady, ComponentRouteReady, ComponentMirrorReady,
     ComponentMonitoringReady, ComponentTLSReady]"

definition RemoveUnusedConditions :: "QuayRegistry \<Rightarrow> QuayRegistry" where
  "RemoveUnusedConditions q =
     set_conditions (filter (\<lambda>c. List.member validConditionTypes (c_Type c)) (qr_Conditions q)) q"

definition MigrationsRunning :: "QuayRegistry \<Rightarrow> bool" where
  "MigrationsRunning q = (case GetCondition (qr_Conditions q) ConditionComponentsCreated of
     None \<Rightarrow> False | Some c \<Rightarrow> c_Reason c = ReasonMigrationsInProgress)"

definition PostgresUpgradeRunning :: "QuayRegistry \<Rightarrow> bool" where
  "PostgresUpgradeRunning q = (case GetCondition (qr_Conditions q) ConditionComponentsCreated of
     None \<Rightarrow> False
   | Some c \<Rightarrow> c_Reason c = ReasonPostgresUpgradeInProgress \<or> c_Reason c = ReasonPostgresUpgradeFailed)"

definition FlaggedForDeletion :: "QuayRegistry \<Rightarrow> bool" where
  "FlaggedForDeletion q = (om_DeletionTimestamp (qr_Meta q) \<noteq> None)"

definition NeedsBundleSecret :: "QuayRegistry \<Rightarrow> bool" where
  "NeedsBundleSecret q = (spec_ConfigBundleSecret (qr_Spec q) = '''')"

text \<open>The well-formedness of a condition list: no type twice.\<close>

definition wf_conditions :: "Condition list \<Rightarrow> bool" where
  "wf_conditions cs = distinct (map c_Type cs)"

section \<open>Conditions form a keyed store\<close>

lemma SetCondition_keys: "map c_Type (SetCondition cs new) =
    (if c_Type new \<in> c_Type ` set cs then map c_Type cs else map c_Type cs @ [c_Type new])"
  by (induction cs) auto

lemma SetCondition_find: "find (\<lambda>c. c_Type c = t) (SetCondition cs new) =
    (if t = c_Type new then Some new else find (\<lambda>c. c_Type c = t) cs)"
  by (induction cs) auto

lemma SetCondition_same: "find (\<lambda>c. c_Type c = c_Type new) cs = Some new \<Longrightarrow> SetCondition cs new = cs"
  by (induction cs) (auto split: if_splits)

interpretation cond_store: keyed_store c_Type SetCondition
  by unfold_locales (simp_all add: SetCondition_keys SetCondition_find SetCondition_same)

lemma GetCondition_SetCondition [simp]:
  "GetCondition (SetCondition cs new) t = (if t = c_Type new then Some new else GetCondition cs t)"
  by (simp add: GetCondition_def cond_store.find_put)

lemma GetCondition_Nil [simp]: "GetCondition [] t = None"
  by (simp add: GetCondition_def)

lemma GetCondition_Cons [simp]:
  "GetCondition (c # cs) t = (if c_Type c = t then Some c else GetCondition cs t)"
  by (simp add: GetCondition_def)

lemma GetCondition_filter:
  "(\<And>c. c_Type c = t \<Longrightarrow> P c) \<Longrightarrow> GetCondition (filter P cs) t = GetCondition cs t"
  by (induction cs) auto

lemma GetCondition_None_iff: "GetCondition cs t = None \<longleftrightarrow> t \<notin> c_Type ` set cs"
  by (auto simp: GetCondition_def find_None_iff)

lemma GetCondition_Some_type: "GetCondition cs t = Some c \<Longrightarrow> c_Type c = t \<and> c \<in> set cs"
  by (auto simp: GetCondition_def find_Some_iff)

lemma GetCondition_RemoveCondition [simp]:
  "GetCondition (RemoveCondition cs t) u = (if u = t then None else GetCondition cs u)"
  by (induction cs) (auto simp: RemoveCondition_def)

lemma wf_SetCondition: "wf_conditions cs \<Longrightarrow> wf_conditions (SetCondition cs new)"
  by (simp add: wf_conditions_def cond_store.distinct_put)

lemma wf_filter: "wf_conditions cs \<Longrightarrow> wf_conditions (filter P cs)"
  by (simp add: wf_conditions_def distinct_map_filter)

lemma wf_RemoveCondition: "wf_conditions cs \<Longrightarrow> wf_conditions (RemoveCondition cs t)"
  by (simp add: RemoveCondition_def wf_filter)

lemma wf_RemoveUnusedConditions:
  "wf_conditions (qr_Conditions q) \<Longrightarrow> wf_conditions (qr_Conditions (RemoveUnusedConditions q))"
  by (simp add: RemoveUnusedConditions_def wf_filter)

lemma GetCondition_RemoveUnusedConditions:
  "GetCondition (qr_Conditions (RemoveUnusedConditions q)) t =
     (if List.member validConditionTypes t then GetCondition (qr_Conditions q) t else None)"
proof (cases "List.member validConditionTypes t")
  case True
  then have "GetCondition (filter (\<lambda>c. List.member validConditionTypes (c_Type c)) cs) t
      = GetCondition cs t" for cs
    by (intro GetCondition_filter) simp
  with True show ?thesis by (simp add: RemoveUnusedConditions_def)
next
  case False
  then have "t \<notin> c_Type ` set (qr_Conditions (RemoveUnusedConditions q))"
    by (auto simp: RemoveUnusedConditions_def)
  with False show ?thesis by (auto simp: GetCondition_None_iff)
qed

end
