(* ===== verification/Components.thy ===== *)
theory Components
  imports Quay_Types
begin

text \<open>
  The component list of a registry (\<open>quayregistry_types.go\<close>): which component is managed, the
  comparison of two lists, the defaults added to a spec. \<open>EnsureDefaultComponents\<close> is proved
  equal to a closed form over the declared list.
\<close>

section \<open>Operations\<close>

definition ComponentSupportsConfigWhenManaged :: "Component \<Rightarrow> bool" where
  "ComponentSupportsConfigWhenManaged cmp =
     (cmp_Kind cmp = ComponentRoute \<or> cmp_Kind cmp = ComponentMirror \<or> cmp_Kind cmp = ComponentRedis)"

text \<open>\<open>append(components, components[0])[1 : len(components)+1]\<close>: indexing an empty slice panics.\<close>

definition EnsureComponents :: "Component list \<Rightarrow> Component list result" where
  "EnsureComponents components = (case components of
     [] \<Rightarrow> Inl (GoPanic ''index out of range [0] with length 0'')
   | c # _ \<Rightarrow> Inr (take (length components) (drop 1 (components @ [c]))))"

definition ComponentsMatch :: "Component list \<Rightarrow> Component list \<Rightarrow> bool" where
  "ComponentsMatch first second =
     (length first = length second \<and>
      list_all (\<lambda>a. list_ex (\<lambda>b. cmp_Kind a = cmp_Kind b \<and> cmp_Managed a = cmp_Managed b) second) first)"

definition ComponentIsManaged :: "Component list \<Rightarrow> ComponentKind \<Rightarrow> bool" where
  "ComponentIsManaged components name =
     (if name = ComponentQuay then True
      else case find (\<lambda>c. cmp_Kind c = name) components of None \<Rightarrow> False | Some c \<Rightarrow> cmp_Managed c)"

definition GetTLSSecretRef :: "Component list \<Rightarrow> string option" where
  "GetTLSSecretRef components =
     (case find (\<lambda>c. cmp_Kind c = ComponentTLS \<and> cmp_SecretRef c \<noteq> None) components of
        None \<Rightarrow> None | Some c \<Rightarrow> cmp_SecretRef c)"

definition ComponentIsExplicitlyDefined :: "Component list \<Rightarrow> ComponentKind \<Rightarrow> bool" where
  "ComponentIsExplicitlyDefined components name = list_ex (\<lambda>c. cmp_Kind c = name) components"

definition RequiredComponent :: "ComponentKind \<Rightarrow> bool" where
  "RequiredComponent k = list_ex (\<lambda>c. c = k) requiredComponents"

text \<open>The map \<open>checks\<close>: whether the cluster offers what the component needs, and the message.\<close>

fun component_check :: "QuayRegistryContext \<Rightarrow> ComponentKind \<Rightarrow> (bool \<times> string) option" where
  "component_check ctx ComponentRoute = Some (SupportsRoutes ctx, ''Route API not available'')"
| "component_check ctx ComponentTLS = Some (SupportsRoutes ctx, ''Route API not available'')"
| "component_check ctx ComponentObjectStorage =
     Some (SupportsObjectStorage ctx, ''ObjectStorage API not available'')"
| "component_check ctx ComponentMonitoring =
     Some (SupportsMonitoring ctx, ''Prometheus API not available'')"
| "component_check ctx _ = None"

text \<open>The map \<open>componentManaged\<close>: TLS is managed by default only when no key pair was provided.\<close>

fun component_managed_check :: "QuayRegistryContext \<Rightarrow> ComponentKind \<Rightarrow> bool option" where
  "component_managed_check ctx ComponentTLS = Some (TLSCert ctx = None \<and> TLSKey ctx = None)"
| "component_managed_check ctx _ = None"

definition default_managed :: "QuayRegistryContext \<Rightarrow> ComponentKind \<Rightarrow> bool" where
  "default_managed ctx k =
     ((case component_check ctx k of None \<Rightarrow> True | Some (ok, _) \<Rightarrow> ok) \<and>
      (case component_managed_check ctx k of None \<Rightarrow> True | Some ok \<Rightarrow> ok))"

definition default_component :: "QuayRegistryContext \<Rightarrow> ComponentKind \<Rightarrow> Component" where
  "default_component ctx k = \<lparr>cmp_Kind = k, cmp_Managed = default_managed ctx k,
     cmp_Overrides = None, cmp_SecretRef = None\<rparr>"

text \<open>The inner loop over the declared components: the first one of kind \<open>k\<close> ends it, and the
  Quay component is rolled back to managed.\<close>

fun mark_declared :: "ComponentKind \<Rightarrow> Component list \<Rightarrow> Component list" where
  "mark_declared k [] = []"
| "mark_declared k (c # cs) =
     (if cmp_Kind c = k then (if k = ComponentQuay then c\<lparr>cmp_Managed := True\<rparr> else c) # cs
      else c # mark_declared k cs)"

definition ensure_default_component ::
  "QuayRegistryContext \<Rightarrow> QuayRegistry \<Rightarrow> ComponentKind \<Rightarrow> QuayRegistry result" where
  "ensure_default_component ctx q k =
     (case component_check ctx k of
        Some (False, msg) \<Rightarrow>
          if ComponentIsManaged (qr_Components q) k
          then Inl (plain_error (''error validating component '' @ kind_name k @ '': '' @ msg))
          else Inr (if ComponentIsExplicitlyDefined (qr_Components q) k
                    then set_components (mark_declared k (qr_Components q)) q
                    else set_components (qr_Components q @ [default_component ctx k]) q)
      | _ \<Rightarrow> Inr (if ComponentIsExplicitlyDefined (qr_Components q) k
                    then set_components (mark_declared k (qr_Components q)) q
                    else set_components (qr_Components q @ [default_component ctx k]) q))"

definition EnsureDefaultComponents ::
  "QuayRegistryContext \<Rightarrow> QuayRegistry \<Rightarrow> QuayRegistry result" where
  "EnsureDefaultComponents ctx q = fold_result (ensure_default_component ctx) q AllComponents"

section \<open>Lookup lemmas\<close>

lemma ComponentIsManaged_Quay [simp]: "ComponentIsManaged cs ComponentQuay"
  by (simp add: ComponentIsManaged_def)

lemma ComponentIsManaged_append:
  "ComponentIsManaged (cs @ ds) k = (if ComponentIsExplicitlyDefined cs k then ComponentIsManaged cs k
     else ComponentIsManaged ds k)"
  by (induction cs) (auto simp: ComponentIsManaged_def ComponentIsExplicitlyDefined_def)

lemma ExplicitlyDefined_iff: "ComponentIsExplicitlyDefined cs k \<longleftrightarrow> k \<in> cmp_Kind ` set cs"
  by (auto simp: ComponentIsExplicitlyDefined_def list_ex_iff)

lemma ComponentIsManaged_iff:
  "ComponentIsManaged cs k \<longleftrightarrow> k = ComponentQuay \<or>
     (\<exists>c. find (\<lambda>c. cmp_Kind c = k) cs = Some c \<and> cmp_Managed c)"
  by (auto simp: ComponentIsManaged_def split: option.splits)

lemma mark_declared_kinds [simp]: "map cmp_Kind (mark_declared k cs) = map cmp_Kind cs"
  by (induction cs) auto

lemma mark_declared_kind_set [simp]: "cmp_Kind ` set (mark_declared k cs) = cmp_Kind ` set cs"
  using mark_declared_kinds [of k cs] by (metis list.set_map)

lemma mark_declared_other: "k \<noteq> ComponentQuay \<Longrightarrow> mark_declared k cs = cs"
  by (induction cs) auto

lemma mark_declared_append:
  "mark_declared k (cs @ ds) = (if k \<in> cmp_Kind ` set cs then mark_declared k cs @ ds
     else cs @ mark_declared k ds)"
  by (induction cs) auto

lemma mark_declared_idem [simp]: "mark_declared k (mark_declared k cs) = mark_declared k cs"
  by (induction cs) auto

lemma find_mark_declared:
  "j \<noteq> ComponentQuay \<Longrightarrow>
     find (\<lambda>c. cmp_Kind c = j) (mark_declared k cs) = find (\<lambda>c. cmp_Kind c = j) cs"
  by (induction cs) auto

lemma ComponentIsManaged_mark_declared [simp]:
  "ComponentIsManaged (mark_declared k cs) j = ComponentIsManaged cs j"
  by (cases "j = ComponentQuay") (simp_all add: ComponentIsManaged_def find_mark_declared)

section \<open>Defaulting in closed form\<close>

definition unsupported :: "QuayRegistryContext \<Rightarrow> Component list \<Rightarrow> ComponentKind \<Rightarrow> bool" where
  "unsupported ctx cs k = (case component_check ctx k of
     None \<Rightarrow> False | Some (ok, _) \<Rightarrow> \<not> ok \<and> ComponentIsManaged cs k)"

definition unsupported_error :: "QuayRegistryContext \<Rightarrow> ComponentKind \<Rightarrow> go_error" where
  "unsupported_error ctx k = plain_error (''error validating component '' @ kind_name k @ '': '' @
     (case component_check ctx k of None \<Rightarrow> '''' | Some (_, msg) \<Rightarrow> msg))"

text \<open>What the kinds \<open>ks\<close> add to a component list: Quay is forced to managed where it is declared,
  and the missing kinds follow in the order of \<open>ks\<close>.\<close>

definition defaulted ::
  "QuayRegistryContext \<Rightarrow> ComponentKind list \<Rightarrow> Component list \<Rightarrow> Component list" where
  "defaulted ctx ks cs =
     (if ComponentQuay \<in> set ks then mark_declared ComponentQuay cs else cs) @
     map (default_component ctx) (filter (\<lambda>k. k \<notin> cmp_Kind ` set cs) ks)"

lemma default_component_kind [simp]: "cmp_Kind (default_component ctx k) = k"
  by (simp add: default_component_def)

lemma unsupported_step:
  "ensure_default_component ctx q k =
     (if unsupported ctx (qr_Components q) k then Inl (unsupported_error ctx k)
      else Inr (set_components (defaulted ctx [k] (qr_Components q)) q))"
proof (cases "k \<in> cmp_Kind ` set (qr_Components q)")
  case True
  then show ?thesis
    by (auto simp: ensure_default_component_def unsupported_def unsupported_error_def defaulted_def
        ExplicitlyDefined_iff mark_declared_other split: option.splits bool.splits)
next
  case False
  have mark: "mark_declared ComponentQuay cs = cs" if "ComponentQuay \<notin> cmp_Kind ` set cs" for cs
    using that by (induction cs) auto
  from False mark show ?thesis
    by (auto simp: ensure_default_component_def unsupported_def unsupported_error_def defaulted_def
        ExplicitlyDefined_iff split: option.splits bool.splits)
qed

lemma ComponentIsManaged_undeclared:
  "j \<notin> cmp_Kind ` set cs \<Longrightarrow> ComponentIsManaged cs j = (j = ComponentQuay)"
  using find_key_image [of cmp_Kind j cs] by (simp add: ComponentIsManaged_def)

lemma ComponentIsManaged_defaulted_other:
  assumes "j \<notin> set ks"
  shows "ComponentIsManaged (defaulted ctx ks cs) j = ComponentIsManaged cs j"
proof -
  let ?added = "map (default_component ctx) (filter (\<lambda>k. k \<notin> cmp_Kind ` set cs) ks)"
  have "j \<notin> cmp_Kind ` set ?added" using assms by auto
  then have "ComponentIsManaged ?added j = (j = ComponentQuay)"
    by (rule ComponentIsManaged_undeclared)
  moreover have "ComponentIsManaged (ds @ ?added) j = ComponentIsManaged ds j"
    if "ComponentIsManaged ?added j = (j = ComponentQuay)" for ds
    using that ComponentIsManaged_undeclared [of j ds]
    by (simp add: ComponentIsManaged_append ExplicitlyDefined_iff)
  ultimately show ?thesis by (simp add: defaulted_def)
qed

lemma unsupported_defaulted: "j \<notin> set ks \<Longrightarrow> unsupported ctx (defaulted ctx ks cs) j = unsupported ctx cs j"
  by (auto simp: unsupported_def ComponentIsManaged_defaulted_other split: option.split)

lemma kinds_defaulted: "cmp_Kind ` set (defaulted ctx ks cs) = cmp_Kind ` set cs \<union> set ks"
  by (auto simp: defaulted_def image_Un image_image)

lemma defaulted_Cons:
  assumes "k \<notin> set ks"
  shows "defaulted ctx ks (defaulted ctx [k] cs) = defaulted ctx (k # ks) cs"
proof -
  have flt: "filter (\<lambda>j. j \<notin> cmp_Kind ` set (defaulted ctx [k] cs)) ks
      = filter (\<lambda>j. j \<notin> cmp_Kind ` set cs) ks"
    using assms by (intro filter_cong) (auto simp: kinds_defaulted)
  have mark: "mark_declared ComponentQuay (cs @ [default_component ctx k])
      = mark_declared ComponentQuay cs @ [default_component ctx k]" if "k \<noteq> ComponentQuay"
    using that by (induction cs) auto
  show ?thesis
    unfolding defaulted_def [of ctx ks "defaulted ctx [k] cs"] flt
    using assms mark by (auto simp: defaulted_def)
qed

lemma fold_defaults:
  "distinct ks \<Longrightarrow> fold_result (ensure_default_component ctx) q ks =
     (case find (unsupported ctx (qr_Components q)) ks of
        Some k \<Rightarrow> Inl (unsupported_error ctx k)
      | None \<Rightarrow> Inr (set_components (defaulted ctx ks (qr_Components q)) q))"
proof (induction ks arbitrary: q)
  case Nil
  then show ?case by (simp add: defaulted_def set_components_def)
next
  case (Cons k ks)
  show ?case
  proof (cases "unsupported ctx (qr_Components q) k")
    case True
    then show ?thesis by (simp add: unsupported_step)
  next
    case False
    let ?cs = "qr_Components q"
    have "find (unsupported ctx (defaulted ctx [k] ?cs)) ks = find (unsupported ctx ?cs) ks"
      using Cons.prems by (intro find_cong refl) (metis distinct.simps(2) empty_set
          list.set(2) singletonD unsupported_defaulted)
    moreover have "defaulted ctx ks (defaulted ctx [k] ?cs) = defaulted ctx (k # ks) ?cs"
      using Cons.prems by (simp add: defaulted_Cons)
    ultimately show ?thesis
      using False Cons by (simp add: unsupported_step split: option.split)
  qed
qed

lemma EnsureDefaultComponents_closed_form:
  "EnsureDefaultComponents ctx q =
     (case find (unsupported ctx (qr_Components q)) AllComponents of
        Some k \<Rightarrow> Inl (unsupported_error ctx k)
      | None \<Rightarrow> Inr (set_components (defaulted ctx AllComponents (qr_Components q)) q))"
  by (simp add: EnsureDefaultComponents_def fold_defaults)

lemma EnsureDefaultComponents_Inr:
  "EnsureDefaultComponents ctx q = Inr q' \<longleftrightarrow>
     (\<forall>k \<in> set AllComponents. \<not> unsupported ctx (qr_Components q) k) \<and>
     q' = set_components (defaulted ctx AllComponents (qr_Components q)) q"
  by (auto simp: EnsureDefaultComponents_closed_form find_None_iff find_Some_iff split: option.splits)

lemma find_defaulted:
  "j \<noteq> ComponentQuay \<Longrightarrow> j \<in> cmp_Kind ` set cs \<Longrightarrow>
     find (\<lambda>c. cmp_Kind c = j) (defaulted ctx ks cs) = find (\<lambda>c. cmp_Kind c = j) cs"
proof -
  assume j: "j \<noteq> ComponentQuay" "j \<in> cmp_Kind ` set cs"
  from j obtain c where "find (\<lambda>c. cmp_Kind c = j) cs = Some c"
    by (cases "find (\<lambda>c. cmp_Kind c = j) cs") (auto simp: find_None_iff)
  with j show ?thesis by (auto simp: defaulted_def find_append find_mark_declared)
qed

lemma defaulted_defaulted:
  "distinct ks \<Longrightarrow> ComponentQuay \<in> set ks \<Longrightarrow>
     defaulted ctx ks (defaulted ctx ks cs) = defaulted ctx ks cs"
proof -
  assume ks: "distinct ks" "ComponentQuay \<in> set ks"
  have none: "filter (\<lambda>k. k \<notin> cmp_Kind ` set (defaulted ctx ks cs)) ks = []"
    by (auto simp: filter_empty_conv kinds_defaulted)
  have managed: "cmp_Managed (default_component ctx ComponentQuay)"
    by (simp add: default_component_def default_managed_def)
  have appended: "mark_declared ComponentQuay (map (default_component ctx) js)
      = map (default_component ctx) js" for js
    using managed by (induction js) auto
  have mark: "mark_declared ComponentQuay (defaulted ctx ks cs) = defaulted ctx ks cs"
    using ks appended by (simp add: defaulted_def mark_declared_append)
  then show ?thesis
    using ks none by (simp add: defaulted_def [of ctx ks "defaulted ctx ks cs"])
qed

lemma find_default_component:
  "k \<in> set ks \<Longrightarrow> find (\<lambda>c. cmp_Kind c = k) (map (default_component ctx) ks) = Some (default_component ctx k)"
  by (induction ks) auto

lemma ComponentIsManaged_default_component:
  "k \<in> set ks \<Longrightarrow> k \<noteq> ComponentQuay \<Longrightarrow>
     ComponentIsManaged (map (default_component ctx) ks) k = default_managed ctx k"
  by (simp add: ComponentIsManaged_def find_default_component default_component_def)

lemma ComponentIsManaged_defaulted_missing:
  assumes "k \<in> set ks" and "k \<notin> cmp_Kind ` set cs"
  shows "ComponentIsManaged (defaulted ctx ks cs) k = (k = ComponentQuay \<or> default_managed ctx k)"
proof (cases "k = ComponentQuay")
  case False
  let ?js = "filter (\<lambda>k. k \<notin> cmp_Kind ` set cs) ks"
  have "k \<in> set ?js" using assms by simp
  then have "ComponentIsManaged (map (default_component ctx) ?js) k = default_managed ctx k"
    using False by (rule ComponentIsManaged_default_component)
  then show ?thesis
    using assms False by (simp add: defaulted_def ComponentIsManaged_append ExplicitlyDefined_iff)
qed simp

lemma ComponentIsManaged_defaulted_declared:
  "k \<in> cmp_Kind ` set cs \<Longrightarrow> ComponentIsManaged (defaulted ctx ks cs) k = ComponentIsManaged cs k"
  by (cases "k = ComponentQuay") (simp_all add: ComponentIsManaged_def find_defaulted)

lemma unsupported_after_defaulting: "unsupported ctx (defaulted ctx ks cs) k = unsupported ctx cs k"
proof -
  consider "k \<notin> set ks" | "k \<in> set ks" "k \<in> cmp_Kind ` set cs" | "k \<in> set ks" "k \<notin> cmp_Kind ` set cs"
    by blast
  then show ?thesis
  proof cases
    case 1
    then show ?thesis by (rule unsupported_defaulted)
  next
    case 2
    show ?thesis unfolding unsupported_def ComponentIsManaged_defaulted_declared [OF 2(2)] ..
  next
    case 3
    then show ?thesis using ComponentIsManaged_undeclared [of k cs]
      by (auto simp: unsupported_def ComponentIsManaged_defaulted_missing default_managed_def
          split: option.splits)
  qed
qed

end
