(* ===== verification/Overrides.thy ===== *)
theory Overrides
  imports Components
begin

text \<open>
  User overrides (\<open>quayregistry_types.go\<close>): which component supports which override, the
  validation of a whole spec, and the accessors the middleware reads overrides with. Most accessors
  share one contract, the override of the first component of the kind, stated as a locale and
  interpreted for each of them.
\<close>

section \<open>Validation\<close>

text \<open>The support table an override name selects; an unknown name selects the nil slice.\<close>

definition override_table :: "string \<Rightarrow> ComponentKind list" where
  "override_table override =
     (if override = ''volumeSize'' then supportsVolumeOverride
      else if override = ''storageClassName'' then supportsStorageClassOverride
      else if override = ''env'' then supportsEnvOverride
      else if override = ''replicas'' then supportsReplicasOverride
      else if override = ''affinity'' then supportsAffinityOverride
      else if override = ''resources'' then supportsResourceOverrides
      else if override = ''securityContext'' then supportsSecurityContextOverride
      else [])"

definition ComponentSupportsOverride :: "ComponentKind \<Rightarrow> string \<Rightarrow> bool" where
  "ComponentSupportsOverride component override =
     list_ex (\<lambda>cmp. component = cmp) (override_table override)"

text \<open>\<open>hasAffinity\<close> reads a field of the override, so it is asked only where there is one.\<close>

definition hasAffinity :: "Override \<Rightarrow> bool" where
  "hasAffinity ov = (ov_Affinity ov \<noteq> None)"

definition hasOverride :: "Override \<Rightarrow> bool" where
  "hasOverride ov = (hasAffinity ov \<or> ov_VolumeSize ov \<noteq> None \<or> ov_StorageClassName ov \<noteq> None \<or>
     length (ov_Env ov) > 0 \<or> ov_Replicas ov \<noteq> None \<or> ov_Resources ov \<noteq> None \<or>
     ov_SecurityContext ov \<noteq> None)"

definition unsupported_override_error :: "ComponentKind \<Rightarrow> string \<Rightarrow> go_error" where
  "unsupported_override_error k what = plain_error
     (''component '' @ kind_name k @ '' does not support '' @ what @ '' overrides'')"

text \<open>The body of the loop of \<open>ValidateOverrides\<close>: the error it returns, if any.\<close>

definition validate_component :: "Component list \<Rightarrow> Component \<Rightarrow> go_error option" where
  "validate_component comps c = (case cmp_Overrides c of None \<Rightarrow> None | Some ov \<Rightarrow>
     let k = cmp_Kind c in
     if hasOverride ov \<and> \<not> ComponentIsManaged comps k
     then Some (plain_error (''cannot set overrides on unmanaged '' @ kind_name k))
     else if ov_Replicas ov \<noteq> None \<and> ComponentIsManaged comps ComponentHPA \<and>
             the (ov_Replicas ov) \<noteq> 0
     then Some (plain_error ''cannot override replicas with managed HPA'')
     else if hasAffinity ov \<and> \<not> ComponentSupportsOverride k ''affinity''
     then Some (unsupported_override_error k ''affinity'')
     else if ov_VolumeSize ov \<noteq> None \<and> \<not> ComponentSupportsOverride k ''volumeSize''
     then Some (unsupported_override_error k ''volumeSize'')
     else if ov_StorageClassName ov \<noteq> None \<and> \<not> ComponentSupportsOverride k ''storageClassName''
     then Some (unsupported_override_error k ''storageClassName'')
     else if length (ov_Env ov) > 0 \<and> \<not> ComponentSupportsOverride k ''env''
     then Some (unsupported_override_error k ''env'')
     else if ov_Replicas ov \<noteq> None \<and> \<not> ComponentSupportsOverride k ''replicas''
     then Some (unsupported_override_error k ''replicas'')
     else if ov_Resources ov \<noteq> None \<and> \<not> ComponentSupportsOverride k ''resources''
     then Some (unsupported_override_error k ''resources'')
     else if ov_SecurityContext ov \<noteq> None \<and> \<not> ComponentSupportsOverride k ''securityContext''
     then Some (unsupported_override_error k ''securityContext'')
     else None)"

fun validate_loop :: "Component list \<Rightarrow> Component list \<Rightarrow> go_error option" where
  "validate_loop comps [] = None"
| "validate_loop comps (c # cs) =
     (case validate_component comps c of Some e \<Rightarrow> Some e | None \<Rightarrow> validate_loop comps cs)"

definition ValidateOverrides :: "QuayRegistry \<Rightarrow> go_error option" where
  "ValidateOverrides q = validate_loop (qr_Components q) (qr_Components q)"

section \<open>Accessors\<close>

definition GetReplicasOverrideForComponent :: "QuayRegistry \<Rightarrow> ComponentKind \<Rightarrow> int option" where
  "GetReplicasOverrideForComponent q kind =
     (case find (\<lambda>c. cmp_Kind c = kind) (qr_Components q) of
        None \<Rightarrow> None
      | Some c \<Rightarrow> (case cmp_Overrides c of None \<Rightarrow> Some 2 | Some ov \<Rightarrow> ov_Replicas ov))"

definition GetVolumeSizeOverrideForComponent :: "QuayRegistry \<Rightarrow> ComponentKind \<Rightarrow> Quantity option" where
  "GetVolumeSizeOverrideForComponent q kind =
     (case find (\<lambda>c. cmp_Kind c = kind \<and>
             (case cmp_Overrides c of None \<Rightarrow> False | Some ov \<Rightarrow> ov_VolumeSize ov \<noteq> None))
           (qr_Components q) of
        None \<Rightarrow> None | Some c \<Rightarrow> Option.bind (cmp_Overrides c) ov_VolumeSize)"

definition GetStorageClassNameOverrideForComponent :: "QuayRegistry \<Rightarrow> ComponentKind \<Rightarrow> string option" where
  "GetStorageClassNameOverrideForComponent q kind =
     (case find (\<lambda>c. cmp_Kind c = kind \<and>
             (case cmp_Overrides c of None \<Rightarrow> False | Some ov \<Rightarrow> ov_StorageClassName ov \<noteq> None))
           (qr_Components q) of
        None \<Rightarrow> None | Some c \<Rightarrow> Option.bind (cmp_Overrides c) ov_StorageClassName)"

definition GetResourceOverridesForComponent :: "QuayRegistry \<Rightarrow> ComponentKind \<Rightarrow> Resources option" where
  "GetResourceOverridesForComponent q kind =
     (case find (\<lambda>c. cmp_Kind c = kind) (qr_Components q) of
        None \<Rightarrow> None
      | Some c \<Rightarrow> (case cmp_Overrides c of None \<Rightarrow> None | Some ov \<Rightarrow> ov_Resources ov))"

definition GetSecurityContextOverrideForComponent ::
  "QuayRegistry \<Rightarrow> ComponentKind \<Rightarrow> SecurityContext option" where
  "GetSecurityContextOverrideForComponent q kind =
     (case find (\<lambda>c. cmp_Kind c = kind) (qr_Components q) of
        None \<Rightarrow> None
      | Some c \<Rightarrow> (case cmp_Overrides c of None \<Rightarrow> None | Some ov \<Rightarrow> ov_SecurityContext ov))"

definition GetAffinityForComponent :: "QuayRegistry \<Rightarrow> ComponentKind \<Rightarrow> Affinity option" where
  "GetAffinityForComponent q kind =
     (case find (\<lambda>c. cmp_Kind c = kind) (qr_Components q) of
        None \<Rightarrow> None
      | Some c \<Rightarrow> (case cmp_Overrides c of None \<Rightarrow> None | Some ov \<Rightarrow> ov_Affinity ov))"

definition GetEnvOverrideForComponent :: "QuayRegistry \<Rightarrow> ComponentKind \<Rightarrow> EnvVar list" where
  "GetEnvOverrideForComponent q kind =
     (case find (\<lambda>c. cmp_Kind c = kind) (qr_Components q) of
        None \<Rightarrow> []
      | Some c \<Rightarrow> (case cmp_Overrides c of None \<Rightarrow> [] | Some ov \<Rightarrow> ov_Env ov))"

definition GetLabelsOverrideForComponent :: "QuayRegistry \<Rightarrow> ComponentKind \<Rightarrow> strmap" where
  "GetLabelsOverrideForComponent q kind =
     (case find (\<lambda>c. cmp_Kind c = kind) (qr_Components q) of
        None \<Rightarrow> None
      | Some c \<Rightarrow> (case cmp_Overrides c of None \<Rightarrow> None | Some ov \<Rightarrow> ov_Labels ov))"

definition ExceptionLabel :: "string \<Rightarrow> bool" where
  "ExceptionLabel override =
     list_ex (\<lambda>label. override = label) [''quay-component'', ''app'', ''quay-operator/quayregistry'']"

definition GetAnnotationsOverrideForComponent :: "QuayRegistry \<Rightarrow> ComponentKind \<Rightarrow> strmap" where
  "GetAnnotationsOverrideForComponent q kind =
     (case find (\<lambda>c. cmp_Kind c = kind) (qr_Components q) of
        None \<Rightarrow> None
      | Some c \<Rightarrow> (case cmp_Overrides c of None \<Rightarrow> None | Some ov \<Rightarrow> ov_Annotations ov))"

section \<open>The contract of the accessors\<close>

text \<open>
  An accessor answers a field of the overrides of the first component of the kind, and \<open>dflt\<close>
  where there is none. Its answer then depends only on that first component: it survives appended
  components and the defaulting of a spec.
\<close>

locale override_accessor =
  fixes getter :: "QuayRegistry \<Rightarrow> ComponentKind \<Rightarrow> 'v"
    and field :: "Override \<Rightarrow> 'v"
    and dflt :: 'v
  assumes getter_first: "getter q kind =
      (case find (\<lambda>c. cmp_Kind c = kind) (qr_Components q) of
         None \<Rightarrow> dflt
       | Some c \<Rightarrow> (case cmp_Overrides c of None \<Rightarrow> dflt | Some ov \<Rightarrow> field ov))"
begin

lemma getter_undeclared: "kind \<notin> cmp_Kind ` set (qr_Components q) \<Longrightarrow> getter q kind = dflt"
  using find_key_image [of cmp_Kind kind "qr_Components q"] by (simp add: getter_first)

lemma getter_append_declared:
  "kind \<in> cmp_Kind ` set cs \<Longrightarrow>
     getter (set_components (cs @ ds) q) kind = getter (set_components cs q) kind"
  using find_key_image [of cmp_Kind kind cs] by (auto simp: getter_first find_append split: option.split)

lemma getter_mark_declared:
  "getter (set_components (mark_declared k cs) q) kind = getter (set_components cs q) kind"
  by (induction cs) (auto simp: getter_first)

lemma getter_defaulted:
  "getter (set_components (defaulted ctx ks (qr_Components q)) q) kind = getter q kind"
proof -
  let ?cs = "if ComponentQuay \<in> set ks then mark_declared ComponentQuay (qr_Components q)
    else qr_Components q"
  let ?added = "map (default_component ctx) (filter (\<lambda>k. k \<notin> cmp_Kind ` set (qr_Components q)) ks)"
  have self: "getter (set_components (qr_Components q) q) kind = getter q kind"
    by (simp add: getter_first)
  have kinds: "cmp_Kind ` set ?cs = cmp_Kind ` set (qr_Components q)" by simp
  show ?thesis
  proof (cases "kind \<in> cmp_Kind ` set (qr_Components q)")
    case True
    then have "getter (set_components (?cs @ ?added) q) kind = getter (set_components ?cs q) kind"
      by (intro getter_append_declared) (simp only: kinds)
    also have "\<dots> = getter q kind" using self getter_mark_declared by simp
    finally show ?thesis by (simp add: defaulted_def)
  next
    case False
    then have "getter q kind = dflt" by (rule getter_undeclared)
    moreover have "find (\<lambda>c. cmp_Kind c = kind) ?cs = None"
      using False kinds find_key_image [of cmp_Kind kind ?cs] by simp
    moreover have "cmp_Overrides c = None" if "find (\<lambda>c. cmp_Kind c = kind) ?added = Some c" for c
      using find_Some_set [OF that] by (auto simp: default_component_def)
    ultimately show ?thesis
      by (auto simp: getter_first defaulted_def find_append split: option.split)
  qed
qed

end

interpretation resources_of: override_accessor GetResourceOverridesForComponent ov_Resources None
  by unfold_locales (simp add: GetResourceOverridesForComponent_def)

interpretation secctx_of:
  override_accessor GetSecurityContextOverrideForComponent ov_SecurityContext None
  by unfold_locales (simp add: GetSecurityContextOverrideForComponent_def)

interpretation affinity_of: override_accessor GetAffinityForComponent ov_Affinity None
  by unfold_locales (simp add: GetAffinityForComponent_def)

interpretation env_of: override_accessor GetEnvOverrideForComponent ov_Env "[]"
  by unfold_locales (simp add: GetEnvOverrideForComponent_def)

interpretation labels_of: override_accessor GetLabelsOverrideForComponent ov_Labels None
  by unfold_locales (simp add: GetLabelsOverrideForComponent_def)

interpretation annotations_of: override_accessor GetAnnotationsOverrideForComponent ov_Annotations None
  by unfold_locales (simp add: GetAnnotationsOverrideForComponent_def)

end
