(* ===== verification/Ownership.thy ===== *)
theory Ownership
  imports Components
begin

text \<open>
  Owner references, the names of managed secrets, the config field groups and the registry endpoint
  (\<open>quayregistry_types.go\<close>). Objects are their metadata here: the operations touch nothing else.
\<close>

section \<open>Owner references\<close>

text \<open>The three tests \<open>Owns\<close> and \<open>EnsureOwnerReference\<close> make on a reference, in their orders.\<close>

definition Owns :: "QuayRegistry \<Rightarrow> ObjectMeta \<Rightarrow> bool" where
  "Owns quay obj = list_ex (\<lambda>r. or_Kind r = ''QuayRegistry'' \<and> or_Name r = qr_Name quay \<and>
     or_APIVersion r = GroupVersion \<and> or_UID r = qr_UID quay) (om_OwnerReferences obj)"

definition owner_reference_of :: "QuayRegistry \<Rightarrow> OwnerReference" where
  "owner_reference_of quay = \<lparr>or_APIVersion = GroupVersion, or_Kind = ''QuayRegistry'',
     or_Name = qr_Name quay, or_UID = qr_UID quay, or_Controller = None\<rparr>"

definition EnsureOwnerReference :: "QuayRegistry \<Rightarrow> ObjectMeta \<Rightarrow> ObjectMeta" where
  "EnsureOwnerReference quay obj =
     (if list_ex (\<lambda>r. or_Kind r = ''QuayRegistry'' \<and> or_APIVersion r = GroupVersion \<and>
            or_Name r = qr_Name quay \<and> or_UID r = qr_UID quay) (om_OwnerReferences obj)
      then obj
      else obj\<lparr>om_OwnerReferences := om_OwnerReferences obj @ [owner_reference_of quay]\<rparr>)"

text \<open>\<open>meta.Accessor\<close> fails only on values without metadata, which a \<open>client.Object\<close> is not.\<close>

definition RemoveOwnerReference :: "QuayRegistry \<Rightarrow> ObjectMeta \<Rightarrow> ObjectMeta" where
  "RemoveOwnerReference quay obj =
     obj\<lparr>om_OwnerReferences := filter (\<lambda>r. or_Name r \<noteq> qr_Name quay) (om_OwnerReferences obj)\<rparr>"

section \<open>Managed secrets\<close>

definition ManagedKeysSecretNameFor :: "QuayRegistry \<Rightarrow> string" where
  "ManagedKeysSecretNameFor quay = Join [qr_Name quay, ManagedKeysName] ''-''"

definition IsManagedKeysSecretFor :: "QuayRegistry \<Rightarrow> Secret \<Rightarrow> bool" where
  "IsManagedKeysSecretFor quay secret =
     Contains (om_Name (sec_Meta secret)) (qr_Name quay @ ''-'' @ ManagedKeysName)"

definition IsManagedTLSSecretFor :: "QuayRegistry \<Rightarrow> Secret \<Rightarrow> bool" where
  "IsManagedTLSSecretFor quay secret =
     Contains (om_Name (sec_Meta secret)) (qr_Name quay @ ''-'' @ QuayConfigTLSSecretName)"

section \<open>Field groups\<close>

fun FieldGroupNameFor :: "ComponentKind \<Rightarrow> string result" where
  "FieldGroupNameFor ComponentClair = Inr ''SecurityScanner''"
| "FieldGroupNameFor ComponentPostgres = Inr ''Database''"
| "FieldGroupNameFor ComponentClairPostgres = Inr ''''"
| "FieldGroupNameFor ComponentRedis = Inr ''Redis''"
| "FieldGroupNameFor ComponentObjectStorage = Inr ''DistributedStorage''"
| "FieldGroupNameFor ComponentRoute = Inr ''HostSettings''"
| "FieldGroupNameFor ComponentMirror = Inr ''RepoMirror''"
| "FieldGroupNameFor ComponentHPA = Inr ''''"
| "FieldGroupNameFor ComponentMonitoring = Inr ''''"
| "FieldGroupNameFor ComponentTLS = Inr ''''"
| "FieldGroupNameFor ComponentQuay = Inr ''''"
| "FieldGroupNameFor (ComponentOther s) = Inl (plain_error (''unknown component: '' @ Quote s))"

fun field_group_names :: "Component list \<Rightarrow> string list \<Rightarrow> string list result" where
  "field_group_names [] fgns = Inr fgns"
| "field_group_names (c # cs) fgns =
     (if \<not> cmp_Managed c then field_group_names cs fgns
      else and_then (FieldGroupNameFor (cmp_Kind c)) (\<lambda>fgn.
             field_group_names cs (if fgn = '''' then fgns else fgns @ [fgn])))"

definition FieldGroupNamesForManagedComponents :: "QuayRegistry \<Rightarrow> string list result" where
  "FieldGroupNamesForManagedComponents quay = field_group_names (qr_Components quay) []"

section \<open>The registry endpoint\<close>

text \<open>A decoded YAML document: the values an \<open>interface{}\<close> of \<open>sigs.k8s.io/yaml\<close> can hold.\<close>

datatype yaml =
    YNull | YBool bool | YNum int | YStr string | YList "yaml list" | YMap "(string \<times> yaml) list"

type_synonym Config = "(string, yaml) gomap"

text \<open>\<open>serverHostname.(string)\<close> panics on any other dynamic type.\<close>

fun yaml_string :: "yaml \<Rightarrow> string result" where
  "yaml_string (YStr s) = Inr s"
| "yaml_string _ = Inl (GoPanic ''interface conversion: interface {} is not string'')"

definition set_endpoint :: "string \<Rightarrow> QuayRegistry \<Rightarrow> QuayRegistry" where
  "set_endpoint e q = q\<lparr>qr_Status := (qr_Status q)\<lparr>st_RegistryEndpoint := e\<rparr>\<rparr>"

definition EnsureRegistryEndpoint ::
  "QuayRegistryContext \<Rightarrow> QuayRegistry \<Rightarrow> Config \<Rightarrow> (bool \<times> QuayRegistry) result" where
  "EnsureRegistryEndpoint qctx quay config =
     (let orig = st_RegistryEndpoint (qr_Status quay) in
      and_then
        (case gget (gmake config) ''SERVER_HOSTNAME'' of
           Some v \<Rightarrow> and_then (yaml_string v) (\<lambda>s. Inr (set_endpoint (''https://'' @ s) quay))
         | None \<Rightarrow> Inr (if SupportsRoutes qctx
                       then set_endpoint (''https://'' @ qr_Name quay @ ''-quay-'' @ qr_Namespace quay
                              @ ''.'' @ ClusterHostname qctx) quay
                       else quay))
        (\<lambda>quay'. Inr (st_RegistryEndpoint (qr_Status quay') = orig, quay')))"

section \<open>Laws of ownership\<close>

text \<open>A reference to the registry, whether it makes it the controller or not.\<close>

lemma Owns_iff: "Owns quay obj \<longleftrightarrow>
    (\<exists>r \<in> set (om_OwnerReferences obj). r\<lparr>or_Controller := None\<rparr> = owner_reference_of quay)"
proof -
  have "or_Kind r = ''QuayRegistry'' \<and> or_Name r = qr_Name quay \<and> or_APIVersion r = GroupVersion \<and>
      or_UID r = qr_UID quay \<longleftrightarrow> r\<lparr>or_Controller := None\<rparr> = owner_reference_of quay" for r
    by (cases r) (auto simp: owner_reference_of_def)
  then show ?thesis by (auto simp: Owns_def list_ex_iff)
qed

lemma owner_reference_controller [simp]: "(owner_reference_of quay)\<lparr>or_Controller := None\<rparr> = owner_reference_of quay"
  by (simp add: owner_reference_of_def)

lemma removed_not_owned: "\<not> Owns quay (RemoveOwnerReference quay obj)"
  by (auto simp: Owns_def RemoveOwnerReference_def list_ex_iff)

lemma EnsureOwnerReference_eq:
  "EnsureOwnerReference quay obj = (if Owns quay obj then obj
     else obj\<lparr>om_OwnerReferences := om_OwnerReferences obj @ [owner_reference_of quay]\<rparr>)"
  by (simp add: EnsureOwnerReference_def Owns_def conj_commute conj_left_commute)

text \<open>The interface the reconcile loop and the status checkers share: adopting an object makes it
  owned, is idempotent and touches only the references; disowning ends ownership.\<close>

locale ownership =
  fixes owns :: "'q \<Rightarrow> 'o \<Rightarrow> bool"
    and adopt :: "'q \<Rightarrow> 'o \<Rightarrow> 'o"
    and disown :: "'q \<Rightarrow> 'o \<Rightarrow> 'o"
  assumes owns_adopt: "owns q (adopt q x)"
    and adopt_owned: "owns q x \<Longrightarrow> adopt q x = x"
    and owns_disown: "\<not> owns q (disown q x)"
    and adopt_keeps: "owns r x \<Longrightarrow> owns r (adopt q x)"
begin

lemma adopt_idem: "adopt q (adopt q x) = adopt q x"
  by (simp add: adopt_owned owns_adopt)

lemma adopt_fixpoint_iff: "adopt q x = x \<longleftrightarrow> owns q x"
  using owns_adopt [of q x] adopt_owned by metis

lemma disown_changes_owned: "owns q x \<Longrightarrow> disown q x \<noteq> x"
  using owns_disown [of q x] by metis

lemma adopt_all: "owns q x \<Longrightarrow> owns q (foldr adopt qs x)"
  by (induction qs) (auto intro: adopt_keeps)

lemma adopt_all_members: "q \<in> set qs \<Longrightarrow> owns q (foldr adopt qs x)"
  by (induction qs) (auto intro: adopt_keeps owns_adopt)

end

interpretation quay_owner: ownership Owns EnsureOwnerReference RemoveOwnerReference
proof
  fix q r :: QuayRegistry and x :: ObjectMeta
  show "Owns q (EnsureOwnerReference q x)"
    by (auto simp: EnsureOwnerReference_eq Owns_iff)
  show "EnsureOwnerReference q x = x" if "Owns q x"
    using that by (simp add: EnsureOwnerReference_eq)
  show "\<not> Owns q (RemoveOwnerReference q x)"
    by (rule removed_not_owned)
  show "Owns r (EnsureOwnerReference q x)" if "Owns r x"
    using that by (auto simp: EnsureOwnerReference_eq Owns_iff)
qed

section \<open>Laws of field groups and the endpoint\<close>

lemma FieldGroupNameFor_ok: "known_kind k \<Longrightarrow> \<exists>n. FieldGroupNameFor k = Inr n"
  by (cases k) (auto simp: known_kind_def)

lemma field_group_names_closed_form:
  "field_group_names cs fgns =
     (case find (\<lambda>c. cmp_Managed c \<and> \<not> known_kind (cmp_Kind c)) cs of
        Some c \<Rightarrow> Inl (plain_error (''unknown component: '' @ Quote (kind_name (cmp_Kind c))))
      | None \<Rightarrow> Inr (fgns @ filter (\<lambda>n. n \<noteq> '''')
                  (map (\<lambda>c. projr (FieldGroupNameFor (cmp_Kind c))) (filter cmp_Managed cs))))"
proof (induction cs arbitrary: fgns)
  case Nil
  then show ?case by simp
next
  case (Cons c cs)
  show ?case
  proof (cases "known_kind (cmp_Kind c)")
    case True
    with FieldGroupNameFor_ok [OF True] Cons show ?thesis by (auto split: option.split)
  next
    case False
    then obtain s where "cmp_Kind c = ComponentOther s" by (auto simp: known_kind_def)
    with False Cons show ?thesis by (auto split: option.split)
  qed
qed

end
