(* ===== verification/Cmp_Deploy.thy ===== *)
theory Cmp_Deploy
  imports Conditions Overrides Ownership
begin

text \<open>
  The shared part of the status checkers (\<open>pkg/cmpstatus\<close>): the health of a Deployment
  (\<open>deploy.go\<close>), the health of a database Deployment with its volume claim
  (\<open>database_status.go\<close>), and the contract every checker keeps, as locales.
\<close>

section \<open>deploy.go\<close>

fun availableCondition :: "DeploymentCondition list \<Rightarrow> DeploymentCondition option" where
  "availableCondition [] = None"
| "availableCondition (cond # conds) =
     (if dc_Type cond \<noteq> ''Available'' then availableCondition conds else Some cond)"

text \<open>The condition of \<open>check\<close> has no type: the caller sets it.\<close>

definition no_type :: ConditionType where
  "no_type = ConditionTypeOther ''''"

definition deploy_check :: "Deployment \<Rightarrow> Time \<Rightarrow> Condition" where
  "deploy_check dep now =
     (let name = om_Name (dep_Meta dep) in
      if dep_AvailableReplicas dep = 0
      then mk_condition no_type ConditionFalse ReasonComponentNotReady
             (''Deployment '' @ name @ '' has zero replicas available'') now
      else case availableCondition (dep_Conditions dep) of
        None \<Rightarrow> mk_condition no_type ConditionFalse ReasonComponentNotReady
             (''Available condition not found for '' @ name) now
      | Some cond \<Rightarrow>
          if dc_Status cond \<noteq> CoreTrue
          then mk_condition no_type ConditionFalse ReasonComponentNotReady
                 (''Deployment '' @ name @ '': '' @ dc_Message cond) now
          else mk_condition no_type ConditionTrue ReasonComponentReady
                 (''Deployment '' @ name @ '' healthy'') now)"

section \<open>database\_status.go\<close>

text \<open>The claim of the first volume that has one.\<close>

fun first_claim :: "Volume list \<Rightarrow> string" where
  "first_claim [] = ''''"
| "first_claim (vol # vols) =
     (case vol_PVCClaimName vol of Some claim \<Rightarrow> claim | None \<Rightarrow> first_claim vols)"

text \<open>\<open>title\<close> is \<open>cases.Title(language.English).String\<close> of \<open>golang.org/x/text\<close>.\<close>

definition database_component_name :: "(string \<Rightarrow> string) \<Rightarrow> ComponentKind \<Rightarrow> string" where
  "database_component_name title component =
     (if component = ComponentClairPostgres then ''ClairPostgres'' else title (kind_name component))"

definition pending_claim_condition ::
  "string \<Rightarrow> ConditionType \<Rightarrow> PersistentVolumeClaim \<Rightarrow> Event list \<Rightarrow> Time \<Rightarrow> Condition" where
  "pending_claim_condition componentName ty pvc events now =
     (case find (\<lambda>e. evt_Reason e = ''ProvisioningFailed'') events of
        Some event \<Rightarrow> mk_condition ty ConditionFalse ReasonPVCProvisioningFailed
          (componentName @ '' PVC '' @ om_Name (pvc_Meta pvc) @ '' provisioning failed: '' @
           evt_Message event) now
      | None \<Rightarrow> mk_condition ty ConditionFalse ReasonPVCPending
          (componentName @ '' PersistentVolumeClaim '' @ om_Name (pvc_Meta pvc) @ '' is pending'') now)"

definition CheckDatabaseDeploymentAndPVCStatus ::
  "(string \<Rightarrow> string) \<Rightarrow> Reader \<Rightarrow> QuayRegistry \<Rightarrow> ComponentKind \<Rightarrow> string \<Rightarrow> ConditionType \<Rightarrow> Time
     \<Rightarrow> Condition result" where
  "CheckDatabaseDeploymentAndPVCStatus title cli quay component suffix ty now =
     (let componentName = database_component_name title component;
          name = qr_Name quay @ ''-'' @ suffix
      in case GetDeployment cli (nsn (qr_Namespace quay) name) of
           Inl err \<Rightarrow>
             if IsNotFound err
             then Inr (mk_condition ty ConditionFalse ReasonComponentNotReady
                    (componentName @ '' deployment '' @ name @ '' not found'') now)
             else Inl err
         | Inr dep \<Rightarrow>
             if \<not> Owns quay (dep_Meta dep)
             then Inr (mk_condition ty ConditionFalse ReasonComponentNotReady
                    (componentName @ '' deployment '' @ name @ '' not owned by QuayRegistry'') now)
             else let pvcName = first_claim (pt_Volumes (dep_Template dep)) in
             if pvcName = '''' then Inr ((deploy_check dep now)\<lparr>c_Type := ty\<rparr>)
             else case GetPVC cli (nsn (qr_Namespace quay) pvcName) of
               Inl err \<Rightarrow>
                 if IsNotFound err
                 then Inr (mk_condition ty ConditionFalse ReasonComponentNotReady
                        (''PersistentVolumeClaim '' @ pvcName @ '' not found'') now)
                 else Inl err
             | Inr pvc \<Rightarrow>
                 if pvc_Phase pvc = ''Pending''
                 then case ListEventsFor cli (qr_Namespace quay) (om_UID (pvc_Meta pvc)) of
                     Inl err \<Rightarrow> Inl (wrap_error (''failed to list events for pvc '' @
                                  om_Name (pvc_Meta pvc) @ '': '') err)
                   | Inr events \<Rightarrow> Inr (pending_claim_condition componentName ty pvc events now)
                 else Inr ((deploy_check dep now)\<lparr>c_Type := ty\<rparr>))"

section \<open>The contract of a checker\<close>

text \<open>A condition a checker may report: its own type, a reason that fits the status, the time read
  during the check and no transition time yet. \<open>fails\<close> are the reasons of a faulty component.\<close>

definition sound_condition ::
  "ConditionReason list \<Rightarrow> ConditionType \<Rightarrow> Time \<Rightarrow> Condition \<Rightarrow> bool" where
  "sound_condition fails ty now c \<longleftrightarrow>
     c_Type c = ty \<and> c_LastUpdateTime c = now \<and> c_LastTransitionTime c = zero_time \<and>
     (c_Status c = ConditionTrue \<and> c_Reason c \<in> {ReasonComponentReady, ReasonComponentUnmanaged} \<or>
      c_Status c = ConditionFalse \<and> c_Reason c \<in> set fails)"

abbreviation plain_failures :: "ConditionReason list" where
  "plain_failures \<equiv> [ReasonComponentNotReady]"

abbreviation database_failures :: "ConditionReason list" where
  "database_failures \<equiv> [ReasonComponentNotReady, ReasonPVCPending, ReasonPVCProvisioningFailed]"

text \<open>\<open>applicable\<close> marks the clusters on which the checker keeps the contract.\<close>

locale status_checker =
  fixes check :: "Reader \<Rightarrow> QuayRegistry \<Rightarrow> Time \<Rightarrow> Condition result"
    and ctype :: ConditionType
    and fails :: "ConditionReason list"
    and applicable :: "Reader \<Rightarrow> QuayRegistry \<Rightarrow> bool"
  assumes check_sound:
      "check rd reg now = Inr c \<Longrightarrow> applicable rd reg \<Longrightarrow> sound_condition fails ctype now c"
    and fails_unhealthy: "ReasonComponentReady \<notin> set fails" "ReasonComponentUnmanaged \<notin> set fails"
begin

lemma check_type: "check rd reg now = Inr c \<Longrightarrow> applicable rd reg \<Longrightarrow> c_Type c = ctype"
  using check_sound by (auto simp: sound_condition_def)

lemma check_reason:
  "check rd reg now = Inr c \<Longrightarrow> applicable rd reg \<Longrightarrow>
     c_Reason c \<in> set fails \<longleftrightarrow> c_Status c \<noteq> ConditionTrue"
  using check_sound [of rd reg now c] fails_unhealthy by (auto simp: sound_condition_def)

lemma check_two_valued:
  "check rd reg now = Inr c \<Longrightarrow> applicable rd reg \<Longrightarrow>
     c_Status c = ConditionTrue \<or> c_Status c = ConditionFalse"
  using check_sound by (auto simp: sound_condition_def)

end

text \<open>A checker of a component that may be unmanaged: it then reports success without a look at the
  cluster.\<close>

locale managed_status_checker = status_checker +
  fixes kind :: ComponentKind
    and msg :: string
  assumes check_unmanaged: "\<not> ComponentIsManaged (qr_Components reg) kind \<Longrightarrow>
      check rd reg now = Inr (mk_condition ctype ConditionTrue ReasonComponentUnmanaged msg now)"
begin

lemma unmanaged_ignores_cluster:
  "\<not> ComponentIsManaged (qr_Components reg) kind \<Longrightarrow> check rd reg now = check rd' reg now"
  by (simp add: check_unmanaged)

lemma error_only_if_managed: "check rd reg now = Inl e \<Longrightarrow> ComponentIsManaged (qr_Components reg) kind"
  using check_unmanaged by fastforce

lemma failed_only_if_managed:
  "check rd reg now = Inr c \<Longrightarrow> c_Status c \<noteq> ConditionTrue \<Longrightarrow>
     ComponentIsManaged (qr_Components reg) kind"
  using check_unmanaged by (fastforce simp: mk_condition_def)

end

section \<open>Lemmas\<close>

named_theorems checker_sound \<open>conditions a checker builds are sound\<close>

lemma sound_mk_condition [checker_sound]:
  "sound_condition fails ty now (mk_condition ty ConditionTrue ReasonComponentReady msg now)"
  "sound_condition fails ty now (mk_condition ty ConditionTrue ReasonComponentUnmanaged msg now)"
  "rs \<in> set fails \<Longrightarrow> sound_condition fails ty now (mk_condition ty ConditionFalse rs msg now)"
  by (simp_all add: sound_condition_def mk_condition_def)

lemma mk_condition_simps [simp]:
  "c_Type (mk_condition ty st rs msg now) = ty"
  "c_Status (mk_condition ty st rs msg now) = st"
  "c_Reason (mk_condition ty st rs msg now) = rs"
  "c_Message (mk_condition ty st rs msg now) = msg"
  "c_LastUpdateTime (mk_condition ty st rs msg now) = now"
  "(mk_condition ty st rs msg now)\<lparr>c_Type := ty'\<rparr> = mk_condition ty' st rs msg now"
  by (simp_all add: mk_condition_def)

text \<open>A Deployment that passes: it has replicas and its first \<open>Available\<close> condition is true.\<close>

definition deployment_healthy :: "Deployment \<Rightarrow> bool" where
  "deployment_healthy dep \<longleftrightarrow> dep_AvailableReplicas dep \<noteq> 0 \<and>
     (\<exists>cond. find (\<lambda>c. dc_Type c = ''Available'') (dep_Conditions dep) = Some cond \<and>
        dc_Status cond = CoreTrue)"

lemma availableCondition_find: "availableCondition cs = find (\<lambda>c. dc_Type c = ''Available'') cs"
  by (induction cs) auto

lemma deploy_check_cases:
  "(if deployment_healthy dep
    then deploy_check dep now = mk_condition no_type ConditionTrue ReasonComponentReady
           (''Deployment '' @ om_Name (dep_Meta dep) @ '' healthy'') now
    else \<exists>m. deploy_check dep now = mk_condition no_type ConditionFalse ReasonComponentNotReady m now)"
  by (auto simp: deploy_check_def deployment_healthy_def availableCondition_find Let_def
      split: option.split)

lemma deploy_check_status:
  "c_Status (deploy_check dep now) = (if deployment_healthy dep then ConditionTrue else ConditionFalse)"
  using deploy_check_cases [of dep now] by (auto split: if_splits)

lemma sound_deploy_check [checker_sound]:
  "ReasonComponentNotReady \<in> set fails \<Longrightarrow>
     sound_condition fails ty now ((deploy_check dep now)\<lparr>c_Type := ty\<rparr>)"
  using deploy_check_cases [of dep now] by (auto simp: checker_sound split: if_splits)

lemma sound_pending_claim [checker_sound]:
  "sound_condition database_failures ty now (pending_claim_condition n ty pvc events now)"
  by (simp add: pending_claim_condition_def checker_sound split: option.split)

lemma sound_database:
  "CheckDatabaseDeploymentAndPVCStatus title cli quay k suffix ty now = Inr c \<Longrightarrow>
     sound_condition database_failures ty now c"
  by (auto simp: CheckDatabaseDeploymentAndPVCStatus_def Let_def
      split: sum.splits if_splits intro: checker_sound)

end
