(* ===== verification/Cmp_Checkers.thy ===== *)
theory Cmp_Checkers
  imports Cmp_Deploy
begin

text \<open>
  The eleven status checkers of \<open>pkg/cmpstatus\<close> and the validation of an external TLS secret
  (\<open>pkg/tls/validate.go\<close>). Each \<open>Check\<close> takes the cluster it reads, the registry and the time it
  stamps the condition with. Every checker is interpreted in the contract of \<open>Cmp_Deploy\<close>.
\<close>

section \<open>hpa.go\<close>

fun hpa_loop :: "Reader \<Rightarrow> QuayRegistry \<Rightarrow> Time \<Rightarrow> string list \<Rightarrow> Condition result" where
  "hpa_loop cli reg now [] =
     Inr (mk_condition ComponentHPAReady ConditionTrue ReasonComponentReady
            ''Horizontal pod autoscaler found'' now)"
| "hpa_loop cli reg now (hpasuffix # rest) =
     (case GetHPA cli (nsn (qr_Namespace reg) (qr_Name reg @ ''-'' @ hpasuffix)) of
        Inl err \<Rightarrow>
          if IsNotFound err
          then Inr (mk_condition ComponentHPAReady ConditionFalse ReasonComponentNotReady
                 ''Horizontal pod autoscaler not found'' now)
          else Inl err
      | Inr hpa \<Rightarrow>
          if \<not> Owns reg hpa
          then Inr (mk_condition ComponentHPAReady ConditionFalse ReasonComponentNotReady
                 ''Horizontal pod autoscaler not owned by QuayRegistry'' now)
          else hpa_loop cli reg now rest)"

definition HPA_Check :: "Reader \<Rightarrow> QuayRegistry \<Rightarrow> Time \<Rightarrow> Condition result" where
  "HPA_Check cli reg now =
     (if \<not> ComponentIsManaged (qr_Components reg) ComponentHPA
      then Inr (mk_condition ComponentHPAReady ConditionTrue ReasonComponentUnmanaged
             ''Horizontal pod autoscaler not managed by the operator'' now)
      else hpa_loop cli reg now [''quay-app'', ''clair-app'', ''quay-mirror''])"

section \<open>route.go\<close>

fun ingressAdmittedCondition :: "RouteIngressCondition list \<Rightarrow> RouteIngressCondition" where
  "ingressAdmittedCondition [] = \<lparr>ric_Type = '''', ric_Status = CoreOther ''''\<rparr>"
| "ingressAdmittedCondition (cond # conds) =
     (if ric_Type cond \<noteq> ''Admitted'' then ingressAdmittedCondition conds else cond)"

fun route_loop :: "QuayRegistry \<Rightarrow> Time \<Rightarrow> Route list \<Rightarrow> Condition" where
  "route_loop reg now [] =
     mk_condition ComponentRouteReady ConditionFalse ReasonComponentNotReady ''Route not found'' now"
| "route_loop reg now (rt # rts) =
     (if \<not> Owns reg (rt_Meta rt) then route_loop reg now rts
      else if rt_Ingress rt = []
      then mk_condition ComponentRouteReady ConditionFalse ReasonComponentNotReady
             ''Route found but no ingress'' now
      else if list_ex (\<lambda>ing. ric_Status (ingressAdmittedCondition (ing_Conditions ing)) \<noteq> CoreTrue)
                (rt_Ingress rt)
      then mk_condition ComponentRouteReady ConditionFalse ReasonComponentNotReady
             ''Route not fully admitted'' now
      else mk_condition ComponentRouteReady ConditionTrue ReasonComponentReady ''Route admitted'' now)"

definition Route_Check :: "Reader \<Rightarrow> QuayRegistry \<Rightarrow> Time \<Rightarrow> Condition result" where
  "Route_Check cli reg now =
     (if \<not> ComponentIsManaged (qr_Components reg) ComponentRoute
      then Inr (mk_condition ComponentRouteReady ConditionTrue ReasonComponentUnmanaged
             ''Route is not managed by the operator'' now)
      else and_then (ListRoutes cli (qr_Namespace reg)) (\<lambda>items. Inr (route_loop reg now items)))"

section \<open>monitoring.go\<close>

definition monitoring_gvk :: "string \<Rightarrow> GroupVersionKind" where
  "monitoring_gvk k = \<lparr>gvk_Group = ''monitoring.coreos.com'', gvk_Version = ''v1'', gvk_Kind = k\<rparr>"

text \<open>The second \<open>Get\<close>: any error but not-found is dropped and the zero condition returned.\<close>

definition service_monitor_check :: "Reader \<Rightarrow> QuayRegistry \<Rightarrow> Time \<Rightarrow> Condition result" where
  "service_monitor_check cli reg now =
     (let smname = qr_Name reg @ ''-quay-metrics-monitor'' in
      case GetUnstructured cli (monitoring_gvk ''ServiceMonitor'') (nsn (qr_Namespace reg) smname) of
        Inl err \<Rightarrow>
          if IsNotFound err
          then Inr (mk_condition ComponentMonitoringReady ConditionFalse ReasonComponentNotReady
                 (''ServiceMonitor '' @ smname @ '' not found'') now)
          else Inr zero_condition
      | Inr sm \<Rightarrow>
          if \<not> Owns reg sm
          then Inr (mk_condition ComponentMonitoringReady ConditionFalse ReasonComponentNotReady
                 (''ServiceMonitor '' @ smname @ '' not owned by QuayRegistry'') now)
          else Inr (mk_condition ComponentMonitoringReady ConditionTrue ReasonComponentReady
                 ''ServiceMonitor and PrometheusRules created'' now))"

definition Monitoring_Check :: "Reader \<Rightarrow> QuayRegistry \<Rightarrow> Time \<Rightarrow> Condition result" where
  "Monitoring_Check cli reg now =
     (if \<not> ComponentIsManaged (qr_Components reg) ComponentMonitoring
      then Inr (mk_condition ComponentMonitoringReady ConditionTrue ReasonComponentUnmanaged
             ''Monitoring not managed by the operator'' now)
      else
        let prname = qr_Name reg @ ''-quay-prometheus-rules'' in
        case GetUnstructured cli (monitoring_gvk ''PrometheusRule'') (nsn (qr_Namespace reg) prname) of
          Inl err \<Rightarrow>
            if IsNotFound err
            then Inr (mk_condition ComponentMonitoringReady ConditionFalse ReasonComponentNotReady
                   (''PrometheusRule '' @ prname @ '' not found'') now)
            else Inl err
        | Inr pr \<Rightarrow>
            if \<not> Owns reg pr
            then Inr (mk_condition ComponentMonitoringReady ConditionFalse ReasonComponentNotReady
                   (''PrometheusRule '' @ prname @ '' not owned by QuayRegistry'') now)
            else service_monitor_check cli reg now)"

section \<open>postgres.go, clairpostgres.go, objectstorage.go\<close>

definition Postgres_Check ::
  "(string \<Rightarrow> string) \<Rightarrow> Reader \<Rightarrow> QuayRegistry \<Rightarrow> Time \<Rightarrow> Condition result" where
  "Postgres_Check title cli quay now =
     (if \<not> ComponentIsManaged (qr_Components quay) ComponentPostgres
      then Inr (mk_condition ComponentPostgresReady ConditionTrue ReasonComponentUnmanaged
             ''Postgres not managed by the operator'' now)
      else CheckDatabaseDeploymentAndPVCStatus title cli quay ComponentPostgres ''quay-database''
             ComponentPostgresReady now)"

definition ClairPostgres_Check ::
  "(string \<Rightarrow> string) \<Rightarrow> Reader \<Rightarrow> QuayRegistry \<Rightarrow> Time \<Rightarrow> Condition result" where
  "ClairPostgres_Check title cli quay now =
     (if \<not> ComponentIsManaged (qr_Components quay) ComponentClairPostgres
      then Inr (mk_condition ComponentClairPostgresReady ConditionTrue ReasonComponentUnmanaged
             ''ClairPostgres not managed by the operator'' now)
      else CheckDatabaseDeploymentAndPVCStatus title cli quay ComponentClairPostgres
             ''clair-postgres'' ComponentClairPostgresReady now)"

fun obc_loop :: "QuayRegistry \<Rightarrow> Time \<Rightarrow> ObjectBucketClaim list \<Rightarrow> Condition" where
  "obc_loop reg now [] =
     mk_condition ComponentObjectStorageReady ConditionFalse ReasonComponentNotReady
       ''Unable to locate object bucket claim'' now"
| "obc_loop reg now (obc # obcs) =
     (if \<not> Owns reg (obc_Meta obc) then obc_loop reg now obcs
      else if obc_Phase obc \<noteq> ''Bound''
      then mk_condition ComponentObjectStorageReady ConditionFalse ReasonComponentNotReady
             ''Object bucket claim not bound'' now
      else mk_condition ComponentObjectStorageReady ConditionTrue ReasonComponentReady
             ''Object bucket claim bound'' now)"

definition ObjectStorage_Check :: "Reader \<Rightarrow> QuayRegistry \<Rightarrow> Time \<Rightarrow> Condition result" where
  "ObjectStorage_Check cli reg now =
     (if \<not> ComponentIsManaged (qr_Components reg) ComponentObjectStorage
      then Inr (mk_condition ComponentObjectStorageReady ConditionTrue ReasonComponentUnmanaged
             ''Object storage not managed by the operator'' now)
      else and_then (ListObjectBucketClaims cli (qr_Namespace reg))
             (\<lambda>items. Inr (obc_loop reg now items)))"

section \<open>redis.go, clair.go, mirror.go\<close>

definition Redis_Check :: "Reader \<Rightarrow> QuayRegistry \<Rightarrow> Time \<Rightarrow> Condition result" where
  "Redis_Check cli reg now =
     (if \<not> ComponentIsManaged (qr_Components reg) ComponentRedis
      then Inr (mk_condition ComponentRedisReady ConditionTrue ReasonComponentUnmanaged
             ''Redis not managed by the operator'' now)
      else case GetDeployment cli (nsn (qr_Namespace reg) (qr_Name reg @ ''-quay-redis'')) of
        Inl err \<Rightarrow>
          if IsNotFound err
          then Inr (mk_condition ComponentRedisReady ConditionFalse ReasonComponentNotReady
                 ''Redis deployment not found'' now)
          else Inl err
      | Inr dep \<Rightarrow>
          if \<not> Owns reg (dep_Meta dep)
          then Inr (mk_condition ComponentRedisReady ConditionFalse ReasonComponentNotReady
                 ''Redis deployment not owned by QuayRegistry'' now)
          else Inr ((deploy_check dep now)\<lparr>c_Type := ComponentRedisReady\<rparr>))"

text \<open>\<open>replicas != nil \<and> *replicas == 0\<close>.\<close>

definition scaled_down :: "QuayRegistry \<Rightarrow> ComponentKind \<Rightarrow> bool" where
  "scaled_down reg kind = (GetReplicasOverrideForComponent reg kind = Some 0)"

definition Clair_Check :: "Reader \<Rightarrow> QuayRegistry \<Rightarrow> Time \<Rightarrow> Condition result" where
  "Clair_Check cli reg now =
     (if \<not> ComponentIsManaged (qr_Components reg) ComponentClair
      then Inr (mk_condition ComponentClairReady ConditionTrue ReasonComponentUnmanaged
             ''Clair not managed by the operator'' now)
      else
        let depname = qr_Name reg @ ''-'' @ ''clair-app'' in
        case GetDeployment cli (nsn (qr_Namespace reg) depname) of
          Inl err \<Rightarrow>
            if IsNotFound err
            then Inr (mk_condition ComponentClairReady ConditionFalse ReasonComponentNotReady
                   (''Deployment '' @ depname @ '' not found'') now)
            else Inl err
        | Inr dep \<Rightarrow>
            if \<not> Owns reg (dep_Meta dep)
            then Inr (mk_condition ComponentClairReady ConditionFalse ReasonComponentNotReady
                   (''Deployment '' @ depname @ '' not owned by QuayRegistry'') now)
            else if scaled_down reg ComponentClair
            then (if dep_AvailableReplicas dep = 0
                  then Inr (mk_condition ComponentClairReady ConditionTrue ReasonComponentReady
                         ''Clair manually scaled down'' now)
                  else Inr (mk_condition ComponentClairReady ConditionFalse ReasonComponentNotReady
                         ''Clair component is being scaled down'' now))
            else let cond = deploy_check dep now in
                 if c_Status cond \<noteq> ConditionTrue
                 then Inr (cond\<lparr>c_Type := ComponentClairReady\<rparr>)
                 else Inr (mk_condition ComponentClairReady ConditionTrue ReasonComponentReady
                        ''Clair component healthy'' now))"

definition Mirror_Check :: "Reader \<Rightarrow> QuayRegistry \<Rightarrow> Time \<Rightarrow> Condition result" where
  "Mirror_Check cli reg now =
     (if \<not> ComponentIsManaged (qr_Components reg) ComponentMirror
      then Inr (mk_condition ComponentMirrorReady ConditionTrue ReasonComponentUnmanaged
             ''Mirror not managed by the operator'' now)
      else case GetDeployment cli (nsn (qr_Namespace reg) (qr_Name reg @ ''-quay-mirror'')) of
        Inl err \<Rightarrow>
          if IsNotFound err
          then Inr (mk_condition ComponentMirrorReady ConditionFalse ReasonComponentNotReady
                 ''Mirror deployment not found'' now)
          else Inl err
      | Inr dep \<Rightarrow>
          if \<not> Owns reg (dep_Meta dep)
          then Inr (mk_condition ComponentMirrorReady ConditionFalse ReasonComponentNotReady
                 ''Mirror deployment not owned by QuayRegistry'' now)
          else if scaled_down reg ComponentMirror
          then (if dep_AvailableReplicas dep = 0
                then Inr (mk_condition ComponentMirrorReady ConditionTrue ReasonComponentReady
                       ''Mirror manually scaled down'' now)
                else Inr (mk_condition ComponentMirrorReady ConditionFalse ReasonComponentNotReady
                       ''Mirror component is being scaled down'' now))
          else Inr ((deploy_check dep now)\<lparr>c_Type := ComponentMirrorReady\<rparr>))"

section \<open>quay.go\<close>

text \<open>\<open>upgradeJob\<close>: nil, or the error whose text becomes the message of the Quay condition.\<close>

definition upgradeJob :: "Reader \<Rightarrow> QuayRegistry \<Rightarrow> go_error option" where
  "upgradeJob cli reg =
     (let jname = qr_Name reg @ ''-quay-app-upgrade'' in
      case GetJob cli (nsn (qr_Namespace reg) jname) of
        Inl err \<Rightarrow>
          if IsNotFound err then Some (plain_error (''job '' @ jname @ '' not found''))
          else Some (wrap_error ''unexpected error reading upgrade job: '' err)
      | Inr job \<Rightarrow>
          if job_Succeeded job = 0 then Some (plain_error (''job '' @ jname @ '' not finished''))
          else None)"

fun quay_loop :: "Reader \<Rightarrow> QuayRegistry \<Rightarrow> Time \<Rightarrow> bool \<Rightarrow> string list \<Rightarrow> Condition result" where
  "quay_loop cli reg now scaleddown [] =
     Inr (mk_condition ComponentQuayReady ConditionTrue ReasonComponentReady
            ''Quay component healthy'' now)"
| "quay_loop cli reg now scaleddown (depsuffix # rest) =
     (let depname = qr_Name reg @ ''-'' @ depsuffix in
      case GetDeployment cli (nsn (qr_Namespace reg) depname) of
        Inl err \<Rightarrow>
          if IsNotFound err
          then Inr (mk_condition ComponentQuayReady ConditionFalse ReasonComponentNotReady
                 (''Deployment '' @ depname @ '' not found'') now)
          else Inl err
      | Inr dep \<Rightarrow>
          if \<not> Owns reg (dep_Meta dep)
          then Inr (mk_condition ComponentQuayReady ConditionFalse ReasonComponentNotReady
                 (''Deployment '' @ depname @ '' not owned by QuayRegistry'') now)
          else if om_Name (dep_Meta dep) = qr_Name reg @ ''-quay-app'' \<and> scaleddown
          then (if dep_AvailableReplicas dep = 0 then quay_loop cli reg now scaleddown rest
                else Inr (mk_condition ComponentQuayReady ConditionFalse ReasonComponentNotReady
                       ''Quay component is being scaled down'' now))
          else let cond = deploy_check dep now in
               if c_Status cond \<noteq> ConditionTrue
               then Inr (cond\<lparr>c_Type := ComponentQuayReady\<rparr>)
               else quay_loop cli reg now scaleddown rest)"

definition Quay_Check :: "Reader \<Rightarrow> QuayRegistry \<Rightarrow> Time \<Rightarrow> Condition result" where
  "Quay_Check cli reg now =
     (case upgradeJob cli reg of
        Some err \<Rightarrow> Inr (mk_condition ComponentQuayReady ConditionFalse ReasonComponentNotReady
                          (error_text err) now)
      | None \<Rightarrow> quay_loop cli reg now (scaled_down reg ComponentQuay) [''quay-app''])"

section \<open>validate.go and tls.go\<close>

definition FetchAndValidate ::
  "Reader \<Rightarrow> string \<Rightarrow> string \<Rightarrow> (string \<times> string \<times> Secret) result" where
  "FetchAndValidate cli namespace name =
     (case GetSecret cli (nsn namespace name) of
        Inl err \<Rightarrow> Inl (wrap_error (''unable to get TLS secret '' @ Quote name @ '': '') err)
      | Inr s \<Rightarrow>
          if sec_Type s \<noteq> ''kubernetes.io/tls''
          then Inl (plain_error (''TLS secret '' @ Quote name @ '' must be type '' @
                       Quote ''kubernetes.io/tls'' @ '', got '' @ Quote (sec_Type s)))
          else if gstr (sec_Data s) ''tls.crt'' = ''''
          then Inl (plain_error (''TLS secret '' @ Quote name @ '' missing or empty tls.crt''))
          else if gstr (sec_Data s) ''tls.key'' = ''''
          then Inl (plain_error (''TLS secret '' @ Quote name @ '' missing or empty tls.key''))
          else Inr (gstr (sec_Data s) ''tls.crt'', gstr (sec_Data s) ''tls.key'', s))"

definition external_tls_condition ::
  "Reader \<Rightarrow> QuayRegistry \<Rightarrow> Secret \<Rightarrow> string \<Rightarrow> Time \<Rightarrow> Condition" where
  "external_tls_condition cli reg secret ref now =
     (if gget (sec_Data secret) ''ssl.cert'' \<noteq> None
      then mk_condition ComponentTLSReady ConditionFalse ReasonComponentNotReady
        ''tls component secretRef and ssl.cert in configBundleSecret are mutually exclusive'' now
      else if gget (sec_Data secret) ''ssl.key'' \<noteq> None
      then mk_condition ComponentTLSReady ConditionFalse ReasonComponentNotReady
        ''tls component secretRef and ssl.key in configBundleSecret are mutually exclusive'' now
      else case FetchAndValidate cli (qr_Namespace reg) ref of
        Inl err \<Rightarrow> mk_condition ComponentTLSReady ConditionFalse ReasonComponentNotReady
          (if IsNotFound err then ''External TLS secret not found'' else error_text err) now
      | Inr _ \<Rightarrow> mk_condition ComponentTLSReady ConditionTrue ReasonComponentReady
          ''Using externally managed TLS certificate'' now)"

definition TLS_Check :: "Reader \<Rightarrow> QuayRegistry \<Rightarrow> Time \<Rightarrow> Condition result" where
  "TLS_Check cli reg now =
     (if spec_ConfigBundleSecret (qr_Spec reg) = ''''
      then Inr (mk_condition ComponentTLSReady ConditionFalse ReasonComponentNotReady
             ''Config bundle secret not populated'' now)
      else case GetSecret cli (nsn (qr_Namespace reg) (spec_ConfigBundleSecret (qr_Spec reg))) of
        Inl err \<Rightarrow>
          if IsNotFound err
          then Inr (mk_condition ComponentTLSReady ConditionFalse ReasonComponentNotReady
                 ''Config bundle does not exist'' now)
          else Inl err
      | Inr secret \<Rightarrow>
          (case GetTLSSecretRef (qr_Components reg) of
             Some ref \<Rightarrow> Inr (external_tls_condition cli reg secret ref now)
           | None \<Rightarrow>
               let hasCRT = gget (sec_Data secret) ''ssl.cert'' \<noteq> None;
                   hasKey = gget (sec_Data secret) ''ssl.key'' \<noteq> None
               in if ComponentIsManaged (qr_Components reg) ComponentTLS
                  then (if hasCRT \<or> hasKey
                        then Inr (mk_condition ComponentTLSReady ConditionFalse
                               ReasonComponentNotReady ''TLS managed but config bundle contain certs'' now)
                        else Inr (mk_condition ComponentTLSReady ConditionTrue
                               ReasonComponentReady ''Using cluster wildcard certs'' now))
                  else if \<not> hasCRT \<or> \<not> hasKey
                  then Inr (mk_condition ComponentTLSReady ConditionFalse ReasonComponentNotReady
                         ''TLS unmanaged but config bundle does not contain certs'' now)
                  else Inr (mk_condition ComponentTLSReady ConditionTrue ReasonComponentReady
                         ''Config bundle contains certs'' now)))"

section \<open>Every checker keeps the contract\<close>

lemma sound_hpa_loop: "hpa_loop cli reg now ss = Inr c \<Longrightarrow> sound_condition plain_failures ComponentHPAReady now c"
  by (induction ss) (auto split: sum.splits if_splits intro: checker_sound)

lemma sound_route_loop: "sound_condition plain_failures ComponentRouteReady now (route_loop reg now rts)"
  by (induction rts) (simp_all add: checker_sound)

lemma sound_obc_loop: "sound_condition plain_failures ComponentObjectStorageReady now (obc_loop reg now obcs)"
  by (induction obcs) (simp_all add: checker_sound)

lemma sound_quay_loop:
  "quay_loop cli reg now sd ss = Inr c \<Longrightarrow> sound_condition plain_failures ComponentQuayReady now c"
  by (induction ss) (auto simp: Let_def split: sum.splits if_splits intro: checker_sound)

text \<open>The monitoring checker keeps its contract unless the component is managed and the \<open>Get\<close> of the
  ServiceMonitor fails with an error other than not-found.\<close>

definition service_monitor_readable :: "Reader \<Rightarrow> QuayRegistry \<Rightarrow> bool" where
  "service_monitor_readable cli reg \<longleftrightarrow> \<not> ComponentIsManaged (qr_Components reg) ComponentMonitoring \<or>
     (case GetUnstructured cli (monitoring_gvk ''ServiceMonitor'')
        (nsn (qr_Namespace reg) (qr_Name reg @ ''-quay-metrics-monitor'')) of
        Inl err \<Rightarrow> IsNotFound err | Inr _ \<Rightarrow> True)"

abbreviation everywhere :: "Reader \<Rightarrow> QuayRegistry \<Rightarrow> bool" where
  "everywhere \<equiv> \<lambda>_ _. True"

lemma sound_service_monitor:
  "service_monitor_check cli reg now = Inr c \<Longrightarrow> service_monitor_readable cli reg \<Longrightarrow>
     ComponentIsManaged (qr_Components reg) ComponentMonitoring \<Longrightarrow>
     sound_condition plain_failures ComponentMonitoringReady now c"
  by (auto simp: service_monitor_check_def service_monitor_readable_def Let_def
      split: sum.splits if_splits intro: checker_sound)

interpretation hpa_check: managed_status_checker HPA_Check ComponentHPAReady plain_failures everywhere
  ComponentHPA "''Horizontal pod autoscaler not managed by the operator''"
  by unfold_locales
    (auto simp: HPA_Check_def split: if_splits intro: checker_sound sound_hpa_loop
      simp del: hpa_loop.simps)

interpretation route_check: managed_status_checker Route_Check ComponentRouteReady plain_failures everywhere
  ComponentRoute "''Route is not managed by the operator''"
  by unfold_locales
    (auto simp: Route_Check_def and_then_Inr_iff split: if_splits intro: checker_sound sound_route_loop)

interpretation monitoring_check: managed_status_checker Monitoring_Check ComponentMonitoringReady plain_failures
  service_monitor_readable ComponentMonitoring "''Monitoring not managed by the operator''"
  by unfold_locales
    (auto simp: Monitoring_Check_def Let_def split: sum.splits if_splits
      intro: checker_sound sound_service_monitor)

interpretation postgres_check: managed_status_checker "Postgres_Check title" ComponentPostgresReady database_failures
  everywhere ComponentPostgres "''Postgres not managed by the operator''"
  by unfold_locales
    (auto simp: Postgres_Check_def split: if_splits intro: checker_sound sound_database)

interpretation clairpostgres_check: managed_status_checker "ClairPostgres_Check title"
  ComponentClairPostgresReady database_failures everywhere ComponentClairPostgres
  "''ClairPostgres not managed by the operator''"
  by unfold_locales
    (auto simp: ClairPostgres_Check_def split: if_splits intro: checker_sound sound_database)

interpretation objectstorage_check: managed_status_checker ObjectStorage_Check
  ComponentObjectStorageReady plain_failures everywhere ComponentObjectStorage
  "''Object storage not managed by the operator''"
  by unfold_locales
    (auto simp: ObjectStorage_Check_def and_then_Inr_iff split: if_splits
      intro: checker_sound sound_obc_loop)

interpretation redis_check: managed_status_checker Redis_Check ComponentRedisReady plain_failures everywhere
  ComponentRedis "''Redis not managed by the operator''"
  by unfold_locales
    (auto simp: Redis_Check_def split: sum.splits if_splits intro: checker_sound)

interpretation clair_check: managed_status_checker Clair_Check ComponentClairReady plain_failures everywhere
  ComponentClair "''Clair not managed by the operator''"
  by unfold_locales
    (auto simp: Clair_Check_def Let_def split: sum.splits if_splits intro: checker_sound)

interpretation mirror_check: managed_status_checker Mirror_Check ComponentMirrorReady plain_failures everywhere
  ComponentMirror "''Mirror not managed by the operator''"
  by unfold_locales
    (auto simp: Mirror_Check_def split: sum.splits if_splits intro: checker_sound)

interpretation quay_check: status_checker Quay_Check ComponentQuayReady plain_failures everywhere
  by unfold_locales
    (auto simp: Quay_Check_def split: option.splits intro: checker_sound sound_quay_loop
      simp del: quay_loop.simps)

lemma sound_external_tls: "sound_condition plain_failures ComponentTLSReady now (external_tls_condition cli reg s ref now)"
  by (simp add: external_tls_condition_def checker_sound split: sum.split)

interpretation tls_check: status_checker TLS_Check ComponentTLSReady plain_failures everywhere
  by unfold_locales
    (auto simp: TLS_Check_def Let_def split: sum.splits option.splits if_splits
      intro: checker_sound sound_external_tls)

end
