(* ===== verification/Cmp_Evaluate.thy ===== *)
theory Cmp_Evaluate
  imports Cmp_Checkers
begin

text \<open>
  \<open>pkg/cmpstatus/evaluator.go\<close>: the order in which the checkers run, the components Quay depends on,
  and the conditions reported for Quay and the mirror when a dependency is faulty. \<open>clock\<close> gives the
  time read while the condition of a checker is built, by the checker's name.
\<close>

section \<open>Evaluation\<close>

type_synonym Checker = "string \<times> (Reader \<Rightarrow> QuayRegistry \<Rightarrow> Time \<Rightarrow> Condition result)"

definition independent_checkers :: "Checker list" where
  "independent_checkers =
     [(''horizontalpodautoscaler'', HPA_Check), (''route'', Route_Check), (''monitoring'', Monitoring_Check)]"

definition dependency_checkers :: "(string \<Rightarrow> string) \<Rightarrow> Checker list" where
  "dependency_checkers title =
     [(''postgres'', Postgres_Check title), (''objectstorage'', ObjectStorage_Check),
      (''clair'', Clair_Check), (''clairpostgres'', ClairPostgres_Check title),
      (''tls'', TLS_Check), (''redis'', Redis_Check)]"

fun run_independent ::
  "Reader \<Rightarrow> QuayRegistry \<Rightarrow> (string \<Rightarrow> Time) \<Rightarrow> Checker list \<Rightarrow> Condition list \<Rightarrow> Condition list result" where
  "run_independent c q clock [] conds = Inr conds"
| "run_independent c q clock ((name, check) # rest) conds =
     and_then (check c q (clock name)) (\<lambda>cond. run_independent c q clock rest (conds @ [cond]))"

fun run_dependencies ::
  "Reader \<Rightarrow> QuayRegistry \<Rightarrow> (string \<Rightarrow> Time) \<Rightarrow> Checker list \<Rightarrow> Condition list \<Rightarrow> string list
     \<Rightarrow> (Condition list \<times> string list) result" where
  "run_dependencies c q clock [] conds failed = Inr (conds, failed)"
| "run_dependencies c q clock ((name, check) # rest) conds failed =
     and_then (check c q (clock name)) (\<lambda>cond.
       run_dependencies c q clock rest (conds @ [cond])
         (if c_Status cond \<noteq> ConditionTrue then failed @ [name] else failed))"

definition awaiting_quay :: "Time \<Rightarrow> Condition" where
  "awaiting_quay now = mk_condition ComponentMirrorReady ConditionFalse ReasonComponentNotReady
     ''Awaiting for component quay to become available'' now"

definition awaiting_dependencies :: "string list \<Rightarrow> Time \<Rightarrow> Condition" where
  "awaiting_dependencies failed now =
     mk_condition ComponentQuayReady ConditionFalse ReasonComponentNotReady
       (''Awaiting for component '' @ Join failed '','' @ '' to become available'') now"

text \<open>The last part: Quay, then the mirror. The mirror condition of a faulty Quay carries no update
  time, as in the source.\<close>

definition evaluate_quay_and_mirror ::
  "Reader \<Rightarrow> QuayRegistry \<Rightarrow> (string \<Rightarrow> Time) \<Rightarrow> Condition list \<Rightarrow> Condition list result" where
  "evaluate_quay_and_mirror c q clock conds =
     and_then (Quay_Check c q (clock ''quay'')) (\<lambda>cond.
       let conds = conds @ [cond] in
       if c_Status cond \<noteq> ConditionTrue
       then Inr (conds @ [awaiting_quay zero_time])
       else and_then (Mirror_Check c q (clock ''mirror'')) (\<lambda>cond. Inr (conds @ [cond])))"

definition Evaluate ::
  "(string \<Rightarrow> string) \<Rightarrow> Reader \<Rightarrow> QuayRegistry \<Rightarrow> (string \<Rightarrow> Time) \<Rightarrow> Condition list result" where
  "Evaluate title c q clock =
     and_then (run_independent c q clock independent_checkers []) (\<lambda>conds.
     and_then (run_dependencies c q clock (dependency_checkers title) conds []) (\<lambda>(conds, failed).
       if length failed > 0
       then Inr (conds @ [awaiting_dependencies failed (clock ''quay''), awaiting_quay (clock ''mirror'')])
       else evaluate_quay_and_mirror c q clock conds))"

section \<open>The shape of a result\<close>

text \<open>The conditions of a list of checkers, in order; the result of the loops is built from it.\<close>

definition outcomes ::
  "Reader \<Rightarrow> QuayRegistry \<Rightarrow> (string \<Rightarrow> Time) \<Rightarrow> Checker list \<Rightarrow> Condition list \<Rightarrow> bool" where
  "outcomes c q clock checkers conds \<longleftrightarrow>
     list_all2 (\<lambda>(name, check) cond. check c q (clock name) = Inr cond) checkers conds"

definition failed_names :: "Checker list \<Rightarrow> Condition list \<Rightarrow> string list" where
  "failed_names checkers conds =
     map fst (filter (\<lambda>(ch, cond). c_Status cond \<noteq> ConditionTrue) (zip (map fst checkers) conds))"

lemma run_independent_outcomes:
  "run_independent c q clock checkers acc = Inr conds \<longleftrightarrow>
     (\<exists>cs. outcomes c q clock checkers cs \<and> conds = acc @ cs)"
proof (induction checkers arbitrary: acc)
  case Nil
  then show ?case by (auto simp: outcomes_def)
next
  case (Cons ch rest)
  obtain name check where ch: "ch = (name, check)" by (cases ch)
  show ?case
    by (auto simp: ch Cons.IH and_then_Inr_iff outcomes_def list_all2_Cons1)
qed

lemma run_dependencies_outcomes:
  "run_dependencies c q clock checkers acc facc = Inr (conds, failed) \<longleftrightarrow>
     (\<exists>cs. outcomes c q clock checkers cs \<and> conds = acc @ cs \<and>
        failed = facc @ failed_names checkers cs)"
proof (induction checkers arbitrary: acc facc)
  case Nil
  then show ?case by (auto simp: outcomes_def failed_names_def)
next
  case (Cons ch rest)
  obtain name check where ch: "ch = (name, check)" by (cases ch)
  show ?case
    by (auto simp: ch Cons.IH and_then_Inr_iff outcomes_def list_all2_Cons1 failed_names_def)
qed

lemma failed_names_empty_iff:
  "length checkers = length conds \<Longrightarrow>
     failed_names checkers conds = [] \<longleftrightarrow> (\<forall>cond \<in> set conds. c_Status cond = ConditionTrue)"
  by (induction checkers conds rule: list_induct2) (auto simp: failed_names_def)

lemma outcomes_length: "outcomes c q clock checkers conds \<Longrightarrow> length checkers = length conds"
  by (auto simp: outcomes_def dest: list_all2_lengthD)

text \<open>The tail of a result: what is reported for Quay and for the mirror.\<close>

definition quay_and_mirror ::
  "(string \<Rightarrow> string) \<Rightarrow> Reader \<Rightarrow> QuayRegistry \<Rightarrow> (string \<Rightarrow> Time) \<Rightarrow> Condition list \<Rightarrow> Condition \<Rightarrow> Condition \<Rightarrow> bool" where
  "quay_and_mirror title c q clock deps qc mc \<longleftrightarrow>
     (if \<exists>cond \<in> set deps. c_Status cond \<noteq> ConditionTrue
      then qc = awaiting_dependencies (failed_names (dependency_checkers title) deps) (clock ''quay'') \<and>
           mc = awaiting_quay (clock ''mirror'')
      else Quay_Check c q (clock ''quay'') = Inr qc \<and>
           (if c_Status qc \<noteq> ConditionTrue then mc = awaiting_quay zero_time
            else Mirror_Check c q (clock ''mirror'') = Inr mc))"

lemma Evaluate_shape:
  "Evaluate title c q clock = Inr conds \<longleftrightarrow>
     (\<exists>ind deps qc mc. outcomes c q clock independent_checkers ind \<and>
        outcomes c q clock (dependency_checkers title) deps \<and>
        quay_and_mirror title c q clock deps qc mc \<and> conds = ind @ deps @ [qc, mc])"
proof
  assume "Evaluate title c q clock = Inr conds"
  then obtain ind deps where
    ind: "outcomes c q clock independent_checkers ind" and
    deps: "outcomes c q clock (dependency_checkers title) deps" and
    rest: "(if length (failed_names (dependency_checkers title) deps) > 0
      then Inr ((ind @ deps) @ [awaiting_dependencies (failed_names (dependency_checkers title) deps)
             (clock ''quay''), awaiting_quay (clock ''mirror'')])
      else evaluate_quay_and_mirror c q clock (ind @ deps)) = Inr conds"
    by (auto simp: Evaluate_def and_then_Inr_iff run_independent_outcomes run_dependencies_outcomes)
  have "\<exists>qc mc. quay_and_mirror title c q clock deps qc mc \<and> conds = ind @ deps @ [qc, mc]"
    using rest failed_names_empty_iff [OF outcomes_length [OF deps]]
    by (auto simp: quay_and_mirror_def evaluate_quay_and_mirror_def and_then_Inr_iff Let_def
        split: if_splits)
  with ind deps show "\<exists>ind deps qc mc. outcomes c q clock independent_checkers ind \<and>
        outcomes c q clock (dependency_checkers title) deps \<and>
        quay_and_mirror title c q clock deps qc mc \<and> conds = ind @ deps @ [qc, mc]" by blast
next
  assume "\<exists>ind deps qc mc. outcomes c q clock independent_checkers ind \<and>
        outcomes c q clock (dependency_checkers title) deps \<and>
        quay_and_mirror title c q clock deps qc mc \<and> conds = ind @ deps @ [qc, mc]"
  then obtain ind deps qc mc where
    ind: "run_independent c q clock independent_checkers [] = Inr ind" and
    deps: "outcomes c q clock (dependency_checkers title) deps" and
    qm: "quay_and_mirror title c q clock deps qc mc" and conds: "conds = ind @ deps @ [qc, mc]"
    by (auto simp: run_independent_outcomes)
  from deps have run: "run_dependencies c q clock (dependency_checkers title) ind []
      = Inr (ind @ deps, failed_names (dependency_checkers title) deps)"
    by (simp add: run_dependencies_outcomes)
  show "Evaluate title c q clock = Inr conds"
    using qm failed_names_empty_iff [OF outcomes_length [OF deps]]
    by (auto simp: Evaluate_def ind run conds quay_and_mirror_def evaluate_quay_and_mirror_def Let_def
        split: if_splits)
qed

lemma independent_outcomes:
  "outcomes c q clock independent_checkers ind \<longleftrightarrow>
     (\<exists>h r m. ind = [h, r, m] \<and> HPA_Check c q (clock ''horizontalpodautoscaler'') = Inr h \<and>
        Route_Check c q (clock ''route'') = Inr r \<and> Monitoring_Check c q (clock ''monitoring'') = Inr m)"
  by (auto simp: outcomes_def independent_checkers_def list_all2_Cons1)

lemma dependency_outcomes:
  "outcomes c q clock (dependency_checkers title) deps \<longleftrightarrow>
     (\<exists>p obj cl cp t r. deps = [p, obj, cl, cp, t, r] \<and>
        Postgres_Check title c q (clock ''postgres'') = Inr p \<and>
        ObjectStorage_Check c q (clock ''objectstorage'') = Inr obj \<and>
        Clair_Check c q (clock ''clair'') = Inr cl \<and>
        ClairPostgres_Check title c q (clock ''clairpostgres'') = Inr cp \<and>
        TLS_Check c q (clock ''tls'') = Inr t \<and> Redis_Check c q (clock ''redis'') = Inr r)"
  by (auto simp: outcomes_def dependency_checkers_def list_all2_Cons1)

text \<open>Everything an evaluation says of one condition, in the order of the result.\<close>

lemma quay_and_mirror_types:
  assumes "quay_and_mirror title c q clock deps qc mc"
  shows "c_Type qc = ComponentQuayReady" and "c_Type mc = ComponentMirrorReady"
    and "c_Reason qc = ReasonComponentNotReady \<longleftrightarrow> c_Status qc \<noteq> ConditionTrue"
    and "c_Reason mc = ReasonComponentNotReady \<longleftrightarrow> c_Status mc \<noteq> ConditionTrue"
  using assms quay_check.check_type [of c q _ qc] mirror_check.check_type [of c q _ mc]
    quay_check.check_reason [of c q _ qc] mirror_check.check_reason [of c q _ mc]
  by (auto simp: quay_and_mirror_def awaiting_quay_def awaiting_dependencies_def split: if_splits)

lemma dependency_types:
  assumes "outcomes c q clock (dependency_checkers title) deps"
  shows "map c_Type deps = [ComponentPostgresReady, ComponentObjectStorageReady, ComponentClairReady,
    ComponentClairPostgresReady, ComponentTLSReady, ComponentRedisReady]"
  using assms by (auto simp: dependency_outcomes postgres_check.check_type
      objectstorage_check.check_type clair_check.check_type clairpostgres_check.check_type
      tls_check.check_type redis_check.check_type)

lemma dependency_not_ready:
  assumes "outcomes c q clock (dependency_checkers title) deps" and "cond \<in> set deps"
    and "c_Reason cond = ReasonComponentNotReady"
  shows "c_Status cond \<noteq> ConditionTrue"
  using assms postgres_check.check_reason clairpostgres_check.check_reason
    objectstorage_check.check_reason clair_check.check_reason tls_check.check_reason
    redis_check.check_reason
  by (fastforce simp: dependency_outcomes)

lemma independent_types:
  assumes "outcomes c q clock independent_checkers ind" and "service_monitor_readable c q"
  shows "map c_Type ind = [ComponentHPAReady, ComponentRouteReady, ComponentMonitoringReady]"
  using assms by (auto simp: independent_outcomes hpa_check.check_type route_check.check_type
      monitoring_check.check_type)

lemma independent_not_ready:
  assumes "outcomes c q clock independent_checkers ind" and "service_monitor_readable c q"
    and "cond \<in> set ind"
  shows "c_Reason cond = ReasonComponentNotReady \<longleftrightarrow> c_Status cond \<noteq> ConditionTrue"
  using assms hpa_check.check_reason route_check.check_reason monitoring_check.check_reason
  by (fastforce simp: independent_outcomes)

text \<open>Some condition of an evaluation has reason not-ready exactly when some condition is not true:
  a database that reports another reason makes Quay report this one.\<close>

lemma evaluation_not_ready_iff:
  assumes "Evaluate title c q clock = Inr conds" and "service_monitor_readable c q"
  shows "(\<exists>cond \<in> set conds. c_Reason cond = ReasonComponentNotReady) \<longleftrightarrow>
    (\<exists>cond \<in> set conds. c_Status cond \<noteq> ConditionTrue)"
proof -
  obtain ind deps qc mc where
    ind: "outcomes c q clock independent_checkers ind" and
    deps: "outcomes c q clock (dependency_checkers title) deps" and
    qm: "quay_and_mirror title c q clock deps qc mc" and conds: "conds = ind @ deps @ [qc, mc]"
    using assms(1) by (auto simp: Evaluate_shape)
  have forced: "c_Reason qc = ReasonComponentNotReady" if "\<exists>cond \<in> set deps. c_Status cond \<noteq> ConditionTrue"
    using qm that by (simp add: quay_and_mirror_def awaiting_dependencies_def)
  show ?thesis
    using independent_not_ready [OF ind assms(2)] dependency_not_ready [OF deps] forced
      quay_and_mirror_types(3,4) [OF qm]
    by (auto simp: conds)
qed

end
