(* ===== verification/Demo_Cluster.thy ===== *)
theory Demo_Cluster
  imports Cmp_Evaluate
begin

text \<open>
  Concrete registries and clusters the witnesses evaluate the model on: a registry with no managed
  component whose Quay deployment is healthy, and variations of it.
\<close>

definition demo_meta :: "string \<Rightarrow> ObjectMeta" where
  "demo_meta n = (meta_named ''ns'' n)\<lparr>om_UID := ''uid-1''\<rparr>"

definition demo_registry :: "Component list \<Rightarrow> QuayRegistry" where
  "demo_registry comps = \<lparr>qr_Meta = demo_meta ''reg'',
     qr_Spec = \<lparr>spec_ConfigBundleSecret = ''bundle'', spec_Components = comps\<rparr>,
     qr_Status = \<lparr>st_CurrentVersion = ''3.7.0'', st_RegistryEndpoint = '''', st_LastUpdate = 0,
       st_Conditions = [], st_ObservedGeneration = 0\<rparr>\<rparr>"

definition demo_component :: "ComponentKind \<Rightarrow> bool \<Rightarrow> Component" where
  "demo_component k managed =
     \<lparr>cmp_Kind = k, cmp_Managed = managed, cmp_Overrides = None, cmp_SecretRef = None\<rparr>"

definition owned_meta :: "string \<Rightarrow> ObjectMeta" where
  "owned_meta n = EnsureOwnerReference (demo_registry []) (meta_named ''ns'' n)"

definition demo_template :: PodTemplate where
  "demo_template = \<lparr>pt_Labels = None, pt_Annotations = Some Map.empty, pt_Containers = [],
     pt_Volumes = [], pt_Affinity = None, pt_TerminationGracePeriodSeconds = None\<rparr>"

definition healthy_deployment :: "string \<Rightarrow> Deployment" where
  "healthy_deployment n = \<lparr>dep_Meta = owned_meta n, dep_Replicas = Some 2, dep_Selector = '''',
     dep_Template = demo_template, dep_AvailableReplicas = 2, dep_UpdatedReplicas = 2,
     dep_ObservedGeneration = 0,
     dep_Conditions = [\<lparr>dc_Type = ''Available'', dc_Status = CoreTrue, dc_Message = ''''\<rparr>]\<rparr>"

definition finished_job :: "string \<Rightarrow> Job" where
  "finished_job n = \<lparr>job_Meta = owned_meta n, job_Template = demo_template, job_Active = 0,
     job_Succeeded = 1, job_Conditions = []\<rparr>"

definition demo_bundle :: Secret where
  "demo_bundle = \<lparr>sec_Meta = meta_named ''ns'' ''bundle'', sec_Type = ''Opaque'',
     sec_Data = Some [''config.yaml'' \<mapsto> '''', ''ssl.cert'' \<mapsto> ''cert'', ''ssl.key'' \<mapsto> ''key'']\<rparr>"

definition demo_reader :: Reader where
  "demo_reader = empty_reader\<lparr>
     GetDeployment := (\<lambda>n. Inr (healthy_deployment (nn_Name n))),
     GetJob := (\<lambda>n. Inr (finished_job (nn_Name n))),
     GetSecret := (\<lambda>n. Inr demo_bundle)\<rparr>"

lemmas demo_defs = demo_registry_def demo_meta_def demo_component_def owned_meta_def demo_template_def
  healthy_deployment_def finished_job_def demo_bundle_def demo_reader_def empty_reader_def
  not_found_def EnsureOwnerReference_def owner_reference_of_def GroupVersion_def

definition demo_conditions :: "Condition list" where
  "demo_conditions =
     [mk_condition ComponentHPAReady ConditionTrue ReasonComponentUnmanaged
        ''Horizontal pod autoscaler not managed by the operator'' 7,
      mk_condition ComponentRouteReady ConditionTrue ReasonComponentUnmanaged
        ''Route is not managed by the operator'' 7,
      mk_condition ComponentMonitoringReady ConditionTrue ReasonComponentUnmanaged
        ''Monitoring not managed by the operator'' 7,
      mk_condition ComponentPostgresReady ConditionTrue ReasonComponentUnmanaged
        ''Postgres not managed by the operator'' 7,
      mk_condition ComponentObjectStorageReady ConditionTrue ReasonComponentUnmanaged
        ''Object storage not managed by the operator'' 7,
      mk_condition ComponentClairReady ConditionTrue ReasonComponentUnmanaged
        ''Clair not managed by the operator'' 7,
      mk_condition ComponentClairPostgresReady ConditionTrue ReasonComponentUnmanaged
        ''ClairPostgres not managed by the operator'' 7,
      mk_condition ComponentTLSReady ConditionTrue ReasonComponentReady
        ''Config bundle contains certs'' 7,
      mk_condition ComponentRedisReady ConditionTrue ReasonComponentUnmanaged
        ''Redis not managed by the operator'' 7,
      mk_condition ComponentQuayReady ConditionTrue ReasonComponentReady ''Quay component healthy'' 7,
      mk_condition ComponentMirrorReady ConditionTrue ReasonComponentUnmanaged
        ''Mirror not managed by the operator'' 7]"

lemma demo_evaluate: "Evaluate (\<lambda>s. s) demo_reader (demo_registry []) (\<lambda>_. 7) = Inr demo_conditions"
  by code_simp

lemma demo_readable: "service_monitor_readable demo_reader (demo_registry [])"
  by code_simp

text \<open>The same registry with a managed Redis whose deployment is gone.\<close>

definition redis_registry :: QuayRegistry where
  "redis_registry = demo_registry [demo_component ComponentRedis True]"

definition redis_down_reader :: Reader where
  "redis_down_reader = demo_reader\<lparr>GetDeployment :=
     (\<lambda>n. if nn_Name n = ''reg-quay-redis'' then not_found (nn_Name n)
          else Inr (healthy_deployment (nn_Name n)))\<rparr>"

definition redis_down_conditions :: "Condition list" where
  "redis_down_conditions = take 8 demo_conditions @
     [mk_condition ComponentRedisReady ConditionFalse ReasonComponentNotReady
        ''Redis deployment not found'' 7,
      mk_condition ComponentQuayReady ConditionFalse ReasonComponentNotReady
        ''Awaiting for component redis to become available'' 7,
      mk_condition ComponentMirrorReady ConditionFalse ReasonComponentNotReady
        ''Awaiting for component quay to become available'' 7]"

lemma redis_down_evaluate:
  "Evaluate (\<lambda>s. s) redis_down_reader redis_registry (\<lambda>_. 7) = Inr redis_down_conditions"
  by code_simp

text \<open>A registry whose components are all managed, on a cluster that has everything they need.\<close>

definition managed_registry :: QuayRegistry where
  "managed_registry = demo_registry (map (\<lambda>k. demo_component k True) AllComponents)"

definition full_reader :: Reader where
  "full_reader = demo_reader\<lparr>
     GetHPA := (\<lambda>n. Inr (owned_meta (nn_Name n))),
     GetUnstructured := (\<lambda>g n. Inr (owned_meta (nn_Name n))),
     GetSecret := (\<lambda>n. Inr (demo_bundle\<lparr>sec_Data := Some [''config.yaml'' \<mapsto> '''']\<rparr>)),
     ListRoutes := (\<lambda>_. Inr [\<lparr>rt_Meta = owned_meta ''reg-quay'', rt_Host = ''h'', rt_TLS = None,
       rt_PortTarget = None, rt_Ingress = [\<lparr>ing_RouterName = ''r'', ing_RouterCanonicalHostname = ''c'',
         ing_Conditions = [\<lparr>ric_Type = ''Admitted'', ric_Status = CoreTrue\<rparr>]\<rparr>]\<rparr>]),
     ListObjectBucketClaims := (\<lambda>_. Inr [\<lparr>obc_Meta = owned_meta ''reg-datastore'', obc_Phase = ''Bound''\<rparr>])\<rparr>"

lemma full_evaluate:
  "case Evaluate (\<lambda>s. s) full_reader managed_registry (\<lambda>_. 7) of
     Inr conds \<Rightarrow> length conds = 11 \<and> list_all (\<lambda>c. c_Status c = ConditionTrue) conds
   | Inl _ \<Rightarrow> False"
  by code_simp

end
