(* ===== verification/Registry_Properties.thy ===== *)
theory Registry_Properties
  imports Conditions Overrides Ownership Demo_Cluster
begin

text \<open>
  What the operations on a registry promise: defaulting and validating a spec, comparing component
  lists, keeping conditions, owning objects, computing the endpoint.
\<close>

section \<open>Defaulting a spec\<close>

text \<open>C16: Defaulting a spec fails exactly when some component that is managed needs an API the
  cluster lacks; the error names the first such component in the order of AllComponents.\<close>

theorem EnsureDefaultComponents_fails_iff:
  "EnsureDefaultComponents ctx q = Inl e \<longleftrightarrow>
     (\<exists>pre k post. AllComponents = pre @ k # post \<and> unsupported ctx (qr_Components q) k \<and>
        \<not> list_ex (unsupported ctx (qr_Components q)) pre \<and> e = unsupported_error ctx k)"
proof -
  have "EnsureDefaultComponents ctx q = Inl e \<longleftrightarrow>
      (\<exists>k. find (unsupported ctx (qr_Components q)) AllComponents = Some k \<and> e = unsupported_error ctx k)"
    by (auto simp: EnsureDefaultComponents_closed_form split: option.split)
  then show ?thesis by (auto simp: find_first_split)
qed

text \<open>C15: A successful defaulting declares every component, forces Quay to managed, keeps the first
  declaration of every other kind exactly as the user wrote it, manages a component only where the
  cluster offers what it needs, and touches nothing but the components.\<close>

theorem EnsureDefaultComponents_result:
  assumes "EnsureDefaultComponents ctx q = Inr q'"
  shows "set AllComponents \<subseteq> cmp_Kind ` set (qr_Components q') \<and>
    ComponentIsManaged (qr_Components q') ComponentQuay \<and>
    (\<forall>k \<in> cmp_Kind ` set (qr_Components q) - {ComponentQuay}.
       find (\<lambda>c. cmp_Kind c = k) (qr_Components q') = find (\<lambda>c. cmp_Kind c = k) (qr_Components q)) \<and>
    (\<forall>k \<in> set AllComponents. ComponentIsManaged (qr_Components q') k \<longrightarrow>
       (case component_check ctx k of None \<Rightarrow> True | Some (ok, _) \<Rightarrow> ok)) \<and>
    q' = set_components (qr_Components q') q"
proof -
  have q': "q' = set_components (defaulted ctx AllComponents (qr_Components q)) q"
    and sup: "\<forall>k \<in> set AllComponents. \<not> unsupported ctx (qr_Components q) k"
    using assms by (simp_all add: EnsureDefaultComponents_Inr)
  have "\<forall>k \<in> set AllComponents. \<not> unsupported ctx (qr_Components q') k"
    using sup by (simp add: q' unsupported_after_defaulting)
  then have "\<forall>k \<in> set AllComponents. ComponentIsManaged (qr_Components q') k \<longrightarrow>
       (case component_check ctx k of None \<Rightarrow> True | Some (ok, _) \<Rightarrow> ok)"
    by (auto simp: unsupported_def split: option.splits)
  then show ?thesis
    by (auto simp: q' kinds_defaulted find_defaulted)
qed

definition openshift :: QuayRegistryContext where
  "openshift = NewQuayRegistryContext\<lparr>SupportsRoutes := True, SupportsObjectStorage := True,
     SupportsMonitoring := True\<rparr>"

lemma openshift_supports: "\<exists>q'. EnsureDefaultComponents openshift q = Inr q'"
  by (simp add: EnsureDefaultComponents_Inr AllComponents_def unsupported_def openshift_def
      NewQuayRegistryContext_def)

theorem EnsureDefaultComponents_result_witness:
  "\<exists>q'. EnsureDefaultComponents openshift (demo_registry [demo_component ComponentRedis False]) = Inr q' \<and>
     set AllComponents \<subseteq> cmp_Kind ` set (qr_Components q')"
proof -
  obtain q' where q': "EnsureDefaultComponents openshift
      (demo_registry [demo_component ComponentRedis False]) = Inr q'"
    using openshift_supports by blast
  with EnsureDefaultComponents_result [OF q'] show ?thesis by blast
qed

text \<open>Defaulting is idempotent: a defaulted spec is a fixpoint, so a reconcile that finds it
  stored has nothing to update.\<close>

theorem EnsureDefaultComponents_idempotent:
  assumes "EnsureDefaultComponents ctx q = Inr q'"
  shows "EnsureDefaultComponents ctx q' = Inr q'"
proof -
  have "ComponentQuay \<in> set AllComponents" by (simp add: AllComponents_def)
  with assms show ?thesis
    by (auto simp: EnsureDefaultComponents_Inr unsupported_after_defaulting defaulted_defaulted)
qed

theorem EnsureDefaultComponents_idempotent_witness:
  "\<exists>q'. EnsureDefaultComponents openshift (demo_registry []) = Inr q' \<and>
     EnsureDefaultComponents openshift q' = Inr q'"
proof -
  obtain q' where q': "EnsureDefaultComponents openshift (demo_registry []) = Inr q'"
    using openshift_supports by blast
  with EnsureDefaultComponents_idempotent [OF q'] show ?thesis by blast
qed

text \<open>Defaulting never changes what any override accessor answers: environment, resources, labels
  and annotations are those the user declared.\<close>

theorem EnsureDefaultComponents_keeps_overrides:
  assumes "EnsureDefaultComponents ctx q = Inr q'"
  shows "GetEnvOverrideForComponent q' k = GetEnvOverrideForComponent q k \<and>
    GetResourceOverridesForComponent q' k = GetResourceOverridesForComponent q k \<and>
    GetAffinityForComponent q' k = GetAffinityForComponent q k \<and>
    GetSecurityContextOverrideForComponent q' k = GetSecurityContextOverrideForComponent q k \<and>
    GetLabelsOverrideForComponent q' k = GetLabelsOverrideForComponent q k \<and>
    GetAnnotationsOverrideForComponent q' k = GetAnnotationsOverrideForComponent q k"
  using assms by (simp add: EnsureDefaultComponents_Inr env_of.getter_defaulted
      resources_of.getter_defaulted affinity_of.getter_defaulted secctx_of.getter_defaulted
      labels_of.getter_defaulted annotations_of.getter_defaulted)

theorem EnsureDefaultComponents_keeps_overrides_witness:
  "\<exists>q'. EnsureDefaultComponents openshift (demo_registry []) = Inr q' \<and>
     GetEnvOverrideForComponent q' ComponentRedis = []"
proof -
  obtain q' where q': "EnsureDefaultComponents openshift (demo_registry []) = Inr q'"
    using openshift_supports by blast
  have "GetEnvOverrideForComponent (demo_registry []) ComponentRedis = []"
    by (simp add: GetEnvOverrideForComponent_def demo_registry_def)
  with EnsureDefaultComponents_keeps_overrides [OF q', of ComponentRedis] q' show ?thesis by metis
qed

section \<open>Validating overrides\<close>

text \<open>What a valid component may override, as a table of the declared support lists.\<close>

definition overrides_allowed :: "Component list \<Rightarrow> ComponentKind \<Rightarrow> Override \<Rightarrow> bool" where
  "overrides_allowed comps k ov \<longleftrightarrow>
     (hasOverride ov \<longrightarrow> ComponentIsManaged comps k) \<and>
     (ov_Replicas ov \<in> {None, Some 0} \<or> \<not> ComponentIsManaged comps ComponentHPA) \<and>
     (ov_Affinity ov \<noteq> None \<longrightarrow> k \<in> set supportsAffinityOverride) \<and>
     (ov_VolumeSize ov \<noteq> None \<longrightarrow> k \<in> set supportsVolumeOverride) \<and>
     (ov_StorageClassName ov \<noteq> None \<longrightarrow> k \<in> set supportsStorageClassOverride) \<and>
     (ov_Env ov \<noteq> [] \<longrightarrow> k \<in> set supportsEnvOverride) \<and>
     (ov_Replicas ov \<noteq> None \<longrightarrow> k \<in> set supportsReplicasOverride) \<and>
     (ov_Resources ov \<noteq> None \<longrightarrow> k \<in> set supportsResourceOverrides) \<and>
     (ov_SecurityContext ov \<noteq> None \<longrightarrow> k \<in> set supportsSecurityContextOverride)"

lemma supports_override:
  "ComponentSupportsOverride k ''affinity'' \<longleftrightarrow> k \<in> set supportsAffinityOverride"
  "ComponentSupportsOverride k ''volumeSize'' \<longleftrightarrow> k \<in> set supportsVolumeOverride"
  "ComponentSupportsOverride k ''storageClassName'' \<longleftrightarrow> k \<in> set supportsStorageClassOverride"
  "ComponentSupportsOverride k ''env'' \<longleftrightarrow> k \<in> set supportsEnvOverride"
  "ComponentSupportsOverride k ''replicas'' \<longleftrightarrow> k \<in> set supportsReplicasOverride"
  "ComponentSupportsOverride k ''resources'' \<longleftrightarrow> k \<in> set supportsResourceOverrides"
  "ComponentSupportsOverride k ''securityContext'' \<longleftrightarrow> k \<in> set supportsSecurityContextOverride"
  by (auto simp: ComponentSupportsOverride_def override_table_def list_ex_iff)

lemma validate_component_None:
  "validate_component comps c = None \<longleftrightarrow>
     (\<forall>ov. cmp_Overrides c = Some ov \<longrightarrow> overrides_allowed comps (cmp_Kind c) ov)"
  by (cases "cmp_Overrides c")
    (auto simp: validate_component_def overrides_allowed_def Let_def supports_override hasAffinity_def)

lemma validate_loop_None:
  "validate_loop comps cs = None \<longleftrightarrow> (\<forall>c \<in> set cs. validate_component comps c = None)"
  by (induction cs) (auto split: option.split)

lemma ValidateOverrides_accepts:
  "ValidateOverrides q = None \<longleftrightarrow>
     (\<forall>c \<in> set (qr_Components q). \<forall>ov. cmp_Overrides c = Some ov \<longrightarrow>
        overrides_allowed (qr_Components q) (cmp_Kind c) ov)"
  by (simp add: ValidateOverrides_def validate_loop_None validate_component_None)




text \<open>Under a managed autoscaler a validated spec never fixes a replica count: the override the
  deployments are built from is absent, zero (scaled down by hand) or the default of two.\<close>

theorem managed_HPA_fixes_no_replicas:
  assumes "ValidateOverrides q = None" and "ComponentIsManaged (qr_Components q) ComponentHPA"
  shows "GetReplicasOverrideForComponent q k \<in> {None, Some 0, Some 2}"
proof (cases "find (\<lambda>c. cmp_Kind c = k) (qr_Components q)")
  case (Some c)
  then have "c \<in> set (qr_Components q)" using find_Some_set by fastforce
  then have "\<forall>ov. cmp_Overrides c = Some ov \<longrightarrow> ov_Replicas ov \<in> {None, Some 0}"
    using assms by (auto simp: ValidateOverrides_accepts overrides_allowed_def)
  then show ?thesis using Some by (auto simp: GetReplicasOverrideForComponent_def split: option.split)
qed (simp add: GetReplicasOverrideForComponent_def)

theorem managed_HPA_fixes_no_replicas_witness:
  "GetReplicasOverrideForComponent (demo_registry [demo_component ComponentHPA True,
      demo_component ComponentClair True]) ComponentClair \<in> {None, Some 0, Some 2}"
  by (rule managed_HPA_fixes_no_replicas)
    (simp_all add: ValidateOverrides_accepts demo_registry_def demo_component_def ComponentIsManaged_def)

section \<open>Comparing component lists\<close>

lemma distinct_subset_length: "distinct xs \<Longrightarrow> length xs = length ys \<Longrightarrow> set xs \<subseteq> set ys \<Longrightarrow> set xs = set ys"
  by (metis card_length card_subset_eq distinct_card List.finite_set card_mono le_antisym)

text \<open>On lists that declare each kind once, two component lists match exactly when they hold the
  same kinds with the same managed flags, in any order.\<close>

theorem ComponentsMatch_iff_same_set:
  assumes "distinct (map cmp_Kind first)"
  shows "ComponentsMatch first second \<longleftrightarrow> length first = length second \<and>
    (\<lambda>c. (cmp_Kind c, cmp_Managed c)) ` set first = (\<lambda>c. (cmp_Kind c, cmp_Managed c)) ` set second"
proof -
  let ?p = "\<lambda>c. (cmp_Kind c, cmp_Managed c)"
  have "distinct (map fst (map ?p first))" using assms by (simp add: o_def)
  then have dist: "distinct (map ?p first)" using distinct_map by blast
  have "ComponentsMatch first second \<longleftrightarrow> length first = length second \<and> ?p ` set first \<subseteq> ?p ` set second"
    by (fastforce simp: ComponentsMatch_def list_all_iff list_ex_iff)
  moreover have "?p ` set first = ?p ` set second"
    if "length first = length second" "?p ` set first \<subseteq> ?p ` set second"
    using distinct_subset_length [OF dist, of "map ?p second"] that by simp
  ultimately show ?thesis by blast
qed

theorem ComponentsMatch_iff_same_set_witness:
  "ComponentsMatch [demo_component ComponentQuay True, demo_component ComponentRedis False]
     [demo_component ComponentRedis False, demo_component ComponentQuay True]"
  by (subst ComponentsMatch_iff_same_set) (auto simp: demo_component_def)

text \<open>With a kind declared twice the comparison is not symmetric: a list matches another that the
  other does not match, so a changed spec may go unnoticed.\<close>

theorem ComponentsMatch_not_symmetric:
  "\<exists>first second. ComponentsMatch first second \<and> \<not> ComponentsMatch second first"
proof -
  have "ComponentsMatch [demo_component ComponentRedis True, demo_component ComponentRedis True]
      [demo_component ComponentRedis True, demo_component ComponentClair True] \<and>
    \<not> ComponentsMatch [demo_component ComponentRedis True, demo_component ComponentClair True]
      [demo_component ComponentRedis True, demo_component ComponentRedis True]"
    by (simp add: ComponentsMatch_def demo_component_def)
  then show ?thesis by blast
qed

section \<open>Conditions, ownership, endpoint\<close>

text \<open>The condition list behaves as a map from types to conditions: a condition set is the one
  read back, every other type is untouched, a removed type reads as absent, and no type ever appears
  twice.\<close>

theorem conditions_are_a_map:
  "GetCondition (SetCondition cs c) t = (if t = c_Type c then Some c else GetCondition cs t) \<and>
   GetCondition (RemoveCondition cs u) t = (if t = u then None else GetCondition cs t) \<and>
   SetCondition (SetCondition cs c) c = SetCondition cs c \<and>
   (wf_conditions cs \<longrightarrow> wf_conditions (SetCondition cs c) \<and> wf_conditions (RemoveCondition cs u))"
  by (simp add: cond_store.put_put_same wf_RemoveCondition wf_SetCondition)

theorem conditions_are_a_map_witness:
  "GetCondition (SetCondition demo_conditions zero_condition) ComponentQuayReady
     = GetCondition demo_conditions ComponentQuayReady \<and>
   wf_conditions (SetCondition demo_conditions zero_condition)"
proof -
  have "wf_conditions demo_conditions" by (simp add: wf_conditions_def demo_conditions_def)
  with conditions_are_a_map [of demo_conditions zero_condition ComponentQuayReady ComponentQuayReady]
  show ?thesis by (simp add: zero_condition_def)
qed

text \<open>Ensuring the owner reference makes the object owned, once is enough, an object that is owned
  already is left alone, and the references of other owners stay; removing the reference ends
  ownership.\<close>

theorem owner_reference_laws:
  "Owns q (EnsureOwnerReference q x) \<and>
   EnsureOwnerReference q (EnsureOwnerReference q x) = EnsureOwnerReference q x \<and>
   (EnsureOwnerReference q x = x \<longleftrightarrow> Owns q x) \<and>
   set (om_OwnerReferences x) \<subseteq> set (om_OwnerReferences (EnsureOwnerReference q x)) \<and>
   \<not> Owns q (RemoveOwnerReference q x)"
  using quay_owner.owns_adopt quay_owner.adopt_idem quay_owner.adopt_fixpoint_iff
    quay_owner.owns_disown
  by (auto simp: EnsureOwnerReference_eq)

text \<open>Removing the owner reference removes every reference that carries the registry's name, those
  of other kinds and of other objects included.\<close>

theorem RemoveOwnerReference_by_name:
  "set (om_OwnerReferences (RemoveOwnerReference q x)) =
     {r \<in> set (om_OwnerReferences x). or_Name r \<noteq> qr_Name q}"
  by (auto simp: RemoveOwnerReference_def)

text \<open>The registry endpoint is settled after one step: it reports no change exactly when the
  status already held the endpoint, and asked again about its own result it reports no change.\<close>

theorem EnsureRegistryEndpoint_settles:
  assumes "EnsureRegistryEndpoint qctx quay config = Inr (same, quay')"
  shows "(same \<longleftrightarrow> quay' = quay) \<and> EnsureRegistryEndpoint qctx quay' config = Inr (True, quay')"
proof -
  have set_same: "set_endpoint (st_RegistryEndpoint (qr_Status q)) q = q" for q
    by (simp add: set_endpoint_def)
  have set_eq: "set_endpoint e q = q \<longleftrightarrow> st_RegistryEndpoint (qr_Status q) = e" for e q
    using set_same [of q] by (auto simp: set_endpoint_def) (metis QuayRegistry.select_convs(3)
        QuayRegistry.surjective QuayRegistry.update_convs(3) QuayRegistryStatus.select_convs(2)
        QuayRegistryStatus.surjective QuayRegistryStatus.update_convs(2))
  show ?thesis
    using assms set_same
    by (auto simp: EnsureRegistryEndpoint_def Let_def and_then_Inr_iff set_eq set_endpoint_def
        split: option.splits if_splits)
qed

theorem EnsureRegistryEndpoint_settles_witness:
  "EnsureRegistryEndpoint openshift (set_endpoint ''https://quay.example'' (demo_registry []))
     (Some [''SERVER_HOSTNAME'' \<mapsto> YStr ''quay.example''])
   = Inr (True, set_endpoint ''https://quay.example'' (demo_registry []))"
proof -
  have "EnsureRegistryEndpoint openshift (demo_registry []) (Some [''SERVER_HOSTNAME'' \<mapsto> YStr ''quay.example''])
      = Inr (False, set_endpoint ''https://quay.example'' (demo_registry []))"
    by (simp add: EnsureRegistryEndpoint_def demo_registry_def set_endpoint_def gmake_def)
  from EnsureRegistryEndpoint_settles [OF this] show ?thesis by simp
qed

text \<open>The field groups of a registry are those of its managed components in order, without the
  components that configure nothing; the first managed component of an unknown kind is the error.\<close>

theorem FieldGroupNames_spec:
  "FieldGroupNamesForManagedComponents quay =
     (case find (\<lambda>c. cmp_Managed c \<and> \<not> known_kind (cmp_Kind c)) (qr_Components quay) of
        Some c \<Rightarrow> Inl (plain_error (''unknown component: '' @ Quote (kind_name (cmp_Kind c))))
      | None \<Rightarrow> Inr (filter (\<lambda>n. n \<noteq> '''') (map (\<lambda>c. projr (FieldGroupNameFor (cmp_Kind c)))
                  (filter cmp_Managed (qr_Components quay)))))"
  by (simp add: FieldGroupNamesForManagedComponents_def field_group_names_closed_form split: option.split)

end
