(* ===== verification/Status_Controller.thy ===== *)
theory Status_Controller
  imports Cmp_Evaluate
begin

text \<open>
  \<open>controllers/quay/quayregistry_status_controller.go\<close>: the reconciler that evaluates the components
  every minute and overwrites the conditions of the registry status.
\<close>

section \<open>overwriteConditions\<close>

text \<open>The transition time a condition gets: that of the stored condition of the same type while the
  status does not change, else the time of this update.\<close>

definition stamp :: "Condition list \<Rightarrow> Condition \<Rightarrow> Condition" where
  "stamp existing cond =
     (case GetCondition existing (c_Type cond) of
        Some cur \<Rightarrow> if c_Status cur = c_Status cond
                    then cond\<lparr>c_LastTransitionTime := c_LastTransitionTime cur\<rparr>
                    else cond\<lparr>c_LastTransitionTime := c_LastUpdateTime cond\<rparr>
      | None \<Rightarrow> cond\<lparr>c_LastTransitionTime := c_LastUpdateTime cond\<rparr>)"

fun overwrite_loop :: "Condition list \<Rightarrow> Condition list \<Rightarrow> bool \<Rightarrow> Condition list \<times> bool" where
  "overwrite_loop [] existing faultySeen = (existing, faultySeen)"
| "overwrite_loop (cond # conds) existing faultySeen =
     overwrite_loop conds (SetCondition existing (stamp existing cond))
       (faultySeen \<or> c_Reason cond = ReasonComponentNotReady)"

definition available_condition :: "Condition list \<Rightarrow> bool \<Rightarrow> Time \<Rightarrow> Time \<Rightarrow> Condition" where
  "available_condition existing faultySeen transition_now update_now =
     (let status = (if faultySeen then ConditionFalse else ConditionTrue);
          message = (if faultySeen then ''Some components are not ready''
                     else ''All components reporting as healthy'');
          reason = (if faultySeen then ReasonComponentNotReady else ReasonHealthChecksPassing);
          transition = (case GetCondition existing ConditionTypeAvailable of
             Some cur \<Rightarrow> if c_Status cur = status then c_LastTransitionTime cur else transition_now
           | None \<Rightarrow> transition_now)
      in \<lparr>c_Type = ConditionTypeAvailable, c_Status = status, c_Reason = reason, c_Message = message,
          c_LastUpdateTime = update_now, c_LastTransitionTime = transition\<rparr>)"

definition overwriteConditions ::
  "Condition list \<Rightarrow> QuayRegistry \<Rightarrow> Time \<Rightarrow> Time \<Rightarrow> QuayRegistry" where
  "overwriteConditions conds reg transition_now update_now =
     (let (existing, faultySeen) = overwrite_loop conds (qr_Conditions reg) False;
          cond = available_condition existing faultySeen transition_now update_now
      in RemoveUnusedConditions (set_conditions (SetCondition existing cond) reg))"

section \<open>Reconcile\<close>

text \<open>What one call does: when it runs again (in seconds), the message it logs, the registry it
  submitted to the status update, if it got that far. The error it returns is always nil. \<open>get\<close> and
  \<open>update\<close> are the answers of the client.\<close>

record StatusReconcile =
  sr_RequeueAfter :: "int option"
  sr_Log :: string
  sr_Submitted :: "QuayRegistry option"

definition StatusReconcile_Reconcile ::
  "(string \<Rightarrow> string) \<Rightarrow> Reader \<Rightarrow> (string \<Rightarrow> Time) \<Rightarrow> Time \<Rightarrow> Time \<Rightarrow> QuayRegistry result
     \<Rightarrow> (QuayRegistry \<Rightarrow> go_error option) \<Rightarrow> StatusReconcile" where
  "StatusReconcile_Reconcile title cli clock transition_now update_now get update =
     (case get of
        Inl err \<Rightarrow>
          if IsNotFound err
          then \<lparr>sr_RequeueAfter = None, sr_Log = '''', sr_Submitted = None\<rparr>
          else \<lparr>sr_RequeueAfter = Some 60, sr_Log = ''error getting QuayRegistry object'',
                sr_Submitted = None\<rparr>
      | Inr reg \<Rightarrow>
          (case Evaluate title cli reg clock of
             Inl err \<Rightarrow> \<lparr>sr_RequeueAfter = Some 60,
               sr_Log = ''error retrieving QuayRegistry component conditions'', sr_Submitted = None\<rparr>
           | Inr conds \<Rightarrow>
               let reg' = overwriteConditions conds reg transition_now update_now in
               (case update reg' of
                  Some err \<Rightarrow>
                    if IsConflict err
                    then \<lparr>sr_RequeueAfter = Some 60,
                          sr_Log = ''skipping status reconcile due to conflict, will retry'',
                          sr_Submitted = Some reg'\<rparr>
                    else \<lparr>sr_RequeueAfter = Some 60,
                          sr_Log = ''unexpected error updating component conditions'',
                          sr_Submitted = Some reg'\<rparr>
                | None \<Rightarrow> \<lparr>sr_RequeueAfter = Some 60,
                    sr_Log = ''quay components conditions reconciled'', sr_Submitted = Some reg'\<rparr>)))"

section \<open>Lemmas\<close>

lemma stamp_simps [simp]:
  "c_Type (stamp ex cond) = c_Type cond" "c_Status (stamp ex cond) = c_Status cond"
  "c_Reason (stamp ex cond) = c_Reason cond" "c_Message (stamp ex cond) = c_Message cond"
  "c_LastUpdateTime (stamp ex cond) = c_LastUpdateTime cond"
  by (simp_all add: stamp_def split: option.split)

lemma stamp_SetCondition_other:
  "c_Type new \<noteq> c_Type cond \<Longrightarrow> stamp (SetCondition ex new) cond = stamp ex cond"
  by (simp add: stamp_def)

lemma overwrite_loop_faulty:
  "snd (overwrite_loop conds ex f) \<longleftrightarrow> f \<or> (\<exists>c \<in> set conds. c_Reason c = ReasonComponentNotReady)"
  by (induction conds arbitrary: ex f) auto

lemma overwrite_loop_stored:
  "distinct (map c_Type conds) \<Longrightarrow>
     fst (overwrite_loop conds ex f) = foldl SetCondition ex (map (stamp ex) conds)"
proof (induction conds arbitrary: ex f)
  case Nil
  then show ?case by simp
next
  case (Cons c cs)
  have "map (stamp (SetCondition ex (stamp ex c))) cs = map (stamp ex) cs"
    using Cons.prems by (intro map_cong refl stamp_SetCondition_other) auto
  with Cons show ?case by (simp del: map_eq_conv)
qed

lemma wf_overwrite_loop: "wf_conditions ex \<Longrightarrow> wf_conditions (fst (overwrite_loop conds ex f))"
  by (induction conds arbitrary: ex f) (auto intro: wf_SetCondition)

lemma available_condition_type [simp]: "c_Type (available_condition ex f t u) = ConditionTypeAvailable"
  by (simp add: available_condition_def Let_def)

lemma available_condition_status [simp]:
  "c_Status (available_condition ex f t u) = (if f then ConditionFalse else ConditionTrue)"
  by (simp add: available_condition_def Let_def)

lemma overwriteConditions_get:
  "GetCondition (qr_Conditions (overwriteConditions conds reg t u)) ty =
     (if \<not> List.member validConditionTypes ty then None
      else if ty = ConditionTypeAvailable
      then Some (available_condition (fst (overwrite_loop conds (qr_Conditions reg) False))
             (\<exists>c \<in> set conds. c_Reason c = ReasonComponentNotReady) t u)
      else GetCondition (fst (overwrite_loop conds (qr_Conditions reg) False)) ty)"
proof -
  have snd: "snd (overwrite_loop conds (qr_Conditions reg) False) =
      (\<exists>c \<in> set conds. c_Reason c = ReasonComponentNotReady)"
    using overwrite_loop_faulty [of conds "qr_Conditions reg" False] by simp
  show ?thesis
    unfolding overwriteConditions_def case_prod_beta Let_def GetCondition_RemoveUnusedConditions
    by (simp only: set_conditions_simps GetCondition_SetCondition available_condition_type snd
        if_not_P) simp
qed

lemma GetCondition_overwrite_loop:
  assumes "distinct (map c_Type conds)"
  shows "GetCondition (fst (overwrite_loop conds ex f)) ty =
    (case find (\<lambda>c. c_Type c = ty) conds of
       None \<Rightarrow> GetCondition ex ty | Some c \<Rightarrow> Some (stamp ex c))"
proof -
  have dist: "distinct (map c_Type (map (stamp ex) conds))"
    using assms by (simp add: o_def)
  show ?thesis
    unfolding overwrite_loop_stored [OF assms] GetCondition_def cond_store.find_foldl
      find_rev_distinct [OF dist] find_map_key [where f = c_Type and g = "stamp ex", OF stamp_simps(1)]
    by (simp split: option.split)
qed

end
