(* ===== verification/Status_Properties.thy ===== *)
theory Status_Properties
  imports Status_Controller Demo_Cluster
begin

text \<open>
  What the status side of the operator promises: the order of the evaluation, the meaning of the
  \<open>Available\<close> condition, the bookkeeping of transition times, and the exact conditions under which
  each component is reported ready. Each witness evaluates its property on the clusters of
  \<open>Demo_Cluster\<close>.
\<close>

section \<open>The evaluation as a whole\<close>



text \<open>C14: An evaluation reports Quay ready only if all six of its dependencies (databases, object
  storage, Clair, TLS, Redis) are ready, and the mirror ready only if Quay is: the result is three
  independent conditions, the six dependencies in a fixed order, Quay, and the mirror.\<close>

theorem evaluation_respects_dependencies:
  assumes "Evaluate title cli reg clock = Inr conds"
  shows "\<exists>ind deps qc mc. conds = ind @ deps @ [qc, mc] \<and> length ind = 3 \<and>
    map c_Type (deps @ [qc, mc]) = [ComponentPostgresReady, ComponentObjectStorageReady,
      ComponentClairReady, ComponentClairPostgresReady, ComponentTLSReady, ComponentRedisReady,
      ComponentQuayReady, ComponentMirrorReady] \<and>
    (c_Status qc = ConditionTrue \<longrightarrow> (\<forall>d \<in> set deps. c_Status d = ConditionTrue)) \<and>
    (c_Status mc = ConditionTrue \<longrightarrow> c_Status qc = ConditionTrue)"
proof -
  obtain ind deps qc mc where
    ind: "outcomes cli reg clock independent_checkers ind" and
    deps: "outcomes cli reg clock (dependency_checkers title) deps" and
    qm: "quay_and_mirror title cli reg clock deps qc mc" and conds: "conds = ind @ deps @ [qc, mc]"
    using assms by (auto simp: Evaluate_shape)
  have "length ind = 3" using ind by (auto simp: independent_outcomes)
  with conds dependency_types [OF deps] quay_and_mirror_types(1,2) [OF qm] qm show ?thesis
    by (intro exI [of _ ind] exI [of _ deps] exI [of _ qc] exI [of _ mc])
      (auto simp: quay_and_mirror_def awaiting_dependencies_def awaiting_quay_def split: if_splits)
qed

theorem evaluation_respects_dependencies_witness:
  "\<exists>ind deps qc mc. demo_conditions = ind @ deps @ [qc, mc] \<and> length ind = 3 \<and>
    map c_Type (deps @ [qc, mc]) = [ComponentPostgresReady, ComponentObjectStorageReady,
      ComponentClairReady, ComponentClairPostgresReady, ComponentTLSReady, ComponentRedisReady,
      ComponentQuayReady, ComponentMirrorReady] \<and>
    (c_Status qc = ConditionTrue \<longrightarrow> (\<forall>d \<in> set deps. c_Status d = ConditionTrue)) \<and>
    (c_Status mc = ConditionTrue \<longrightarrow> c_Status qc = ConditionTrue)"
  by (rule evaluation_respects_dependencies [OF demo_evaluate])

text \<open>When some dependency is faulty, Quay and the mirror are not examined: Quay's condition says
  it awaits exactly the faulty dependencies, by name and in order, and the mirror awaits Quay.\<close>

theorem awaiting_names_the_faulty_dependencies:
  assumes "Evaluate title cli reg clock = Inr conds"
    and "d \<in> set (take 6 (drop 3 conds))" and "c_Status d \<noteq> ConditionTrue"
  shows "drop 9 conds =
    [mk_condition ComponentQuayReady ConditionFalse ReasonComponentNotReady
       (''Awaiting for component '' @
        Join (map fst (filter (\<lambda>(n, d). c_Status d \<noteq> ConditionTrue)
          (zip [''postgres'', ''objectstorage'', ''clair'', ''clairpostgres'', ''tls'', ''redis'']
             (take 6 (drop 3 conds))))) '','' @ '' to become available'') (clock ''quay''),
     mk_condition ComponentMirrorReady ConditionFalse ReasonComponentNotReady
       ''Awaiting for component quay to become available'' (clock ''mirror'')]"
proof -
  obtain ind deps qc mc where
    ind: "outcomes cli reg clock independent_checkers ind" and
    deps: "outcomes cli reg clock (dependency_checkers title) deps" and
    qm: "quay_and_mirror title cli reg clock deps qc mc" and conds: "conds = ind @ deps @ [qc, mc]"
    using assms(1) by (auto simp: Evaluate_shape)
  have len: "length ind = 3" "length deps = 6"
    using ind deps by (auto simp: independent_outcomes dependency_outcomes)
  then have parts: "take 6 (drop 3 conds) = deps" "drop 9 conds = [qc, mc]"
    by (simp_all add: conds)
  have "\<exists>d \<in> set deps. c_Status d \<noteq> ConditionTrue" using assms(2,3) parts by auto
  with qm show ?thesis
    unfolding parts
    by (simp add: quay_and_mirror_def awaiting_dependencies_def awaiting_quay_def failed_names_def
        dependency_checkers_def)
qed

theorem awaiting_names_the_faulty_dependencies_witness:
  "drop 9 redis_down_conditions =
    [mk_condition ComponentQuayReady ConditionFalse ReasonComponentNotReady
       (''Awaiting for component '' @
        Join (map fst (filter (\<lambda>(n, d). c_Status d \<noteq> ConditionTrue)
          (zip [''postgres'', ''objectstorage'', ''clair'', ''clairpostgres'', ''tls'', ''redis'']
             (take 6 (drop 3 redis_down_conditions))))) '','' @ '' to become available'') 7,
     mk_condition ComponentMirrorReady ConditionFalse ReasonComponentNotReady
       ''Awaiting for component quay to become available'' 7]"
  by (rule awaiting_names_the_faulty_dependencies [OF redis_down_evaluate,
      where d = "mk_condition ComponentRedisReady ConditionFalse ReasonComponentNotReady
        ''Redis deployment not found'' 7"])
    (simp_all add: redis_down_conditions_def demo_conditions_def)

section \<open>The stored conditions\<close>

text \<open>Every evaluated condition is stored under its type with the evaluated status, reason,
  message and update time, and its transition time is that of the previously stored condition when
  the status did not change, else the time of the update.\<close>

theorem evaluated_condition_stored:
  assumes "distinct (map c_Type conds)" and "cond \<in> set conds"
    and "c_Type cond \<in> set validConditionTypes - {ConditionTypeAvailable}"
  shows "GetCondition (qr_Conditions (overwriteConditions conds reg t u)) (c_Type cond) =
    Some (cond\<lparr>c_LastTransitionTime :=
      (case GetCondition (qr_Conditions reg) (c_Type cond) of
         Some cur \<Rightarrow> if c_Status cur = c_Status cond then c_LastTransitionTime cur
                     else c_LastUpdateTime cond
       | None \<Rightarrow> c_LastUpdateTime cond)\<rparr>)"
proof -
  have "find (\<lambda>c. c_Type c = c_Type cond) conds = Some cond"
    using assms(1,2) by (induction conds) auto
  with assms(1,3) show ?thesis
    by (auto simp: overwriteConditions_get GetCondition_overwrite_loop stamp_def
        split: option.split)
qed

theorem evaluated_condition_stored_witness:
  "\<exists>cond \<in> set demo_conditions. GetCondition (qr_Conditions (overwriteConditions demo_conditions
       (demo_registry []) 8 9)) ComponentQuayReady = Some (cond\<lparr>c_LastTransitionTime := 7\<rparr>)"
proof -
  let ?cond = "mk_condition ComponentQuayReady ConditionTrue ReasonComponentReady ''Quay component healthy'' 7"
  have pre: "distinct (map c_Type demo_conditions)" "?cond \<in> set demo_conditions"
    by (simp_all add: demo_conditions_def)
  have "GetCondition (qr_Conditions (overwriteConditions demo_conditions (demo_registry []) 8 9))
      (c_Type ?cond) = Some (?cond\<lparr>c_LastTransitionTime :=
        (case GetCondition (qr_Conditions (demo_registry [])) (c_Type ?cond) of
         Some cur \<Rightarrow> if c_Status cur = c_Status ?cond then c_LastTransitionTime cur
                     else c_LastUpdateTime ?cond
       | None \<Rightarrow> c_LastUpdateTime ?cond)\<rparr>)"
    by (rule evaluated_condition_stored [OF pre]) (simp add: validConditionTypes_def)
  then show ?thesis using pre(2)
    by (intro bexI [of _ ?cond]) (simp_all add: demo_registry_def)
qed

text \<open>Overwriting the conditions keeps one condition per type and only types the API still
  knows, and changes nothing else of the registry.\<close>

theorem overwriteConditions_well_formed:
  assumes "wf_conditions (qr_Conditions reg)"
  shows "wf_conditions (qr_Conditions (overwriteConditions conds reg t u)) \<and>
    c_Type ` set (qr_Conditions (overwriteConditions conds reg t u)) \<subseteq> set validConditionTypes \<and>
    overwriteConditions conds reg t u =
      set_conditions (qr_Conditions (overwriteConditions conds reg t u)) reg"
proof -
  obtain ex f where loop: "overwrite_loop conds (qr_Conditions reg) False = (ex, f)"
    by (cases "overwrite_loop conds (qr_Conditions reg) False")
  have wf: "wf_conditions ex"
    using wf_overwrite_loop [OF assms, of conds False] loop by simp
  let ?r = "set_conditions (SetCondition ex (available_condition ex f t u)) reg"
  have res: "overwriteConditions conds reg t u = RemoveUnusedConditions ?r"
    by (simp add: overwriteConditions_def loop Let_def)
  have "wf_conditions (qr_Conditions (RemoveUnusedConditions ?r))"
    by (rule wf_RemoveUnusedConditions) (simp add: wf_SetCondition wf)
  then show ?thesis
    unfolding res by (auto simp: RemoveUnusedConditions_def)
qed

theorem overwriteConditions_well_formed_witness:
  "wf_conditions (qr_Conditions (demo_registry [])) \<and>
   wf_conditions (qr_Conditions (overwriteConditions demo_conditions (demo_registry []) 8 9))"
proof -
  have "wf_conditions (qr_Conditions (demo_registry []))"
    by (simp add: wf_conditions_def demo_registry_def)
  with overwriteConditions_well_formed [OF this, of demo_conditions 8 9] show ?thesis by blast
qed

text \<open>One reconcile of the status asks to be run again in sixty seconds in every case except
  that the registry is gone, and it submits a status exactly when the registry was read and its
  components evaluated, and then the overwritten conditions.\<close>

theorem status_reconcile_outcome:
  "sr_RequeueAfter (StatusReconcile_Reconcile title cli clock t u get update) =
     (if \<exists>err. get = Inl err \<and> IsNotFound err then None else Some 60) \<and>
   (sr_Submitted (StatusReconcile_Reconcile title cli clock t u get update) = Some reg' \<longleftrightarrow>
     (\<exists>reg conds. get = Inr reg \<and> Evaluate title cli reg clock = Inr conds \<and>
        reg' = overwriteConditions conds reg t u))"
  by (auto simp: StatusReconcile_Reconcile_def Let_def split: sum.split option.split)

section \<open>When each component is ready\<close>

text \<open>Facts about the demonstration clusters that several witnesses use.\<close>

lemma managed_registry_owns [simp]: "Owns managed_registry (owned_meta n)"
  by (auto simp: owned_meta_def managed_registry_def Owns_iff EnsureOwnerReference_eq
      owner_reference_of_def demo_registry_def)

lemma managed_registry_manages: "known_kind k \<Longrightarrow> ComponentIsManaged (qr_Components managed_registry) k"
  by (cases k) (simp_all add: known_kind_def ComponentIsManaged_def managed_registry_def
      demo_registry_def demo_component_def AllComponents_def)

lemma managed_registry_scale: "k \<in> set AllComponents \<Longrightarrow>
    GetReplicasOverrideForComponent managed_registry k = Some 2"
  by (auto simp: AllComponents_def GetReplicasOverrideForComponent_def managed_registry_def
      demo_registry_def demo_component_def)

lemma full_reader_deployments [simp]: "GetDeployment full_reader n = Inr (healthy_deployment (nn_Name n))"
  by (simp add: full_reader_def demo_reader_def)

lemma healthy_deployment_healthy [simp]:
  "deployment_healthy (healthy_deployment n)" "dep_Meta (healthy_deployment n) = owned_meta n"
  "first_claim (pt_Volumes (dep_Template (healthy_deployment n))) = ''''"
  by (simp_all add: deployment_healthy_def healthy_deployment_def demo_template_def)

definition reports_ready :: "Condition result \<Rightarrow> bool" where
  "reports_ready r \<longleftrightarrow> (\<exists>c. r = Inr c \<and> c_Status c = ConditionTrue)"

lemma reports_ready_simps [simp]:
  "reports_ready (Inl e) \<longleftrightarrow> False"
  "reports_ready (Inr c) \<longleftrightarrow> c_Status c = ConditionTrue"
  by (simp_all add: reports_ready_def)

text \<open>A deployment the registry owns.\<close>

definition owned_deployment :: "Reader \<Rightarrow> QuayRegistry \<Rightarrow> string \<Rightarrow> Deployment \<Rightarrow> bool" where
  "owned_deployment cli reg name dep \<longleftrightarrow>
     GetDeployment cli (nsn (qr_Namespace reg) name) = Inr dep \<and> Owns reg (dep_Meta dep)"

lemma hpa_loop_ready:
  "reports_ready (hpa_loop cli reg now ss) \<longleftrightarrow>
     (\<forall>s \<in> set ss. \<exists>h. GetHPA cli (nsn (qr_Namespace reg) (qr_Name reg @ ''-'' @ s)) = Inr h \<and> Owns reg h)"
  by (induction ss) (auto split: sum.split)

lemma route_loop_ready:
  "c_Status (route_loop reg now rts) = ConditionTrue \<longleftrightarrow>
     (\<exists>rt. find (\<lambda>rt. Owns reg (rt_Meta rt)) rts = Some rt \<and> rt_Ingress rt \<noteq> [] \<and>
        (\<forall>ing \<in> set (rt_Ingress rt). ric_Status (ingressAdmittedCondition (ing_Conditions ing)) = CoreTrue))"
  by (induction rts) (auto simp: list_ex_iff)

lemma obc_loop_ready:
  "c_Status (obc_loop reg now obcs) = ConditionTrue \<longleftrightarrow>
     (\<exists>obc. find (\<lambda>obc. Owns reg (obc_Meta obc)) obcs = Some obc \<and> obc_Phase obc = ''Bound'')"
  by (induction obcs) auto

lemma database_ready:
  "reports_ready (CheckDatabaseDeploymentAndPVCStatus title cli reg k suffix ty now) \<longleftrightarrow>
     (\<exists>dep. owned_deployment cli reg (qr_Name reg @ ''-'' @ suffix) dep \<and> deployment_healthy dep \<and>
        (first_claim (pt_Volumes (dep_Template dep)) = '''' \<or>
         (\<exists>pvc. GetPVC cli (nsn (qr_Namespace reg) (first_claim (pt_Volumes (dep_Template dep)))) = Inr pvc \<and>
            pvc_Phase pvc \<noteq> ''Pending'')))"
  by (auto simp: CheckDatabaseDeploymentAndPVCStatus_def owned_deployment_def Let_def
      deploy_check_status pending_claim_condition_def split: sum.split option.split)

text \<open>A managed horizontal pod autoscaler is ready exactly when the autoscalers of Quay, of Clair
  and of the mirror all exist and are owned by the registry - whether or not Clair and the mirror
  are managed themselves.\<close>

theorem HPA_ready_iff:
  "reports_ready (HPA_Check cli reg now) \<longleftrightarrow>
     \<not> ComponentIsManaged (qr_Components reg) ComponentHPA \<or>
     (\<forall>s \<in> {''quay-app'', ''clair-app'', ''quay-mirror''}.
        \<exists>h. GetHPA cli (nsn (qr_Namespace reg) (qr_Name reg @ ''-'' @ s)) = Inr h \<and> Owns reg h)"
  by (simp add: HPA_Check_def hpa_loop_ready del: hpa_loop.simps)

theorem HPA_ready_iff_witness:
  "reports_ready (HPA_Check full_reader managed_registry 7) \<and>
   \<not> reports_ready (HPA_Check demo_reader managed_registry 7)"
proof -
  have "GetHPA demo_reader n \<noteq> Inr h" and "GetHPA full_reader n = Inr (owned_meta (nn_Name n))" for n h
    by (simp_all add: demo_reader_def empty_reader_def not_found_def full_reader_def)
  then show ?thesis using managed_registry_manages [of ComponentHPA]
    by (auto simp: HPA_ready_iff known_kind_def)
qed

text \<open>A managed database (Quay's or Clair's) is ready exactly when its deployment exists, is owned
  by the registry and healthy, and the volume claim it mounts, if any, exists and is not pending.\<close>

theorem database_ready_iff:
  "(reports_ready (Postgres_Check title cli reg now) \<longleftrightarrow>
     \<not> ComponentIsManaged (qr_Components reg) ComponentPostgres \<or>
     (\<exists>dep. owned_deployment cli reg (qr_Name reg @ ''-quay-database'') dep \<and> deployment_healthy dep \<and>
        (first_claim (pt_Volumes (dep_Template dep)) = '''' \<or>
         (\<exists>pvc. GetPVC cli (nsn (qr_Namespace reg) (first_claim (pt_Volumes (dep_Template dep)))) = Inr pvc \<and>
            pvc_Phase pvc \<noteq> ''Pending'')))) \<and>
  (reports_ready (ClairPostgres_Check title cli reg now) \<longleftrightarrow>
     \<not> ComponentIsManaged (qr_Components reg) ComponentClairPostgres \<or>
     (\<exists>dep. owned_deployment cli reg (qr_Name reg @ ''-clair-postgres'') dep \<and> deployment_healthy dep \<and>
        (first_claim (pt_Volumes (dep_Template dep)) = '''' \<or>
         (\<exists>pvc. GetPVC cli (nsn (qr_Namespace reg) (first_claim (pt_Volumes (dep_Template dep)))) = Inr pvc \<and>
            pvc_Phase pvc \<noteq> ''Pending''))))"
  by (simp_all add: Postgres_Check_def ClairPostgres_Check_def database_ready)

theorem database_ready_iff_witness:
  "reports_ready (Postgres_Check (\<lambda>s. s) full_reader managed_registry 7) \<and>
   reports_ready (ClairPostgres_Check (\<lambda>s. s) full_reader managed_registry 7)"
  by (simp add: database_ready_iff owned_deployment_def)

text \<open>Quay is ready exactly when its upgrade job has succeeded and its deployment exists, is owned
  by the registry, and is healthy - or has no replica, when the user scaled it down to zero.\<close>

theorem Quay_ready_iff:
  "reports_ready (Quay_Check cli reg now) \<longleftrightarrow>
     (\<exists>job dep. GetJob cli (nsn (qr_Namespace reg) (qr_Name reg @ ''-quay-app-upgrade'')) = Inr job \<and>
        job_Succeeded job \<noteq> 0 \<and> owned_deployment cli reg (qr_Name reg @ ''-quay-app'') dep \<and>
        (if om_Name (dep_Meta dep) = qr_Name reg @ ''-quay-app'' \<and>
             GetReplicasOverrideForComponent reg ComponentQuay = Some 0
         then dep_AvailableReplicas dep = 0 else deployment_healthy dep))"
  by (auto simp: Quay_Check_def upgradeJob_def owned_deployment_def scaled_down_def Let_def
      deploy_check_status split: sum.split option.split)

text \<open>Managed Clair and mirror workers are ready exactly when their deployment exists, is owned by
  the registry, and is healthy - or has no replica, when the user scaled the component down to zero.\<close>

theorem workers_ready_iff:
  "(reports_ready (Clair_Check cli reg now) \<longleftrightarrow>
     \<not> ComponentIsManaged (qr_Components reg) ComponentClair \<or>
     (\<exists>dep. owned_deployment cli reg (qr_Name reg @ ''-clair-app'') dep \<and>
        (if GetReplicasOverrideForComponent reg ComponentClair = Some 0
         then dep_AvailableReplicas dep = 0 else deployment_healthy dep))) \<and>
  (reports_ready (Mirror_Check cli reg now) \<longleftrightarrow>
     \<not> ComponentIsManaged (qr_Components reg) ComponentMirror \<or>
     (\<exists>dep. owned_deployment cli reg (qr_Name reg @ ''-quay-mirror'') dep \<and>
        (if GetReplicasOverrideForComponent reg ComponentMirror = Some 0
         then dep_AvailableReplicas dep = 0 else deployment_healthy dep)))"
  by (auto simp: Clair_Check_def Mirror_Check_def owned_deployment_def scaled_down_def Let_def
      deploy_check_status split: sum.split)

theorem workers_ready_iff_witness:
  "reports_ready (Clair_Check full_reader managed_registry 7) \<and>
   reports_ready (Mirror_Check full_reader managed_registry 7)"
  by (simp add: workers_ready_iff owned_deployment_def managed_registry_scale AllComponents_def)

text \<open>The route is ready exactly when it is unmanaged or the first route of the namespace that the
  registry owns has an ingress and every ingress of it is admitted.\<close>

theorem Route_ready_iff:
  "reports_ready (Route_Check cli reg now) \<longleftrightarrow>
     \<not> ComponentIsManaged (qr_Components reg) ComponentRoute \<or>
     (\<exists>rts rt. ListRoutes cli (qr_Namespace reg) = Inr rts \<and>
        find (\<lambda>rt. Owns reg (rt_Meta rt)) rts = Some rt \<and> rt_Ingress rt \<noteq> [] \<and>
        (\<forall>ing \<in> set (rt_Ingress rt).
           ric_Status (ingressAdmittedCondition (ing_Conditions ing)) = CoreTrue))"
  by (cases "ListRoutes cli (qr_Namespace reg)") (auto simp: Route_Check_def route_loop_ready)

theorem Route_ready_iff_witness:
  "reports_ready (Route_Check full_reader managed_registry 7)"
  by (simp add: Route_ready_iff full_reader_def)

lemma TLS_Check_ready:
  "reports_ready (TLS_Check cli reg now) \<longleftrightarrow>
     spec_ConfigBundleSecret (qr_Spec reg) \<noteq> '''' \<and>
     (\<exists>s. GetSecret cli (nsn (qr_Namespace reg) (spec_ConfigBundleSecret (qr_Spec reg))) = Inr s \<and>
        (case GetTLSSecretRef (qr_Components reg) of
           Some ref \<Rightarrow> gget (sec_Data s) ''ssl.cert'' = None \<and> gget (sec_Data s) ''ssl.key'' = None \<and>
             (\<exists>pair. FetchAndValidate cli (qr_Namespace reg) ref = Inr pair)
         | None \<Rightarrow>
             if ComponentIsManaged (qr_Components reg) ComponentTLS
             then gget (sec_Data s) ''ssl.cert'' = None \<and> gget (sec_Data s) ''ssl.key'' = None
             else gget (sec_Data s) ''ssl.cert'' \<noteq> None \<and> gget (sec_Data s) ''ssl.key'' \<noteq> None))"
  by (auto simp: TLS_Check_def external_tls_condition_def Let_def split: sum.split option.split)

text \<open>TLS is ready exactly when the config bundle exists and matches how TLS is configured: with a
  secret reference the bundle has neither certificate nor key and the referenced secret is a valid
  key pair; managed TLS wants neither in the bundle; unmanaged TLS wants both.\<close>

theorem TLS_ready_iff:
  "reports_ready (TLS_Check cli reg now) \<longleftrightarrow>
     spec_ConfigBundleSecret (qr_Spec reg) \<noteq> '''' \<and>
     (\<exists>s. GetSecret cli (nsn (qr_Namespace reg) (spec_ConfigBundleSecret (qr_Spec reg))) = Inr s \<and>
        (case GetTLSSecretRef (qr_Components reg) of
           Some ref \<Rightarrow> gget (sec_Data s) ''ssl.cert'' = None \<and> gget (sec_Data s) ''ssl.key'' = None \<and>
             (\<exists>pair. FetchAndValidate cli (qr_Namespace reg) ref = Inr pair)
         | None \<Rightarrow>
             if ComponentIsManaged (qr_Components reg) ComponentTLS
             then gget (sec_Data s) ''ssl.cert'' = None \<and> gget (sec_Data s) ''ssl.key'' = None
             else gget (sec_Data s) ''ssl.cert'' \<noteq> None \<and> gget (sec_Data s) ''ssl.key'' \<noteq> None))"
  by (rule TLS_Check_ready)

text \<open>A referenced TLS secret is accepted exactly when it can be read, has type
  kubernetes.io/tls and holds a non-empty certificate and a non-empty key; the pair returned is its own.\<close>

theorem FetchAndValidate_iff:
  "FetchAndValidate cli ns n = Inr (crt, key, s) \<longleftrightarrow>
     GetSecret cli (nsn ns n) = Inr s \<and> sec_Type s = ''kubernetes.io/tls'' \<and>
     gget (sec_Data s) ''tls.crt'' = Some crt \<and> crt \<noteq> '''' \<and>
     gget (sec_Data s) ''tls.key'' = Some key \<and> key \<noteq> ''''"
  by (auto simp: FetchAndValidate_def gstr_def split: sum.split option.splits)

text \<open>An unexpected error while reading the ServiceMonitor of a managed monitoring component is
  not reported: the check returns the condition with every field zero, which is not true but does
  not count as a faulty component when the conditions are overwritten.\<close>

theorem Monitoring_swallows_error:
  assumes "ComponentIsManaged (qr_Components reg) ComponentMonitoring"
    and "GetUnstructured cli (monitoring_gvk ''PrometheusRule'')
      (nsn (qr_Namespace reg) (qr_Name reg @ ''-quay-prometheus-rules'')) = Inr rule" and "Owns reg rule"
    and "GetUnstructured cli (monitoring_gvk ''ServiceMonitor'')
      (nsn (qr_Namespace reg) (qr_Name reg @ ''-quay-metrics-monitor'')) = Inl err" and "\<not> IsNotFound err"
  shows "Monitoring_Check cli reg now = Inr zero_condition \<and> \<not> reports_ready (Inr zero_condition) \<and>
    \<not> snd (overwrite_loop [zero_condition] existing False)"
  using assms by (simp add: Monitoring_Check_def service_monitor_check_def zero_condition_def Let_def)

theorem Monitoring_swallows_error_witness:
  "Monitoring_Check (full_reader\<lparr>GetUnstructured := (\<lambda>g n. if gvk_Kind g = ''ServiceMonitor''
       then Inl (plain_error ''timeout'') else Inr (owned_meta (nn_Name n)))\<rparr>) managed_registry 7
     = Inr zero_condition"
  using managed_registry_manages [of ComponentMonitoring]
  by (intro Monitoring_swallows_error [THEN conjunct1]) (auto simp: monitoring_gvk_def known_kind_def)

end
