(* ===== verification/Kube_Store.thy ===== *)
theory Kube_Store
  imports Quay_Types
begin

text \<open>
  Kubernetes objects as the sum the operator handles through \<open>client.Object\<close>: the type switches of the
  source are case distinctions over it. An autoscaler is its metadata; an object of any other type is
  its group, version and kind and its metadata.
\<close>

datatype KObject =
    OSecret Secret | OConfigMap ConfigMap | ODeployment Deployment | OJob Job
  | OPVC PersistentVolumeClaim | OHPA ObjectMeta | ORoute Route | OOther GroupVersionKind ObjectMeta

fun obj_meta :: "KObject \<Rightarrow> ObjectMeta" where
  "obj_meta (OSecret s) = sec_Meta s"
| "obj_meta (OConfigMap c) = cm_Meta c"
| "obj_meta (ODeployment d) = dep_Meta d"
| "obj_meta (OJob j) = job_Meta j"
| "obj_meta (OPVC p) = pvc_Meta p"
| "obj_meta (OHPA m) = m"
| "obj_meta (ORoute r) = rt_Meta r"
| "obj_meta (OOther _ m) = m"

fun map_obj_meta :: "(ObjectMeta \<Rightarrow> ObjectMeta) \<Rightarrow> KObject \<Rightarrow> KObject" where
  "map_obj_meta f (OSecret s) = OSecret (s\<lparr>sec_Meta := f (sec_Meta s)\<rparr>)"
| "map_obj_meta f (OConfigMap c) = OConfigMap (c\<lparr>cm_Meta := f (cm_Meta c)\<rparr>)"
| "map_obj_meta f (ODeployment d) = ODeployment (d\<lparr>dep_Meta := f (dep_Meta d)\<rparr>)"
| "map_obj_meta f (OJob j) = OJob (j\<lparr>job_Meta := f (job_Meta j)\<rparr>)"
| "map_obj_meta f (OPVC p) = OPVC (p\<lparr>pvc_Meta := f (pvc_Meta p)\<rparr>)"
| "map_obj_meta f (OHPA m) = OHPA (f m)"
| "map_obj_meta f (ORoute r) = ORoute (r\<lparr>rt_Meta := f (rt_Meta r)\<rparr>)"
| "map_obj_meta f (OOther g m) = OOther g (f m)"

lemma obj_meta_map [simp]: "obj_meta (map_obj_meta f obj) = f (obj_meta obj)"
  by (cases obj) simp_all

text \<open>What identifies an object in the cluster, and which type it has.\<close>

definition obj_key :: "KObject \<Rightarrow> NamespacedName" where
  "obj_key obj = nsn (om_Namespace (obj_meta obj)) (om_Name (obj_meta obj))"

fun same_type :: "KObject \<Rightarrow> KObject \<Rightarrow> bool" where
  "same_type (OSecret _) (OSecret _) = True"
| "same_type (OConfigMap _) (OConfigMap _) = True"
| "same_type (ODeployment _) (ODeployment _) = True"
| "same_type (OJob _) (OJob _) = True"
| "same_type (OPVC _) (OPVC _) = True"
| "same_type (OHPA _) (OHPA _) = True"
| "same_type (ORoute _) (ORoute _) = True"
| "same_type (OOther g _) (OOther h _) = (g = h)"
| "same_type _ _ = False"

end
