(* ===== verification/Middleware.thy ===== *)
theory Middleware
  imports Overrides Ownership Kube_Store Keyed_Store
begin

text \<open>
  \<open>pkg/middleware/middleware.go\<close>: the last changes made to every object before it is created. One
  definition per block of \<open>Process\<close>, in the order of the source, composed by \<open>Process\<close>. The YAML
  library, the rendering of quantities and the operator's version are fields of an environment.
\<close>

section \<open>Environment variables\<close>

fun upsert_env :: "EnvVar list \<Rightarrow> EnvVar \<Rightarrow> EnvVar list" where
  "upsert_env [] newv = [newv]"
| "upsert_env (origv # rest) newv =
     (if ev_Name origv \<noteq> ev_Name newv then origv # upsert_env rest newv else newv # rest)"

definition UpsertContainerEnv :: "Container \<Rightarrow> EnvVar \<Rightarrow> Container" where
  "UpsertContainerEnv container newv = container\<lparr>cn_Env := upsert_env (cn_Env container) newv\<rparr>"

section \<open>The libraries and settings Process uses\<close>

text \<open>A decoded YAML mapping: nil for an empty document, else its entries with distinct keys, in the
  order one run visits them.\<close>

type_synonym YamlMap = "(string \<times> yaml) list option"

definition config_of :: "YamlMap \<Rightarrow> Config" where
  "config_of = map_option map_of"

text \<open>\<open>me_Unmarshal\<close> is \<open>yaml.Unmarshal\<close> into a map, \<open>me_Marshal\<close> is \<open>yaml.Marshal\<close>, \<open>me_Quantity\<close> is
  \<open>Quantity.String\<close>, \<open>me_Version\<close> is the variable \<open>QUAY_VERSION\<close> of the operator, \<open>me_Order\<close> the
  order in which one run visits the keys of the secret.\<close>

record MiddlewareEnv =
  me_Unmarshal :: "string \<Rightarrow> YamlMap result"
  me_Marshal :: "Config \<Rightarrow> string result"
  me_Quantity :: "Quantity \<Rightarrow> string"
  me_Version :: string
  me_Order :: "string list"

section \<open>FlattenSecret\<close>

text \<open>\<open>for k, v := range valueYAML { flattenedConfig[k] = v }\<close>: writing to a nil map panics, but only
  when there is something to write.\<close>

definition merge_config :: "Config \<Rightarrow> YamlMap \<Rightarrow> Config result" where
  "merge_config flattened valueYAML =
     fold_result (\<lambda>m (k, v). gput m k v) flattened (case valueYAML of None \<Rightarrow> [] | Some kvs \<Rightarrow> kvs)"

definition flatten_key ::
  "MiddlewareEnv \<Rightarrow> strmap \<Rightarrow> (Config \<times> strmap) \<Rightarrow> string \<Rightarrow> (Config \<times> strmap) result" where
  "flatten_key env bundle st key =
     (if \<not> Contains key ''.config.yaml'' then Inr st
      else case gget bundle key of
        None \<Rightarrow> Inr st
      | Some file \<Rightarrow>
          and_then (me_Unmarshal env file) (\<lambda>valueYAML.
          and_then (merge_config (fst st) valueYAML) (\<lambda>flattened.
            Inr (flattened, gdel (snd st) key))))"

definition FlattenSecret :: "MiddlewareEnv \<Rightarrow> Secret \<Rightarrow> Secret result" where
  "FlattenSecret env configBundle =
     and_then (me_Unmarshal env (gstr (sec_Data configBundle) ''config.yaml'')) (\<lambda>flattenedConfig.
     and_then (fold_result (flatten_key env (sec_Data configBundle))
                 (config_of flattenedConfig, sec_Data configBundle) (me_Order env)) (\<lambda>(flattened, files).
     and_then (me_Marshal env flattened) (\<lambda>flattenedConfigYAML.
     and_then (gput files ''config.yaml'' flattenedConfigYAML) (\<lambda>files'.
       Inr (configBundle\<lparr>sec_Data := files'\<rparr>)))))"

definition configSecretPrefix :: string where
  "configSecretPrefix = ''quay-config-secret''"

definition fieldGroupsAnnotation :: string where
  "fieldGroupsAnnotation = ''quay-managed-fieldgroups''"

definition clairEphemeralVolumeName :: string where
  "clairEphemeralVolumeName = ''indexer-layer-storage''"

text \<open>The user's TLS key pairs and certificate authorities are not mounted with the config.\<close>

definition drop_tls_material :: "strmap \<Rightarrow> strmap" where
  "drop_tls_material files = map_option (\<lambda>f k. if HasPrefix k ''extra_ca_cert_'' then None else f k)
     (gdel (gdel (gdel (gdel files ''ssl.cert'') ''ssl.key'') ''clair-ssl.key'') ''clair-ssl.crt'')"

definition process_config_secret :: "MiddlewareEnv \<Rightarrow> KObject \<Rightarrow> KObject option result" where
  "process_config_secret env obj =
     (case obj of
        OSecret s \<Rightarrow> and_then (FlattenSecret env s) (\<lambda>s'.
          Inr (Some (OSecret (s'\<lparr>sec_Data := drop_tls_material (sec_Data s')\<rparr>))))
      | _ \<Rightarrow> Inl (GoPanic ''interface conversion: client.Object is not *v1.Secret''))"

section \<open>Deployments\<close>

definition map_containers :: "(Container \<Rightarrow> Container) \<Rightarrow> PodTemplate \<Rightarrow> PodTemplate" where
  "map_containers f t = t\<lparr>pt_Containers := map f (pt_Containers t)\<rparr>"

definition map_template :: "(PodTemplate \<Rightarrow> PodTemplate) \<Rightarrow> Deployment \<Rightarrow> Deployment" where
  "map_template f dep = dep\<lparr>dep_Template := f (dep_Template dep)\<rparr>"

definition deployment_component :: "Deployment \<Rightarrow> ComponentKind" where
  "deployment_component dep =
     kind_of_string (ReplaceAll (gstr (om_Annotations (dep_Meta dep)) ''quay-component'') ''-'' '''')"

definition upsert_all :: "EnvVar list \<Rightarrow> Container \<Rightarrow> Container" where
  "upsert_all envs c = foldl UpsertContainerEnv c envs"

definition version_env :: "MiddlewareEnv \<Rightarrow> EnvVar" where
  "version_env env = \<lparr>ev_Name = ''QUAY_VERSION'', ev_Value = me_Version env, ev_ValueFrom = None\<rparr>"

definition apply_env_overrides ::
  "MiddlewareEnv \<Rightarrow> QuayRegistry \<Rightarrow> ComponentKind \<Rightarrow> Deployment \<Rightarrow> Deployment" where
  "apply_env_overrides env quay kind dep =
     (if \<not> ComponentIsManaged (qr_Components quay) kind then dep
      else let dep' = map_template (map_containers
                        (upsert_all (GetEnvOverrideForComponent quay kind))) dep
           in if kind = ComponentQuay
              then map_template (map_containers (\<lambda>c. UpsertContainerEnv c (version_env env))) dep'
              else dep')"

definition apply_affinity :: "QuayRegistry \<Rightarrow> ComponentKind \<Rightarrow> Deployment \<Rightarrow> Deployment" where
  "apply_affinity quay kind dep =
     (case GetAffinityForComponent quay kind of
        None \<Rightarrow> dep
      | Some oaff \<Rightarrow> map_template (\<lambda>t. t\<lparr>pt_Affinity := Some oaff\<rparr>) dep)"

definition put_annotation :: "string \<Rightarrow> string \<Rightarrow> Deployment \<Rightarrow> Deployment result" where
  "put_annotation k v dep = and_then (gput (om_Annotations (dep_Meta dep)) k v) (\<lambda>m.
     Inr (dep\<lparr>dep_Meta := (dep_Meta dep)\<lparr>om_Annotations := m\<rparr>\<rparr>))"

definition put_template_annotation :: "string \<Rightarrow> string \<Rightarrow> Deployment \<Rightarrow> Deployment result" where
  "put_template_annotation k v dep = and_then (gput (pt_Annotations (dep_Template dep)) k v) (\<lambda>m.
     Inr (map_template (\<lambda>t. t\<lparr>pt_Annotations := m\<rparr>) dep))"

definition delete_template_annotation :: "string \<Rightarrow> Deployment \<Rightarrow> Deployment" where
  "delete_template_annotation k dep =
     map_template (\<lambda>t. t\<lparr>pt_Annotations := gdel (pt_Annotations t) k\<rparr>) dep"

definition delete_annotation :: "string \<Rightarrow> Deployment \<Rightarrow> Deployment" where
  "delete_annotation k dep = dep\<lparr>dep_Meta := (dep_Meta dep)\<lparr>om_Annotations :=
     gdel (om_Annotations (dep_Meta dep)) k\<rparr>\<rparr>"

text \<open>The hashes of the cluster certificate authorities and of the TLS secret.\<close>

definition apply_hashes :: "QuayRegistryContext \<Rightarrow> Deployment \<Rightarrow> Deployment result" where
  "apply_hashes qctx dep =
     and_then (put_annotation ClusterServiceCAName (ClusterServiceCAHash qctx) dep) (\<lambda>dep.
     and_then (put_annotation ClusterTrustedCAName (ClusterTrustedCAHash qctx) dep) (\<lambda>dep.
     and_then (put_template_annotation ClusterServiceCAName (ClusterServiceCAHash qctx) dep) (\<lambda>dep.
     and_then (put_template_annotation ClusterTrustedCAName (ClusterTrustedCAHash qctx) dep) (\<lambda>dep.
       if TLSSecretHash qctx \<noteq> ''''
       then and_then (put_annotation TLSSecretHashAnnotation (TLSSecretHash qctx) dep)
              (put_template_annotation TLSSecretHashAnnotation (TLSSecretHash qctx))
       else Inr (delete_template_annotation TLSSecretHashAnnotation
                   (delete_annotation TLSSecretHashAnnotation dep))))))"

text \<open>The map of suffixes: at most one matches a name, so the order of the visit does not show.\<close>

definition scalable_suffixes :: "(ComponentKind \<times> string) list" where
  "scalable_suffixes = [(ComponentClair, ''clair-app''), (ComponentMirror, ''quay-mirror''),
     (ComponentQuay, ''quay-app'')]"

definition apply_replicas :: "QuayRegistry \<Rightarrow> Deployment \<Rightarrow> Deployment" where
  "apply_replicas quay dep =
     (if ComponentIsManaged (qr_Components quay) ComponentHPA then dep
      else case find (\<lambda>(k, depsuffix). HasSuffix (om_Name (dep_Meta dep)) depsuffix) scalable_suffixes of
        None \<Rightarrow> dep
      | Some (k, _) \<Rightarrow>
          if dep_Replicas dep \<noteq> None then dep
          else case GetReplicasOverrideForComponent quay k of
            None \<Rightarrow> dep | Some r \<Rightarrow> dep\<lparr>dep_Replicas := Some r\<rparr>)"

definition no_resources :: ResourceRequirements where
  "no_resources = \<lparr>rr_Limits = None, rr_Requests = None\<rparr>"

definition skip_resources :: "bool \<Rightarrow> PodTemplate \<Rightarrow> PodTemplate" where
  "skip_resources skipres t =
     (if skipres then map_containers (\<lambda>c. c\<lparr>cn_Resources := no_resources\<rparr>) t else t)"

definition override_labels :: "(string \<rightharpoonup> string) \<Rightarrow> strmap \<Rightarrow> strmap" where
  "override_labels olabels m = gcopy ExceptionLabel olabels (gmake m)"

definition override_annotations :: "(string \<rightharpoonup> string) \<Rightarrow> strmap \<Rightarrow> strmap" where
  "override_annotations oannot m = gcopy (\<lambda>_. False) oannot (gmake m)"

definition apply_labels :: "QuayRegistry \<Rightarrow> ComponentKind \<Rightarrow> Deployment \<Rightarrow> Deployment" where
  "apply_labels quay kind dep =
     (case GetLabelsOverrideForComponent quay kind of
        None \<Rightarrow> dep
      | Some olabels \<Rightarrow>
          dep\<lparr>dep_Meta := (dep_Meta dep)\<lparr>om_Labels := override_labels olabels (om_Labels (dep_Meta dep))\<rparr>,
              dep_Template := (dep_Template dep)\<lparr>pt_Labels :=
                override_labels olabels (pt_Labels (dep_Template dep))\<rparr>\<rparr>)"

text \<open>Resource overrides reach the first container only; a deployment without one panics.\<close>

definition apply_resources :: "QuayRegistry \<Rightarrow> ComponentKind \<Rightarrow> Deployment \<Rightarrow> Deployment result" where
  "apply_resources quay kind dep =
     (case GetResourceOverridesForComponent quay kind of
        None \<Rightarrow> Inr dep
      | Some ores \<Rightarrow>
          (case pt_Containers (dep_Template dep) of
             [] \<Rightarrow> Inl (GoPanic ''index out of range [0] with length 0'')
           | c # cs \<Rightarrow> Inr (map_template (\<lambda>t. t\<lparr>pt_Containers := c\<lparr>cn_Resources :=
                  \<lparr>rr_Limits = res_Limits ores, rr_Requests = res_Requests ores\<rparr>\<rparr> # cs\<rparr>) dep)))"

definition security_context :: "SecurityContext option \<Rightarrow> PodTemplate \<Rightarrow> PodTemplate" where
  "security_context osecctx t =
     (case osecctx of
        None \<Rightarrow> t | Some sc \<Rightarrow> map_containers (\<lambda>c. c\<lparr>cn_SecurityContext := Some sc\<rparr>) t)"

definition apply_annotations :: "QuayRegistry \<Rightarrow> ComponentKind \<Rightarrow> Deployment \<Rightarrow> Deployment" where
  "apply_annotations quay kind dep =
     (case GetAnnotationsOverrideForComponent quay kind of
        None \<Rightarrow> dep
      | Some oannot \<Rightarrow>
          dep\<lparr>dep_Meta := (dep_Meta dep)\<lparr>om_Annotations :=
                override_annotations oannot (om_Annotations (dep_Meta dep))\<rparr>,
              dep_Template := (dep_Template dep)\<lparr>pt_Annotations :=
                override_annotations oannot (pt_Annotations (dep_Template dep))\<rparr>\<rparr>)"

text \<open>Clair's ephemeral volume: the first volume of that name with a claim template is changed.\<close>

definition override_claim :: "Quantity option \<Rightarrow> string option \<Rightarrow> PVCSpec \<Rightarrow> PVCSpec" where
  "override_claim vsize cls spec =
     (let spec = (case vsize of None \<Rightarrow> spec | Some q \<Rightarrow> spec\<lparr>ps_Requests := Some [''storage'' \<mapsto> q]\<rparr>)
      in case cls of None \<Rightarrow> spec | Some c \<Rightarrow> spec\<lparr>ps_StorageClassName := Some c\<rparr>)"

fun override_ephemeral :: "Quantity option \<Rightarrow> string option \<Rightarrow> Volume list \<Rightarrow> Volume list" where
  "override_ephemeral vsize cls [] = []"
| "override_ephemeral vsize cls (vol # vols) =
     (case vol_Ephemeral vol of
        Some (Some spec) \<Rightarrow>
          if vol_Name vol \<noteq> clairEphemeralVolumeName then vol # override_ephemeral vsize cls vols
          else vol\<lparr>vol_Ephemeral := Some (Some (override_claim vsize cls spec))\<rparr> # vols
      | _ \<Rightarrow> vol # override_ephemeral vsize cls vols)"

definition applyClairEphemeralVolumeOverrides :: "QuayRegistry \<Rightarrow> Deployment \<Rightarrow> Deployment" where
  "applyClairEphemeralVolumeOverrides quay dep =
     (let vsize = GetVolumeSizeOverrideForComponent quay ComponentClair;
          cls = GetStorageClassNameOverrideForComponent quay ComponentClair
      in if vsize = None \<and> cls = None then dep
         else map_template (\<lambda>t. t\<lparr>pt_Volumes := override_ephemeral vsize cls (pt_Volumes t)\<rparr>) dep)"

definition is_database :: "Deployment \<Rightarrow> bool" where
  "is_database dep = (Contains (om_Name (dep_Meta dep)) ''quay-database'' \<or>
     Contains (om_Name (dep_Meta dep)) ''clair-postgres'')"

definition apply_field_groups :: "QuayRegistry \<Rightarrow> Deployment \<Rightarrow> Deployment result" where
  "apply_field_groups quay dep =
     (if is_database dep
      then Inr (delete_template_annotation ''quay-operator-service-endpoint''
                 (delete_template_annotation ''quay-buildmanager-hostname''
                   (delete_template_annotation ''quay-registry-hostname'' dep)))
      else and_then (FieldGroupNamesForManagedComponents quay) (\<lambda>fgns.
             put_template_annotation fieldGroupsAnnotation (Join fgns '','') dep))"

definition process_deployment ::
  "MiddlewareEnv \<Rightarrow> QuayRegistry \<Rightarrow> QuayRegistryContext \<Rightarrow> bool \<Rightarrow> Deployment \<Rightarrow> Deployment result" where
  "process_deployment env quay qctx skipres dep =
     (let kind = deployment_component dep in
      and_then (apply_hashes qctx (apply_affinity quay kind (apply_env_overrides env quay kind dep))) (\<lambda>dep.
      and_then (apply_resources quay kind
                  (apply_labels quay kind (map_template (skip_resources skipres) (apply_replicas quay dep)))) (\<lambda>dep.
        let dep = apply_annotations quay kind
                    (map_template (security_context (GetSecurityContextOverrideForComponent quay kind)) dep);
            dep = (if HasSuffix (om_Name (dep_Meta dep)) ''clair-app''
                   then applyClairEphemeralVolumeOverrides quay dep else dep)
        in apply_field_groups quay dep)))"

section \<open>Volume claims, autoscalers, jobs, routes\<close>

definition quay_component_label :: "KObject \<Rightarrow> string" where
  "quay_component_label obj =
     (case obj of
        OHPA m \<Rightarrow> let l = gstr (om_Labels m) ''quay-component''
                  in if l = '''' then gstr (om_Annotations m) ''quay-component'' else l
      | _ \<Rightarrow> gstr (om_Labels (obj_meta obj)) ''quay-component'')"

definition volume_overrides :: "QuayRegistry \<Rightarrow> string \<Rightarrow> Quantity option \<times> string option" where
  "volume_overrides quay label =
     (if label = ''postgres''
      then (GetVolumeSizeOverrideForComponent quay ComponentPostgres,
            GetStorageClassNameOverrideForComponent quay ComponentPostgres)
      else if label = ''clair-postgres''
      then (GetVolumeSizeOverrideForComponent quay ComponentClairPostgres,
            GetStorageClassNameOverrideForComponent quay ComponentClairPostgres)
      else (None, None))"

text \<open>\<open>Requests.Storage()\<close> is never nil: it is the zero quantity where nothing is requested.\<close>

definition requested_storage :: "PVCSpec \<Rightarrow> Quantity" where
  "requested_storage spec = (case gget (ps_Requests spec) ''storage'' of None \<Rightarrow> 0 | Some q \<Rightarrow> q)"

definition process_pvc ::
  "MiddlewareEnv \<Rightarrow> QuayRegistry \<Rightarrow> string \<Rightarrow> PersistentVolumeClaim \<Rightarrow> PersistentVolumeClaim result" where
  "process_pvc env quay label pvc =
     (let (vsize, cls) = volume_overrides quay label;
          current = requested_storage (pvc_Spec pvc)
      in case vsize of
           Some q \<Rightarrow>
             if q < current
             then Inl (plain_error (''cannot shrink volume override vsize from '' @ me_Quantity env current @
                         '' to '' @ me_Quantity env q))
             else Inr (pvc\<lparr>pvc_Spec := override_claim (Some q) cls (pvc_Spec pvc)\<rparr>)
         | None \<Rightarrow> Inr (pvc\<lparr>pvc_Spec := override_claim None cls (pvc_Spec pvc)\<rparr>))"

definition process_hpa :: "QuayRegistry \<Rightarrow> string \<Rightarrow> ObjectMeta \<Rightarrow> KObject option" where
  "process_hpa quay label hpa =
     (if label = ''mirror'' \<and> \<not> ComponentIsManaged (qr_Components quay) ComponentMirror then None
      else if label = ''clair'' \<and> \<not> ComponentIsManaged (qr_Components quay) ComponentClair then None
      else Some (OHPA hpa))"

definition process_job :: "QuayRegistry \<Rightarrow> bool \<Rightarrow> Job \<Rightarrow> Job" where
  "process_job quay skipres job = job\<lparr>job_Template :=
     skip_resources skipres
       (security_context (GetSecurityContextOverrideForComponent quay ComponentQuay)
         (map_containers (upsert_all (GetEnvOverrideForComponent quay ComponentQuay)) (job_Template job)))\<rparr>"

definition route_metadata :: "QuayRegistry \<Rightarrow> ObjectMeta \<Rightarrow> ObjectMeta" where
  "route_metadata quay m =
     (let m = (case GetLabelsOverrideForComponent quay ComponentRoute of
                 None \<Rightarrow> m | Some olabels \<Rightarrow> m\<lparr>om_Labels := override_labels olabels (om_Labels m)\<rparr>)
      in case GetAnnotationsOverrideForComponent quay ComponentRoute of
           None \<Rightarrow> m
         | Some oannot \<Rightarrow> m\<lparr>om_Annotations := override_annotations oannot (om_Annotations m)\<rparr>)"

text \<open>The label that selects the rewrite is the one read before any override.\<close>

definition process_route :: "QuayRegistry \<Rightarrow> string \<Rightarrow> Route \<Rightarrow> Route" where
  "process_route quay label rt =
     (let rt = rt\<lparr>rt_Meta := route_metadata quay (rt_Meta rt)\<rparr> in
      if ComponentIsManaged (qr_Components quay) ComponentTLS then rt
      else if label \<noteq> ''quay-app-route'' \<and> label \<noteq> ''quay-builder-route'' then rt
      else let rt = rt\<lparr>rt_TLS := Some \<lparr>tc_Termination = ''passthrough'',
                       tc_InsecureEdgeTerminationPolicy = ''Redirect''\<rparr>\<rparr>
           in if label = ''quay-app-route'' then rt\<lparr>rt_PortTarget := Some ''https''\<rparr> else rt)"

section \<open>Process\<close>

text \<open>The result is the object to create, or none where the source returns a nil object.\<close>

definition Process ::
  "MiddlewareEnv \<Rightarrow> QuayRegistry \<Rightarrow> QuayRegistryContext \<Rightarrow> KObject \<Rightarrow> bool \<Rightarrow> KObject option result" where
  "Process env quay qctx obj skipres =
     (let label = quay_component_label obj in
      if Contains (om_Name (obj_meta obj)) (configSecretPrefix @ ''-'')
      then process_config_secret env obj
      else case obj of
        ODeployment dep \<Rightarrow>
          and_then (process_deployment env quay qctx skipres dep) (\<lambda>dep. Inr (Some (ODeployment dep)))
      | OPVC pvc \<Rightarrow> and_then (process_pvc env quay label pvc) (\<lambda>pvc. Inr (Some (OPVC pvc)))
      | OHPA hpa \<Rightarrow> Inr (process_hpa quay label hpa)
      | OJob job \<Rightarrow> Inr (Some (OJob (process_job quay skipres job)))
      | ORoute rt \<Rightarrow> Inr (Some (ORoute (process_route quay label rt)))
      | _ \<Rightarrow> Inr (Some obj))"

end
