(* ===== verification/Middleware_Laws.thy ===== *)
theory Middleware_Laws
  imports Middleware "HOL-Library.Multiset"
begin

text \<open>
  Lemmas about the middleware: environment lists as a keyed store, what each step of the deployment
  pipeline changes and keeps, and the whole pipeline field by field.
\<close>

section \<open>Environment variables form a keyed store\<close>

lemma upsert_env_keys: "map ev_Name (upsert_env es e) =
    (if ev_Name e \<in> ev_Name ` set es then map ev_Name es else map ev_Name es @ [ev_Name e])"
  by (induction es) auto

lemma upsert_env_find: "find (\<lambda>y. ev_Name y = n) (upsert_env es e) =
    (if n = ev_Name e then Some e else find (\<lambda>y. ev_Name y = n) es)"
  by (induction es) auto

lemma upsert_env_same: "find (\<lambda>y. ev_Name y = ev_Name e) es = Some e \<Longrightarrow> upsert_env es e = es"
  by (induction es) (auto split: if_splits)

interpretation env_store: keyed_store ev_Name upsert_env
  by unfold_locales (simp_all add: upsert_env_keys upsert_env_find upsert_env_same)

definition find_env :: "string \<Rightarrow> EnvVar list \<Rightarrow> EnvVar option" where
  "find_env n es = find (\<lambda>e. ev_Name e = n) es"

lemma upsert_all_fields:
  "upsert_all es c = c\<lparr>cn_Env := foldl upsert_env (cn_Env c) es\<rparr>"
  by (induction es arbitrary: c) (simp_all add: upsert_all_def UpsertContainerEnv_def)

section \<open>The steps, field by field\<close>

named_theorems mw_fields \<open>what a middleware step does to each field\<close>

lemma map_template_fields [mw_fields]:
  "dep_Meta (map_template f dep) = dep_Meta dep"
  "dep_Replicas (map_template f dep) = dep_Replicas dep"
  "dep_Selector (map_template f dep) = dep_Selector dep"
  "dep_Template (map_template f dep) = f (dep_Template dep)"
  by (simp_all add: map_template_def)

lemma map_containers_fields [mw_fields]:
  "pt_Containers (map_containers g t) = map g (pt_Containers t)"
  "pt_Labels (map_containers g t) = pt_Labels t"
  "pt_Annotations (map_containers g t) = pt_Annotations t"
  "pt_Volumes (map_containers g t) = pt_Volumes t"
  by (simp_all add: map_containers_def)

definition env_step :: "MiddlewareEnv \<Rightarrow> QuayRegistry \<Rightarrow> ComponentKind \<Rightarrow> Container \<Rightarrow> Container" where
  "env_step env quay kind c =
     (if \<not> ComponentIsManaged (qr_Components quay) kind then c
      else upsert_all (GetEnvOverrideForComponent quay kind @
             (if kind = ComponentQuay then [version_env env] else [])) c)"

lemma map_env_step: "map (env_step env quay kind) cs =
    (if \<not> ComponentIsManaged (qr_Components quay) kind then cs
     else map (upsert_all (GetEnvOverrideForComponent quay kind @
            (if kind = ComponentQuay then [version_env env] else []))) cs)"
  by (induction cs) (simp_all add: env_step_def)

lemma apply_env_overrides_fields [mw_fields]:
  "dep_Meta (apply_env_overrides env quay kind dep) = dep_Meta dep"
  "dep_Replicas (apply_env_overrides env quay kind dep) = dep_Replicas dep"
  "pt_Labels (dep_Template (apply_env_overrides env quay kind dep)) = pt_Labels (dep_Template dep)"
  "pt_Annotations (dep_Template (apply_env_overrides env quay kind dep)) = pt_Annotations (dep_Template dep)"
  "pt_Containers (dep_Template (apply_env_overrides env quay kind dep))
     = map (env_step env quay kind) (pt_Containers (dep_Template dep))"
  by (auto simp: apply_env_overrides_def map_env_step mw_fields Let_def upsert_all_def)

lemma apply_affinity_fields [mw_fields]:
  "dep_Meta (apply_affinity quay kind dep) = dep_Meta dep"
  "dep_Replicas (apply_affinity quay kind dep) = dep_Replicas dep"
  "pt_Labels (dep_Template (apply_affinity quay kind dep)) = pt_Labels (dep_Template dep)"
  "pt_Annotations (dep_Template (apply_affinity quay kind dep)) = pt_Annotations (dep_Template dep)"
  "pt_Containers (dep_Template (apply_affinity quay kind dep)) = pt_Containers (dep_Template dep)"
  by (simp_all add: apply_affinity_def mw_fields split: option.split)

text \<open>The annotations after the hashes were written.\<close>

definition hashed :: "QuayRegistryContext \<Rightarrow> (string \<rightharpoonup> string) \<Rightarrow> (string \<rightharpoonup> string)" where
  "hashed qctx m = (m(ClusterServiceCAName \<mapsto> ClusterServiceCAHash qctx,
      ClusterTrustedCAName \<mapsto> ClusterTrustedCAHash qctx))
     (TLSSecretHashAnnotation := if TLSSecretHash qctx = '''' then None else Some (TLSSecretHash qctx))"

abbreviation set_annotations ::
  "(string \<rightharpoonup> string) \<Rightarrow> (string \<rightharpoonup> string) \<Rightarrow> Deployment \<Rightarrow> Deployment" where
  "set_annotations a b dep \<equiv> dep\<lparr>dep_Meta := (dep_Meta dep)\<lparr>om_Annotations := Some a\<rparr>,
     dep_Template := (dep_Template dep)\<lparr>pt_Annotations := Some b\<rparr>\<rparr>"

lemma apply_hashes_closed_form:
  "apply_hashes qctx dep =
     (case (om_Annotations (dep_Meta dep), pt_Annotations (dep_Template dep)) of
        (Some a, Some b) \<Rightarrow> Inr (set_annotations (hashed qctx a) (hashed qctx b) dep)
      | _ \<Rightarrow> Inl (GoPanic ''assignment to entry in nil map''))"
proof (cases "om_Annotations (dep_Meta dep)")
  case None
  then show ?thesis by (simp add: apply_hashes_def put_annotation_def)
next
  case a: (Some a)
  show ?thesis
  proof (cases "pt_Annotations (dep_Template dep)")
    case None
    with a show ?thesis
      by (simp add: apply_hashes_def put_annotation_def put_template_annotation_def)
  next
    case (Some b)
    with a show ?thesis
      by (simp add: apply_hashes_def put_annotation_def put_template_annotation_def hashed_def
          map_template_def delete_annotation_def delete_template_annotation_def gdel_def)
  qed
qed

lemma apply_replicas_fields [mw_fields]:
  "dep_Meta (apply_replicas quay dep) = dep_Meta dep"
  "dep_Template (apply_replicas quay dep) = dep_Template dep"
  by (simp_all add: apply_replicas_def split: option.split)

lemma skip_resources_fields [mw_fields]:
  "pt_Labels (skip_resources b t) = pt_Labels t"
  "pt_Annotations (skip_resources b t) = pt_Annotations t"
  "pt_Containers (skip_resources b t) =
     map (\<lambda>c. if b then c\<lparr>cn_Resources := no_resources\<rparr> else c) (pt_Containers t)"
  by (simp_all add: skip_resources_def mw_fields)

lemma apply_labels_fields [mw_fields]:
  "dep_Replicas (apply_labels quay kind dep) = dep_Replicas dep"
  "om_Name (dep_Meta (apply_labels quay kind dep)) = om_Name (dep_Meta dep)"
  "om_Namespace (dep_Meta (apply_labels quay kind dep)) = om_Namespace (dep_Meta dep)"
  "om_OwnerReferences (dep_Meta (apply_labels quay kind dep)) = om_OwnerReferences (dep_Meta dep)"
  "om_Annotations (dep_Meta (apply_labels quay kind dep)) = om_Annotations (dep_Meta dep)"
  "pt_Annotations (dep_Template (apply_labels quay kind dep)) = pt_Annotations (dep_Template dep)"
  "pt_Containers (dep_Template (apply_labels quay kind dep)) = pt_Containers (dep_Template dep)"
  by (simp_all add: apply_labels_def split: option.split)

lemma override_labels_get:
  "gget (override_labels ov m) k =
     (if ExceptionLabel k then gget m k else case ov k of None \<Rightarrow> gget m k | Some v \<Rightarrow> Some v)"
  by (simp add: override_labels_def gget_gcopy split: option.split)

lemma override_annotations_get:
  "gget (override_annotations ov m) k = (case ov k of None \<Rightarrow> gget m k | Some v \<Rightarrow> Some v)"
  by (simp add: override_annotations_def gget_gcopy split: option.split)

lemma override_annotations_not_nil [simp]: "override_annotations ov m \<noteq> None"
  by (simp add: override_annotations_def)

lemma apply_labels_get [mw_fields]:
  "gget (om_Labels (dep_Meta (apply_labels quay kind dep))) k =
     (if ExceptionLabel k then gget (om_Labels (dep_Meta dep)) k
      else case gget (GetLabelsOverrideForComponent quay kind) k of
        None \<Rightarrow> gget (om_Labels (dep_Meta dep)) k | Some v \<Rightarrow> Some v)"
  "gget (pt_Labels (dep_Template (apply_labels quay kind dep))) k =
     (if ExceptionLabel k then gget (pt_Labels (dep_Template dep)) k
      else case gget (GetLabelsOverrideForComponent quay kind) k of
        None \<Rightarrow> gget (pt_Labels (dep_Template dep)) k | Some v \<Rightarrow> Some v)"
  by (auto simp: apply_labels_def override_labels_get split: option.split)

text \<open>Resource overrides: the first container takes them.\<close>

definition first_resources :: "Resources option \<Rightarrow> Container list \<Rightarrow> Container list" where
  "first_resources ores cs = (case (ores, cs) of
     (Some r, c # rest) \<Rightarrow> c\<lparr>cn_Resources :=
        \<lparr>rr_Limits = res_Limits r, rr_Requests = res_Requests r\<rparr>\<rparr> # rest
   | _ \<Rightarrow> cs)"

lemma apply_resources_Inr:
  "apply_resources quay kind dep = Inr dep' \<longleftrightarrow>
     (GetResourceOverridesForComponent quay kind = None \<or> pt_Containers (dep_Template dep) \<noteq> []) \<and>
     dep' = map_template (\<lambda>t. t\<lparr>pt_Containers :=
       first_resources (GetResourceOverridesForComponent quay kind) (pt_Containers t)\<rparr>) dep"
proof -
  have id: "map_template (\<lambda>t. t\<lparr>pt_Containers := pt_Containers t\<rparr>) dep = dep"
    by (simp add: map_template_def)
  show ?thesis
    by (auto simp: apply_resources_def first_resources_def id map_template_def
        split: option.splits list.splits)
qed

lemma security_context_fields [mw_fields]:
  "pt_Labels (security_context sc t) = pt_Labels t"
  "pt_Annotations (security_context sc t) = pt_Annotations t"
  "pt_Containers (security_context sc t) =
     map (\<lambda>c. case sc of None \<Rightarrow> c | Some s \<Rightarrow> c\<lparr>cn_SecurityContext := Some s\<rparr>) (pt_Containers t)"
  by (simp_all add: security_context_def mw_fields split: option.split)

lemma apply_annotations_fields [mw_fields]:
  "dep_Replicas (apply_annotations quay kind dep) = dep_Replicas dep"
  "om_Name (dep_Meta (apply_annotations quay kind dep)) = om_Name (dep_Meta dep)"
  "om_Namespace (dep_Meta (apply_annotations quay kind dep)) = om_Namespace (dep_Meta dep)"
  "om_OwnerReferences (dep_Meta (apply_annotations quay kind dep)) = om_OwnerReferences (dep_Meta dep)"
  "om_Labels (dep_Meta (apply_annotations quay kind dep)) = om_Labels (dep_Meta dep)"
  "pt_Labels (dep_Template (apply_annotations quay kind dep)) = pt_Labels (dep_Template dep)"
  "pt_Containers (dep_Template (apply_annotations quay kind dep)) = pt_Containers (dep_Template dep)"
  by (simp_all add: apply_annotations_def split: option.split)

lemma apply_annotations_get [mw_fields]:
  "gget (pt_Annotations (dep_Template (apply_annotations quay kind dep))) k =
     (case gget (GetAnnotationsOverrideForComponent quay kind) k of
        None \<Rightarrow> gget (pt_Annotations (dep_Template dep)) k | Some v \<Rightarrow> Some v)"
  "pt_Annotations (dep_Template (apply_annotations quay kind dep)) = None \<longleftrightarrow>
     pt_Annotations (dep_Template dep) = None \<and> GetAnnotationsOverrideForComponent quay kind = None"
  by (simp_all add: apply_annotations_def override_annotations_get del: not_None_eq split: option.split)

lemma ephemeral_fields [mw_fields]:
  "dep_Meta (applyClairEphemeralVolumeOverrides quay dep) = dep_Meta dep"
  "dep_Replicas (applyClairEphemeralVolumeOverrides quay dep) = dep_Replicas dep"
  "pt_Labels (dep_Template (applyClairEphemeralVolumeOverrides quay dep)) = pt_Labels (dep_Template dep)"
  "pt_Annotations (dep_Template (applyClairEphemeralVolumeOverrides quay dep)) = pt_Annotations (dep_Template dep)"
  "pt_Containers (dep_Template (applyClairEphemeralVolumeOverrides quay dep)) = pt_Containers (dep_Template dep)"
  by (simp_all add: applyClairEphemeralVolumeOverrides_def mw_fields Let_def)

lemma apply_field_groups_Inr:
  assumes "apply_field_groups quay dep = Inr dep'"
  shows "dep_Meta dep' = dep_Meta dep" and "dep_Replicas dep' = dep_Replicas dep"
    and "pt_Labels (dep_Template dep') = pt_Labels (dep_Template dep)"
    and "pt_Containers (dep_Template dep') = pt_Containers (dep_Template dep)"
  using assms by (auto simp: apply_field_groups_def delete_template_annotation_def
      put_template_annotation_def mw_fields and_then_Inr_iff split: if_splits)

section \<open>The whole pipeline\<close>

text \<open>The containers a deployment ends with.\<close>

definition final_containers ::
  "MiddlewareEnv \<Rightarrow> QuayRegistry \<Rightarrow> ComponentKind \<Rightarrow> bool \<Rightarrow> Container list \<Rightarrow> Container list" where
  "final_containers env quay kind skipres cs =
     map (\<lambda>c. case GetSecurityContextOverrideForComponent quay kind of
            None \<Rightarrow> c | Some s \<Rightarrow> c\<lparr>cn_SecurityContext := Some s\<rparr>)
       (first_resources (GetResourceOverridesForComponent quay kind)
         (map (\<lambda>c. if skipres then c\<lparr>cn_Resources := no_resources\<rparr> else c)
           (map (env_step env quay kind) cs)))"

text \<open>The deployment before its field groups are written.\<close>

definition prepared ::
  "MiddlewareEnv \<Rightarrow> QuayRegistry \<Rightarrow> QuayRegistryContext \<Rightarrow> bool \<Rightarrow> (string \<rightharpoonup> string) \<Rightarrow> (string \<rightharpoonup> string)
     \<Rightarrow> Deployment \<Rightarrow> Deployment" where
  "prepared env quay qctx skipres a b dep =
     (let kind = deployment_component dep;
          dep = set_annotations (hashed qctx a) (hashed qctx b)
                  (apply_affinity quay kind (apply_env_overrides env quay kind dep));
          dep = apply_labels quay kind (map_template (skip_resources skipres) (apply_replicas quay dep));
          dep = map_template (\<lambda>t. t\<lparr>pt_Containers :=
                  first_resources (GetResourceOverridesForComponent quay kind) (pt_Containers t)\<rparr>) dep;
          dep = apply_annotations quay kind
                  (map_template (security_context (GetSecurityContextOverrideForComponent quay kind)) dep)
      in if HasSuffix (om_Name (dep_Meta dep)) ''clair-app''
         then applyClairEphemeralVolumeOverrides quay dep else dep)"

lemma process_deployment_Inr:
  "process_deployment env quay qctx skipres dep = Inr dep' \<longleftrightarrow>
     (\<exists>a b. om_Annotations (dep_Meta dep) = Some a \<and> pt_Annotations (dep_Template dep) = Some b \<and>
        (GetResourceOverridesForComponent quay (deployment_component dep) = None \<or>
         pt_Containers (dep_Template dep) \<noteq> []) \<and>
        apply_field_groups quay (prepared env quay qctx skipres a b dep) = Inr dep')"
  unfolding process_deployment_def prepared_def Let_def and_then_Inr_iff apply_resources_Inr
    apply_hashes_closed_form
  by (cases "om_Annotations (dep_Meta dep)"; cases "pt_Annotations (dep_Template dep)")
    (auto simp: mw_fields)

lemma prepared_fields:
  assumes "dep' = prepared env quay qctx skipres a b dep"
  shows "om_Name (dep_Meta dep') = om_Name (dep_Meta dep)"
    and "om_Namespace (dep_Meta dep') = om_Namespace (dep_Meta dep)"
    and "om_OwnerReferences (dep_Meta dep') = om_OwnerReferences (dep_Meta dep)"
    and "pt_Containers (dep_Template dep') =
      final_containers env quay (deployment_component dep) skipres (pt_Containers (dep_Template dep))"
    and "gget (om_Labels (dep_Meta dep')) k =
      (if ExceptionLabel k then gget (om_Labels (dep_Meta dep)) k
       else case gget (GetLabelsOverrideForComponent quay (deployment_component dep)) k of
         None \<Rightarrow> gget (om_Labels (dep_Meta dep)) k | Some v \<Rightarrow> Some v)"
    and "gget (pt_Labels (dep_Template dep')) k =
      (if ExceptionLabel k then gget (pt_Labels (dep_Template dep)) k
       else case gget (GetLabelsOverrideForComponent quay (deployment_component dep)) k of
         None \<Rightarrow> gget (pt_Labels (dep_Template dep)) k | Some v \<Rightarrow> Some v)"
    and "gget (pt_Annotations (dep_Template dep')) k =
      (case gget (GetAnnotationsOverrideForComponent quay (deployment_component dep)) k of
         None \<Rightarrow> hashed qctx b k | Some v \<Rightarrow> Some v)"
  unfolding assms prepared_def Let_def
  by (simp_all add: mw_fields final_containers_def cong: if_cong split: option.split)

lemma prepared_annotations_not_nil: "pt_Annotations (dep_Template (prepared env quay qctx skipres a b dep)) \<noteq> None"
proof -
  let ?k = "deployment_component dep"
  let ?d = "map_template (\<lambda>t. t\<lparr>pt_Containers :=
      first_resources (GetResourceOverridesForComponent quay ?k) (pt_Containers t)\<rparr>)
    (apply_labels quay ?k (map_template (skip_resources skipres) (apply_replicas quay
      (set_annotations (hashed qctx a) (hashed qctx b)
        (apply_affinity quay ?k (apply_env_overrides env quay ?k dep))))))"
  have "pt_Annotations (dep_Template ?d) = Some (hashed qctx b)"
    by (simp add: mw_fields)
  then have "pt_Annotations (dep_Template (apply_annotations quay ?k
      (map_template (security_context (GetSecurityContextOverrideForComponent quay ?k)) ?d))) \<noteq> None"
    unfolding apply_annotations_get(2) map_template_fields(4) security_context_fields(2) by simp
  then show ?thesis
    unfolding prepared_def Let_def by (simp only: ephemeral_fields if_distrib [of dep_Template] split: if_split) blast
qed

lemma prepared_is_database: "is_database (prepared env quay qctx skipres a b dep) = is_database dep"
  by (simp add: is_database_def prepared_fields(1) [OF refl])

lemma process_deployment_succeeds:
  "(\<exists>dep'. process_deployment env quay qctx skipres dep = Inr dep') \<longleftrightarrow>
     om_Annotations (dep_Meta dep) \<noteq> None \<and> pt_Annotations (dep_Template dep) \<noteq> None \<and>
     (GetResourceOverridesForComponent quay (deployment_component dep) = None \<or>
      pt_Containers (dep_Template dep) \<noteq> []) \<and>
     (is_database dep \<or> (\<exists>fgns. FieldGroupNamesForManagedComponents quay = Inr fgns))"
proof -
  have groups: "(\<exists>dep'. apply_field_groups quay p = Inr dep') \<longleftrightarrow>
      (is_database p \<or> (\<exists>fgns. FieldGroupNamesForManagedComponents quay = Inr fgns))"
    if "pt_Annotations (dep_Template p) \<noteq> None" for p
    using that by (auto simp: apply_field_groups_def put_template_annotation_def and_then_Inr_iff)
  show ?thesis
    unfolding process_deployment_Inr
    using groups [OF prepared_annotations_not_nil [of env quay qctx skipres _ _ dep]]
    by (auto simp: prepared_is_database)
qed

section \<open>Flattening the config bundle\<close>

text \<open>What the file under a key contributes, and when the loop gets past it.\<close>

definition is_config_file :: "strmap \<Rightarrow> string \<Rightarrow> bool" where
  "is_config_file bundle key \<longleftrightarrow> Contains key ''.config.yaml'' \<and> gget bundle key \<noteq> None"

definition document :: "MiddlewareEnv \<Rightarrow> strmap \<Rightarrow> string \<Rightarrow> (string \<rightharpoonup> yaml)" where
  "document env bundle key =
     (if \<not> is_config_file bundle key then Map.empty
      else case me_Unmarshal env (gstr bundle key) of
        Inr (Some kvs) \<Rightarrow> map_of (rev kvs) | _ \<Rightarrow> Map.empty)"

definition mergeable :: "MiddlewareEnv \<Rightarrow> strmap \<Rightarrow> Config \<Rightarrow> string \<Rightarrow> bool" where
  "mergeable env bundle base key \<longleftrightarrow> (is_config_file bundle key \<longrightarrow>
     (\<exists>v. me_Unmarshal env (gstr bundle key) = Inr v \<and> (base = None \<longrightarrow> v \<in> {None, Some []})))"

lemma fold_gput_Some: "fold_result (\<lambda>m (k, v). gput m k v) (Some f) kvs = Inr (Some (f ++ map_of (rev kvs)))"
proof (induction kvs arbitrary: f)
  case Nil
  then show ?case by simp
next
  case (Cons kv kvs)
  then show ?case
    by (cases kv) (auto simp: map_add_def fun_eq_iff split: option.split)
qed

lemma merge_config_Some [simp]:
  "merge_config (Some f) v = Inr (Some (f ++ (case v of None \<Rightarrow> Map.empty | Some kvs \<Rightarrow> map_of (rev kvs))))"
  by (simp add: merge_config_def fold_gput_Some split: option.split)

lemma merge_config_None: "merge_config None v = Inr c \<longleftrightarrow> c = None \<and> v \<in> {None, Some []}"
proof (cases v)
  case None
  then show ?thesis by (auto simp: merge_config_def)
next
  case (Some kvs)
  then show ?thesis by (cases kvs) (auto simp: merge_config_def)
qed

lemma flatten_key_step:
  "flatten_key env bundle (c, files) key = Inr st \<longleftrightarrow> mergeable env bundle c key \<and>
     st = (map_option (\<lambda>f. f ++ document env bundle key) c,
           if is_config_file bundle key then gdel files key else files)"
proof (cases "is_config_file bundle key")
  case False
  then show ?thesis
    by (cases c) (auto simp: flatten_key_def is_config_file_def mergeable_def document_def split: option.split)
next
  case True
  then obtain doc where key: "gget bundle key = Some doc" "Contains key ''.config.yaml''"
    by (auto simp: is_config_file_def)
  then have "gstr bundle key = doc" by (simp add: gstr_def)
  with True key show ?thesis
    by (cases c; cases "me_Unmarshal env doc")
      (auto simp: flatten_key_def mergeable_def document_def and_then_Inr_iff merge_config_None
        split: option.split)
qed

lemma flatten_loop:
  "fold_result (flatten_key env bundle) (c, files) keys = Inr st \<longleftrightarrow>
     (\<forall>key \<in> set keys. mergeable env bundle c key) \<and>
     st = (map_option (fold (\<lambda>key f. f ++ document env bundle key) keys) c,
           fold (\<lambda>key m. if is_config_file bundle key then gdel m key else m) keys files)"
proof (induction keys arbitrary: c files)
  case Nil
  then show ?case by (auto simp: option.map_ident)
next
  case (Cons key keys)
  have same: "mergeable env bundle (map_option g c) j = mergeable env bundle c j" for g j
    by (simp add: mergeable_def)
  show ?case
    by (auto simp: and_then_Inr_iff flatten_key_step Cons.IH same option.map_comp o_def)
qed

lemma gget_fold_gdel:
  "gget (fold (\<lambda>key m. if P key then gdel m key else m) keys files) k =
     (if k \<in> set keys \<and> P k then None else gget files k)"
  by (induction keys arbitrary: files) auto

lemma FlattenSecret_Inr:
  "FlattenSecret env s = Inr s' \<longleftrightarrow>
     (\<exists>base text. me_Unmarshal env (gstr (sec_Data s) ''config.yaml'') = Inr base \<and>
        (\<forall>key \<in> set (me_Order env). mergeable env (sec_Data s) (config_of base) key) \<and>
        me_Marshal env (map_option (fold (\<lambda>key f. f ++ document env (sec_Data s) key) (me_Order env))
          (config_of base)) = Inr text \<and>
        (\<exists>files. gput (fold (\<lambda>key m. if is_config_file (sec_Data s) key then gdel m key else m)
             (me_Order env) (sec_Data s)) ''config.yaml'' text = Inr files \<and> s' = s\<lparr>sec_Data := files\<rparr>))"
  by (auto simp: FlattenSecret_def and_then_Inr_iff flatten_loop)

text \<open>The order of the visit does not show where the files configure different keys.\<close>

lemma document_fold_perm:
  assumes "mset keys = mset keys'"
    and "\<forall>j \<in> set keys. \<forall>k \<in> set keys. j \<noteq> k \<longrightarrow> dom (document env bundle j) \<inter> dom (document env bundle k) = {}"
  shows "fold (\<lambda>key f. f ++ document env bundle key) keys = fold (\<lambda>key f. f ++ document env bundle key) keys'"
proof (rule fold_multiset_equiv)
  fix j k
  assume "j \<in> set keys" "k \<in> set keys"
  then have eq: "document env bundle j ++ document env bundle k = document env bundle k ++ document env bundle j"
    using assms(2) map_add_comm by metis
  show "(\<lambda>f. f ++ document env bundle j) \<circ> (\<lambda>f. f ++ document env bundle k) =
      (\<lambda>f. f ++ document env bundle k) \<circ> (\<lambda>f. f ++ document env bundle j)"
    by (rule ext) (simp only: o_apply map_add_assoc [symmetric] eq)
qed (use assms in simp)

lemma removal_fold_perm:
  "mset keys = mset keys' \<Longrightarrow>
     fold (\<lambda>key m. if P key then gdel m key else m) keys
     = fold (\<lambda>key m. if P key then gdel m key else m) keys'"
  by (rule fold_multiset_equiv) (auto simp: fun_eq_iff gdel_def option.map_comp o_def fun_upd_twist
      intro!: option.map_cong)

end
