(* ===== verification/Cluster_Client.thy ===== *)
theory Cluster_Client
  imports Kube_Store
begin

text \<open>
  The controller-runtime client with its writes. The cluster is an opaque world \<open>'w\<close>; every call the
  operator makes is a field, so the model is a function of whatever the API server does. A write
  returns the error, if any, and the next world.
\<close>

record TLSProfileSpec =
  tp_Ciphers :: "string list"
  tp_MinTLSVersion :: string

record TLSSecurityProfile =
  tsp_Type :: string
  tsp_Custom :: "TLSProfileSpec option"

record 'w Client =
  cl_Reader :: "'w \<Rightarrow> Reader"
  cl_ListSecrets :: "'w \<Rightarrow> string \<Rightarrow> string \<Rightarrow> Secret list result"
  cl_ListNamespaceSecrets :: "'w \<Rightarrow> string \<Rightarrow> Secret list result"
  cl_ListPodPhases :: "'w \<Rightarrow> string \<Rightarrow> string list result"
  cl_ListKind :: "'w \<Rightarrow> GroupVersionKind \<Rightarrow> go_error option"
  cl_GetNamespaceLabels :: "'w \<Rightarrow> string \<Rightarrow> strmap result"
  cl_GetAPIServer :: "'w \<Rightarrow> TLSSecurityProfile option result"
  cl_GetRoute :: "'w \<Rightarrow> NamespacedName \<Rightarrow> Route result"
  cl_GetService :: "'w \<Rightarrow> NamespacedName \<Rightarrow> ObjectMeta result"
  cl_GetQuay :: "'w \<Rightarrow> NamespacedName \<Rightarrow> QuayRegistry result"
  cl_ListQuays :: "'w \<Rightarrow> string \<Rightarrow> QuayRegistry list result"
  cl_Create :: "KObject \<Rightarrow> 'w \<Rightarrow> go_error option \<times> 'w"
  cl_CreateGenerated :: "string \<Rightarrow> KObject \<Rightarrow> 'w \<Rightarrow> string result \<times> 'w"
  cl_Update :: "KObject \<Rightarrow> 'w \<Rightarrow> go_error option \<times> 'w"
  cl_Patch :: "KObject \<Rightarrow> 'w \<Rightarrow> go_error option \<times> 'w"
  cl_Apply :: "KObject \<Rightarrow> 'w \<Rightarrow> go_error option \<times> 'w"
  cl_ApplyV2beta2 :: "KObject \<Rightarrow> 'w \<Rightarrow> go_error option \<times> 'w"
  cl_Delete :: "KObject \<Rightarrow> 'w \<Rightarrow> go_error option \<times> 'w"
  cl_UpdateQuay :: "QuayRegistry \<Rightarrow> 'w \<Rightarrow> go_error option \<times> 'w"
  cl_UpdateQuayStatus :: "QuayRegistry \<Rightarrow> 'w \<Rightarrow> go_error option \<times> 'w"
  cl_PatchNamespaceLabels :: "string \<Rightarrow> strmap \<Rightarrow> 'w \<Rightarrow> go_error option \<times> 'w"
  cl_Event :: "QuayRegistry \<Rightarrow> string \<Rightarrow> ConditionReason \<Rightarrow> string \<Rightarrow> 'w \<Rightarrow> 'w"
  cl_Now :: "'w \<Rightarrow> Time \<times> 'w"

section \<open>Steps with early exits\<close>

text \<open>A step of a handler changes the world and either leaves the handler with its final answer (\<open>Inl\<close>)
  or goes on with a value. \<open>go_on\<close> sequences steps; a whole handler is a step nothing follows.\<close>

type_synonym ('w, 'x, 'a) step = "'w \<Rightarrow> ('x + 'a) \<times> 'w"

definition go_on :: "('w, 'x, 'a) step \<Rightarrow> ('a \<Rightarrow> ('w, 'x, 'b) step) \<Rightarrow> ('w, 'x, 'b) step" where
  "go_on m k w = (case m w of (Inl x, w') \<Rightarrow> (Inl x, w') | (Inr a, w') \<Rightarrow> k a w')"

definition leave :: "'x \<Rightarrow> ('w, 'x, 'a) step" where
  "leave x w = (Inl x, w)"

definition pass :: "'a \<Rightarrow> ('w, 'x, 'a) step" where
  "pass a w = (Inr a, w)"

lemma go_on_simps [simp]:
  "go_on (leave x) k w = (Inl x, w)"
  "go_on (pass a) k w = k a w"
  "leave x w = (Inl x, w)"
  "pass a w = (Inr a, w)"
  by (simp_all add: go_on_def leave_def pass_def)

lemma go_on_assoc: "go_on (go_on m k) h = go_on m (\<lambda>a. go_on (k a) h)"
  by (rule ext) (auto simp: go_on_def split: prod.split sum.split)

lemma go_on_Inr: "go_on m k w = (Inr b, w'') \<longleftrightarrow> (\<exists>a w'. m w = (Inr a, w') \<and> k a w' = (Inr b, w''))"
  by (auto simp: go_on_def split: prod.split sum.split)

lemma go_on_Inl: "go_on m k w = (Inl x, w'') \<longleftrightarrow>
    m w = (Inl x, w'') \<or> (\<exists>a w'. m w = (Inr a, w') \<and> k a w' = (Inl x, w''))"
  by (auto simp: go_on_def split: prod.split sum.split)

text \<open>A call whatever it answers, and a read of the cluster.\<close>

definition call :: "('w \<Rightarrow> 'a \<times> 'w) \<Rightarrow> ('w, 'x, 'a) step" where
  "call f w = (case f w of (a, w') \<Rightarrow> (Inr a, w'))"

definition look :: "('w \<Rightarrow> 'a) \<Rightarrow> ('w, 'x, 'a) step" where
  "look f w = (Inr (f w), w)"

lemma look_simps [simp]:
  "look f w = (Inr (f w), w)"
  "go_on (look f) k w = k (f w) w"
  by (simp_all add: look_def go_on_def)

lemma go_on_call: "go_on (call f) k w = (case f w of (a, w') \<Rightarrow> k a w')"
  by (simp add: go_on_def call_def split: prod.split)

lemma call_simp: "call f w = (Inr (fst (f w)), snd (f w))"
  by (simp add: call_def split: prod.split)

section \<open>The writes a handler attempts\<close>

datatype cluster_write = Created KObject | Updated KObject | Patched KObject | Applied KObject | Deleted KObject
  | QuayUpdated QuayRegistry | StatusUpdated QuayRegistry | Labelled string strmap

text \<open>Any client, with a log of the writes attempted through it, successful or not. The client itself
  does not see the log, so what holds for the logged client holds for every client.\<close>

definition log_write :: "('w \<Rightarrow> 'a \<times> 'w) \<Rightarrow> cluster_write \<Rightarrow> 'w \<times> cluster_write list \<Rightarrow> 'a \<times> 'w \<times> cluster_write list" where
  "log_write f x = (\<lambda>(w, l). case f w of (r, w') \<Rightarrow> (r, w', l @ [x]))"

definition logged :: "'w Client \<Rightarrow> ('w \<times> cluster_write list) Client" where
  "logged cl = \<lparr>cl_Reader = (\<lambda>s. cl_Reader cl (fst s)), cl_ListSecrets = (\<lambda>s. cl_ListSecrets cl (fst s)),
     cl_ListNamespaceSecrets = (\<lambda>s. cl_ListNamespaceSecrets cl (fst s)),
     cl_ListPodPhases = (\<lambda>s. cl_ListPodPhases cl (fst s)), cl_ListKind = (\<lambda>s. cl_ListKind cl (fst s)),
     cl_GetNamespaceLabels = (\<lambda>s. cl_GetNamespaceLabels cl (fst s)),
     cl_GetAPIServer = (\<lambda>s. cl_GetAPIServer cl (fst s)), cl_GetRoute = (\<lambda>s. cl_GetRoute cl (fst s)),
     cl_GetService = (\<lambda>s. cl_GetService cl (fst s)), cl_GetQuay = (\<lambda>s. cl_GetQuay cl (fst s)),
     cl_ListQuays = (\<lambda>s. cl_ListQuays cl (fst s)),
     cl_Create = (\<lambda>x. log_write (cl_Create cl x) (Created x)),
     cl_CreateGenerated = (\<lambda>p x. log_write (cl_CreateGenerated cl p x) (Created x)),
     cl_Update = (\<lambda>x. log_write (cl_Update cl x) (Updated x)),
     cl_Patch = (\<lambda>x. log_write (cl_Patch cl x) (Patched x)),
     cl_Apply = (\<lambda>x. log_write (cl_Apply cl x) (Applied x)),
     cl_ApplyV2beta2 = (\<lambda>x. log_write (cl_ApplyV2beta2 cl x) (Applied x)),
     cl_Delete = (\<lambda>x. log_write (cl_Delete cl x) (Deleted x)),
     cl_UpdateQuay = (\<lambda>q. log_write (cl_UpdateQuay cl q) (QuayUpdated q)),
     cl_UpdateQuayStatus = (\<lambda>q. log_write (cl_UpdateQuayStatus cl q) (StatusUpdated q)),
     cl_PatchNamespaceLabels = (\<lambda>n ls. log_write (cl_PatchNamespaceLabels cl n ls) (Labelled n ls)),
     cl_Event = (\<lambda>q t r m s. (cl_Event cl q t r m (fst s), snd s)),
     cl_Now = (\<lambda>s. case cl_Now cl (fst s) of (t, w') \<Rightarrow> (t, w', snd s))\<rparr>"

text \<open>\<open>emits P m\<close>: from any state, what \<open>m\<close> adds to the log are writes that satisfy \<open>P\<close>.\<close>

definition emits :: "(cluster_write \<Rightarrow> bool) \<Rightarrow> ('w \<times> cluster_write list \<Rightarrow> 'a \<times> 'w \<times> cluster_write list) \<Rightarrow> bool" where
  "emits P m \<longleftrightarrow> (\<forall>w l. \<exists>ws. snd (snd (m (w, l))) = l @ ws \<and> list_all P ws)"

named_theorems emits_intros \<open>compositional rules for the writes of a handler\<close>

lemma emitsI: "(\<And>w l. \<exists>ws. snd (snd (m (w, l))) = l @ ws \<and> list_all P ws) \<Longrightarrow> emits P m"
  by (simp add: emits_def)

lemma emitsD:
  assumes "emits P m"
  obtains ws where "snd (snd (m (w, l))) = l @ ws" and "list_all P ws"
  using assms by (auto simp: emits_def)

lemma emits_run:
  assumes "emits P m" and "m (w, []) = (r, w', ws)"
  shows "list_all P ws"
proof -
  obtain ws' where "snd (snd (m (w, []))) = [] @ ws'" and "list_all P ws'"
    using assms(1) by (rule emitsD)
  with assms(2) show ?thesis by simp
qed

lemma emits_mono: "emits P m \<Longrightarrow> (\<And>x. P x \<Longrightarrow> Q x) \<Longrightarrow> emits Q m"
  unfolding emits_def by (meson list_all_cong list.pred_mono_strong)

lemma emits_log [emits_intros]: "P x \<Longrightarrow> emits P (log_write f x)"
  by (rule emitsI) (simp add: log_write_def split: prod.split)

lemma emits_pure [emits_intros]: "emits P (\<lambda>s. (f s, s))"
  by (rule emitsI) simp

lemma emits_leave [emits_intros]: "emits P (leave x)" "emits P (pass a)" "emits P (look g)"
  by (rule emitsI; simp)+

lemma emits_bind:
  assumes "emits P m" and "\<And>a. emits P (k a)"
  shows "emits P (\<lambda>s. case m s of (a, s') \<Rightarrow> k a s')"
proof (rule emitsI)
  fix w l
  obtain ws where ws: "snd (snd (m (w, l))) = l @ ws" "list_all P ws"
    using assms(1) by (rule emitsD)
  obtain a w' l' where m: "m (w, l) = (a, w', l')" by (cases "m (w, l)") auto
  obtain vs where vs: "snd (snd (k a (w', l'))) = l' @ vs" "list_all P vs"
    using assms(2) by (rule emitsD)
  show "\<exists>ws. snd (snd (case m (w, l) of (a, s') \<Rightarrow> k a s')) = l @ ws \<and> list_all P ws"
    by (rule exI [of _ "ws @ vs"]) (use ws vs m in simp)
qed

lemma emits_call [emits_intros]: "emits P f \<Longrightarrow> emits P (call f)"
  by (rule emitsI) (auto simp: call_simp elim: emitsD)

lemma emits_go_on [emits_intros]:
  assumes "emits P m" and "\<And>a. emits P (k a)"
  shows "emits P (go_on m k)"
proof -
  have "go_on m k = (\<lambda>s. case m s of (a, s') \<Rightarrow> (case a of Inl x \<Rightarrow> leave x | Inr b \<Rightarrow> k b) s')"
    by (rule ext) (simp add: go_on_def split: prod.split sum.split)
  moreover have "emits P (case a of Inl x \<Rightarrow> leave x | Inr b \<Rightarrow> k b)" for a
    using assms(2) by (auto intro: emits_leave split: sum.split)
  ultimately show ?thesis
    using emits_bind [OF assms(1), of "\<lambda>a. case a of Inl x \<Rightarrow> leave x | Inr b \<Rightarrow> k b"] by simp
qed

text \<open>The values a step can hand on, and the rule that lets the next step rely on them.\<close>

definition returns :: "('w, 'x, 'a) step \<Rightarrow> 'a \<Rightarrow> bool" where
  "returns m a \<longleftrightarrow> (\<exists>s s'. m s = (Inr a, s'))"

lemma returns_simps [simp]:
  "returns (leave x) a = False"
  "returns (pass b) a = (a = b)"
  by (auto simp: returns_def)

lemma returns_look: "returns (look f) a \<Longrightarrow> \<exists>s. a = f s"
  by (auto simp: returns_def)

lemma returns_go_on: "returns (go_on m k) b \<Longrightarrow> \<exists>a. returns m a \<and> returns (k a) b"
  by (auto simp: returns_def go_on_Inr)

lemma emits_go_on_returns:
  assumes "emits P m" and "\<And>a. returns m a \<Longrightarrow> emits P (k a)"
  shows "emits P (go_on m k)"
proof -
  let ?k = "\<lambda>a. if returns m a then k a else (\<lambda>s. (Inr undefined, s))"
  have "go_on m k = go_on m ?k"
    by (rule ext) (auto simp: go_on_def returns_def split: prod.split sum.split)
  moreover have "emits P (go_on m ?k)"
    using assms by (intro emits_go_on) (auto intro: emits_pure)
  ultimately show ?thesis by simp
qed

lemma logged_writes [simp]:
  "cl_Create (logged cl) x = log_write (cl_Create cl x) (Created x)"
  "cl_CreateGenerated (logged cl) p x = log_write (cl_CreateGenerated cl p x) (Created x)"
  "cl_Update (logged cl) x = log_write (cl_Update cl x) (Updated x)"
  "cl_Patch (logged cl) x = log_write (cl_Patch cl x) (Patched x)"
  "cl_Apply (logged cl) x = log_write (cl_Apply cl x) (Applied x)"
  "cl_ApplyV2beta2 (logged cl) x = log_write (cl_ApplyV2beta2 cl x) (Applied x)"
  "cl_Delete (logged cl) x = log_write (cl_Delete cl x) (Deleted x)"
  "cl_UpdateQuay (logged cl) q = log_write (cl_UpdateQuay cl q) (QuayUpdated q)"
  "cl_UpdateQuayStatus (logged cl) q = log_write (cl_UpdateQuayStatus cl q) (StatusUpdated q)"
  "cl_PatchNamespaceLabels (logged cl) n ls = log_write (cl_PatchNamespaceLabels cl n ls) (Labelled n ls)"
  by (simp_all add: logged_def)

lemma emits_quiet [emits_intros]:
  "emits P (cl_Now (logged cl))"
  "emits P (\<lambda>s. ((), cl_Event (logged cl) q t r m s))"
  by (rule emitsI; simp add: logged_def split: prod.split)+

lemma logged_reads [simp]:
  "cl_Reader (logged cl) s = cl_Reader cl (fst s)"
  "cl_GetQuay (logged cl) s = cl_GetQuay cl (fst s)"
  "cl_GetService (logged cl) s = cl_GetService cl (fst s)"
  "cl_GetRoute (logged cl) s = cl_GetRoute cl (fst s)"
  "cl_GetNamespaceLabels (logged cl) s = cl_GetNamespaceLabels cl (fst s)"
  "cl_ListQuays (logged cl) s = cl_ListQuays cl (fst s)"
  "cl_ListPodPhases (logged cl) s = cl_ListPodPhases cl (fst s)"
  by (simp_all add: logged_def)

end
