(* ===== verification/Images.thy ===== *)
theory Images
  imports Quay_Types
begin

text \<open>
  Container images: the overrides read from the environment (\<open>ComponentImageFor\<close> and its two variants
  in \<open>pkg/kustomize/kustomize.go\<close>) and the name part of a deployed image (\<open>extractImageName\<close> of
  \<open>controllers/quay/features.go\<close>). \<open>os.Getenv\<close> is a parameter: the empty string where unset.
\<close>

record Image =
  im_Name :: string
  im_NewName :: string
  im_NewTag :: string
  im_Digest :: string

definition componentImagePrefix :: string where
  "componentImagePrefix = ''RELATED_IMAGE_COMPONENT_''"

fun image_env_var :: "ComponentKind \<Rightarrow> string" where
  "image_env_var ComponentQuay = componentImagePrefix @ ''QUAY''"
| "image_env_var ComponentClair = componentImagePrefix @ ''CLAIR''"
| "image_env_var ComponentRedis = componentImagePrefix @ ''REDIS''"
| "image_env_var ComponentPostgres = componentImagePrefix @ ''POSTGRES''"
| "image_env_var ComponentClairPostgres = componentImagePrefix @ ''CLAIRPOSTGRES''"
| "image_env_var _ = ''''"

fun default_image :: "ComponentKind \<Rightarrow> string" where
  "default_image ComponentQuay = ''quay.io/projectquay/quay''"
| "default_image ComponentClair = ''quay.io/projectquay/clair''"
| "default_image ComponentRedis = ''quay.io/sclorg/redis-7-c9s''"
| "default_image ComponentPostgres = ''quay.io/sclorg/postgresql-13-c9s''"
| "default_image ComponentClairPostgres = ''quay.io/sclorg/postgresql-15-c9s''"
| "default_image _ = ''''"

definition plain_image :: "string \<Rightarrow> Image" where
  "plain_image n = \<lparr>im_Name = n, im_NewName = '''', im_NewTag = '''', im_Digest = ''''\<rparr>"

text \<open>The part the three functions share: from the default name and the variable's contents.\<close>

definition image_override :: "string \<Rightarrow> string \<Rightarrow> Image result" where
  "image_override dflt img =
     (if img = '''' then Inr (plain_image dflt)
      else if length (Split img CHR ''@'') = 2
      then Inr ((plain_image dflt)\<lparr>im_NewName := Split img CHR ''@'' ! 0,
                  im_Digest := Split img CHR ''@'' ! 1\<rparr>)
      else if length (Split img CHR '':'') = 2
      then Inr ((plain_image dflt)\<lparr>im_NewName := Split img CHR '':'' ! 0,
                  im_NewTag := Split img CHR '':'' ! 1\<rparr>)
      else Inl (plain_error (''image override must be reference by tag or digest: '' @ img)))"

definition ComponentImageFor :: "(string \<Rightarrow> string) \<Rightarrow> ComponentKind \<Rightarrow> Image result" where
  "ComponentImageFor getenv component =
     image_override (default_image component) (getenv (image_env_var component))"

definition postgresUpgradeImage :: "(string \<Rightarrow> string) \<Rightarrow> Image result" where
  "postgresUpgradeImage getenv =
     image_override ''centos/postgresql-10-centos7'' (getenv ''RELATED_IMAGE_COMPONENT_POSTGRES_PREVIOUS'')"

definition clairpostgresUpgradeImage :: "(string \<Rightarrow> string) \<Rightarrow> Image result" where
  "clairpostgresUpgradeImage getenv =
     image_override ''quay.io/sclorg/postgresql-13-c9s''
       (getenv ''RELATED_IMAGE_COMPONENT_CLAIRPOSTGRES_PREVIOUS'')"

definition extractImageName :: "string \<Rightarrow> string" where
  "extractImageName imageName =
     (let parts = Split imageName CHR ''@'' in
      if length parts > 1 then parts ! 0
      else let parts = Split imageName CHR '':'' in
           if length parts > 1 then parts ! 0 else imageName)"

text \<open>The name an upgrade check compares: the override's if there is one, and its last path element.\<close>

definition expected_name :: "Image result \<Rightarrow> string" where
  "expected_name r = (case r of
     Inl _ \<Rightarrow> ''''
   | Inr i \<Rightarrow> if im_NewName i = '''' then im_Name i else im_NewName i)"

definition repo_name :: "string \<Rightarrow> string" where
  "repo_name name = AfterLast name CHR ''/''"

section \<open>Splitting an image reference\<close>

lemma Split_two: "c \<notin> set a \<Longrightarrow> c \<notin> set b \<Longrightarrow> Split (a @ c # b) c = [a, b]"
  by (simp add: Split_append Split_single)

lemma Split_length_1: "length (Split s c) = 1 \<longleftrightarrow> c \<notin> set s"
proof
  assume "length (Split s c) = 1"
  then obtain p where p: "Split s c = [p]" by (cases "Split s c") auto
  then have "s = p" using Join_Split [of s c] by simp
  moreover have "c \<notin> set p" using Split_hd_no_sep [of p s c] p by simp
  ultimately show "c \<notin> set s" by simp
qed (simp add: Split_single)

lemma Split_length_2: "length (Split s c) = 2 \<longleftrightarrow> (\<exists>a b. s = a @ c # b \<and> c \<notin> set a \<and> c \<notin> set b)"
proof
  assume "length (Split s c) = 2"
  then obtain a b where ab: "Split s c = [a, b]"
    by (cases "Split s c"; cases "tl (Split s c)") auto
  then have "s = a @ c # b" using Join_Split [of s c] by simp
  moreover have "c \<notin> set a" "c \<notin> set b" using Split_hd_no_sep [of _ s c] ab by auto
  ultimately show "\<exists>a b. s = a @ c # b \<and> c \<notin> set a \<and> c \<notin> set b" by blast
qed (auto simp: Split_two)

lemma Split_first: "c \<in> set s \<Longrightarrow> \<exists>b. s = Split s c ! 0 @ c # b \<and> c \<notin> set (Split s c ! 0)"
proof -
  assume "c \<in> set s"
  then obtain a b where ab: "s = a @ c # b" "c \<notin> set a" by (meson split_list_first)
  then show ?thesis by (auto simp: Split_append)
qed

lemma Split_more_iff: "length (Split s c) > 1 \<longleftrightarrow> c \<in> set s"
proof -
  have "length (Split s c) > 0" using Split_not_Nil [of s c] by blast
  then have "length (Split s c) > 1 \<longleftrightarrow> length (Split s c) \<noteq> 1" by linarith
  then show ?thesis using Split_length_1 [of s c] by blast
qed

end
