(* ===== verification/Features.thy ===== *)
theory Features
  imports Cluster_Client Cmp_Checkers Middleware Images
begin

text \<open>
  \<open>controllers/quay/features.go\<close> and \<open>controllers/quay/tls.go\<close>: what a reconcile learns from the
  cluster and from the config bundle before it builds anything, collected in the context. A check that
  writes to the cluster threads the world. SHA-256, YAML, the config-tool field group, the TLS
  handshake and the table of OpenShift's TLS profiles are fields of an environment.
\<close>

record FeatureEnv =
  fe_Sha256Hex :: "string \<Rightarrow> string"
  fe_Unmarshal :: "string \<Rightarrow> YamlMap result"
  fe_HostSettings :: "Config \<Rightarrow> string result"
  fe_Dial :: "string \<Rightarrow> string list result"
  fe_PemEncode :: "string \<Rightarrow> string result"
  fe_TLSProfiles :: "string \<Rightarrow> TLSProfileSpec option"
  fe_Getenv :: "string \<Rightarrow> string"

definition unmarshal_config :: "FeatureEnv \<Rightarrow> Secret \<Rightarrow> Config result" where
  "unmarshal_config env bundle =
     and_then (fe_Unmarshal env (gstr (sec_Data bundle) ''config.yaml'')) (\<lambda>m. Inr (config_of m))"

text \<open>The last eight characters of a hexadecimal digest.\<close>

definition short_hash :: "FeatureEnv \<Rightarrow> string \<Rightarrow> string" where
  "short_hash env s = (let h = fe_Sha256Hex env s in drop (length h - 8) h)"

section \<open>Managed keys\<close>

definition populate_keys :: "Secret \<Rightarrow> QuayRegistryContext \<Rightarrow> QuayRegistryContext" where
  "populate_keys secret qctx = qctx\<lparr>
     DatabaseSecretKey := gstr (sec_Data secret) ''DATABASE_SECRET_KEY'',
     SecretKey := gstr (sec_Data secret) ''SECRET_KEY'',
     DbUri := gstr (sec_Data secret) ''DB_URI'',
     DbRootPw := gstr (sec_Data secret) ''DB_ROOT_PW'',
     SecurityScannerV4PSK := gstr (sec_Data secret) ''SECURITY_SCANNER_V4_PSK'',
     ClairDbUser := gstr (sec_Data secret) ''CLAIR_DB_USER'',
     ClairDbPassword := gstr (sec_Data secret) ''CLAIR_DB_PASSWORD'',
     ClairDbRootPw := gstr (sec_Data secret) ''CLAIR_DB_ROOT_PW'',
     ClairDbName := gstr (sec_Data secret) ''CLAIR_DB_NAME''\<rparr>"

definition checkDeprecatedManagedKeys ::
  "'w Client \<Rightarrow> 'w \<Rightarrow> QuayRegistryContext \<Rightarrow> QuayRegistry \<Rightarrow> QuayRegistryContext result" where
  "checkDeprecatedManagedKeys cl w qctx quay =
     and_then (cl_ListSecrets cl w (qr_Namespace quay) (qr_Name quay)) (\<lambda>items.
       Inr (case find (IsManagedKeysSecretFor quay) items of
              None \<Rightarrow> qctx | Some secret \<Rightarrow> populate_keys secret qctx))"

definition checkManagedKeys ::
  "'w Client \<Rightarrow> 'w \<Rightarrow> QuayRegistryContext \<Rightarrow> QuayRegistry \<Rightarrow> QuayRegistryContext result" where
  "checkManagedKeys cl w qctx quay =
     (case GetSecret (cl_Reader cl w) (nsn (qr_Namespace quay) (qr_Name quay @ ''-'' @ ManagedKeysName)) of
        Inl err \<Rightarrow> if IsNotFound err then checkDeprecatedManagedKeys cl w qctx quay else Inl err
      | Inr secret \<Rightarrow> Inr (populate_keys secret qctx))"

section \<open>Certificate authorities\<close>

definition hashConfigMapContents :: "FeatureEnv \<Rightarrow> strmap \<Rightarrow> string \<Rightarrow> string" where
  "hashConfigMapContents env contents key =
     (case gget contents key of None \<Rightarrow> '''' | Some certData \<Rightarrow> short_hash env certData)"

text \<open>The block made twice: read the config map (an error is ignored), hash the certificates, and
  record a new hash in the annotations of the config map. The context is set before the annotations
  are written, which panics when there are none.\<close>

definition track_ca ::
  "FeatureEnv \<Rightarrow> 'w Client \<Rightarrow> QuayRegistry \<Rightarrow> string \<Rightarrow> string \<Rightarrow> 'w \<Rightarrow> string option result \<times> 'w" where
  "track_ca env cl quay caName key w =
     (case GetConfigMap (cl_Reader cl w) (nsn (qr_Namespace quay) (qr_Name quay @ ''-'' @ caName)) of
        Inl err \<Rightarrow> (Inr None, w)
      | Inr cm \<Rightarrow>
          let h = hashConfigMapContents env (cm_Data cm) key;
              annotations = om_Annotations (cm_Meta cm)
          in if gget annotations caName = Some h then (Inr (Some h), w)
             else case gput annotations caName h of
               Inl panic \<Rightarrow> (Inl panic, w)
             | Inr annotations' \<Rightarrow>
                 (case cl_Update cl (OConfigMap (cm\<lparr>cm_Meta := (cm_Meta cm)\<lparr>om_Annotations := annotations'\<rparr>\<rparr>)) w of
                    (Some err, w') \<Rightarrow> (Inl err, w')
                  | (None, w') \<Rightarrow> (Inr (Some h), w')))"

definition checkClusterCAHash ::
  "FeatureEnv \<Rightarrow> 'w Client \<Rightarrow> QuayRegistryContext \<Rightarrow> QuayRegistry \<Rightarrow> 'w \<Rightarrow> QuayRegistryContext result \<times> 'w" where
  "checkClusterCAHash env cl qctx quay w =
     (case track_ca env cl quay ClusterServiceCAName ''service-ca.crt'' w of
        (Inl err, w') \<Rightarrow> (Inl err, w')
      | (Inr h, w') \<Rightarrow>
          let qctx = (case h of None \<Rightarrow> qctx | Some x \<Rightarrow> qctx\<lparr>ClusterServiceCAHash := x\<rparr>) in
          (case track_ca env cl quay ClusterTrustedCAName ''ca-bundle.crt'' w' of
             (Inl err, w'') \<Rightarrow> (Inl err, w'')
           | (Inr h, w'') \<Rightarrow>
               (Inr (case h of None \<Rightarrow> qctx | Some x \<Rightarrow> qctx\<lparr>ClusterTrustedCAHash := x\<rparr>), w'')))"

section \<open>TLS\<close>

definition checkManagedTLS :: "QuayRegistryContext \<Rightarrow> Secret \<Rightarrow> QuayRegistryContext" where
  "checkManagedTLS qctx bundle =
     (let cert = gstr (sec_Data bundle) ''ssl.cert''; key = gstr (sec_Data bundle) ''ssl.key'' in
      if length cert = 0 \<or> length key = 0 then qctx
      else qctx\<lparr>TLSCert := Some cert, TLSKey := Some key\<rparr>)"

text \<open>Labelling the referenced secret so that the informer picks it up.\<close>

definition label_external_secret ::
  "'w Client \<Rightarrow> string \<Rightarrow> Secret \<Rightarrow> 'w \<Rightarrow> go_error option \<times> 'w" where
  "label_external_secret cl secretName secret w =
     (if gstr (om_Labels (sec_Meta secret)) TLSSecretLabel = ''true'' then (None, w)
      else case gput (gmake (om_Labels (sec_Meta secret))) TLSSecretLabel ''true'' of
        Inl panic \<Rightarrow> (Some panic, w)
      | Inr ls \<Rightarrow>
          (case cl_Patch cl (OSecret (secret\<lparr>sec_Meta := (sec_Meta secret)\<lparr>om_Labels := ls\<rparr>\<rparr>)) w of
             (Some err, w') \<Rightarrow> (Some (wrap_error (''unable to label external TLS secret '' @
                                  Quote secretName @ '': '') err), w')
           | (None, w') \<Rightarrow> (None, w')))"

definition checkExternalTLSSecret ::
  "FeatureEnv \<Rightarrow> 'w Client \<Rightarrow> QuayRegistryContext \<Rightarrow> QuayRegistry \<Rightarrow> Secret \<Rightarrow> 'w
     \<Rightarrow> QuayRegistryContext result \<times> 'w" where
  "checkExternalTLSSecret env cl qctx quay bundle w =
     (case GetTLSSecretRef (qr_Components quay) of
        None \<Rightarrow> (Inr qctx, w)
      | Some secretName \<Rightarrow>
          if gget (sec_Data bundle) ''ssl.cert'' \<noteq> None
          then (Inl (plain_error
            ''tls component secretRef and ssl.cert in configBundleSecret are mutually exclusive''), w)
          else if gget (sec_Data bundle) ''ssl.key'' \<noteq> None
          then (Inl (plain_error
            ''tls component secretRef and ssl.key in configBundleSecret are mutually exclusive''), w)
          else case FetchAndValidate (cl_Reader cl w) (qr_Namespace quay) secretName of
            Inl err \<Rightarrow> (Inl err, w)
          | Inr (cert, key, secret) \<Rightarrow>
              (case label_external_secret cl secretName secret w of
                 (Some err, w') \<Rightarrow> (Inl err, w')
               | (None, w') \<Rightarrow> (Inr (qctx\<lparr>TLSCert := Some cert, TLSKey := Some key,
                                   TLSSecretHash := short_hash env (cert @ key)\<rparr>), w')))"

section \<open>TLS security profile (tls.go)\<close>

definition tlsVersionToProtocols :: "string \<Rightarrow> string" where
  "tlsVersionToProtocols minVersion =
     (if minVersion = ''VersionTLS10'' then ''TLSv1 TLSv1.1 TLSv1.2 TLSv1.3''
      else if minVersion = ''VersionTLS11'' then ''TLSv1.1 TLSv1.2 TLSv1.3''
      else if minVersion = ''VersionTLS12'' then ''TLSv1.2 TLSv1.3''
      else if minVersion = ''VersionTLS13'' then ''TLSv1.3''
      else ''TLSv1.2 TLSv1.3'')"

definition tlsCiphersToString :: "string list \<Rightarrow> string" where
  "tlsCiphersToString ciphers = Join ciphers '':''"

text \<open>The specification of a profile: the table of the library holds pointers, and reading a profile it
  does not list gives nil, which panics.\<close>

definition profile_spec :: "FeatureEnv \<Rightarrow> string \<Rightarrow> (string \<times> string) result" where
  "profile_spec env ty = (case fe_TLSProfiles env ty of
     None \<Rightarrow> Inl (GoPanic ''invalid memory address or nil pointer dereference'')
   | Some spec \<Rightarrow> Inr (tlsVersionToProtocols (tp_MinTLSVersion spec), tlsCiphersToString (tp_Ciphers spec)))"

definition translateTLSProfile :: "FeatureEnv \<Rightarrow> TLSSecurityProfile option \<Rightarrow> (string \<times> string) result" where
  "translateTLSProfile env profile =
     (case profile of
        None \<Rightarrow> profile_spec env ''Intermediate''
      | Some p \<Rightarrow>
          if tsp_Type p = ''Custom''
          then (case tsp_Custom p of
                  Some spec \<Rightarrow> Inr (tlsVersionToProtocols (tp_MinTLSVersion spec),
                                 tlsCiphersToString (tp_Ciphers spec))
                | None \<Rightarrow> profile_spec env ''Intermediate'')
          else if fe_TLSProfiles env (tsp_Type p) = None then profile_spec env ''Intermediate''
          else profile_spec env (tsp_Type p))"

fun IsNoMatchError :: "go_error \<Rightarrow> bool" where
  "IsNoMatchError (GoError NoMatchError _) = True"
| "IsNoMatchError _ = False"

fun IsNotRegisteredError :: "go_error \<Rightarrow> bool" where
  "IsNotRegisteredError (GoError NotRegisteredError _) = True"
| "IsNotRegisteredError _ = False"

definition checkTLSSecurityProfile ::
  "FeatureEnv \<Rightarrow> 'w Client \<Rightarrow> 'w \<Rightarrow> QuayRegistryContext \<Rightarrow> Secret \<Rightarrow> QuayRegistryContext result" where
  "checkTLSSecurityProfile env cl w qctx bundle =
     (case unmarshal_config env bundle of
        Inl err \<Rightarrow> Inl (wrap_error ''parsing config.yaml: '' err)
      | Inr config \<Rightarrow>
          if gget config ''SSL_PROTOCOLS'' \<noteq> None then Inr qctx
          else if gget config ''SSL_CIPHERS'' \<noteq> None then Inr qctx
          else case cl_GetAPIServer cl w of
            Inl err \<Rightarrow>
              if IsNotFound err then Inr qctx
              else if IsNoMatchError err \<or> IsNotRegisteredError err then Inr qctx
              else Inl (wrap_error ''fetching APIServer: '' err)
          | Inr profile \<Rightarrow>
              and_then (translateTLSProfile env profile) (\<lambda>(protocols, ciphers).
                Inr (qctx\<lparr>SSLProtocols := protocols, SSLCiphers := ciphers\<rparr>)))"

section \<open>Host names and the probe route\<close>

definition parseServerHostname ::
  "FeatureEnv \<Rightarrow> QuayRegistryContext \<Rightarrow> Secret \<Rightarrow> QuayRegistryContext result" where
  "parseServerHostname env qctx bundle =
     (case unmarshal_config env bundle of
        Inl err \<Rightarrow> Inl (wrap_error ''unable to parse config.yaml: '' err)
      | Inr config \<Rightarrow>
          and_then (fe_HostSettings env config) (\<lambda>hostname.
            Inr (if hostname \<noteq> '''' then qctx\<lparr>ServerHostname := hostname\<rparr> else qctx)))"

text \<open>What the reconciler keeps for its lifetime.\<close>

record RouteCache =
  rc_Hostname :: "string option"
  rc_WildcardCert :: "string option"

definition pem_append :: "FeatureEnv \<Rightarrow> string \<Rightarrow> string \<Rightarrow> string result" where
  "pem_append env b cert = and_then (fe_PemEncode env cert) (\<lambda>block. Inr (b @ block))"

definition getCertificatesPEM :: "FeatureEnv \<Rightarrow> string \<Rightarrow> string result" where
  "getCertificatesPEM env address =
     and_then (fe_Dial env address) (fold_result (pem_append env) '''')"

definition probe_route :: "QuayRegistry \<Rightarrow> Route" where
  "probe_route quay = \<lparr>
     rt_Meta = EnsureOwnerReference quay (meta_named (qr_Namespace quay) (qr_Name quay @ ''-test-route'')),
     rt_Host = '''', rt_TLS = None, rt_PortTarget = None, rt_Ingress = []\<rparr>"

definition cluster_hostname :: "RouteIngress \<Rightarrow> string" where
  "cluster_hostname ing =
     TrimPrefix (ing_RouterCanonicalHostname ing) (''router-'' @ ing_RouterName ing @ ''.'')"

text \<open>The slow path once the probe route exists: the hostname is cached, the certificate when the
  handshake works, and the probe route is deleted; an error of the deletion is only logged.\<close>

definition discover_from ::
  "FeatureEnv \<Rightarrow> 'w Client \<Rightarrow> QuayRegistryContext \<Rightarrow> RouteCache \<Rightarrow> Route \<Rightarrow> RouteIngress \<Rightarrow> 'w
     \<Rightarrow> QuayRegistryContext \<times> RouteCache \<times> 'w" where
  "discover_from env cl qctx cache rt ing w =
     (let hostname = cluster_hostname ing;
          qctx = qctx\<lparr>SupportsRoutes := True, ClusterHostname := hostname\<rparr>;
          cache = cache\<lparr>rc_Hostname := Some hostname\<rparr>;
          (qctx, cache) = (case getCertificatesPEM env (rt_Host rt @ '':443'') of
             Inl _ \<Rightarrow> (qctx, cache)
           | Inr wildcard \<Rightarrow> (qctx\<lparr>ClusterWildcardCert := Some wildcard\<rparr>,
                              cache\<lparr>rc_WildcardCert := Some wildcard\<rparr>))
      in (qctx, cache, snd (cl_Delete cl (ORoute rt) w)))"

definition ensureRouteDiscovery ::
  "FeatureEnv \<Rightarrow> 'w Client \<Rightarrow> QuayRegistryContext \<Rightarrow> QuayRegistry \<Rightarrow> RouteCache \<Rightarrow> 'w
     \<Rightarrow> QuayRegistryContext result \<times> RouteCache \<times> 'w" where
  "ensureRouteDiscovery env cl qctx quay cache w =
     (case rc_Hostname cache of
        Some cached \<Rightarrow>
          let qctx = qctx\<lparr>SupportsRoutes := True, ClusterHostname := cached\<rparr> in
          (Inr (case rc_WildcardCert cache of
                  None \<Rightarrow> qctx | Some c \<Rightarrow> qctx\<lparr>ClusterWildcardCert := Some c\<rparr>), cache, w)
      | None \<Rightarrow>
          (case cl_Create cl (ORoute (probe_route quay)) w of
             (created, w') \<Rightarrow>
               if (case created of Some err \<Rightarrow> \<not> IsAlreadyExists err | None \<Rightarrow> False) then (Inr qctx, cache, w')
               else case cl_GetRoute cl w' (nsn (qr_Namespace quay) (qr_Name quay @ ''-test-route'')) of
                 Inl err \<Rightarrow> (Inl (wrap_error ''failed to get probe route: '' err), cache, w')
               | Inr rt \<Rightarrow>
                   (case rt_Ingress rt of
                      [] \<Rightarrow> (Inl (GoError RouteProbeInProgress
                              ''route probe in progress, awaiting ingress status''), cache, w')
                    | ing # _ \<Rightarrow> (case discover_from env cl qctx cache rt ing w' of
                        (qctx', cache', w'') \<Rightarrow> (Inr qctx', cache', w'')))))"

definition fillServerHostname :: "QuayRegistryContext \<Rightarrow> QuayRegistry \<Rightarrow> QuayRegistryContext" where
  "fillServerHostname qctx quay =
     (if ServerHostname qctx \<noteq> '''' then qctx
      else if ClusterHostname qctx = '''' then qctx
      else qctx\<lparr>ServerHostname := qr_Name quay @ ''-quay-'' @ qr_Namespace quay @ ''.'' @ ClusterHostname qctx\<rparr>)"

section \<open>Object storage\<close>

definition datastore_host :: "string \<Rightarrow> string" where
  "datastore_host host =
     (if Contains host ''.svc'' \<and> \<not> Contains host ''.svc.cluster.local''
      then ReplaceAll host ''.svc'' ''.svc.cluster.local'' else host)"

definition read_datastore ::
  "Reader \<Rightarrow> QuayRegistryContext \<Rightarrow> NamespacedName \<Rightarrow> go_error option \<times> QuayRegistryContext" where
  "read_datastore cli qctx name =
     (case GetSecret cli name of
        Inl _ \<Rightarrow> (Some (plain_error ''awaiting for bucket claim to be processed''), qctx)
      | Inr secret \<Rightarrow>
          (case GetConfigMap cli name of
             Inl _ \<Rightarrow> (Some (plain_error ''awaiting for bucket claim to be processed''), qctx)
           | Inr config \<Rightarrow> (None, qctx\<lparr>
               StorageBucketName := gstr (cm_Data config) ''BUCKET_NAME'',
               StorageHostname := datastore_host (gstr (cm_Data config) ''BUCKET_HOST''),
               StorageAccessKey := gstr (sec_Data secret) ''AWS_ACCESS_KEY_ID'',
               StorageSecretKey := gstr (sec_Data secret) ''AWS_SECRET_ACCESS_KEY'',
               ObjectStorageInitialized := True\<rparr>)))"

text \<open>The caller ignores the error while object storage is unmanaged, so the context matters even then.\<close>

definition checkObjectBucketClaimsAvailable ::
  "'w Client \<Rightarrow> 'w \<Rightarrow> QuayRegistryContext \<Rightarrow> QuayRegistry \<Rightarrow> go_error option \<times> QuayRegistryContext" where
  "checkObjectBucketClaimsAvailable cl w qctx quay =
     (let name = nsn (qr_Namespace quay) (qr_Name quay @ ''-quay-datastore'') in
      case ListObjectBucketClaims (cl_Reader cl w) (qr_Namespace quay) of
        Inl err \<Rightarrow> (Some (format_error ''unable to list object bucket claims: '' err), qctx)
      | Inr claims \<Rightarrow>
          let qctx = qctx\<lparr>SupportsObjectStorage := True\<rparr> in
          if list_ex (\<lambda>obc. om_Namespace (obc_Meta obc) @ ''/'' @ om_Name (obc_Meta obc)
                            = nn_Namespace name @ ''/'' @ nn_Name name) claims
          then read_datastore (cl_Reader cl w) qctx name
          else (None, qctx))"

section \<open>Databases\<close>

definition database_initialized :: "Reader \<Rightarrow> QuayRegistry \<Rightarrow> ComponentKind \<Rightarrow> string \<Rightarrow> bool" where
  "database_initialized cli quay component suffix =
     (if \<not> ComponentIsManaged (qr_Components quay) component then True
      else case GetDeployment cli (nsn (qr_Namespace quay) (qr_Name quay @ ''-'' @ suffix)) of
        Inl _ \<Rightarrow> False
      | Inr dep \<Rightarrow> dep_AvailableReplicas dep > 0)"

definition checkManagedDatabaseReady ::
  "Reader \<Rightarrow> QuayRegistryContext \<Rightarrow> QuayRegistry \<Rightarrow> QuayRegistryContext" where
  "checkManagedDatabaseReady cli qctx quay = qctx\<lparr>
     DatabaseInitialized := database_initialized cli quay ComponentPostgres ''quay-database'',
     ClairDatabaseInitialized := database_initialized cli quay ComponentClairPostgres ''clair-postgres''\<rparr>"

section \<open>Build manager and monitoring\<close>

definition checkBuildManagerAvailable ::
  "FeatureEnv \<Rightarrow> QuayRegistryContext \<Rightarrow> Secret \<Rightarrow> QuayRegistryContext result" where
  "checkBuildManagerAvailable env qctx bundle =
     and_then (unmarshal_config env bundle) (\<lambda>config.
       case gget config ''BUILDMAN_HOSTNAME'' of
         None \<Rightarrow> Inr qctx
       | Some v \<Rightarrow> and_then (yaml_string v) (\<lambda>s. Inr (qctx\<lparr>BuildManagerHostname := s\<rparr>)))"

definition grafanaDashboardConfigNamespace :: string where
  "grafanaDashboardConfigNamespace = ''openshift-config-managed''"

definition checkMonitoringAvailable ::
  "'w Client \<Rightarrow> 'w \<Rightarrow> string \<Rightarrow> QuayRegistryContext \<Rightarrow> QuayRegistryContext result" where
  "checkMonitoringAvailable cl w watchNamespace qctx =
     (if length watchNamespace > 0
      then Inl (plain_error ''monitoring is only supported in AllNamespaces mode'')
      else case cl_ListKind cl w (monitoring_gvk ''ServiceMonitorList'') of
        Some err \<Rightarrow> Inl err
      | None \<Rightarrow>
          (case cl_ListKind cl w (monitoring_gvk ''PrometheusRuleList'') of
             Some err \<Rightarrow> Inl err
           | None \<Rightarrow>
               (case cl_GetNamespaceLabels cl w grafanaDashboardConfigNamespace of
                  Inl err \<Rightarrow> Inl (format_error ''unable to get grafana namespace: '' err)
                | Inr _ \<Rightarrow> Inr (qctx\<lparr>SupportsMonitoring := True\<rparr>))))"

section \<open>Database upgrades\<close>

text \<open>The map \<open>componentInfo\<close>: the deployment and the field of the context.\<close>

definition upgrade_suffix :: "ComponentKind \<Rightarrow> string option" where
  "upgrade_suffix component =
     (if component = ComponentClairPostgres then Some ''clair-postgres''
      else if component = ComponentPostgres then Some ''quay-database'' else None)"

definition mark_upgrade :: "ComponentKind \<Rightarrow> QuayRegistryContext \<Rightarrow> QuayRegistryContext" where
  "mark_upgrade component qctx =
     (if component = ComponentClairPostgres then qctx\<lparr>NeedsClairPgUpgrade := True\<rparr>
      else qctx\<lparr>NeedsPgUpgrade := True\<rparr>)"

definition needs_upgrade :: "FeatureEnv \<Rightarrow> ComponentKind \<Rightarrow> string \<Rightarrow> bool" where
  "needs_upgrade env component deployed =
     (repo_name (extractImageName deployed)
      \<noteq> repo_name (expected_name (ComponentImageFor (fe_Getenv env) component)))"

definition scale_to_zero :: "Deployment \<Rightarrow> Deployment" where
  "scale_to_zero dep = dep\<lparr>dep_Replicas := Some 0,
     dep_Template := (dep_Template dep)\<lparr>pt_TerminationGracePeriodSeconds := Some 600\<rparr>\<rparr>"

text \<open>An error of the update is only logged. The pods are those the selector of the deployment finds, in
  every namespace the client watches.\<close>

definition scale_down_database ::
  "'w Client \<Rightarrow> Deployment \<Rightarrow> 'w \<Rightarrow> (go_error option \<times> bool) \<times> 'w" where
  "scale_down_database cl dep w =
     (let w' = snd (cl_Update cl (ODeployment (scale_to_zero dep)) w) in
      case cl_ListPodPhases cl w' (dep_Selector dep) of
        Inl err \<Rightarrow> ((Some err, False), w')
      | Inr phases \<Rightarrow>
          if length (filter (\<lambda>p. p = ''Running'') phases) > 0 then ((None, False), w')
          else ((None, True), w'))"

text \<open>The result is the pair the source returns, the context and the world.\<close>

definition checkNeedsPostgresUpgradeForComponent ::
  "FeatureEnv \<Rightarrow> 'w Client \<Rightarrow> QuayRegistryContext \<Rightarrow> QuayRegistry \<Rightarrow> ComponentKind \<Rightarrow> 'w
     \<Rightarrow> (go_error option \<times> bool) \<times> QuayRegistryContext \<times> 'w" where
  "checkNeedsPostgresUpgradeForComponent env cl qctx quay component w =
     (case upgrade_suffix component of
        None \<Rightarrow> ((Some (plain_error (''invalid component kind: '' @ kind_name component)), False), qctx, w)
      | Some suffix \<Rightarrow>
          (case GetDeployment (cl_Reader cl w) (nsn (qr_Namespace quay) (qr_Name quay @ ''-'' @ suffix)) of
             Inl err \<Rightarrow> ((None, True), qctx, w)
           | Inr dep \<Rightarrow>
               (case pt_Containers (dep_Template dep) of
                  [] \<Rightarrow> ((Some (GoPanic ''index out of range [0] with length 0''), False), qctx, w)
                | c # _ \<Rightarrow>
                    if needs_upgrade env component (cn_Image c)
                    then (case scale_down_database cl dep w of
                            (r, w') \<Rightarrow> (r, mark_upgrade component qctx, w'))
                    else ((None, True), qctx, w))))"

end
