(* ===== verification/Demo_Client.thy ===== *)
theory Demo_Client
  imports Features Demo_Cluster
begin

text \<open>
  A client for the witnesses: it answers from a fixed reader, accepts every write and records the
  objects written, so a witness can look at what was done. Instances of the libraries the features and
  the middleware call.
\<close>

definition fixed_client :: "Reader \<Rightarrow> cluster_write list Client" where
  "fixed_client rd = \<lparr>cl_Reader = (\<lambda>_. rd), cl_ListSecrets = (\<lambda>_ _ _. Inr []),
     cl_ListNamespaceSecrets = (\<lambda>_ _. Inr []),
     cl_ListPodPhases = (\<lambda>_ _. Inr [''Succeeded'']), cl_ListKind = (\<lambda>_ _. None),
     cl_GetNamespaceLabels = (\<lambda>_ _. Inr None), cl_GetAPIServer = (\<lambda>_. Inr None),
     cl_GetRoute = (\<lambda>_ _. not_found ''route''), cl_GetService = (\<lambda>_ _. not_found ''service''),
     cl_GetQuay = (\<lambda>_ _. not_found ''quay''), cl_ListQuays = (\<lambda>_ _. Inr []),
     cl_Create = (\<lambda>x w. (None, w @ [Created x])),
     cl_CreateGenerated = (\<lambda>p x w. (Inr (p @ ''x''), w @ [Created x])),
     cl_Update = (\<lambda>x w. (None, w @ [Updated x])), cl_Patch = (\<lambda>x w. (None, w @ [Patched x])),
     cl_Apply = (\<lambda>x w. (None, w @ [Applied x])), cl_ApplyV2beta2 = (\<lambda>x w. (None, w @ [Applied x])),
     cl_Delete = (\<lambda>x w. (None, w @ [Deleted x])), cl_UpdateQuay = (\<lambda>q w. (None, w @ [QuayUpdated q])),
     cl_UpdateQuayStatus = (\<lambda>q w. (None, w @ [StatusUpdated q])),
     cl_PatchNamespaceLabels = (\<lambda>n l w. (None, w @ [Labelled n l])), cl_Event = (\<lambda>_ _ _ _ w. w),
     cl_Now = (\<lambda>w. (7, w))\<rparr>"

definition demo_features :: FeatureEnv where
  "demo_features = \<lparr>fe_Sha256Hex = (\<lambda>s. ''0123456789abcdef''),
     fe_Unmarshal = (\<lambda>s. Inr (Some [(''SERVER_HOSTNAME'', YStr ''quay.example'')])),
     fe_HostSettings = (\<lambda>c. case gget c ''SERVER_HOSTNAME'' of Some v \<Rightarrow> yaml_string v | None \<Rightarrow> Inr ''''),
     fe_Dial = (\<lambda>a. Inr [''cert'']), fe_PemEncode = Inr,
     fe_TLSProfiles = (\<lambda>t. if t = ''Intermediate''
       then Some \<lparr>tp_Ciphers = [''A'', ''B''], tp_MinTLSVersion = ''VersionTLS12''\<rparr> else None),
     fe_Getenv = (\<lambda>v. '''')\<rparr>"

definition demo_deployment :: "string \<Rightarrow> string \<Rightarrow> Deployment" where
  "demo_deployment n component = (healthy_deployment n)\<lparr>
     dep_Meta := (owned_meta n)\<lparr>om_Annotations := Some [''quay-component'' \<mapsto> component]\<rparr>,
     dep_Template := demo_template\<lparr>pt_Containers := [\<lparr>cn_Name = ''main'', cn_Image = ''image'',
       cn_Env = [\<lparr>ev_Name = ''A'', ev_Value = ''1'', ev_ValueFrom = None\<rparr>],
       cn_Resources = no_resources, cn_SecurityContext = None\<rparr>]\<rparr>\<rparr>"

definition demo_env :: MiddlewareEnv where
  "demo_env = \<lparr>me_Unmarshal = (\<lambda>s. Inr (if s = '''' then None else Some [(s, YBool True)])),
     me_Marshal = (\<lambda>c. Inr ''flattened''), me_Quantity = (\<lambda>q. ''Q''), me_Version = ''3.9'',
     me_Order = [''config.yaml'', ''extra.config.yaml'', ''ssl.cert'']\<rparr>"

text \<open>A registry with an external TLS secret, and a cluster that has it.\<close>

definition external_tls_registry :: QuayRegistry where
  "external_tls_registry = demo_registry [(demo_component ComponentTLS False)\<lparr>cmp_SecretRef := Some ''ext''\<rparr>]"

definition external_tls_reader :: Reader where
  "external_tls_reader = demo_reader\<lparr>GetSecret := (\<lambda>n. Inr (if nn_Name n = ''ext''
     then \<lparr>sec_Meta = meta_named ''ns'' ''ext'', sec_Type = ''kubernetes.io/tls'',
            sec_Data = Some [''tls.crt'' \<mapsto> ''C'', ''tls.key'' \<mapsto> ''K'']\<rparr>
     else demo_bundle\<lparr>sec_Data := Some [''config.yaml'' \<mapsto> '''']\<rparr>))\<rparr>"

end
