(* ===== verification/Middleware_Properties.thy ===== *)
theory Middleware_Properties
  imports Middleware_Laws Demo_Client
begin

text \<open>
  What the middleware promises about the objects it lets through: environment and resource overrides
  reach every container, selector labels and volume sizes are safe, nothing but the operator's own
  autoscalers is dropped, and the mounted config holds no TLS material.
\<close>

section \<open>Deployments\<close>

text \<open>C26: In a deployment of a managed component every container ends with the environment of the
  override: the last override of a name wins over the manifest, every other variable stays, and
  Quay's own version wins over both.\<close>

theorem Process_env_overrides:
  assumes "process_deployment env quay qctx skipres dep = Inr dep'"
    and "ComponentIsManaged (qr_Components quay) kind" and "kind = deployment_component dep"
    and "i < length (pt_Containers (dep_Template dep))"
  shows "find_env n (cn_Env (pt_Containers (dep_Template dep') ! i)) =
    (if kind = ComponentQuay \<and> n = ''QUAY_VERSION'' then Some (version_env env)
     else case find_env n (rev (GetEnvOverrideForComponent quay kind)) of
       Some v \<Rightarrow> Some v
     | None \<Rightarrow> find_env n (cn_Env (pt_Containers (dep_Template dep) ! i)))"
proof -
  let ?cs = "pt_Containers (dep_Template dep)"
  obtain p where p: "apply_field_groups quay p = Inr dep'"
    and "pt_Containers (dep_Template p) = final_containers env quay kind skipres ?cs"
    using assms(1,3) prepared_fields(4) by (auto simp: process_deployment_Inr)
  then have cs: "pt_Containers (dep_Template dep') = final_containers env quay kind skipres ?cs"
    using apply_field_groups_Inr(4) [OF p] by simp
  have env: "cn_Env (final_containers env quay kind skipres ?cs ! i) = cn_Env (env_step env quay kind (?cs ! i))"
    using assms(4) by (cases i)
      (auto simp: final_containers_def first_resources_def nth_Cons split: option.split list.split)
  show ?thesis
    using assms(2)
    by (auto simp: cs env env_step_def upsert_all_fields find_env_def env_store.find_foldl
        env_store.find_put version_env_def split: option.split)
qed

lemma demo_process: "\<exists>dep'. process_deployment demo_env (demo_registry []) qctx False
    (demo_deployment n component) = Inr dep'"
  unfolding process_deployment_succeeds
  by (simp add: demo_deployment_def demo_template_def demo_registry_def
      GetResourceOverridesForComponent_def FieldGroupNamesForManagedComponents_def)

lemma demo_quay_component: "deployment_component (demo_deployment n ''quay'') = ComponentQuay"
  by (simp add: deployment_component_def demo_deployment_def gstr_def ReplaceAll_Cons
      kind_of_string_def AllComponents_def)

theorem Process_env_overrides_witness:
  "\<exists>dep'. process_deployment demo_env (demo_registry []) NewQuayRegistryContext False
      (demo_deployment ''reg-quay-app'' ''quay'') = Inr dep' \<and>
    find_env ''QUAY_VERSION'' (cn_Env (pt_Containers (dep_Template dep') ! 0)) = Some (version_env demo_env) \<and>
    find_env ''A'' (cn_Env (pt_Containers (dep_Template dep') ! 0)) \<noteq> None"
proof -
  obtain dep' where p: "process_deployment demo_env (demo_registry []) NewQuayRegistryContext False
      (demo_deployment ''reg-quay-app'' ''quay'') = Inr dep'"
    using demo_process by blast
  have "find_env n (cn_Env (pt_Containers (dep_Template dep') ! 0)) =
      (if ComponentQuay = ComponentQuay \<and> n = ''QUAY_VERSION'' then Some (version_env demo_env)
       else case find_env n (rev (GetEnvOverrideForComponent (demo_registry []) ComponentQuay)) of
         Some v \<Rightarrow> Some v
       | None \<Rightarrow> find_env n (cn_Env (pt_Containers
           (dep_Template (demo_deployment ''reg-quay-app'' ''quay'')) ! 0)))" for n
    by (rule Process_env_overrides [OF p])
      (simp_all only: demo_quay_component ComponentIsManaged_Quay, simp add: demo_deployment_def)
  then show ?thesis using p
    by (simp add: GetEnvOverrideForComponent_def demo_registry_def find_env_def demo_deployment_def)
qed

text \<open>C25: User labels never touch the labels the operator selects pods by: quay-component, app and
  quay-operator/quayregistry keep the manifest's values on the deployment and on its pods, every
  other label takes the override where there is one.\<close>

theorem Process_selector_labels_safe:
  assumes "process_deployment env quay qctx skipres dep = Inr dep'"
  shows "(\<forall>k \<in> {''quay-component'', ''app'', ''quay-operator/quayregistry''}.
      gget (om_Labels (dep_Meta dep')) k = gget (om_Labels (dep_Meta dep)) k \<and>
      gget (pt_Labels (dep_Template dep')) k = gget (pt_Labels (dep_Template dep)) k) \<and>
    (\<forall>k v. gget (GetLabelsOverrideForComponent quay (deployment_component dep)) k = Some v \<longrightarrow>
      k \<notin> {''quay-component'', ''app'', ''quay-operator/quayregistry''} \<longrightarrow>
      gget (om_Labels (dep_Meta dep')) k = Some v \<and> gget (pt_Labels (dep_Template dep')) k = Some v)"
proof -
  obtain a b where p: "apply_field_groups quay (prepared env quay qctx skipres a b dep) = Inr dep'"
    using assms by (auto simp: process_deployment_Inr)
  note kept = apply_field_groups_Inr(1,3) [OF p] prepared_fields(5,6) [OF refl]
  show ?thesis by (auto simp: kept ExceptionLabel_def)
qed

theorem Process_selector_labels_safe_witness:
  "\<exists>dep'. process_deployment demo_env (demo_registry []) NewQuayRegistryContext False
      (demo_deployment ''reg-quay-app'' ''quay'') = Inr dep' \<and>
    gget (pt_Labels (dep_Template dep')) ''app'' = None"
proof -
  obtain dep' where p: "process_deployment demo_env (demo_registry []) NewQuayRegistryContext False
      (demo_deployment ''reg-quay-app'' ''quay'') = Inr dep'"
    using demo_process by blast
  with Process_selector_labels_safe [OF p] show ?thesis
    by (auto simp: demo_deployment_def demo_template_def)
qed

text \<open>Processing a deployment succeeds exactly when its own annotation map and that of its pods
  exist, it has a container for a resource override to go to, and - unless it is a database - every
  managed component is known; in every other case the code panics or returns the field group error.\<close>

theorem Process_deployment_succeeds_iff:
  "isl (process_deployment env quay qctx skipres dep) \<longleftrightarrow>
     om_Annotations (dep_Meta dep) = None \<or> pt_Annotations (dep_Template dep) = None \<or>
     (GetResourceOverridesForComponent quay (deployment_component dep) \<noteq> None \<and>
      pt_Containers (dep_Template dep) = []) \<or>
     (is_database dep = False \<and> isl (FieldGroupNamesForManagedComponents quay))"
  using process_deployment_succeeds [of env quay qctx skipres dep]
  by (cases "process_deployment env quay qctx skipres dep";
      cases "FieldGroupNamesForManagedComponents quay") auto

text \<open>Under a managed autoscaler the middleware leaves the replica count alone, and a count the
  manifests fix is never overridden; otherwise the app deployments take the user's count.\<close>

theorem Process_replicas:
  assumes "process_deployment env quay qctx skipres dep = Inr dep'"
  shows "dep_Replicas dep' =
    (if ComponentIsManaged (qr_Components quay) ComponentHPA \<or> dep_Replicas dep \<noteq> None
     then dep_Replicas dep
     else if HasSuffix (om_Name (dep_Meta dep)) ''clair-app''
     then GetReplicasOverrideForComponent quay ComponentClair
     else if HasSuffix (om_Name (dep_Meta dep)) ''quay-mirror''
     then GetReplicasOverrideForComponent quay ComponentMirror
     else if HasSuffix (om_Name (dep_Meta dep)) ''quay-app''
     then GetReplicasOverrideForComponent quay ComponentQuay else None)"
proof -
  obtain a b where p: "apply_field_groups quay (prepared env quay qctx skipres a b dep) = Inr dep'"
    using assms by (auto simp: process_deployment_Inr)
  have "dep_Replicas dep' = dep_Replicas (apply_replicas quay
      (set_annotations (hashed qctx a) (hashed qctx b) (apply_affinity quay (deployment_component dep)
        (apply_env_overrides env quay (deployment_component dep) dep))))"
    using apply_field_groups_Inr(2) [OF p]
    by (simp add: prepared_def Let_def mw_fields cong: if_cong)
  then show ?thesis
    by (auto simp: apply_replicas_def scalable_suffixes_def mw_fields split: option.split)
qed

theorem Process_replicas_witness:
  "\<exists>dep'. process_deployment demo_env (demo_registry []) NewQuayRegistryContext False
      (demo_deployment ''reg-quay-app'' ''quay'') = Inr dep' \<and> dep_Replicas dep' = Some 2"
proof -
  obtain dep' where p: "process_deployment demo_env (demo_registry []) NewQuayRegistryContext False
      (demo_deployment ''reg-quay-app'' ''quay'') = Inr dep'"
    using demo_process by blast
  with Process_replicas [OF p] show ?thesis
    by (auto simp: demo_deployment_def healthy_deployment_def)
qed

text \<open>The pods of a deployment carry the hashes of the cluster certificate authorities, so that they
  are replaced when a hash changes, unless the user's own annotations replace them; the annotation of
  the TLS secret is there exactly when a TLS secret is configured.\<close>

theorem Process_tracks_certificates:
  assumes "process_deployment env quay qctx skipres dep = Inr dep'"
    and "GetAnnotationsOverrideForComponent quay (deployment_component dep) = None"
  shows "gget (pt_Annotations (dep_Template dep')) ClusterServiceCAName = Some (ClusterServiceCAHash qctx) \<and>
    gget (pt_Annotations (dep_Template dep')) ClusterTrustedCAName = Some (ClusterTrustedCAHash qctx) \<and>
    gget (pt_Annotations (dep_Template dep')) TLSSecretHashAnnotation =
      (if TLSSecretHash qctx = '''' then None else Some (TLSSecretHash qctx))"
proof -
  obtain a b where p: "apply_field_groups quay (prepared env quay qctx skipres a b dep) = Inr dep'"
    using assms by (auto simp: process_deployment_Inr)
  have other: "gget (pt_Annotations (dep_Template dep')) k = hashed qctx b k"
    if "k \<in> {ClusterServiceCAName, ClusterTrustedCAName, TLSSecretHashAnnotation}" for k
    using p that prepared_fields(7) [OF refl, of env quay qctx skipres a b dep k] assms(2)
    by (auto simp: apply_field_groups_def delete_template_annotation_def put_template_annotation_def
        mw_fields and_then_Inr_iff gget_gput name_defs fieldGroupsAnnotation_def split: if_splits)
  show ?thesis by (simp add: other hashed_def name_defs)
qed

theorem Process_tracks_certificates_witness:
  "\<exists>dep'. process_deployment demo_env (demo_registry []) (NewQuayRegistryContext\<lparr>ClusterServiceCAHash := ''h''\<rparr>)
      False (demo_deployment ''reg-quay-app'' ''quay'') = Inr dep' \<and>
    gget (pt_Annotations (dep_Template dep')) ClusterServiceCAName = Some ''h''"
proof -
  obtain dep' where p: "process_deployment demo_env (demo_registry [])
      (NewQuayRegistryContext\<lparr>ClusterServiceCAHash := ''h''\<rparr>) False
      (demo_deployment ''reg-quay-app'' ''quay'') = Inr dep'"
    using demo_process by blast
  have "GetAnnotationsOverrideForComponent (demo_registry [])
      (deployment_component (demo_deployment ''reg-quay-app'' ''quay'')) = None"
    by (simp add: GetAnnotationsOverrideForComponent_def demo_registry_def)
  with Process_tracks_certificates [OF p] p show ?thesis by auto
qed

section \<open>Volume claims, autoscalers, routes\<close>


text \<open>The middleware drops an object only if it is the autoscaler of the mirror or of Clair and that
  component is unmanaged; every other object that is let through keeps its type, its name, its
  namespace and its owners.\<close>

lemma process_deployment_identity:
  assumes "process_deployment env quay qctx skipres dep = Inr dep'"
  shows "om_Name (dep_Meta dep') = om_Name (dep_Meta dep)"
    "om_Namespace (dep_Meta dep') = om_Namespace (dep_Meta dep)"
    "om_OwnerReferences (dep_Meta dep') = om_OwnerReferences (dep_Meta dep)"
proof -
  obtain a b where p: "apply_field_groups quay (prepared env quay qctx skipres a b dep) = Inr dep'"
    using assms by (auto simp: process_deployment_Inr)
  show "om_Name (dep_Meta dep') = om_Name (dep_Meta dep)"
    "om_Namespace (dep_Meta dep') = om_Namespace (dep_Meta dep)"
    "om_OwnerReferences (dep_Meta dep') = om_OwnerReferences (dep_Meta dep)"
    by (simp_all add: apply_field_groups_Inr(1) [OF p] prepared_fields(1-3) [OF refl])
qed

lemma process_pvc_identity: "process_pvc env quay label pvc = Inr pvc' \<Longrightarrow> pvc_Meta pvc' = pvc_Meta pvc"
  by (auto simp: process_pvc_def Let_def split: prod.splits option.splits if_splits)

lemma route_metadata_identity [simp]:
  "om_Name (route_metadata quay m) = om_Name m"
  "om_Namespace (route_metadata quay m) = om_Namespace m"
  "om_OwnerReferences (route_metadata quay m) = om_OwnerReferences m"
  by (simp_all add: route_metadata_def Let_def split: option.split)

theorem Process_drops_only_autoscalers:
  assumes "Process env quay qctx obj skipres = Inr r"
  shows "case r of
      None \<Rightarrow> (\<exists>m k. obj = OHPA m \<and> (k, quay_component_label obj) \<in>
        {(ComponentMirror, ''mirror''), (ComponentClair, ''clair'')} \<and>
        \<not> ComponentIsManaged (qr_Components quay) k)
    | Some obj' \<Rightarrow> same_type obj obj' \<and> obj_key obj' = obj_key obj \<and>
        om_OwnerReferences (obj_meta obj') = om_OwnerReferences (obj_meta obj)"
proof (cases "Contains (om_Name (obj_meta obj)) (configSecretPrefix @ ''-'')")
  case True
  then show ?thesis using assms
    by (cases obj) (auto simp: Process_def process_config_secret_def and_then_Inr_iff FlattenSecret_Inr
        obj_key_def)
next
  case False
  then show ?thesis using assms
    by (cases obj) (auto simp: Process_def and_then_Inr_iff process_hpa_def process_job_def obj_key_def
        process_route_def process_deployment_identity process_pvc_identity Let_def split: if_splits)
qed

theorem Process_drops_only_autoscalers_witness:
  "Process demo_env (demo_registry []) NewQuayRegistryContext
      (OHPA ((meta_named ''ns'' ''reg-clair-app'')\<lparr>om_Labels := Some [''quay-component'' \<mapsto> ''clair'']\<rparr>)) False
     = Inr None \<and>
   \<not> ComponentIsManaged (qr_Components (demo_registry [])) ComponentClair"
proof -
  let ?hpa = "OHPA ((meta_named ''ns'' ''reg-clair-app'')\<lparr>om_Labels := Some [''quay-component'' \<mapsto> ''clair'']\<rparr>)"
  have p: "Process demo_env (demo_registry []) NewQuayRegistryContext ?hpa False = Inr None"
    by (simp add: Process_def process_hpa_def quay_component_label_def gstr_def configSecretPrefix_def
        demo_registry_def ComponentIsManaged_def)
  from Process_drops_only_autoscalers [OF p] p show ?thesis
    by (auto simp: quay_component_label_def gstr_def Let_def)
qed

text \<open>A managed autoscaler can never become ready while Clair or the mirror is unmanaged: the
  middleware drops the autoscaler of that component, and the status check asks for it all the same.\<close>

theorem managed_HPA_unmanaged_worker_never_ready:
  assumes "ComponentIsManaged (qr_Components reg) ComponentHPA"
    and "(k, label, suffix) \<in> {(ComponentClair, ''clair'', ''clair-app''),
           (ComponentMirror, ''mirror'', ''quay-mirror'')}"
    and "\<not> ComponentIsManaged (qr_Components reg) k"
    and "GetHPA cli (nsn (qr_Namespace reg) (qr_Name reg @ ''-'' @ suffix)) = not_found suffix"
  shows "process_hpa reg label hpa = None \<and>
    (\<forall>c. HPA_Check cli reg now = Inr c \<longrightarrow> c_Status c \<noteq> ConditionTrue)"
  using assms by (auto simp: process_hpa_def HPA_Check_def not_found_def split: sum.splits if_splits)

theorem managed_HPA_unmanaged_worker_never_ready_witness:
  "process_hpa (demo_registry [demo_component ComponentHPA True]) ''clair'' (meta_named ''ns'' ''reg-clair-app'') = None"
proof -
  let ?reg = "demo_registry [demo_component ComponentHPA True]"
  let ?cli = "empty_reader\<lparr>GetHPA := \<lambda>_. not_found ''clair-app''\<rparr>"
  have "process_hpa ?reg ''clair'' (meta_named ''ns'' ''reg-clair-app'') = None \<and>
    (\<forall>c. HPA_Check ?cli ?reg 7 = Inr c \<longrightarrow> c_Status c \<noteq> ConditionTrue)"
    by (rule managed_HPA_unmanaged_worker_never_ready [where k = ComponentClair and suffix = "''clair-app''"])
      (simp_all add: ComponentIsManaged_def demo_registry_def demo_component_def)
  then show ?thesis by blast
qed

text \<open>A route becomes a passthrough route exactly when TLS is unmanaged and it is the route of the
  app or of the builders, and only the app route changes its target port.\<close>

theorem Process_route_passthrough:
  "rt_TLS (process_route quay label rt) =
     (if \<not> ComponentIsManaged (qr_Components quay) ComponentTLS \<and>
         label \<in> {''quay-app-route'', ''quay-builder-route''}
      then Some \<lparr>tc_Termination = ''passthrough'', tc_InsecureEdgeTerminationPolicy = ''Redirect''\<rparr>
      else rt_TLS rt) \<and>
   rt_PortTarget (process_route quay label rt) =
     (if \<not> ComponentIsManaged (qr_Components quay) ComponentTLS \<and> label = ''quay-app-route''
      then Some ''https'' else rt_PortTarget rt) \<and>
   rt_Host (process_route quay label rt) = rt_Host rt"
  by (simp add: process_route_def Let_def)

section \<open>The config bundle\<close>

text \<open>C24: The config secret that is mounted holds no TLS key pair, no extra certificate authority and no
  unflattened config file; config.yaml is the marshalled merge of all config files and every other
  file is the user's.\<close>

theorem Process_config_secret_content:
  assumes "process_config_secret env (OSecret s) = Inr (Some (OSecret s'))"
    and "\<forall>k. gget (sec_Data s) k \<noteq> None \<longrightarrow> k \<in> set (me_Order env)"
    and "gget (sec_Data s') k = Some v"
  shows "k \<notin> {''ssl.cert'', ''ssl.key'', ''clair-ssl.key'', ''clair-ssl.crt''} \<and>
    \<not> HasPrefix k ''extra_ca_cert_'' \<and> \<not> Contains k ''.config.yaml'' \<and>
    (if k = ''config.yaml''
     then \<exists>base. me_Unmarshal env (gstr (sec_Data s) ''config.yaml'') = Inr base \<and>
       me_Marshal env (map_option (fold (\<lambda>key f. f ++ document env (sec_Data s) key) (me_Order env))
         (config_of base)) = Inr v
     else gget (sec_Data s) k = Some v)"
proof -
  have drop: "gget (drop_tls_material m) j = (if j \<in> {''ssl.cert'', ''ssl.key'', ''clair-ssl.key'',
      ''clair-ssl.crt''} \<or> HasPrefix j ''extra_ca_cert_'' then None else gget m j)" for m j
    by (cases m) (auto simp: drop_tls_material_def gdel_def)
  obtain t where t: "FlattenSecret env s = Inr t" "sec_Data s' = drop_tls_material (sec_Data t)"
    using assms(1) by (auto simp: process_config_secret_def and_then_Inr_iff)
  then have k: "k \<notin> {''ssl.cert'', ''ssl.key'', ''clair-ssl.key'', ''clair-ssl.crt''}"
    "\<not> HasPrefix k ''extra_ca_cert_''" "gget (sec_Data t) k = Some v"
    using assms(3) by (auto simp: drop split: if_splits)
  obtain base content where base: "me_Unmarshal env (gstr (sec_Data s) ''config.yaml'') = Inr base"
      "me_Marshal env (map_option (fold (\<lambda>key f. f ++ document env (sec_Data s) key) (me_Order env))
         (config_of base)) = Inr content"
    and files: "gput (fold (\<lambda>key m. if is_config_file (sec_Data s) key then gdel m key else m)
      (me_Order env) (sec_Data s)) ''config.yaml'' content = Inr (sec_Data t)"
    using t(1) by (auto simp: FlattenSecret_Inr)
  have v: "Some v = (if k = ''config.yaml'' then Some content
      else if k \<in> set (me_Order env) \<and> is_config_file (sec_Data s) k then None else gget (sec_Data s) k)"
    using gget_gput [OF files, of k] k(3) by (simp only: gget_fold_gdel)
  show ?thesis
  proof (cases "k = ''config.yaml''")
    case True
    have "\<not> Contains ''config.yaml'' ''.config.yaml''" by code_simp
    with True v base k(1,2) show ?thesis by simp
  next
    case False
    with v have "gget (sec_Data s) k = Some v" "\<not> (k \<in> set (me_Order env) \<and> is_config_file (sec_Data s) k)"
      by (auto split: if_splits)
    moreover from this assms(2) have "\<not> Contains k ''.config.yaml''"
      by (simp add: is_config_file_def)
    ultimately show ?thesis using False k(1,2) by simp
  qed
qed

theorem Process_config_secret_content_witness:
  "\<exists>s'. process_config_secret demo_env (OSecret (demo_bundle\<lparr>sec_Data := Some [''config.yaml'' \<mapsto> ''B'',
       ''extra.config.yaml'' \<mapsto> ''C'', ''ssl.cert'' \<mapsto> ''cert'']\<rparr>)) = Inr (Some (OSecret s')) \<and>
     gget (sec_Data s') ''config.yaml'' = Some ''flattened'' \<and> gget (sec_Data s') ''ssl.cert'' = None"
proof -
  let ?s = "demo_bundle\<lparr>sec_Data := Some [''config.yaml'' \<mapsto> ''B'', ''extra.config.yaml'' \<mapsto> ''C'',
    ''ssl.cert'' \<mapsto> ''cert'']\<rparr>"
  have "case process_config_secret demo_env (OSecret ?s) of Inr (Some (OSecret s')) \<Rightarrow>
      gget (sec_Data s') ''config.yaml'' = Some ''flattened'' | _ \<Rightarrow> False"
    by code_simp
  then obtain s' where s': "process_config_secret demo_env (OSecret ?s) = Inr (Some (OSecret s'))"
    "gget (sec_Data s') ''config.yaml'' = Some ''flattened''"
    by (auto split: sum.splits option.splits KObject.splits)
  have order: "\<forall>k. gget (sec_Data ?s) k \<noteq> None \<longrightarrow> k \<in> set (me_Order demo_env)"
    by (simp add: demo_env_def)
  have "gget (sec_Data s') ''ssl.cert'' = None"
    using Process_config_secret_content [OF s'(1) order, of "''ssl.cert''"]
    by (cases "gget (sec_Data s') ''ssl.cert''") auto
  with s' show ?thesis by blast
qed

text \<open>The order in which a run visits the files of the bundle does not show, as long as different
  files configure different keys.\<close>

theorem FlattenSecret_order_irrelevant:
  assumes "FlattenSecret env s = Inr s'" and "mset (me_Order env) = mset order'"
    and "\<forall>j \<in> set (me_Order env). \<forall>k \<in> set (me_Order env). j \<noteq> k \<longrightarrow>
      dom (document env (sec_Data s) j) \<inter> dom (document env (sec_Data s) k) = {}"
  shows "FlattenSecret (env\<lparr>me_Order := order'\<rparr>) s = Inr s'"
proof -
  have same: "document (env\<lparr>me_Order := order'\<rparr>) = document env"
    "mergeable (env\<lparr>me_Order := order'\<rparr>) = mergeable env"
    by (intro ext; simp add: document_def mergeable_def)+
  have keys: "set order' = set (me_Order env)" using assms(2) by (metis set_mset_mset)
  show ?thesis
    using assms(1)
    by (simp add: FlattenSecret_Inr same keys document_fold_perm [OF assms(2,3), symmetric]
        removal_fold_perm [OF assms(2), symmetric])
qed

theorem FlattenSecret_order_irrelevant_witness:
  "\<exists>s'. FlattenSecret demo_env demo_bundle = Inr s' \<and>
     FlattenSecret (demo_env\<lparr>me_Order := rev (me_Order demo_env)\<rparr>) demo_bundle = Inr s'"
proof -
  have "\<not> isl (FlattenSecret demo_env demo_bundle)" by code_simp
  then obtain s' where s': "FlattenSecret demo_env demo_bundle = Inr s'"
    by (cases "FlattenSecret demo_env demo_bundle") auto
  have "\<forall>j \<in> set (me_Order demo_env). \<forall>k \<in> set (me_Order demo_env). j \<noteq> k \<longrightarrow>
      dom (document demo_env (sec_Data demo_bundle) j) \<inter> dom (document demo_env (sec_Data demo_bundle) k) = {}"
    by (simp add: document_def demo_env_def demo_bundle_def is_config_file_def)
  with FlattenSecret_order_irrelevant [OF s', of "rev (me_Order demo_env)"] s' show ?thesis by auto
qed

end
