(* ===== verification/Feature_Properties.thy ===== *)
theory Feature_Properties
  imports Features Status_Properties Demo_Client
begin

text \<open>
  What the detection of features promises: which images are compared and when a database is upgraded,
  where the hostname comes from, how the probe route is used, that TLS settings agree with what the
  status check later reports.
\<close>

section \<open>Images and upgrades\<close>

lemma Image_eq_iff:
  "j = i \<longleftrightarrow> im_Name j = im_Name i \<and> im_NewName j = im_NewName i \<and> im_NewTag j = im_NewTag i \<and> im_Digest j = im_Digest i"
  for j i :: Image
  by (cases j; cases i) auto

lemma cut_once:
  fixes c :: char
  assumes "c \<notin> set a"
  shows "a @ c # b = x @ c # y \<and> c \<notin> set x \<longleftrightarrow> a = x \<and> b = y"
proof
  assume eq: "a @ c # b = x @ c # y \<and> c \<notin> set x"
  then have "a # Split b c = x # Split y c" using Split_append [OF assms] Split_append by metis
  with eq show "a = x \<and> b = y" by simp
qed (use assms in simp)

text \<open>An image override is accepted exactly when it is one name and one digest, or, without a digest,
  one name and one tag; anything else, a registry with a port and a tag among them, is refused.\<close>

theorem ComponentImageFor_iff:
  "ComponentImageFor getenv k = Inr i \<longleftrightarrow>
     (let v = getenv (image_env_var k) in
      if v = '''' then i = plain_image (default_image k)
      else if \<exists>name digest. v = name @ CHR ''@'' # digest \<and> CHR ''@'' \<notin> set name \<and> CHR ''@'' \<notin> set digest
      then v = im_NewName i @ CHR ''@'' # im_Digest i \<and> CHR ''@'' \<notin> set (im_NewName i) \<and>
           im_NewTag i = '''' \<and> im_Name i = default_image k
      else v = im_NewName i @ CHR '':'' # im_NewTag i \<and> CHR '':'' \<notin> set (im_NewName i) \<and>
           CHR '':'' \<notin> set (im_NewTag i) \<and> im_Digest i = '''' \<and> im_Name i = default_image k)"
proof -
  let ?v = "getenv (image_env_var k)"
  consider "?v = ''''" | a b where "?v \<noteq> ''''" "?v = a @ CHR ''@'' # b" "CHR ''@'' \<notin> set a" "CHR ''@'' \<notin> set b"
    | a b where "?v \<noteq> ''''" "length (Split ?v CHR ''@'') \<noteq> 2" "?v = a @ CHR '':'' # b"
        "CHR '':'' \<notin> set a" "CHR '':'' \<notin> set b"
    | "?v \<noteq> ''''" "length (Split ?v CHR ''@'') \<noteq> 2" "length (Split ?v CHR '':'') \<noteq> 2"
    using Split_length_2 [of ?v "CHR ''@''"] Split_length_2 [of ?v "CHR '':''"] by metis
  then show ?thesis
  proof cases
    case 1
    then show ?thesis by (auto simp: ComponentImageFor_def image_override_def)
  next
    case (2 a b)
    have "ComponentImageFor getenv k = Inr ((plain_image (default_image k))\<lparr>im_NewName := a, im_Digest := b\<rparr>)"
      using 2(1) Split_two [OF 2(3,4)] by (simp add: ComponentImageFor_def image_override_def 2(2))
    then show ?thesis using 2 cut_once [OF 2(3), of b "im_NewName i" "im_Digest i"]
      by (auto simp: Let_def Image_eq_iff plain_image_def)
  next
    case (3 a b)
    have no: "\<not> (\<exists>name digest. ?v = name @ CHR ''@'' # digest \<and> CHR ''@'' \<notin> set name \<and> CHR ''@'' \<notin> set digest)"
      using 3(2) Split_length_2 by blast
    have "ComponentImageFor getenv k = Inr ((plain_image (default_image k))\<lparr>im_NewName := a, im_NewTag := b\<rparr>)"
      using 3(1,2) Split_two [OF 3(4,5)] by (simp add: ComponentImageFor_def image_override_def 3(3))
    then show ?thesis using 3 no cut_once [OF 3(4), of b "im_NewName i" "im_NewTag i"]
      by (auto simp: Let_def Image_eq_iff plain_image_def)
  next
    case 4
    have no: "\<not> (\<exists>name digest. ?v = name @ CHR ''@'' # digest \<and> CHR ''@'' \<notin> set name \<and> CHR ''@'' \<notin> set digest)"
      "\<not> (\<exists>name tag. ?v = name @ CHR '':'' # tag \<and> CHR '':'' \<notin> set name \<and> CHR '':'' \<notin> set tag)"
      using 4(2,3) Split_length_2 by blast+
    have "isl (ComponentImageFor getenv k)"
      using 4 by (simp add: ComponentImageFor_def image_override_def)
    then show ?thesis using 4(1) no by (auto simp: Let_def)
  qed
qed

text \<open>The name of a deployed image is what precedes its digest, or its tag; with a registry port the
  name is cut at the port, so the repository is lost.\<close>

theorem extractImageName_spec:
  "(CHR ''@'' \<notin> set name \<longrightarrow> extractImageName (name @ CHR ''@'' # digest) = name) \<and>
   (CHR ''@'' \<notin> set (name @ rest) \<longrightarrow> CHR '':'' \<notin> set name \<longrightarrow>
      extractImageName (name @ CHR '':'' # rest) = name) \<and>
   (CHR ''@'' \<notin> set name \<longrightarrow> CHR '':'' \<notin> set name \<longrightarrow> extractImageName name = name)"
  using Split_more_iff
  by (auto simp: extractImageName_def Let_def Split_append Split_single Split_length_1 simp del: One_nat_def)

theorem extractImageName_spec_witness:
  "extractImageName ''quay.io/sclorg/postgresql-13-c9s:latest'' = ''quay.io/sclorg/postgresql-13-c9s'' \<and>
   extractImageName ''localhost:5000/sclorg/postgresql-13-c9s:latest'' = ''localhost''"
  using extractImageName_spec [of "''quay.io/sclorg/postgresql-13-c9s''" _ "''latest''"]
    extractImageName_spec [of "''localhost''" _ "''5000/sclorg/postgresql-13-c9s:latest''"]
  by simp




text \<open>When the image override of a database cannot be parsed the expected name is empty, so every
  deployed image counts as one to upgrade.\<close>

theorem unparsable_image_forces_upgrade:
  assumes "ComponentImageFor (fe_Getenv env) component = Inl err"
    and "repo_name (extractImageName deployed) \<noteq> ''''"
  shows "needs_upgrade env component deployed"
  using assms by (simp add: needs_upgrade_def expected_name_def repo_name_def)

theorem unparsable_image_forces_upgrade_witness:
  "needs_upgrade (demo_features\<lparr>fe_Getenv := \<lambda>_. ''localhost:5000/postgres:13''\<rparr>) ComponentPostgres
     ''localhost:5000/postgres:13''"
proof -
  let ?env = "demo_features\<lparr>fe_Getenv := \<lambda>_. ''localhost:5000/postgres:13''\<rparr>"
  have "isl (ComponentImageFor (fe_Getenv ?env) ComponentPostgres)" by code_simp
  then obtain err where "ComponentImageFor (fe_Getenv ?env) ComponentPostgres = Inl err"
    by (cases "ComponentImageFor (fe_Getenv ?env) ComponentPostgres") auto
  moreover have "repo_name (extractImageName ''localhost:5000/postgres:13'') \<noteq> ''''" by code_simp
  ultimately show ?thesis by (rule unparsable_image_forces_upgrade)
qed

section \<open>Hostnames and the probe route\<close>

text \<open>The server hostname is the one of the config bundle if it has one, else the one derived from
  the cluster hostname if that is known, else it stays as it was; nothing else of the context changes.\<close>

theorem server_hostname_precedence:
  assumes "unmarshal_config env bundle = Inr config" and "fe_HostSettings env config = Inr h"
    and "ServerHostname qctx = ''''" and "parseServerHostname env qctx bundle = Inr qctx'"
  shows "fillServerHostname (qctx'\<lparr>ClusterHostname := ch\<rparr>) quay =
    qctx\<lparr>ClusterHostname := ch, ServerHostname :=
      (if h \<noteq> '''' then h else if ch \<noteq> ''''
       then qr_Name quay @ ''-quay-'' @ qr_Namespace quay @ ''.'' @ ch else '''')\<rparr>"
  using assms by (auto simp: parseServerHostname_def fillServerHostname_def)

theorem server_hostname_precedence_witness:
  "\<exists>qctx'. parseServerHostname demo_features NewQuayRegistryContext demo_bundle = Inr qctx' \<and>
     ServerHostname (fillServerHostname (qctx'\<lparr>ClusterHostname := ''apps''\<rparr>) (demo_registry [])) = ''quay.example''"
proof -
  have c: "unmarshal_config demo_features demo_bundle = Inr (Some [''SERVER_HOSTNAME'' \<mapsto> YStr ''quay.example''])"
    by (auto simp: unmarshal_config_def demo_features_def config_of_def)
  have h: "fe_HostSettings demo_features (Some [''SERVER_HOSTNAME'' \<mapsto> YStr ''quay.example'']) = Inr ''quay.example''"
    by (simp add: demo_features_def)
  obtain qctx' where p: "parseServerHostname demo_features NewQuayRegistryContext demo_bundle = Inr qctx'"
    using c h by (simp add: parseServerHostname_def)
  have "ServerHostname NewQuayRegistryContext = ''''" by (simp add: NewQuayRegistryContext_def)
  from server_hostname_precedence [OF c h this p] p show ?thesis by simp
qed

text \<open>C35: The probe of the cluster hostname: with a cached hostname the cluster is not touched; without
  one, the discovery succeeds with routes supported exactly when a hostname ends up cached, the
  context then holds the cached hostname, and a cached hostname is never lost.\<close>

theorem route_discovery_caches:
  assumes "ensureRouteDiscovery env cl qctx quay cache w = (r, cache', w')"
  shows "(rc_Hostname cache \<noteq> None \<longrightarrow> w' = w \<and> cache' = cache \<and> \<not> isl r) \<and>
    (rc_Hostname cache \<noteq> None \<longrightarrow> rc_Hostname cache' \<noteq> None) \<and>
    (case r of
       Inl err \<Rightarrow> rc_Hostname cache' = None
     | Inr qctx' \<Rightarrow> (case rc_Hostname cache' of
         None \<Rightarrow> qctx' = qctx
       | Some h \<Rightarrow> SupportsRoutes qctx' \<and> ClusterHostname qctx' = h))"
  using assms
  by (auto simp: ensureRouteDiscovery_def discover_from_def Let_def
      split: option.splits sum.splits list.splits prod.splits if_splits)

theorem route_discovery_caches_witness:
  "\<exists>r w'. ensureRouteDiscovery demo_features (fixed_client demo_reader) NewQuayRegistryContext (demo_registry [])
      \<lparr>rc_Hostname = Some ''apps'', rc_WildcardCert = None\<rparr> []
    = (r, \<lparr>rc_Hostname = Some ''apps'', rc_WildcardCert = None\<rparr>, w') \<and> \<not> isl r"
proof -
  obtain r cache' w' where e: "ensureRouteDiscovery demo_features (fixed_client demo_reader) NewQuayRegistryContext
      (demo_registry []) \<lparr>rc_Hostname = Some ''apps'', rc_WildcardCert = None\<rparr> [] = (r, cache', w')"
    by (metis surj_pair)
  from route_discovery_caches [OF e] e show ?thesis by auto
qed

section \<open>Storage and TLS\<close>

text \<open>A service host is completed to its cluster-local name once: the result of a host with .svc
  holds .svc.cluster.local, every other host is left alone, and completing twice is completing once.\<close>

theorem datastore_host_completed:
  "(if Contains host ''.svc'' then Contains (datastore_host host) ''.svc.cluster.local''
    else datastore_host host = host) \<and>
   datastore_host (datastore_host host) = datastore_host host"
  using ReplaceAll_contains [of "''.svc''" host "''.svc.cluster.local''"]
  by (auto simp: datastore_host_def)

text \<open>C22: The reconcile and the status check agree on an external TLS secret: given the config bundle they
  both read, the check reports TLS ready exactly when the reconcile accepts the secret, as long as the
  secret can be labelled; the context then holds the pair of the secret.\<close>

theorem external_TLS_agrees_with_status:
  assumes "GetTLSSecretRef (qr_Components quay) = Some ref"
    and "spec_ConfigBundleSecret (qr_Spec quay) \<noteq> ''''"
    and "GetSecret (cl_Reader cl w) (nsn (qr_Namespace quay) (spec_ConfigBundleSecret (qr_Spec quay))) = Inr bundle"
    and "\<And>obj. fst (cl_Patch cl obj w) = None"
  shows "(reports_ready (TLS_Check (cl_Reader cl w) quay now) \<longleftrightarrow>
      (\<exists>qctx'. fst (checkExternalTLSSecret env cl qctx quay bundle w) = Inr qctx')) \<and>
    (\<forall>qctx'. fst (checkExternalTLSSecret env cl qctx quay bundle w) = Inr qctx' \<longrightarrow>
      (\<exists>crt key s. FetchAndValidate (cl_Reader cl w) (qr_Namespace quay) ref = Inr (crt, key, s) \<and>
        TLSCert qctx' = Some crt \<and> TLSKey qctx' = Some key))"
proof -
  let ?fetch = "FetchAndValidate (cl_Reader cl w) (qr_Namespace quay) ref"
  have label: "fst (label_external_secret cl n s w) = None" for n s
  proof -
    obtain f where f: "gmake (om_Labels (sec_Meta s)) = Some f"
      by (cases "om_Labels (sec_Meta s)") (simp_all add: gmake_def)
    obtain w1 where "cl_Patch cl (OSecret (s\<lparr>sec_Meta := (sec_Meta s)\<lparr>om_Labels :=
        Some (f(TLSSecretLabel \<mapsto> ''true''))\<rparr>\<rparr>)) w = (None, w1)"
      using assms(4) by (metis prod.collapse)
    with f show ?thesis by (simp add: label_external_secret_def)
  qed
  have success: "fst (checkExternalTLSSecret env cl qctx quay bundle w) = Inr q \<longleftrightarrow>
      gget (sec_Data bundle) ''ssl.cert'' = None \<and> gget (sec_Data bundle) ''ssl.key'' = None \<and>
      (\<exists>crt key s. ?fetch = Inr (crt, key, s) \<and> q = qctx\<lparr>TLSCert := Some crt, TLSKey := Some key,
         TLSSecretHash := short_hash env (crt @ key)\<rparr>)" for q
  proof (cases ?fetch)
    case (Inl e)
    with assms(1) show ?thesis by (simp add: checkExternalTLSSecret_def)
  next
    case (Inr p)
    obtain crt key s where p: "p = (crt, key, s)" by (metis surj_pair)
    obtain w1 where "label_external_secret cl ref s w = (None, w1)"
      using label [of ref s] by (metis prod.collapse)
    with assms(1) Inr p show ?thesis by (auto simp: checkExternalTLSSecret_def)
  qed
  have "reports_ready (TLS_Check (cl_Reader cl w) quay now) \<longleftrightarrow>
      gget (sec_Data bundle) ''ssl.cert'' = None \<and> gget (sec_Data bundle) ''ssl.key'' = None \<and>
      (\<exists>crt key s. ?fetch = Inr (crt, key, s))"
    using assms(1-3) by (simp add: TLS_Check_ready)
  then show ?thesis by (auto simp: success)
qed

theorem external_TLS_agrees_with_status_witness:
  "reports_ready (TLS_Check external_tls_reader external_tls_registry 7) \<and>
   (\<exists>qctx'. fst (checkExternalTLSSecret demo_features (fixed_client external_tls_reader) NewQuayRegistryContext
      external_tls_registry (demo_bundle\<lparr>sec_Data := Some [''config.yaml'' \<mapsto> '''']\<rparr>) []) = Inr qctx')"
proof -
  let ?cl = "fixed_client external_tls_reader"
  let ?b = "demo_bundle\<lparr>sec_Data := Some [''config.yaml'' \<mapsto> '''']\<rparr>"
  have rd: "cl_Reader ?cl [] = external_tls_reader" by (simp add: fixed_client_def)
  have "reports_ready (TLS_Check (cl_Reader ?cl []) external_tls_registry 7) \<longleftrightarrow>
      (\<exists>qctx'. fst (checkExternalTLSSecret demo_features ?cl NewQuayRegistryContext
         external_tls_registry ?b []) = Inr qctx')"
    by (rule external_TLS_agrees_with_status [THEN conjunct1])
      (simp_all add: fixed_client_def external_tls_registry_def external_tls_reader_def demo_registry_def
        demo_component_def GetTLSSecretRef_def)
  moreover have "reports_ready (TLS_Check external_tls_reader external_tls_registry 7)"
    by (simp add: TLS_Check_ready external_tls_registry_def external_tls_reader_def demo_registry_def
        demo_component_def GetTLSSecretRef_def FetchAndValidate_def gstr_def)
  ultimately show ?thesis unfolding rd by blast
qed

text \<open>With an intermediate profile in the library's table, translating a security profile never
  fails, always enables TLS 1.3, and enables the protocols before TLS 1.2 only when the profile in
  effect asks for them by its minimum version.\<close>

definition profile_in_effect :: "FeatureEnv \<Rightarrow> TLSProfileSpec \<Rightarrow> TLSSecurityProfile option \<Rightarrow> TLSProfileSpec" where
  "profile_in_effect env intermediate profile = (case profile of
     None \<Rightarrow> intermediate
   | Some p \<Rightarrow> if tsp_Type p = ''Custom'' then (case tsp_Custom p of None \<Rightarrow> intermediate | Some s \<Rightarrow> s)
              else case fe_TLSProfiles env (tsp_Type p) of None \<Rightarrow> intermediate | Some s \<Rightarrow> s)"

theorem translateTLSProfile_safe:
  assumes "fe_TLSProfiles env ''Intermediate'' = Some intermediate"
  shows "\<exists>protocols ciphers. translateTLSProfile env profile = Inr (protocols, ciphers) \<and>
    HasSuffix protocols ''TLSv1.3'' \<and>
    (HasPrefix protocols ''TLSv1 '' \<longleftrightarrow>
       tp_MinTLSVersion (profile_in_effect env intermediate profile) = ''VersionTLS10'') \<and>
    (Contains protocols ''TLSv1.1'' \<longleftrightarrow>
       tp_MinTLSVersion (profile_in_effect env intermediate profile) \<in> {''VersionTLS10'', ''VersionTLS11''}) \<and>
    ciphers = Join (tp_Ciphers (profile_in_effect env intermediate profile)) '':''"
proof -
  let ?s = "profile_in_effect env intermediate profile"
  have "translateTLSProfile env profile
      = Inr (tlsVersionToProtocols (tp_MinTLSVersion ?s), Join (tp_Ciphers ?s) '':'')"
    using assms by (auto simp: translateTLSProfile_def profile_in_effect_def profile_spec_def
        tlsCiphersToString_def split: option.splits)
  then show ?thesis
    by (auto simp: tlsVersionToProtocols_def HasSuffix_def)
qed

theorem translateTLSProfile_safe_witness:
  "\<exists>ciphers. translateTLSProfile demo_features (Some \<lparr>tsp_Type = ''Custom'', tsp_Custom = Some
      \<lparr>tp_Ciphers = [''X''], tp_MinTLSVersion = ''VersionTLS10''\<rparr>\<rparr>) = Inr (''TLSv1 TLSv1.1 TLSv1.2 TLSv1.3'', ciphers) \<and>
    ciphers = ''X''"
proof -
  have "fe_TLSProfiles demo_features ''Intermediate''
      = Some \<lparr>tp_Ciphers = [''A'', ''B''], tp_MinTLSVersion = ''VersionTLS12''\<rparr>"
    by (simp add: demo_features_def)
  from translateTLSProfile_safe [OF this, of "Some \<lparr>tsp_Type = ''Custom'', tsp_Custom = Some
      \<lparr>tp_Ciphers = [''X''], tp_MinTLSVersion = ''VersionTLS10''\<rparr>\<rparr>"]
  show ?thesis by (auto simp: translateTLSProfile_def tlsVersionToProtocols_def profile_in_effect_def)
qed

end
