(* ===== verification/Field_Groups.thy ===== *)
theory Field_Groups
  imports Middleware "HOL-Library.Word"
begin

text \<open>
  \<open>pkg/kustomize/secrets.go\<close>: the config fields each managed component contributes, the base config,
  random keys, base64, and the config files of the databases and of Clair. The config-tool library
  (default field groups, their field names, the check of a certificate pair), the Clair config type,
  YAML, URL parsing and the random source are fields of an environment; \<open>'w\<close> is the state the random
  source reads.
\<close>

section \<open>Field groups\<close>

text \<open>The groups of \<open>config-tool\<close>: the fields the operator sets, and the rest of the library's defaults as an
  opaque value.\<close>

record SecurityScannerGroup =
  ss_FeatureSecurityScanner :: bool
  ss_V4Endpoint :: string
  ss_V4NamespaceWhitelist :: "string list"
  ss_Notifications :: bool
  ss_V4PSK :: string
  ss_Rest :: string

record RedisServer =
  rs_Host :: string
  rs_Port :: int

record RedisGroup =
  rg_Buildlogs :: "RedisServer option"
  rg_UserEvents :: "RedisServer option"
  rg_Rest :: string

record DbConnectionArgs =
  dba_Autorollback :: bool
  dba_Threadlocals :: bool
  dba_Rest :: string

record DatabaseGroup =
  dg_DbUri :: string
  dg_ConnectionArgs :: "DbConnectionArgs option"
  dg_Rest :: string

record StorageArgs =
  sa_Hostname :: string
  sa_IsSecure :: bool
  sa_Port :: int
  sa_BucketName :: string
  sa_AccessKey :: string
  sa_SecretKey :: string
  sa_StoragePath :: string

record StorageGroup =
  sg_FeatureProxyStorage :: bool
  sg_Preference :: "string list"
  sg_DefaultLocations :: "string list"
  sg_Config :: "(string \<times> string \<times> StorageArgs) list"

record HostSettingsGroup =
  hg_ExternalTlsTermination :: bool
  hg_PreferredUrlScheme :: string
  hg_ServerHostname :: string

record RepoMirrorGroup =
  mg_FeatureRepoMirror :: bool
  mg_Interval :: int
  mg_TlsVerify :: bool

datatype FieldGroup =
    NoGroup | SecurityScannerFields SecurityScannerGroup | RedisFields RedisGroup
  | DatabaseFields DatabaseGroup | StorageFields StorageGroup | HostSettingsFields HostSettingsGroup
  | RepoMirrorFields RepoMirrorGroup

text \<open>\<open>ke_Rand\<close> is \<open>rand.Read\<close> on a buffer of the given length; \<open>ke_ClairConn\<close> reads the connection strings
  of matcher, indexer and notifier from a Clair config; \<open>ke_ParseURL\<close> gives user, password and path.\<close>

record 'w KustomizeEnv =
  ke_Middleware :: MiddlewareEnv
  ke_Getenv :: "string \<Rightarrow> string"
  ke_Rand :: "nat \<Rightarrow> 'w \<Rightarrow> 8 word list result \<times> 'w"
  ke_Decode :: "string \<Rightarrow> yaml"
  ke_EncodeGroup :: "FieldGroup \<Rightarrow> string"
  ke_MarshalYaml :: "yaml \<Rightarrow> string result"
  ke_NewSecurityScanner :: "SecurityScannerGroup result"
  ke_NewRedis :: "RedisGroup result"
  ke_NewDatabase :: "DatabaseGroup result"
  ke_Fields :: "ComponentKind \<Rightarrow> string list"
  ke_ClairConn :: "string \<Rightarrow> (string \<times> string \<times> string) result"
  ke_ClairKey :: "string \<Rightarrow> yaml"
  ke_DatabaseUri :: "string \<Rightarrow> string result"
  ke_ParseURL :: "string \<Rightarrow> (string \<times> string \<times> string) result"
  ke_ValidCertPair :: "string \<Rightarrow> string \<Rightarrow> string \<Rightarrow> string \<Rightarrow> bool \<times> string"

text \<open>The \<open>encode\<close> of the package: an error of the marshaller gives no bytes.\<close>

definition encode_config :: "'w KustomizeEnv \<Rightarrow> Config \<Rightarrow> string" where
  "encode_config env c = (case me_Marshal (ke_Middleware env) c of Inl _ \<Rightarrow> '''' | Inr s \<Rightarrow> s)"

section \<open>Random strings\<close>

definition letters :: string where
  "letters = ''0123456789ABCDEFGHIJKLMNOPQRSTUVWXYZabcdefghijklmnopqrstuvwxyz-''"

definition generateRandomBytes :: "'w KustomizeEnv \<Rightarrow> nat \<Rightarrow> 'w \<Rightarrow> 8 word list result \<times> 'w" where
  "generateRandomBytes env n w = ke_Rand env n w"

definition random_letter :: "8 word \<Rightarrow> char" where
  "random_letter b = letters ! unat (b mod of_nat (length letters))"

definition generateRandomString :: "'w KustomizeEnv \<Rightarrow> nat \<Rightarrow> 'w \<Rightarrow> string result \<times> 'w" where
  "generateRandomString env n w =
     (case generateRandomBytes env n w of
        (Inl err, w') \<Rightarrow> (Inl err, w')
      | (Inr bytes, w') \<Rightarrow> (Inr (map random_letter bytes), w'))"

definition secretKeyLength :: nat where
  "secretKeyLength = 80"

lemma length_letters [simp]: "length letters = 63"
  by (simp add: letters_def)

lemma random_letter_in: "random_letter b \<in> set letters"
proof -
  have "unat (b mod 63) < 63"
    by (simp add: unat_mod)
  then show ?thesis by (simp add: random_letter_def)
qed

lemma random_letter_safe: "random_letter b \<noteq> CHR ''@'' \<and> random_letter b \<noteq> CHR '':'' \<and> random_letter b \<noteq> CHR ''/''
    \<and> random_letter b \<noteq> CHR ''%'' \<and> random_letter b \<noteq> CHR ''=''"
proof -
  have "CHR ''@'' \<notin> set letters" "CHR '':'' \<notin> set letters" "CHR ''/'' \<notin> set letters" "CHR ''%'' \<notin> set letters"
    "CHR ''='' \<notin> set letters"
    by (simp_all add: letters_def)
  with random_letter_in [of b] show ?thesis by metis
qed

section \<open>Base64\<close>

text \<open>\<open>base64.StdEncoding\<close>: six bits per character, padded with \<open>=\<close>; the decoder skips line breaks.\<close>

definition b64_alphabet :: string where
  "b64_alphabet = ''ABCDEFGHIJKLMNOPQRSTUVWXYZabcdefghijklmnopqrstuvwxyz0123456789+/''"

definition b64_digit :: "nat \<Rightarrow> char" where
  "b64_digit n = b64_alphabet ! n"

definition b64_value :: "char \<Rightarrow> nat option" where
  "b64_value c = (let i = length (takeWhile (\<lambda>d. d \<noteq> c) b64_alphabet) in if i < 64 then Some i else None)"

fun b64_encode :: "nat list \<Rightarrow> string" where
  "b64_encode [] = []"
| "b64_encode [a] = [b64_digit (a div 4), b64_digit (a mod 4 * 16), CHR ''='', CHR ''='']"
| "b64_encode [a, b] = [b64_digit (a div 4), b64_digit (a mod 4 * 16 + b div 16), b64_digit (b mod 16 * 4), CHR ''='']"
| "b64_encode (a # b # c # bs) = [b64_digit (a div 4), b64_digit (a mod 4 * 16 + b div 16),
     b64_digit (b mod 16 * 4 + c div 64), b64_digit (c mod 64)] @ b64_encode bs"

definition EncodeToString :: "string \<Rightarrow> string" where
  "EncodeToString s = b64_encode (map of_char s)"

fun b64_decode :: "string \<Rightarrow> nat list option" where
  "b64_decode [] = Some []"
| "b64_decode (p # q # r # s # cs) =
     (case (b64_value p, b64_value q) of
        (Some x, Some y) \<Rightarrow>
          if r = CHR ''='' then (if s = CHR ''='' \<and> cs = [] then Some [x * 4 + y div 16] else None)
          else (case b64_value r of
             None \<Rightarrow> None
           | Some z \<Rightarrow>
               if s = CHR ''='' then (if cs = [] then Some [x * 4 + y div 16, y mod 16 * 16 + z div 4] else None)
               else (case (b64_value s, b64_decode cs) of
                  (Some u, Some bs) \<Rightarrow> Some ((x * 4 + y div 16) # (y mod 16 * 16 + z div 4) # (z mod 4 * 64 + u) # bs)
                | _ \<Rightarrow> None))
      | _ \<Rightarrow> None)"
| "b64_decode _ = None"

definition DecodeString :: "string \<Rightarrow> string result" where
  "DecodeString s = (case b64_decode (filter (\<lambda>c. c \<noteq> CHR 10 \<and> c \<noteq> CHR 13) s) of
     None \<Rightarrow> Inl (plain_error ''illegal base64 data'') | Some bs \<Rightarrow> Inr (map char_of bs))"

lemma length_b64 [simp]: "length b64_alphabet = 64"
  by (simp add: b64_alphabet_def)

lemma distinct_b64: "distinct b64_alphabet"
  by (simp add: b64_alphabet_def)

lemma b64_value_digit [simp]: "n < 64 \<Longrightarrow> b64_value (b64_digit n) = Some n"
proof -
  assume n: "n < 64"
  then have "takeWhile (\<lambda>d. d \<noteq> b64_alphabet ! n) b64_alphabet = take n b64_alphabet"
    using distinct_b64 by (intro takeWhile_eq_take_P_nth) (auto simp: nth_eq_iff_index_eq)
  with n show ?thesis by (simp add: b64_value_def b64_digit_def Let_def)
qed

lemma b64_digit_in: "n < 64 \<Longrightarrow> b64_digit n \<in> set b64_alphabet"
  by (simp add: b64_digit_def)

lemma b64_digit_no_pad [simp]: "n < 64 \<Longrightarrow> b64_digit n \<noteq> CHR ''=''"
proof
  assume n: "n < 64" and eq: "b64_digit n = CHR ''=''"
  have "CHR ''='' \<notin> set b64_alphabet"
    by (simp add: b64_alphabet_def)
  with b64_digit_in [OF n] eq show False by simp
qed

lemma b64_digit_no_break: "n < 64 \<Longrightarrow> b64_digit n \<noteq> CHR 10 \<and> b64_digit n \<noteq> CHR 13"
proof -
  assume n: "n < 64"
  have "CHR 10 \<notin> set b64_alphabet" "CHR 13 \<notin> set b64_alphabet"
    by (simp_all add: b64_alphabet_def)
  with b64_digit_in [OF n] show ?thesis by metis
qed

lemma b64_ranges:
  fixes a b c :: nat
  assumes "a < 256" and "b < 256" and "c < 256"
  shows "a div 4 < 64" "a mod 4 * 16 + b div 16 < 64" "b mod 16 * 4 < 64" "b mod 16 * 4 + c div 64 < 64"
    "a mod 4 * 16 < 64" "b div 16 < 16" "b div 16 mod 16 * 16 + b mod 16 = b" "c div 64 < 4"
    "c div 64 mod 4 * 64 + c mod 64 = c"
  using assms by auto

lemma b64_decode_encode: "list_all (\<lambda>b. b < 256) bs \<Longrightarrow> b64_decode (b64_encode bs) = Some bs"
proof (induction bs rule: b64_encode.induct)
  case (3 a b)
  then show ?case using b64_ranges [of a b 0] by simp
next
  case (4 a b c bs)
  then show ?case using b64_ranges [of a b c] by simp
qed simp_all

lemma b64_encode_no_break: "list_all (\<lambda>b. b < 256) bs \<Longrightarrow> list_all (\<lambda>x. x \<noteq> CHR 10 \<and> x \<noteq> CHR 13) (b64_encode bs)"
proof (induction bs rule: b64_encode.induct)
  case (3 a b)
  then show ?case using b64_ranges(1-4) [of a b 0] by (simp add: b64_digit_no_break del: One_nat_def)
next
  case (4 a b c bs)
  then show ?case using b64_ranges(1-4) [of a b c] by (simp add: b64_digit_no_break)
qed (simp_all add: b64_digit_no_break)

lemma DecodeString_EncodeToString: "DecodeString (EncodeToString s) = Inr s"
proof -
  have bytes: "list_all (\<lambda>b. b < 256) (map (of_char :: char \<Rightarrow> nat) s)"
    by (simp add: list_all_iff)
  have "filter (\<lambda>c. c \<noteq> CHR 10 \<and> c \<noteq> CHR 13) (EncodeToString s) = EncodeToString s"
    using b64_encode_no_break [OF bytes] by (simp add: EncodeToString_def list_all_iff filter_id_conv)
  moreover have "b64_decode (EncodeToString s) = Some (map of_char s)"
    unfolding EncodeToString_def by (rule b64_decode_encode [OF bytes])
  ultimately show ?thesis
    by (simp add: DecodeString_def o_def)
qed

end
