(* ===== verification/Component_Config.thy ===== *)
theory Component_Config
  imports Field_Groups
begin

text \<open>
  The rest of \<open>pkg/kustomize/secrets.go\<close>: the field group of each component kind, the base config, the
  check of the certificate, the test whether a config bundle configures a component, and the files the
  managed databases and Clair mount.
\<close>

section \<open>FieldGroupFor\<close>

text \<open>The bytes of a slice that may be nil.\<close>

definition bytes_of :: "string option \<Rightarrow> string" where
  "bytes_of b = (case b of None \<Rightarrow> '''' | Some s \<Rightarrow> s)"

definition clair_fields :: "QuayRegistry \<Rightarrow> string \<Rightarrow> SecurityScannerGroup \<Rightarrow> SecurityScannerGroup" where
  "clair_fields quay psk g = g\<lparr>ss_FeatureSecurityScanner := True,
     ss_V4Endpoint := ''http://'' @ qr_Name quay @ ''-clair-app.'' @ qr_Namespace quay @ ''.svc.cluster.local'',
     ss_V4NamespaceWhitelist := [''admin''], ss_Notifications := True, ss_V4PSK := psk\<rparr>"

definition redis_server :: "QuayRegistry \<Rightarrow> RedisServer" where
  "redis_server quay = \<lparr>rs_Host = qr_Name quay @ ''-quay-redis'', rs_Port = 6379\<rparr>"

definition database_fields :: "string \<Rightarrow> DatabaseGroup \<Rightarrow> DatabaseGroup" where
  "database_fields uri g = g\<lparr>dg_DbUri := uri,
     dg_ConnectionArgs := map_option (\<lambda>a. a\<lparr>dba_Autorollback := True, dba_Threadlocals := True\<rparr>)
                            (dg_ConnectionArgs g)\<rparr>"

definition storage_fields :: "QuayRegistryContext \<Rightarrow> StorageGroup" where
  "storage_fields ctx = \<lparr>sg_FeatureProxyStorage = True, sg_Preference = [''local_us''],
     sg_DefaultLocations = [''local_us''],
     sg_Config = [(''local_us'', ''RHOCSStorage'', \<lparr>sa_Hostname = StorageHostname ctx, sa_IsSecure = True,
        sa_Port = 443, sa_BucketName = StorageBucketName ctx, sa_AccessKey = StorageAccessKey ctx,
        sa_SecretKey = StorageSecretKey ctx, sa_StoragePath = ''/datastorage/registry''\<rparr>)]\<rparr>"

definition route_fields :: "QuayRegistryContext \<Rightarrow> HostSettingsGroup" where
  "route_fields ctx = \<lparr>
     hg_ExternalTlsTermination = (length (bytes_of (TLSCert ctx)) = 0 \<and>
                                  length (bytes_of (TLSKey ctx)) = 0),
     hg_PreferredUrlScheme = ''https'', hg_ServerHostname = ServerHostname ctx\<rparr>"

text \<open>The shared key of Clair is generated once and kept in the context.\<close>

definition clair_field_group ::
  "'w KustomizeEnv \<Rightarrow> QuayRegistryContext \<Rightarrow> QuayRegistry \<Rightarrow> 'w
     \<Rightarrow> FieldGroup result \<times> QuayRegistryContext \<times> 'w" where
  "clair_field_group env ctx quay w =
     (case ke_NewSecurityScanner env of
        Inl err \<Rightarrow> (Inl err, ctx, w)
      | Inr g \<Rightarrow>
          if length (SecurityScannerV4PSK ctx) = 0
          then (case generateRandomString env 32 w of
                  (Inl err, w') \<Rightarrow> (Inl err, ctx, w')
                | (Inr preSharedKey, w') \<Rightarrow>
                    let ctx' = ctx\<lparr>SecurityScannerV4PSK := EncodeToString preSharedKey\<rparr> in
                    (Inr (SecurityScannerFields (clair_fields quay (SecurityScannerV4PSK ctx') g)), ctx', w'))
          else (Inr (SecurityScannerFields (clair_fields quay (SecurityScannerV4PSK ctx) g)), ctx, w))"

definition FieldGroupFor ::
  "'w KustomizeEnv \<Rightarrow> QuayRegistryContext \<Rightarrow> ComponentKind \<Rightarrow> QuayRegistry \<Rightarrow> 'w
     \<Rightarrow> FieldGroup result \<times> QuayRegistryContext \<times> 'w" where
  "FieldGroupFor env ctx component quay w =
     (case component of
        ComponentClair \<Rightarrow> clair_field_group env ctx quay w
      | ComponentRedis \<Rightarrow>
          (and_then (ke_NewRedis env) (\<lambda>g. Inr (RedisFields (g\<lparr>rg_Buildlogs := Some (redis_server quay),
             rg_UserEvents := Some (redis_server quay)\<rparr>))), ctx, w)
      | ComponentPostgres \<Rightarrow>
          (and_then (ke_NewDatabase env) (\<lambda>g. Inr (DatabaseFields (database_fields (DbUri ctx) g))), ctx, w)
      | ComponentObjectStorage \<Rightarrow> (Inr (StorageFields (storage_fields ctx)), ctx, w)
      | ComponentRoute \<Rightarrow> (Inr (HostSettingsFields (route_fields ctx)), ctx, w)
      | ComponentMirror \<Rightarrow> (Inr (RepoMirrorFields \<lparr>mg_FeatureRepoMirror = True, mg_Interval = 30,
             mg_TlsVerify = True\<rparr>), ctx, w)
      | ComponentHPA \<Rightarrow> (Inr NoGroup, ctx, w)
      | ComponentMonitoring \<Rightarrow> (Inr NoGroup, ctx, w)
      | ComponentTLS \<Rightarrow> (Inr NoGroup, ctx, w)
      | ComponentClairPostgres \<Rightarrow> (Inr NoGroup, ctx, w)
      | ComponentQuay \<Rightarrow> (Inr NoGroup, ctx, w)
      | ComponentOther s \<Rightarrow> (Inl (plain_error (''unknown component: '' @ s)), ctx, w))"

section \<open>BaseQuayConfig\<close>

definition BaseQuayConfig :: "'w KustomizeEnv \<Rightarrow> (string \<times> yaml) list" where
  "BaseQuayConfig env =
     (let redhat = (ke_Getenv env ''QUAY_DEFAULT_BRANDING'' = ''redhat'');
          registryTitle = (if redhat then ''Red Hat Quay'' else ''Quay'');
          enterpriseLogoURL = (if redhat then ''/static/img/RH_Logo_Quay_Black_UX-horizontal.svg''
                               else ''/static/img/quay-horizontal-color.svg'')
      in [(''SETUP_COMPLETE'', YBool True),
          (''FEATURE_MAILING'', YBool False),
          (''REGISTRY_TITLE'', YStr registryTitle),
          (''REGISTRY_TITLE_SHORT'', YStr registryTitle),
          (''AUTHENTICATION_TYPE'', YStr ''Database''),
          (''ENTERPRISE_LOGO_URL'', YStr enterpriseLogoURL),
          (''DEFAULT_TAG_EXPIRATION'', YStr ''2w''),
          (''ALLOW_PULLS_WITHOUT_STRICT_LOGGING'', YBool False),
          (''TAG_EXPIRATION_OPTIONS'', YList [YStr ''2w'']),
          (''TEAM_RESYNC_STALE_TIME'', YStr ''60m''),
          (''FEATURE_DIRECT_LOGIN'', YBool True),
          (''FEATURE_BUILD_SUPPORT'', YBool False),
          (''TESTING'', YBool False)])"

section \<open>EnsureTLSFor\<close>

fun check_hosts :: "'w KustomizeEnv \<Rightarrow> string \<Rightarrow> string \<Rightarrow> string \<Rightarrow> string list \<Rightarrow> go_error option" where
  "check_hosts env cert key fgn [] = None"
| "check_hosts env cert key fgn (host # hosts) =
     (case ke_ValidCertPair env cert key host fgn of
        (valid, err) \<Rightarrow>
          if \<not> valid then Some (plain_error (''provided certificate pair not valid for host '' @ [CHR 0x27] @ host @ [CHR 0x27] @ '': '' @ err))
          else check_hosts env cert key fgn hosts)"

definition tls_hosts :: "QuayRegistryContext \<Rightarrow> string list" where
  "tls_hosts ctx = ServerHostname ctx #
     (if BuildManagerHostname ctx \<noteq> '''' then [hd (Split (BuildManagerHostname ctx) CHR '':'')] else [])"

definition EnsureTLSFor ::
  "'w KustomizeEnv \<Rightarrow> QuayRegistryContext \<Rightarrow> (string option \<times> string option) result" where
  "EnsureTLSFor env ctx =
     (case (TLSCert ctx, TLSKey ctx) of
        (Some cert, Some key) \<Rightarrow>
          (case check_hosts env cert key ''HostSettings'' (tls_hosts ctx) of
             Some err \<Rightarrow> Inl err
           | None \<Rightarrow> Inr (TLSCert ctx, TLSKey ctx))
      | _ \<Rightarrow> Inr (TLSCert ctx, TLSKey ctx))"

section \<open>ContainsComponentConfig\<close>

definition has_field :: "'w KustomizeEnv \<Rightarrow> strmap \<Rightarrow> string list \<Rightarrow> bool result" where
  "has_field env bundle names =
     and_then (me_Unmarshal (ke_Middleware env) (gstr bundle ''config.yaml'')) (\<lambda>quayConfig.
       Inr (list_ex (\<lambda>field. gget (config_of quayConfig) field \<noteq> None) names))"

definition contains_clair_connection :: "'w KustomizeEnv \<Rightarrow> strmap \<Rightarrow> bool result" where
  "contains_clair_connection env bundle =
     (case gget bundle ''clair-config.yaml'' of
        None \<Rightarrow> Inr False
      | Some file \<Rightarrow> and_then (ke_ClairConn env file) (\<lambda>(matcher, indexer, notifier).
          Inr (matcher \<noteq> '''' \<or> indexer \<noteq> '''' \<or> notifier \<noteq> '''')))"

definition ContainsComponentConfig :: "'w KustomizeEnv \<Rightarrow> strmap \<Rightarrow> Component \<Rightarrow> bool result" where
  "ContainsComponentConfig env bundle component =
     (case cmp_Kind component of
        ComponentClair \<Rightarrow> has_field env bundle (ke_Fields env ComponentClair)
      | ComponentPostgres \<Rightarrow> has_field env bundle (ke_Fields env ComponentPostgres)
      | ComponentClairPostgres \<Rightarrow> contains_clair_connection env bundle
      | ComponentRedis \<Rightarrow> has_field env bundle (ke_Fields env ComponentRedis)
      | ComponentObjectStorage \<Rightarrow> has_field env bundle (ke_Fields env ComponentObjectStorage)
      | ComponentHPA \<Rightarrow> Inr False
      | ComponentMirror \<Rightarrow> has_field env bundle (ke_Fields env ComponentMirror)
      | ComponentRoute \<Rightarrow> has_field env bundle (ke_Fields env ComponentRoute)
      | ComponentMonitoring \<Rightarrow> Inr False
      | ComponentTLS \<Rightarrow>
          if gget bundle ''ssl.cert'' \<noteq> None \<and> gget bundle ''ssl.key'' \<noteq> None then Inr True
          else has_field env bundle []
      | ComponentQuay \<Rightarrow> Inr False
      | ComponentOther s \<Rightarrow> Inl (plain_error (''unknown component: '' @ s)))"

section \<open>clairConfigFor\<close>

definition clair_pool_size :: "QuayRegistry \<Rightarrow> int" where
  "clair_pool_size quay = (if ComponentIsManaged (qr_Components quay) ComponentHPA then 33 else 10)"

text \<open>The two sizes in decimal.\<close>

definition pool_text :: "int \<Rightarrow> string" where
  "pool_text n = (if n = 33 then ''33'' else ''10'')"

definition clair_connection :: "QuayRegistryContext \<Rightarrow> QuayRegistry \<Rightarrow> string" where
  "clair_connection qctx quay =
     ''host='' @ Join [qr_Name quay, ''clair-postgres''] ''-'' @ '' port=5432 dbname='' @ ClairDbName qctx @
     '' user='' @ ClairDbUser qctx @ '' password='' @ ClairDbPassword qctx @
     '' sslmode=disable pool_max_conns='' @ pool_text (clair_pool_size quay)"

definition clair_config ::
  "'w KustomizeEnv \<Rightarrow> QuayRegistryContext \<Rightarrow> QuayRegistry \<Rightarrow> string \<Rightarrow> string \<Rightarrow> yaml" where
  "clair_config env qctx quay quayHostname psk =
     (let dbConn = YStr (clair_connection qctx quay) in
      YMap [(''http_listen_addr'', YStr '':8080''),
            (''log_level'', YStr ''info''),
            (''indexer'', YMap [(''connstring'', dbConn), (''scanlock_retry'', YNum 10),
               (''layer_scan_concurrency'', YNum 5), (''migrations'', YBool True)]),
            (''matcher'', YMap [(''connstring'', dbConn), (''migrations'', YBool True)]),
            (''notifier'', YMap [(''connstring'', dbConn), (''migrations'', YBool True),
               (''delivery_interval'', YStr ''1m''), (''poll_interval'', YStr ''5m''),
               (''webhook'', YMap [(''target'', YStr (''https://'' @ quayHostname @ ''/secscan/notification'')),
                  (''callback'', YStr (''http://'' @ qr_Name quay @ ''-clair-app/notifier/api/v1/notifications''))])]),
            (''auth'', YMap [(''psk'', YMap [(''key'', ke_ClairKey env psk),
               (''iss'', YList [YStr ''quay'', YStr ''clairctl''])])]),
            (''metrics'', YMap [(''name'', YStr ''prometheus'')]),
            (''updaters'', YMap [(''sets'', YList (map YStr [''alpine'', ''aws'', ''clair.cvss'', ''debian'',
               ''oracle'', ''photon'', ''rhcc'', ''rhel-vex'', ''suse'', ''ubuntu''])),
               (''config'', YMap [(''rhel-vex'', YMap [(''ignore_unpatched'', YBool True)])])])])"

definition clairConfigFor ::
  "'w KustomizeEnv \<Rightarrow> QuayRegistryContext \<Rightarrow> QuayRegistry \<Rightarrow> string \<Rightarrow> string \<Rightarrow> string result" where
  "clairConfigFor env qctx quay quayHostname preSharedKey =
     and_then (DecodeString preSharedKey) (\<lambda>psk.
       ke_MarshalYaml env (clair_config env qctx quay quayHostname psk))"

section \<open>componentConfigFilesFor\<close>

text \<open>\<open>config.(map[string]interface{})\<close> and \<open>v.(string)\<close> without the second result: both may panic.\<close>

fun yaml_map :: "yaml \<Rightarrow> (string \<rightharpoonup> yaml) result" where
  "yaml_map (YMap kvs) = Inr (map_of kvs)"
| "yaml_map _ = Inl (GoPanic ''interface conversion: interface {} is not map[string]interface {}'')"

definition must_string :: "yaml option \<Rightarrow> string result" where
  "must_string v = yaml_string (case v of None \<Rightarrow> YNull | Some y \<Rightarrow> y)"

fun maybe_string :: "yaml option \<Rightarrow> string option" where
  "maybe_string (Some (YStr s)) = Some s"
| "maybe_string _ = None"

definition go_space :: "char \<Rightarrow> bool" where
  "go_space c = (c = CHR '' '' \<or> c = CHR 9 \<or> c = CHR 10 \<or> c = CHR 11 \<or> c = CHR 12 \<or> c = CHR 13)"

definition TrimSpace :: "string \<Rightarrow> string" where
  "TrimSpace s = rev (dropWhile go_space (rev (dropWhile go_space s)))"

definition postgres_files :: "'w KustomizeEnv \<Rightarrow> QuayRegistryContext \<Rightarrow> strmap \<Rightarrow> (string \<rightharpoonup> string) option result" where
  "postgres_files env qctx configFiles =
     (case gget configFiles ''postgres.config.yaml'' of
        None \<Rightarrow> Inl (plain_error
          ''cannot generate managed component config file for `postgres` if `postgres.config.yaml` is missing'')
      | Some dbConfig \<Rightarrow>
          and_then (ke_DatabaseUri env dbConfig) (\<lambda>uri.
          and_then (ke_ParseURL env uri) (\<lambda>(user, password, path).
            if path = '''' then Inl (GoPanic ''slice bounds out of range'')
            else Inr (Some [''database-username'' \<mapsto> user, ''database-password'' \<mapsto> password,
              ''database-name'' \<mapsto> tl path, ''database-root-password'' \<mapsto> DbRootPw qctx]))))"

text \<open>The hostname Clair notifies: that of the route when it is managed, else that of the config.\<close>

definition route_hostname :: "'w KustomizeEnv \<Rightarrow> QuayRegistry \<Rightarrow> strmap \<Rightarrow> string result" where
  "route_hostname env quay configFiles =
     (if ComponentIsManaged (qr_Components quay) ComponentRoute
      then and_then (yaml_map (ke_Decode env (gstr configFiles ''route.config.yaml''))) (\<lambda>m.
             must_string (m ''SERVER_HOSTNAME''))
      else Inr '''')"

definition clair_hostname :: "'w KustomizeEnv \<Rightarrow> QuayRegistry \<Rightarrow> strmap \<Rightarrow> string result" where
  "clair_hostname env quay configFiles =
     and_then (route_hostname env quay configFiles) (\<lambda>host.
       if host \<noteq> '''' then Inr host
       else case gget configFiles ''config.yaml'' of
         None \<Rightarrow> Inr host
       | Some file \<Rightarrow> and_then (yaml_map (ke_Decode env file)) (\<lambda>m.
           Inr (case maybe_string (m ''SERVER_HOSTNAME'') of None \<Rightarrow> host | Some h \<Rightarrow> h)))"

definition clair_psk :: "'w KustomizeEnv \<Rightarrow> strmap \<Rightarrow> string result" where
  "clair_psk env configFiles =
     (case gget configFiles ''clair.config.yaml'' of
        None \<Rightarrow> Inr ''''
      | Some file \<Rightarrow> and_then (yaml_map (ke_Decode env file)) (\<lambda>m. must_string (m ''SECURITY_SCANNER_V4_PSK'')))"

definition copy_file :: "strmap \<Rightarrow> string \<Rightarrow> (string \<rightharpoonup> string) \<Rightarrow> (string \<rightharpoonup> string)" where
  "copy_file src key m = (case gget src key of None \<Rightarrow> m | Some v \<Rightarrow> m(key \<mapsto> v))"

definition clair_files ::
  "'w KustomizeEnv \<Rightarrow> QuayRegistryContext \<Rightarrow> QuayRegistry \<Rightarrow> strmap \<Rightarrow> (string \<rightharpoonup> string) option result" where
  "clair_files env qctx quay configFiles =
     and_then (clair_hostname env quay configFiles) (\<lambda>quayHostname.
       if quayHostname = '''' then Inl (plain_error
         ''cannot configure managed security scanner, `SERVER_HOSTNAME` is not set anywhere'')
       else and_then (clair_psk env configFiles) (\<lambda>preSharedKey.
       and_then (clairConfigFor env qctx quay quayHostname preSharedKey) (\<lambda>cfg.
         Inr (Some ((copy_file configFiles ''clair-ssl.key'' (copy_file configFiles ''clair-ssl.crt'' Map.empty))
           (''config.yaml'' \<mapsto> cfg, ''01_user_config.yaml'' \<mapsto> gstr configFiles ''clair-config.yaml'',
            ''clair-db-host'' \<mapsto> TrimSpace (Join [qr_Name quay, ''clair-postgres''] ''-''),
            ''clair-db-old-host'' \<mapsto> TrimSpace (Join [qr_Name quay, ''clair-postgres-old''] ''-'')))))))"

definition componentConfigFilesFor ::
  "'w KustomizeEnv \<Rightarrow> QuayRegistryContext \<Rightarrow> ComponentKind \<Rightarrow> QuayRegistry \<Rightarrow> strmap
     \<Rightarrow> (string \<rightharpoonup> string) option result" where
  "componentConfigFilesFor env qctx component quay configFiles =
     (case component of
        ComponentPostgres \<Rightarrow> postgres_files env qctx configFiles
      | ComponentClair \<Rightarrow> clair_files env qctx quay configFiles
      | ComponentClairPostgres \<Rightarrow> Inr (Some [''database-username'' \<mapsto> ClairDbUser qctx,
          ''database-password'' \<mapsto> ClairDbPassword qctx, ''database-name'' \<mapsto> ClairDbName qctx,
          ''database-root-password'' \<mapsto> ClairDbRootPw qctx])
      | _ \<Rightarrow> Inr None)"

end
