(* ===== verification/Go_Sort.thy ===== *)
theory Go_Sort
  imports Prelude "HOL-Library.Multiset" "HOL-Library.Word"
begin

unbundle bit_operations_syntax

text \<open>
  \<open>sort.Slice\<close> of Go's standard library, the pattern-defeating quicksort, as \<open>EnsureCreationOrder\<close> calls it.
  The comparison the operator passes is no strict weak order, so that nothing of the contract of \<open>sort.Slice\<close>
  applies and the result is what the algorithm makes of it. Positions are natural numbers; the loops keep
  to the range they are called on, so no subtraction is cut off at zero.
\<close>

section \<open>The algorithm\<close>

definition swap :: "nat \<Rightarrow> nat \<Rightarrow> 'a list \<Rightarrow> 'a list" where
  "swap i j xs = xs[i := xs ! j, j := xs ! i]"

text \<open>\<open>for j > a && less(j, j-1) { swap(j, j-1); j-- }\<close>.\<close>

fun sink :: "('a \<Rightarrow> 'a \<Rightarrow> bool) \<Rightarrow> nat \<Rightarrow> nat \<Rightarrow> 'a list \<Rightarrow> 'a list" where
  "sink lt a 0 xs = xs"
| "sink lt a (Suc j) xs = (if Suc j > a \<and> lt (xs ! Suc j) (xs ! j) then sink lt a j (swap (Suc j) j xs) else xs)"

definition insertionSort :: "('a \<Rightarrow> 'a \<Rightarrow> bool) \<Rightarrow> nat \<Rightarrow> nat \<Rightarrow> 'a list \<Rightarrow> 'a list" where
  "insertionSort lt a b xs = fold (sink lt a) [Suc a..<b] xs"

function siftDown :: "('a \<Rightarrow> 'a \<Rightarrow> bool) \<Rightarrow> nat \<Rightarrow> nat \<Rightarrow> nat \<Rightarrow> 'a list \<Rightarrow> 'a list" where
  "siftDown lt root hi first xs =
     (let child = 2 * root + 1 in
      if child \<ge> hi then xs
      else let child = (if child + 1 < hi \<and> lt (xs ! (first + child)) (xs ! (first + child + 1)) then child + 1 else child) in
        if \<not> lt (xs ! (first + root)) (xs ! (first + child)) then xs
        else siftDown lt child hi first (swap (first + root) (first + child) xs))"
  by pat_completeness auto
termination
  by (relation "measure (\<lambda>(lt, root, hi, first, xs). hi - root)") (auto split: if_splits)

definition heapSort :: "('a \<Rightarrow> 'a \<Rightarrow> bool) \<Rightarrow> nat \<Rightarrow> nat \<Rightarrow> 'a list \<Rightarrow> 'a list" where
  "heapSort lt a b xs =
     (let hi = b - a;
          xs = fold (\<lambda>i. siftDown lt i hi a) (rev [0..<Suc ((hi - 1) div 2)]) xs
      in fold (\<lambda>i xs. siftDown lt 0 i a (swap a (a + i) xs)) (rev [0..<hi]) xs)"

text \<open>\<open>for i < b && p(i) { i++ }\<close> and \<open>for i <= j && p(j) { j-- }\<close>.\<close>

function scan_up :: "(nat \<Rightarrow> bool) \<Rightarrow> nat \<Rightarrow> nat \<Rightarrow> nat" where
  "scan_up p b i = (if i < b \<and> p i then scan_up p b (Suc i) else i)"
  by pat_completeness auto
termination
  by (relation "measure (\<lambda>(p, b, i). b - i)") auto

fun scan_down :: "(nat \<Rightarrow> bool) \<Rightarrow> nat \<Rightarrow> nat \<Rightarrow> nat" where
  "scan_down p i 0 = 0"
| "scan_down p i (Suc j) = (if i \<le> Suc j \<and> p (Suc j) then scan_down p i j else Suc j)"

declare siftDown.simps [simp del] scan_up.simps [simp del]

lemma scan_up_ge: "i \<le> scan_up p b i"
  by (induction p b i rule: scan_up.induct) (subst scan_up.simps, auto)

lemma scan_down_le: "scan_down p i j \<le> j"
  by (induction j) auto

text \<open>One side of the pivot at \<open>a\<close> to the left of the other: \<open>up\<close> and \<open>down\<close> say which elements stay.\<close>

function part_loop :: "('a \<Rightarrow> 'a \<Rightarrow> bool) \<Rightarrow> ('a \<Rightarrow> 'a \<Rightarrow> bool) \<Rightarrow> nat \<Rightarrow> nat \<Rightarrow> nat \<Rightarrow> 'a list \<Rightarrow> nat \<times> nat \<times> 'a list" where
  "part_loop up down a i j xs =
     (let i = scan_up (\<lambda>k. up (xs ! a) (xs ! k)) (Suc j) i;
          j = scan_down (\<lambda>k. down (xs ! a) (xs ! k)) i j
      in if i > j then (i, j, xs) else part_loop up down a (Suc i) (j - 1) (swap i j xs))"
  by pat_completeness auto
termination
proof (relation "measure (\<lambda>(up, down, a, i, j, xs). Suc j - i)")
  fix up down :: "'a \<Rightarrow> 'a \<Rightarrow> bool" and a i j :: nat and xs :: "'a list" and i' j'
  assume "i' = scan_up (\<lambda>k. up (xs ! a) (xs ! k)) (Suc j) i" and "j' = scan_down (\<lambda>k. down (xs ! a) (xs ! k)) i' j"
    and "\<not> j' < i'"
  then show "((up, down, a, Suc i', j' - 1, swap i' j' xs), up, down, a, i, j, xs)
      \<in> measure (\<lambda>(up, down, a, i, j, xs). Suc j - i)"
    using scan_up_ge [of i "\<lambda>k. up (xs ! a) (xs ! k)" "Suc j"] scan_down_le [of "\<lambda>k. down (xs ! a) (xs ! k)" i' j]
    by auto
qed simp

declare part_loop.simps [simp del]

text \<open>The first round of the loop tells whether the range was partitioned already.\<close>

definition partition_range :: "('a \<Rightarrow> 'a \<Rightarrow> bool) \<Rightarrow> nat \<Rightarrow> nat \<Rightarrow> nat \<Rightarrow> 'a list \<Rightarrow> nat \<times> bool \<times> 'a list" where
  "partition_range lt a b pivot xs =
     (let xs = swap a pivot xs;
          up = (\<lambda>p x. lt x p); down = (\<lambda>p x. \<not> lt x p);
          i = scan_up (\<lambda>k. up (xs ! a) (xs ! k)) b (a + 1);
          already = (i > scan_down (\<lambda>k. down (xs ! a) (xs ! k)) i (b - 1));
          (i, j, xs) = part_loop up down a (a + 1) (b - 1) xs
      in (j, already, swap j a xs))"

definition partitionEqual :: "('a \<Rightarrow> 'a \<Rightarrow> bool) \<Rightarrow> nat \<Rightarrow> nat \<Rightarrow> nat \<Rightarrow> 'a list \<Rightarrow> nat \<times> 'a list" where
  "partitionEqual lt a b pivot xs =
     (let (i, j, xs) = part_loop (\<lambda>p x. \<not> lt p x) (\<lambda>p x. lt p x) a (a + 1) (b - 1) (swap a pivot xs) in (i, xs))"

function shift_right :: "('a \<Rightarrow> 'a \<Rightarrow> bool) \<Rightarrow> nat \<Rightarrow> nat \<Rightarrow> 'a list \<Rightarrow> 'a list" where
  "shift_right lt b j xs =
     (if j < b \<and> lt (xs ! j) (xs ! (j - 1)) then shift_right lt b (Suc j) (swap j (j - 1) xs) else xs)"
  by pat_completeness auto
termination
  by (relation "measure (\<lambda>(lt, b, j, xs). b - j)") auto

declare shift_right.simps [simp del]

fun partialInsertionSort :: "('a \<Rightarrow> 'a \<Rightarrow> bool) \<Rightarrow> nat \<Rightarrow> nat \<Rightarrow> nat \<Rightarrow> nat \<Rightarrow> 'a list \<Rightarrow> bool \<times> 'a list" where
  "partialInsertionSort lt a b 0 i xs = (False, xs)"
| "partialInsertionSort lt a b (Suc steps) i xs =
     (let i = scan_up (\<lambda>k. \<not> lt (xs ! k) (xs ! (k - 1))) b i in
      if i = b then (True, xs)
      else if b - a < 50 then (False, xs)
      else let xs = swap i (i - 1) xs;
               xs = (if i - a \<ge> 2 then sink lt 0 (i - 1) xs else xs);
               xs = (if b - i \<ge> 2 then shift_right lt b (i + 1) xs else xs)
           in partialInsertionSort lt a b steps i xs)"

text \<open>\<open>bits.Len\<close>, and the pseudo-random swaps of three positions in the middle.\<close>

fun bit_len :: "nat \<Rightarrow> nat" where
  "bit_len n = (if n = 0 then 0 else Suc (bit_len (n div 2)))"

declare bit_len.simps [simp del]

definition xorshift :: "64 word \<Rightarrow> 64 word" where
  "xorshift r =
     (let r = r XOR push_bit 13 r; r = r XOR drop_bit 7 r in r XOR push_bit 17 r)"

definition break_swap :: "nat \<Rightarrow> nat \<Rightarrow> nat \<Rightarrow> 64 word \<times> 'a list \<Rightarrow> 64 word \<times> 'a list" where
  "break_swap a len i = (\<lambda>(r, xs).
     let r = xorshift r; other = unat (r AND mask (bit_len len));
         other = (if other \<ge> len then other - len else other)
     in (r, swap (a + (len div 4) * 2 - 2 + i) (a + other) xs))"

definition breakPatterns :: "nat \<Rightarrow> nat \<Rightarrow> 'a list \<Rightarrow> 'a list" where
  "breakPatterns a b xs =
     (let len = b - a in
      if len \<ge> 8 then snd (fold (break_swap a len) [0, 1, 2] (word_of_nat len, xs)) else xs)"

text \<open>The median of three positions and the number of exchanges it took.\<close>

definition order2 :: "('a \<Rightarrow> 'a \<Rightarrow> bool) \<Rightarrow> 'a list \<Rightarrow> nat \<Rightarrow> nat \<Rightarrow> nat \<Rightarrow> nat \<times> nat \<times> nat" where
  "order2 lt xs a b swaps = (if lt (xs ! b) (xs ! a) then (b, a, Suc swaps) else (a, b, swaps))"

definition median :: "('a \<Rightarrow> 'a \<Rightarrow> bool) \<Rightarrow> 'a list \<Rightarrow> nat \<Rightarrow> nat \<Rightarrow> nat \<Rightarrow> nat \<Rightarrow> nat \<times> nat" where
  "median lt xs a b c swaps =
     (let (a, b, swaps) = order2 lt xs a b swaps;
          (b, c, swaps) = order2 lt xs b c swaps;
          (a, b, swaps) = order2 lt xs a b swaps
      in (b, swaps))"

datatype sortedHint = unknownHint | increasingHint | decreasingHint

definition choosePivot :: "('a \<Rightarrow> 'a \<Rightarrow> bool) \<Rightarrow> nat \<Rightarrow> nat \<Rightarrow> 'a list \<Rightarrow> nat \<times> sortedHint" where
  "choosePivot lt a b xs =
     (let l = b - a;
          i = a + l div 4 * 1; j = a + l div 4 * 2; k = a + l div 4 * 3;
          (j, swaps) =
            (if l \<ge> 8
             then let (i, j, k, swaps) =
                    (if l \<ge> 50
                     then let (i, swaps) = median lt xs (i - 1) i (i + 1) 0;
                              (j, swaps) = median lt xs (j - 1) j (j + 1) swaps;
                              (k, swaps) = median lt xs (k - 1) k (k + 1) swaps
                          in (i, j, k, swaps)
                     else (i, j, k, 0))
                  in median lt xs i j k swaps
             else (j, 0))
      in (j, if swaps = 0 then increasingHint else if swaps = 12 then decreasingHint else unknownHint))"

function reverseRange :: "nat \<Rightarrow> nat \<Rightarrow> 'a list \<Rightarrow> 'a list" where
  "reverseRange i j xs = (if i < j then reverseRange (Suc i) (j - 1) (swap i j xs) else xs)"
  by pat_completeness auto
termination
  by (relation "measure (\<lambda>(i, j, xs). j - i)") auto

declare reverseRange.simps [simp del]

section \<open>Swaps within a range\<close>

inductive reach :: "nat \<Rightarrow> nat \<Rightarrow> 'a list \<Rightarrow> 'a list \<Rightarrow> bool" for lo hi xs where
  reach_refl [simp, intro]: "reach lo hi xs xs"
| reach_step: "reach lo hi xs ys \<Longrightarrow> lo \<le> i \<Longrightarrow> i < hi \<Longrightarrow> lo \<le> j \<Longrightarrow> j < hi \<Longrightarrow> reach lo hi xs (swap i j ys)"

lemma reach_trans: "reach lo hi ys zs \<Longrightarrow> reach lo hi xs ys \<Longrightarrow> reach lo hi xs zs"
  by (induction rule: reach.induct) (auto intro: reach_step)

lemma reach_swap: "lo \<le> i \<Longrightarrow> i < hi \<Longrightarrow> lo \<le> j \<Longrightarrow> j < hi \<Longrightarrow> reach lo hi xs (swap i j xs)"
  by (intro reach_step reach_refl)

lemma reach_first:
  "reach lo hi (swap i j xs) zs \<Longrightarrow> lo \<le> i \<Longrightarrow> i < hi \<Longrightarrow> lo \<le> j \<Longrightarrow> j < hi \<Longrightarrow> reach lo hi xs zs"
  by (erule reach_trans) (rule reach_swap)

lemma reach_wider: "reach lo hi xs ys \<Longrightarrow> lo' \<le> lo \<Longrightarrow> hi \<le> hi' \<Longrightarrow> reach lo' hi' xs ys"
  by (induction rule: reach.induct) (auto intro!: reach_step)

lemma reach_length: "reach lo hi xs ys \<Longrightarrow> length ys = length xs"
  by (induction rule: reach.induct) (simp_all add: swap_def)

lemma reach_mset: "reach lo hi xs ys \<Longrightarrow> hi \<le> length xs \<Longrightarrow> mset ys = mset xs"
proof (induction rule: reach.induct)
  case (reach_step ys i j)
  then have "mset (swap i j ys) = mset ys"
    using reach_length [OF reach_step(1)] by (simp add: swap_def mset_swap)
  with reach_step show ?case by simp
qed simp

lemma reach_fold: "(\<And>x ys. x \<in> set zs \<Longrightarrow> reach lo hi ys (f x ys)) \<Longrightarrow> reach lo hi xs (fold f zs xs)"
  by (induction zs arbitrary: xs) (auto intro: reach_trans)

lemma sink_reach: "a \<le> lo \<or> lo \<le> a \<Longrightarrow> j < hi \<Longrightarrow> lo \<le> a \<Longrightarrow> reach lo hi xs (sink lt a j xs)"
  by (induction lt a j xs rule: sink.induct) (auto intro: reach_first)

lemma insertionSort_reach: "reach a b xs (insertionSort lt a b xs)"
  unfolding insertionSort_def by (intro reach_fold sink_reach) auto

lemma siftDown_reach: "root < hi \<Longrightarrow> reach first (first + hi) xs (siftDown lt root hi first xs)"
proof (induction lt root hi first xs rule: siftDown.induct)
  case (1 lt root hi first xs)
  let ?c = "2 * root + 1"
  let ?d = "if ?c + 1 < hi \<and> lt (xs ! (first + ?c)) (xs ! (first + ?c + 1)) then ?c + 1 else ?c"
  show ?case
  proof (cases "?c \<ge> hi \<or> \<not> lt (xs ! (first + root)) (xs ! (first + ?d))")
    case True
    then show ?thesis by (subst siftDown.simps) (auto simp: Let_def)
  next
    case False
    then have step: "siftDown lt root hi first xs = siftDown lt ?d hi first (swap (first + root) (first + ?d) xs)"
      by (subst siftDown.simps) (simp only: Let_def if_False simp_thms de_Morgan_disj)
    have d: "?d < hi" using False by auto
    show ?thesis
      unfolding step by (rule reach_first [OF 1(1) [OF refl _ refl]]) (use False d 1(2) in auto)
  qed
qed

lemma heapSort_reach: "reach a b xs (heapSort lt a b xs)"
proof (cases "a < b")
  case True
  have "reach a (a + (b - a)) ys (siftDown lt i (b - a) a ys)" if "i \<in> set (rev [0..<Suc ((b - a - 1) div 2)])" for i ys
    using that True by (intro siftDown_reach) auto
  moreover have "reach a (a + (b - a)) ys (siftDown lt 0 i a (swap a (a + i) ys))" if "i \<in> set (rev [0..<b - a])" for i ys
  proof (cases "i = 0")
    case True
    then show ?thesis using \<open>a < b\<close> by (subst siftDown.simps) (auto intro: reach_swap)
  next
    case False
    have "reach a (a + i) (swap a (a + i) ys) (siftDown lt 0 i a (swap a (a + i) ys))"
      using False by (intro siftDown_reach) simp
    then have "reach a (a + (b - a)) (swap a (a + i) ys) (siftDown lt 0 i a (swap a (a + i) ys))"
      by (rule reach_wider) (use that in auto)
    then show ?thesis
      by (rule reach_first) (use that in auto)
  qed
  ultimately have "reach a (a + (b - a)) xs (heapSort lt a b xs)"
    unfolding heapSort_def Let_def by (blast intro: reach_trans reach_fold)
  with True show ?thesis by simp
next
  case False
  then show ?thesis by (simp add: heapSort_def siftDown.simps)
qed

lemma scan_up_le: "i \<le> b \<Longrightarrow> scan_up p b i \<le> b"
  by (induction p b i rule: scan_up.induct) (subst scan_up.simps, auto)

lemma scan_down_ge: "c < i \<Longrightarrow> c \<le> j \<Longrightarrow> c \<le> scan_down p i j"
  by (induction j) auto

lemma part_loop_bounds:
  "part_loop up down a i j xs = (i', j', ys) \<Longrightarrow> a < i \<Longrightarrow> a \<le> j \<Longrightarrow> j < b \<Longrightarrow>
     a < i' \<and> a \<le> j' \<and> j' < b \<and> j' < i' \<and> reach a b xs ys"
proof (induction up down a i j xs rule: part_loop.induct)
  case (1 up down a i j xs)
  let ?i = "scan_up (\<lambda>k. up (xs ! a) (xs ! k)) (Suc j) i"
  let ?j = "scan_down (\<lambda>k. down (xs ! a) (xs ! k)) ?i j"
  have i: "a < ?i" using scan_up_ge 1(3) by (rule less_le_trans [rotated])
  have j: "a \<le> ?j" "?j \<le> j" using scan_down_ge [OF i 1(4)] scan_down_le by auto
  show ?case
  proof (cases "?i > ?j")
    case True
    with 1(2) i j 1(5) show ?thesis by (subst (asm) part_loop.simps) (auto simp: Let_def)
  next
    case False
    with 1(2) have "part_loop up down a (Suc ?i) (?j - 1) (swap ?i ?j xs) = (i', j', ys)"
      by (subst (asm) part_loop.simps) (simp add: Let_def)
    from 1(1) [OF refl refl False this] i j 1(5) False
    have "a < i' \<and> a \<le> j' \<and> j' < b \<and> j' < i' \<and> reach a b (swap ?i ?j xs) ys" by linarith
    with i j False 1(5) show ?thesis by (auto intro: reach_first)
  qed
qed

lemma partition_range_bounds:
  assumes "partition_range lt a b pivot xs = (mid, already, ys)" and "a \<le> pivot" and "pivot < b"
  shows "a \<le> mid \<and> mid < b \<and> reach a b xs ys"
proof -
  obtain i j zs where loop: "part_loop (\<lambda>p x. lt x p) (\<lambda>p x. \<not> lt x p) a (Suc a) (b - Suc 0) (swap a pivot xs) = (i, j, zs)"
    by (metis prod_cases3)
  have "a < i \<and> a \<le> j \<and> j < b \<and> j < i \<and> reach a b (swap a pivot xs) zs"
    by (rule part_loop_bounds [OF loop]) (use assms(2,3) in auto)
  moreover have "mid = j" "ys = swap j a zs"
    using assms(1) by (auto simp: partition_range_def Let_def loop)
  ultimately show ?thesis
    using assms(2,3) reach_first [of a b a pivot xs zs] by (auto intro: reach_step)
qed

lemma partitionEqual_bounds:
  assumes "partitionEqual lt a b pivot xs = (mid, ys)" and "a \<le> pivot" and "pivot < b"
  shows "a < mid \<and> reach a b xs ys"
proof -
  obtain i j zs where loop: "part_loop (\<lambda>p x. \<not> lt p x) (\<lambda>p x. lt p x) a (Suc a) (b - Suc 0) (swap a pivot xs) = (i, j, zs)"
    by (metis prod_cases3)
  have "a < i \<and> a \<le> j \<and> j < b \<and> j < i \<and> reach a b (swap a pivot xs) zs"
    by (rule part_loop_bounds [OF loop]) (use assms(2,3) in auto)
  moreover have "mid = i" "ys = zs"
    using assms(1) by (simp_all add: partitionEqual_def Let_def loop)
  ultimately show ?thesis
    using assms(2,3) by (auto intro: reach_first)
qed

lemma shift_right_reach: "lo < j \<Longrightarrow> b \<le> hi \<Longrightarrow> reach lo hi xs (shift_right lt b j xs)"
proof (induction lt b j xs rule: shift_right.induct)
  case (1 lt b j xs)
  show ?case
  proof (cases "j < b \<and> lt (xs ! j) (xs ! (j - 1))")
    case True
    then have "reach lo hi (swap j (j - 1) xs) (shift_right lt b (Suc j) (swap j (j - 1) xs))"
      using 1 by simp
    with True 1(2,3) show ?thesis
      by (subst shift_right.simps) (auto intro: reach_first)
  qed (subst shift_right.simps, auto)
qed

lemma partialInsertionSort_reach:
  "a < i \<Longrightarrow> i \<le> b \<Longrightarrow> reach 0 b xs (snd (partialInsertionSort lt a b steps i xs))"
proof (induction lt a b steps i xs rule: partialInsertionSort.induct)
  case (2 lt a b steps i xs)
  let ?i = "scan_up (\<lambda>k. \<not> lt (xs ! k) (xs ! (k - 1))) b i"
  let ?x1 = "swap ?i (?i - 1) xs"
  let ?x2 = "if ?i - a \<ge> 2 then sink lt 0 (?i - 1) ?x1 else ?x1"
  let ?x3 = "if b - ?i \<ge> 2 then shift_right lt b (?i + 1) ?x2 else ?x2"
  have i: "a < ?i" "?i \<le> b"
    using scan_up_ge [of i] scan_up_le 2(2,3) by (auto intro: less_le_trans)
  show ?case
  proof (cases "?i = b \<or> b - a < 50")
    case False
    have "reach 0 b ?x1 ?x2" using i by (auto intro: sink_reach)
    moreover have "reach 0 b ?x2 ?x3" using i by (auto intro: shift_right_reach)
    moreover have "reach 0 b ?x3 (snd (partialInsertionSort lt a b steps ?i ?x3))"
      by (rule 2(1) [OF refl _ _ refl refl refl]) (use False i in auto)
    ultimately have "reach 0 b ?x1 (snd (partialInsertionSort lt a b steps ?i ?x3))"
      by (blast intro: reach_trans)
    then have "reach 0 b xs (snd (partialInsertionSort lt a b steps ?i ?x3))"
      by (rule reach_first) (use i False in auto)
    moreover have "partialInsertionSort lt a b (Suc steps) i xs = partialInsertionSort lt a b steps ?i ?x3"
      using False by (simp only: partialInsertionSort.simps Let_def de_Morgan_disj simp_thms if_False)
    ultimately show ?thesis by simp
  qed (auto simp: Let_def)
qed simp

lemma reverseRange_reach: "a \<le> i \<Longrightarrow> j < b \<Longrightarrow> reach a b xs (reverseRange i j xs)"
proof (induction i j xs rule: reverseRange.induct)
  case (1 i j xs)
  show ?case
  proof (cases "i < j")
    case True
    then have "reach a b (swap i j xs) (reverseRange (Suc i) (j - 1) (swap i j xs))"
      using 1 by simp
    with True 1(2,3) show ?thesis
      by (subst reverseRange.simps) (auto intro: reach_first)
  qed (subst reverseRange.simps, auto)
qed

lemma bit_len_bound: "n < 2 ^ bit_len n \<and> (0 < n \<longrightarrow> 2 ^ bit_len n \<le> 2 * n)"
proof (induction n rule: bit_len.induct)
  case (1 n)
  show ?case
  proof (cases "n = 0")
    case True
    then show ?thesis by (subst (1 2) bit_len.simps) simp
  next
    case False
    then have "n div 2 < 2 ^ bit_len (n div 2)" "0 < n div 2 \<longrightarrow> 2 ^ bit_len (n div 2) \<le> 2 * (n div 2)"
      using 1 by auto
    moreover have "bit_len n = Suc (bit_len (n div 2))" using False by (subst bit_len.simps) simp
    moreover have "bit_len (n div 2) = 0" if "n div 2 = 0" unfolding that by (subst bit_len.simps) simp
    ultimately show ?thesis by (cases "n div 2 = 0") auto
  qed
qed

lemma masked_bound: "unat ((r :: 64 word) AND mask k) < 2 ^ k"
  by (simp flip: take_bit_eq_mask add: unsigned_take_bit_eq take_bit_nat_less_exp)

lemma break_swap_reach:
  assumes "len = b - a" and "8 \<le> len" and "i < 3"
  shows "reach a b (snd s) (snd (break_swap a len i s))"
proof -
  let ?o = "unat (xorshift (fst s) AND mask (bit_len len))"
  have "2 ^ bit_len len \<le> 2 * len"
    using bit_len_bound [of len] assms(2) by simp
  with masked_bound have "?o < 2 * len" by (rule less_le_trans)
  then have "(if ?o \<ge> len then ?o - len else ?o) < len" by auto
  moreover have "a + len div 4 * 2 - 2 + i < b" "a \<le> a + len div 4 * 2 - 2 + i"
    using assms by linarith+
  ultimately show ?thesis
    unfolding break_swap_def Let_def case_prod_beta snd_conv by (intro reach_swap) (use assms(1,2) in linarith)+
qed

lemma reach_fold_state:
  assumes "\<And>i s. i \<in> set is \<Longrightarrow> reach a b (snd s) (snd (f i s))"
  shows "reach a b (snd s) (snd (fold f is s))"
  using assms
proof (induction "is" arbitrary: s)
  case (Cons i "is")
  have "reach a b (snd (f i s)) (snd (fold f is (f i s)))" by (rule Cons.IH) (simp add: Cons.prems)
  then have "reach a b (snd s) (snd (fold f is (f i s)))" by (rule reach_trans) (simp add: Cons.prems)
  then show ?case by simp
qed simp

lemma breakPatterns_reach: "reach a b xs (breakPatterns a b xs)"
proof (cases "b - a \<ge> 8")
  case True
  have "reach a b (snd (word_of_nat (b - a) :: 64 word, xs))
      (snd (fold (break_swap a (b - a)) [0, 1, 2] (word_of_nat (b - a), xs)))"
    by (rule reach_fold_state, rule break_swap_reach [OF refl True]) auto
  with True show ?thesis unfolding breakPatterns_def Let_def by (simp only: if_True snd_conv)
qed (simp add: breakPatterns_def)

lemma median_choice: "fst (median lt xs a b c n) \<in> {a, b, c}"
  by (auto simp: median_def order2_def)

lemma median_between:
  assumes "lo \<le> a" "a < hi" "lo \<le> b" "b < hi" "lo \<le> c" "c < (hi :: nat)"
  shows "lo \<le> fst (median lt xs a b c n) \<and> fst (median lt xs a b c n) < hi"
  using median_choice [of lt xs a b c n] assms by auto

lemma choosePivot_range:
  assumes "12 < b - a" and "choosePivot lt a b xs = (pivot, hint)"
  shows "a \<le> pivot \<and> pivot < b"
proof -
  define q where "q = (b - a) div 4"
  have q: "3 \<le> q" "a + q * 4 \<le> b" using assms(1) by (auto simp: q_def)
  let ?i = "a + q * 1" and ?j = "a + q * 2" and ?k = "a + q * 3"
  have near: "a \<le> fst (median lt xs (x - 1) x (x + 1) n) \<and> fst (median lt xs (x - 1) x (x + 1) n) < b"
    if "a + q \<le> x" "x \<le> a + q * 3" for x n
    by (rule median_between) (use that q in linarith)+
  obtain i si where i: "median lt xs (?i - 1) ?i (?i + 1) 0 = (i, si)" by (metis surj_pair)
  obtain j sj where j: "median lt xs (?j - 1) ?j (?j + 1) si = (j, sj)" by (metis surj_pair)
  obtain k sk where k: "median lt xs (?k - 1) ?k (?k + 1) sj = (k, sk)" by (metis surj_pair)
  have "a \<le> i \<and> i < b" using near [of ?i 0, unfolded i fst_conv] by simp
  moreover have "a \<le> j \<and> j < b" using near [of ?j si, unfolded j fst_conv] by simp
  moreover have "a \<le> k \<and> k < b" using near [of ?k sj, unfolded k fst_conv] by simp
  ultimately have far: "a \<le> fst (median lt xs i j k sk) \<and> fst (median lt xs i j k sk) < b"
    by (intro median_between) blast+
  have close: "a \<le> fst (median lt xs ?i ?j ?k 0) \<and> fst (median lt xs ?i ?j ?k 0) < b"
    by (rule median_between) (use q in linarith)+
  have "fst (choosePivot lt a b xs) = (if 50 \<le> b - a then fst (median lt xs i j k sk) else fst (median lt xs ?i ?j ?k 0))"
  proof -
    have "8 \<le> b - a" using assms(1) by linarith
    then show ?thesis
      unfolding choosePivot_def Let_def q_def [symmetric] i j k split_conv
      by (cases "50 \<le> b - a") (simp_all only: if_True if_False i j k split_conv fst_conv snd_conv case_prod_beta)
  qed
  with far close assms(2) show ?thesis by (simp split: if_splits)
qed

section \<open>The loop\<close>

text \<open>What one turn does before it splits the range: the remaining limit, the pivot, whether the range is
  sorted, and the list.\<close>

definition pdq_prepare ::
  "('a \<Rightarrow> 'a \<Rightarrow> bool) \<Rightarrow> nat \<Rightarrow> nat \<Rightarrow> nat \<Rightarrow> bool \<Rightarrow> bool \<Rightarrow> 'a list \<Rightarrow> nat \<times> nat \<times> bool \<times> 'a list" where
  "pdq_prepare lt a b limit wasBalanced wasPartitioned xs =
     (let (limit, xs) = (if \<not> wasBalanced then (limit - 1, breakPatterns a b xs) else (limit, xs));
          (pivot, hint) = choosePivot lt a b xs;
          (pivot, hint, xs) = (if hint = decreasingHint then ((b - 1) - (pivot - a), increasingHint, reverseRange a (b - 1) xs)
                               else (pivot, hint, xs));
          (finished, xs) = (if wasBalanced \<and> wasPartitioned \<and> hint = increasingHint
                          then partialInsertionSort lt a b 5 (a + 1) xs else (False, xs))
      in (limit, pivot, finished, xs))"

lemma pdq_prepare_pivot:
  assumes "12 < b - a" and "pdq_prepare lt a b limit bal part xs = (limit', pivot, finished, ys)"
  shows "a \<le> pivot \<and> pivot < b"
proof -
  let ?xs = "if \<not> bal then breakPatterns a b xs else xs"
  obtain p h where c: "choosePivot lt a b ?xs = (p, h)" by (metis surj_pair)
  have "pivot = (if h = decreasingHint then (b - 1) - (p - a) else p)"
    using assms(2) c by (auto simp: pdq_prepare_def Let_def split: if_splits prod.splits)
  moreover have "a \<le> p \<and> p < b" by (rule choosePivot_range [OF assms(1) c])
  ultimately show ?thesis by auto
qed

lemma turn_pivot:
  "\<not> b - a \<le> 12 \<Longrightarrow> (l, y) = pdq_prepare lt a b limit bal part xs \<Longrightarrow> (pivot, y') = y \<Longrightarrow> a \<le> pivot \<and> pivot < b"
  by (cases y') (metis pdq_prepare_pivot not_le)

lemma turn_mid:
  "(mid, zs) = partitionEqual lt a b pivot ys \<Longrightarrow> a \<le> pivot \<and> pivot < b \<Longrightarrow> a < mid"
  "(mid, y) = partition_range lt a b pivot ys \<Longrightarrow> a \<le> pivot \<and> pivot < b \<Longrightarrow> a \<le> mid \<and> mid < b"
  by (metis partitionEqual_bounds) (metis partition_range_bounds surj_pair)

function pdqsort :: "('a \<Rightarrow> 'a \<Rightarrow> bool) \<Rightarrow> nat \<Rightarrow> nat \<Rightarrow> nat \<Rightarrow> bool \<Rightarrow> bool \<Rightarrow> 'a list \<Rightarrow> 'a list" where
  "pdqsort lt a b limit wasBalanced wasPartitioned xs =
     (if b - a \<le> 12 then insertionSort lt a b xs
      else if limit = 0 then heapSort lt a b xs
      else case pdq_prepare lt a b limit wasBalanced wasPartitioned xs of (limit, pivot, finished, xs) \<Rightarrow>
        if finished then xs
        else if a > 0 \<and> \<not> lt (xs ! (a - 1)) (xs ! pivot)
        then case partitionEqual lt a b pivot xs of (mid, xs) \<Rightarrow> pdqsort lt mid b limit wasBalanced wasPartitioned xs
        else case partition_range lt a b pivot xs of (mid, already, xs) \<Rightarrow>
          if mid - a < b - mid
          then pdqsort lt (mid + 1) b limit (mid - a \<ge> (b - a) div 8) already (pdqsort lt a mid limit True True xs)
          else pdqsort lt a mid limit (b - mid \<ge> (b - a) div 8) already (pdqsort lt (mid + 1) b limit True True xs))"
  by pat_completeness auto
termination
  by (relation "measure (\<lambda>(lt, a, b, limit, bal, part, xs). b - a)", simp)
    (drule (2) turn_pivot, (drule (1) turn_mid(1) | drule (1) turn_mid(2)), simp, arith?)+

declare pdqsort.simps [simp del]

definition SortSlice :: "('a \<Rightarrow> 'a \<Rightarrow> bool) \<Rightarrow> 'a list \<Rightarrow> 'a list" where
  "SortSlice lt xs = pdqsort lt 0 (length xs) (bit_len (length xs)) True True xs"

section \<open>It permutes\<close>

lemma pdq_prepare_reach:
  assumes "12 < b - a" and "pdq_prepare lt a b limit bal part xs = (limit', pivot, f, ys)"
  shows "reach 0 b xs ys"
proof -
  let ?x1 = "if \<not> bal then breakPatterns a b xs else xs"
  obtain p h where c: "choosePivot lt a b ?x1 = (p, h)" by (metis surj_pair)
  let ?x2 = "if h = decreasingHint then reverseRange a (b - 1) ?x1 else ?x1"
  let ?x3 = "if bal \<and> part \<and> h \<noteq> unknownHint then snd (partialInsertionSort lt a b 5 (a + 1) ?x2) else ?x2"
  have "ys = ?x3"
    using assms(2) c by (cases h) (auto simp: pdq_prepare_def Let_def split: if_splits prod.splits)
  moreover have "reach 0 b xs ?x1" by (auto intro: reach_wider [OF breakPatterns_reach])
  moreover have "reach 0 b ?x1 ?x2" using assms(1) by (auto intro!: reverseRange_reach)
  moreover have "reach 0 b ?x2 ?x3" using assms(1) by (auto intro!: partialInsertionSort_reach)
  ultimately show ?thesis by (blast intro: reach_trans)
qed

lemma pdqsort_reach: "b \<le> hi \<Longrightarrow> reach 0 hi xs (pdqsort lt a b limit bal part xs)"
proof (induction "b - a" arbitrary: a b limit bal part xs rule: less_induct)
  case less
  note IH = less.hyps and b = less.prems
  show ?case
  proof (cases "b - a \<le> 12 \<or> limit = 0")
    case True
    then show ?thesis
      by (subst pdqsort.simps) (auto intro: reach_wider [OF insertionSort_reach] reach_wider [OF heapSort_reach] b)
  next
    case False
    obtain l p f ys where prep: "pdq_prepare lt a b limit bal part xs = (l, p, f, ys)" by (metis prod_cases4)
    have p: "a \<le> p" "p < b" and xs: "reach 0 hi xs ys"
      using pdq_prepare_pivot [OF _ prep] pdq_prepare_reach [OF _ prep] False b by (auto intro: reach_wider)
    obtain mid zs where eq: "partitionEqual lt a b p ys = (mid, zs)" by (metis surj_pair)
    obtain mid' al us where pr: "partition_range lt a b p ys = (mid', al, us)" by (metis prod_cases3)
    have zs: "a < mid" "reach 0 hi ys zs"
      using partitionEqual_bounds [OF eq p] b by (auto intro: reach_wider)
    have us: "a \<le> mid'" "mid' < b" "reach 0 hi ys us"
      using partition_range_bounds [OF pr p] b by (auto intro: reach_wider)
    have left: "reach 0 hi vs (pdqsort lt a mid' l' bal' part' vs)" for l' bal' part' vs
      by (rule IH) (use us b in auto)
    have right: "reach 0 hi vs (pdqsort lt (Suc mid') b l' bal' part' vs)" for l' bal' part' vs
      by (rule IH) (use us b in auto)
    have again: "reach 0 hi vs (pdqsort lt mid b l' bal' part' vs)" for l' bal' part' vs
      by (rule IH) (use zs p b in auto)
    have "reach 0 hi xs us" "reach 0 hi xs zs"
      using xs us(3) zs(2) by (blast intro: reach_trans)+
    then have "reach 0 hi xs (pdqsort lt mid b l' bal' part' zs)"
      "reach 0 hi xs (pdqsort lt (Suc mid') b l' bal' part' (pdqsort lt a mid' l2 bal2 part2 us))"
      "reach 0 hi xs (pdqsort lt a mid' l' bal' part' (pdqsort lt (Suc mid') b l2 bal2 part2 us))"
      for l' bal' part' l2 bal2 part2
      using left right again by (blast intro: reach_trans)+
    then show ?thesis
      using False prep eq pr xs by (subst pdqsort.simps) auto
  qed
qed

lemma SortSlice_mset [simp]: "mset (SortSlice lt xs) = mset xs"
  unfolding SortSlice_def by (rule reach_mset [OF pdqsort_reach [of _ "length xs"]]) simp_all

lemma SortSlice_set [simp]: "set (SortSlice lt xs) = set xs"
  by (metis SortSlice_mset set_mset_mset)

end
