(* ===== verification/Inflate.thy ===== *)
theory Inflate
  imports Component_Config Images Go_Sort "HOL-Library.List_Lexorder" "HOL-Library.Char_ord"
begin

text \<open>
  \<open>pkg/kustomize/kustomize.go\<close>: from a registry and its config bundle to the objects to create. Kustomize
  itself, the manifests on disk, JSON and the proxy settings are fields of an environment; what the
  operator feeds them is computed here. The order in which one run visits a map is \<open>ie_Visit\<close>.
\<close>

section \<open>What is handed to Kustomize\<close>

record SecretArgs =
  ga_Name :: string
  ga_Behavior :: string
  ga_DisableNameSuffixHash :: bool
  ga_LiteralSources :: "string list"
  ga_FileSources :: "string list"

record Var =
  var_Name :: string
  var_APIVersion :: string
  var_Kind :: string
  var_ObjName :: string

record Kustomization =
  kz_Namespace :: string
  kz_NamePrefix :: string
  kz_Resources :: "string list"
  kz_Images :: "Image list"
  kz_Components :: "string list"
  kz_SecretGenerator :: "SecretArgs list"
  kz_CommonLabels :: "string \<rightharpoonup> string"
  kz_CommonAnnotations :: "string \<rightharpoonup> string"
  kz_Vars :: "Var list"

type_synonym filesystem = "string \<rightharpoonup> string"

record 'w InflateEnv =
  ie_Config :: "'w KustomizeEnv"
  ie_Version :: string
  ie_Dir :: string
  ie_BaseFiles :: "(string \<times> string) list result"
  ie_WriteFile :: "filesystem \<Rightarrow> string \<Rightarrow> string \<Rightarrow> filesystem result"
  ie_MarshalKustomization :: "Kustomization \<Rightarrow> string result"
  ie_Run :: "filesystem \<Rightarrow> string \<Rightarrow> (GroupVersionKind \<times> string result) list result"
  ie_UnmarshalObject :: "string \<Rightarrow> KObject \<Rightarrow> KObject result"
  ie_Proxy :: "string \<times> string \<times> string"
  ie_Visit :: "(string \<rightharpoonup> string) \<Rightarrow> (string \<times> string) list"

text \<open>The keys of a map in one order of visiting it; a nil map has none.\<close>

definition visit_map :: "'w InflateEnv \<Rightarrow> strmap \<Rightarrow> (string \<times> string) list" where
  "visit_map env m = (case m of None \<Rightarrow> [] | Some f \<Rightarrow> ie_Visit env f)"

definition map_keys :: "'w InflateEnv \<Rightarrow> strmap \<Rightarrow> string list" where
  "map_keys env m = map fst (visit_map env m)"

section \<open>Paths\<close>

definition kustomizeDir :: "'w InflateEnv \<Rightarrow> string" where
  "kustomizeDir env = ie_Dir env @ ''/kustomize''"

definition appDir :: "'w InflateEnv \<Rightarrow> string" where
  "appDir env = kustomizeDir env @ ''/tmp''"

definition overlayDir :: "'w InflateEnv \<Rightarrow> string" where
  "overlayDir env = kustomizeDir env @ ''/overlays/current''"

definition upgradeOverlayDir :: "'w InflateEnv \<Rightarrow> string" where
  "upgradeOverlayDir env = kustomizeDir env @ ''/overlays/current/upgrade''"

definition unmanagedTLSOverlayDir :: "'w InflateEnv \<Rightarrow> string" where
  "unmanagedTLSOverlayDir env = kustomizeDir env @ ''/overlays/current/unmanaged-tls''"

section \<open>Group, version and kind\<close>

abbreviation gvk :: "string \<Rightarrow> string \<Rightarrow> string \<Rightarrow> GroupVersionKind" where
  "gvk g v k \<equiv> \<lparr>gvk_Group = g, gvk_Version = v, gvk_Kind = k\<rparr>"

definition gvk_string :: "GroupVersionKind \<Rightarrow> string" where
  "gvk_string g = gvk_Group g @ ''/'' @ gvk_Version g @ '', Kind='' @ gvk_Kind g"

text \<open>The type of an object: what its manifest says.\<close>

fun obj_gvk :: "KObject \<Rightarrow> GroupVersionKind" where
  "obj_gvk (OSecret _) = gvk '''' ''v1'' ''Secret''"
| "obj_gvk (OConfigMap _) = gvk '''' ''v1'' ''ConfigMap''"
| "obj_gvk (ODeployment _) = gvk ''apps'' ''v1'' ''Deployment''"
| "obj_gvk (OJob _) = gvk ''batch'' ''v1'' ''Job''"
| "obj_gvk (OPVC _) = gvk '''' ''v1'' ''PersistentVolumeClaim''"
| "obj_gvk (OHPA _) = gvk ''autoscaling'' ''v2'' ''HorizontalPodAutoscaler''"
| "obj_gvk (ORoute _) = gvk ''route.openshift.io'' ''v1'' ''Route''"
| "obj_gvk (OOther g _) = g"

abbreviation obj_kind :: "KObject \<Rightarrow> string" where
  "obj_kind obj \<equiv> gvk_Kind (obj_gvk obj)"

abbreviation obj_name :: "KObject \<Rightarrow> string" where
  "obj_name obj \<equiv> om_Name (obj_meta obj)"

text \<open>The zero values of the typed models.\<close>

definition zero_meta :: ObjectMeta where
  "zero_meta = meta_named '''' ''''"

definition zero_template :: PodTemplate where
  "zero_template = \<lparr>pt_Labels = None, pt_Annotations = None, pt_Containers = [], pt_Volumes = [],
     pt_Affinity = None, pt_TerminationGracePeriodSeconds = None\<rparr>"

definition zero_deployment :: Deployment where
  "zero_deployment = \<lparr>dep_Meta = zero_meta, dep_Replicas = None, dep_Selector = '''',
     dep_Template = zero_template, dep_AvailableReplicas = 0, dep_UpdatedReplicas = 0,
     dep_ObservedGeneration = 0, dep_Conditions = []\<rparr>"

definition zero_job :: Job where
  "zero_job = \<lparr>job_Meta = zero_meta, job_Template = zero_template, job_Active = 0, job_Succeeded = 0,
     job_Conditions = []\<rparr>"

definition typed_models :: "KObject list" where
  "typed_models = [OOther (gvk '''' ''v1'' ''Namespace'') zero_meta,
     OSecret \<lparr>sec_Meta = zero_meta, sec_Type = '''', sec_Data = None\<rparr>,
     OOther (gvk '''' ''v1'' ''Service'') zero_meta,
     OConfigMap \<lparr>cm_Meta = zero_meta, cm_Data = None\<rparr>,
     OOther (gvk '''' ''v1'' ''ServiceAccount'') zero_meta,
     OPVC \<lparr>pvc_Meta = zero_meta, pvc_Spec = \<lparr>ps_Requests = None, ps_StorageClassName = None\<rparr>, pvc_Phase = ''''\<rparr>,
     ODeployment zero_deployment,
     OOther (gvk ''rbac.authorization.k8s.io'' ''v1'' ''Role'') zero_meta,
     OOther (gvk ''rbac.authorization.k8s.io'' ''v1'' ''RoleBinding'') zero_meta,
     ORoute \<lparr>rt_Meta = zero_meta, rt_Host = '''', rt_TLS = None, rt_PortTarget = None, rt_Ingress = []\<rparr>,
     OOther (gvk ''objectbucket.io'' ''v1alpha1'' ''ObjectBucketClaim'') zero_meta,
     OHPA zero_meta,
     OJob zero_job,
     OOther (gvk ''monitoring.coreos.com'' ''v1'' ''ServiceMonitor'') zero_meta,
     OOther (gvk ''monitoring.coreos.com'' ''v1'' ''PrometheusRule'') zero_meta]"

definition ModelFor :: "GroupVersionKind \<Rightarrow> KObject result" where
  "ModelFor g = (case find (\<lambda>obj. gvk_string (obj_gvk obj) = gvk_string g) typed_models of
     Some obj \<Rightarrow> Inr obj
   | None \<Rightarrow> Inl (GoPanic (''Missing model for GVK '' @ gvk_string g)))"

section \<open>EnsureCreationOrder\<close>

text \<open>The comparison given to \<open>sort.Slice\<close> ignores the second element.\<close>

definition is_workload :: "KObject \<Rightarrow> bool" where
  "is_workload obj = (obj_kind obj = ''Deployment'' \<or> obj_kind obj = ''Job'')"

definition creation_less :: "KObject \<Rightarrow> KObject \<Rightarrow> bool" where
  "creation_less a b = (obj_kind a \<noteq> ''Deployment'' \<and> obj_kind a \<noteq> ''Job'')"

definition EnsureCreationOrder :: "KObject list \<Rightarrow> KObject list" where
  "EnsureCreationOrder objects = SortSlice creation_less objects"

section \<open>generate\<close>

definition put_file :: "'w InflateEnv \<Rightarrow> filesystem \<Rightarrow> string \<times> string \<Rightarrow> filesystem result" where
  "put_file env fs pf = ie_WriteFile env fs (fst pf) (snd pf)"

definition build_object :: "'w InflateEnv \<Rightarrow> KObject list \<Rightarrow> GroupVersionKind \<times> string result \<Rightarrow> KObject list result" where
  "build_object env built r =
     and_then (snd r) (\<lambda>json.
     and_then (ModelFor (fst r)) (\<lambda>model.
     and_then (ie_UnmarshalObject env json model) (\<lambda>obj. Inr (built @ [obj]))))"

definition generate ::
  "'w InflateEnv \<Rightarrow> Kustomization \<Rightarrow> string \<Rightarrow> strmap \<Rightarrow> KObject list result" where
  "generate env kustomization overlay quayConfigFiles =
     and_then (ie_BaseFiles env) (\<lambda>base.
     and_then (fold_result (put_file env) Map.empty base) (\<lambda>fs.
     and_then (ie_MarshalKustomization env kustomization) (\<lambda>kustomizationFile.
     and_then (put_file env fs (appDir env @ ''/kustomization.yaml'', kustomizationFile)) (\<lambda>fs.
     and_then (fold_result (put_file env) fs
                 (map (\<lambda>(k, v). (appDir env @ ''/bundle/'' @ k, v)) (visit_map env quayConfigFiles))) (\<lambda>fs.
     and_then (ie_Run env fs overlay) (\<lambda>resources.
       fold_result (build_object env) [] resources))))))"

section \<open>KustomizationFor\<close>

definition QuayRegistryNameLabel :: string where
  "QuayRegistryNameLabel = ''quay-operator/quayregistry''"

definition operatorServiceEndpoint :: "'w KustomizeEnv \<Rightarrow> string" where
  "operatorServiceEndpoint env =
     (let devEndpoint = ke_Getenv env ''DEV_OPERATOR_ENDPOINT''; ns = ke_Getenv env ''MY_POD_NAMESPACE'' in
      if devEndpoint \<noteq> '''' then devEndpoint
      else Join [if ns \<noteq> '''' then ''http://quay-operator.'' @ ns @ ''.svc.cluster.local''
                 else ''http://quay-operator'', ''7071''] '':'')"

text \<open>Credentials of the managed Clair database: generated for a new deployment, the legacy ones where the
  managed keys of an older version exist already.\<close>

definition ensure_clair_credentials ::
  "'w KustomizeEnv \<Rightarrow> QuayRegistryContext \<Rightarrow> QuayRegistry \<Rightarrow> 'w \<Rightarrow> QuayRegistryContext result \<times> 'w" where
  "ensure_clair_credentials env ctx quay w =
     (if ComponentIsManaged (qr_Components quay) ComponentClairPostgres \<and> ClairDbPassword ctx = ''''
      then (case (if DbRootPw ctx = '''' then generateRandomString env 32 w else (Inr ''postgres'', w)) of
              (Inl err, w') \<Rightarrow> (Inl err, w')
            | (Inr pw, w') \<Rightarrow> (Inr (ctx\<lparr>ClairDbPassword := pw, ClairDbRootPw := pw,
                ClairDbUser := ''postgres'', ClairDbName := ''postgres''\<rparr>), w'))
      else (Inr ctx, w))"

definition ensure_root_password ::
  "'w KustomizeEnv \<Rightarrow> QuayRegistryContext \<Rightarrow> 'w \<Rightarrow> QuayRegistryContext result \<times> 'w" where
  "ensure_root_password env ctx w =
     (if DbRootPw ctx = ''''
      then (case generateRandomString env 32 w of
              (Inl err, w') \<Rightarrow> (Inl err, w')
            | (Inr rootpw, w') \<Rightarrow> (Inr (ctx\<lparr>DbRootPw := rootpw\<rparr>), w'))
      else (Inr ctx, w))"

definition config_file_sources :: "'w InflateEnv \<Rightarrow> strmap \<Rightarrow> string list" where
  "config_file_sources env files = map (\<lambda>key. ''bundle/'' @ key) (sort (map_keys env files))"

definition ca_cert_sources :: "'w InflateEnv \<Rightarrow> strmap \<Rightarrow> string list" where
  "ca_cert_sources env files =
     map (\<lambda>key. TrimPrefix key ''extra_ca_cert_'' @ ''='' @ gstr files key)
       (sort (filter (\<lambda>key. HasPrefix key ''extra_ca_cert_'') (map_keys env files)))"

definition tls_sources :: "QuayRegistryContext \<Rightarrow> string list" where
  "tls_sources ctx =
     (case ClusterWildcardCert ctx of None \<Rightarrow> [] | Some c \<Rightarrow> [''ocp-cluster-wildcard.cert='' @ c]) @
     (case TLSCert ctx of None \<Rightarrow> [] | Some c \<Rightarrow> [''ssl.cert='' @ c]) @
     (case TLSKey ctx of None \<Rightarrow> [] | Some k \<Rightarrow> [''ssl.key='' @ k])"

definition proxy_sources :: "'w InflateEnv \<Rightarrow> QuayRegistryContext \<Rightarrow> string list" where
  "proxy_sources env ctx =
     (case ie_Proxy env of (http, https, noProxy) \<Rightarrow>
        [''HTTP_PROXY='' @ http, ''HTTPS_PROXY='' @ https,
         ''NO_PROXY='' @ Join (ServerHostname ctx # (if length noProxy > 0 then Split noProxy CHR '','' else [])) '',''])"

definition managed_keys_sources :: "QuayRegistryContext \<Rightarrow> string list" where
  "managed_keys_sources ctx =
     [''DATABASE_SECRET_KEY='' @ DatabaseSecretKey ctx, ''SECRET_KEY='' @ SecretKey ctx,
      ''DB_URI='' @ DbUri ctx, ''DB_ROOT_PW='' @ DbRootPw ctx,
      ''SECURITY_SCANNER_V4_PSK='' @ SecurityScannerV4PSK ctx, ''CLAIR_DB_USER='' @ ClairDbUser ctx,
      ''CLAIR_DB_PASSWORD='' @ ClairDbPassword ctx, ''CLAIR_DB_ROOT_PW='' @ ClairDbRootPw ctx,
      ''CLAIR_DB_NAME='' @ ClairDbName ctx]"

definition literal_secret :: "string \<Rightarrow> bool \<Rightarrow> string list \<Rightarrow> SecretArgs" where
  "literal_secret n nohash sources = \<lparr>ga_Name = n, ga_Behavior = '''', ga_DisableNameSuffixHash = nohash,
     ga_LiteralSources = sources, ga_FileSources = []\<rparr>"

definition base_secrets :: "'w InflateEnv \<Rightarrow> QuayRegistryContext \<Rightarrow> strmap \<Rightarrow> SecretArgs list" where
  "base_secrets env ctx files =
     [literal_secret ''quay-proxy-config'' False (proxy_sources env ctx),
      \<lparr>ga_Name = configSecretPrefix, ga_Behavior = '''', ga_DisableNameSuffixHash = False,
        ga_LiteralSources = [], ga_FileSources = config_file_sources env files\<rparr>,
      literal_secret ''extra-ca-certs'' False (ca_cert_sources env files),
      literal_secret ManagedKeysName True (managed_keys_sources ctx),
      literal_secret QuayConfigTLSSecretName False (tls_sources ctx)]"

definition job_paths :: "'w InflateEnv \<Rightarrow> QuayRegistryContext \<Rightarrow> QuayRegistry \<Rightarrow> string \<Rightarrow> string list" where
  "job_paths env ctx quay overlay =
     (if overlay = upgradeOverlayDir env
      then let osmanaged = ComponentIsManaged (qr_Components quay) ComponentObjectStorage in
           if \<not> osmanaged \<or> ObjectStorageInitialized ctx then [''../components/job''] else []
      else [])"

text \<open>One iteration over the components: an error of the config files is dropped, a panic is not.\<close>

definition add_component ::
  "'w InflateEnv \<Rightarrow> QuayRegistryContext \<Rightarrow> QuayRegistry \<Rightarrow> strmap \<Rightarrow> string list \<times> SecretArgs list
     \<Rightarrow> Component \<Rightarrow> (string list \<times> SecretArgs list) result" where
  "add_component env ctx quay files acc component =
     (if \<not> cmp_Managed component \<or> cmp_Kind component = ComponentQuay then Inr acc
      else let paths = fst acc @ [''../components/'' @ kind_name (cmp_Kind component)] in
        case componentConfigFilesFor (ie_Config env) ctx (cmp_Kind component) quay files of
          Inl err \<Rightarrow> if is_panic err then Inl err else Inr (paths, snd acc)
        | Inr None \<Rightarrow> Inr (paths, snd acc)
        | Inr (Some configs) \<Rightarrow> Inr (paths, snd acc @ [\<lparr>
            ga_Name = kind_name (cmp_Kind component) @ ''-config-secret'', ga_Behavior = ''merge'',
            ga_DisableNameSuffixHash = True,
            ga_LiteralSources = map (\<lambda>(fileName, fileValue). fileName @ ''='' @ fileValue) (ie_Visit env configs),
            ga_FileSources = []\<rparr>]))"

definition upgrade_paths :: "QuayRegistryContext \<Rightarrow> QuayRegistry \<Rightarrow> string list" where
  "upgrade_paths ctx quay =
     (if NeedsPgUpgrade ctx then [''../components/pgupgrade''] else []) @
     (if NeedsClairPgUpgrade ctx
      then (if ComponentIsManaged (qr_Components quay) ComponentClair
            then [''../components/clairpgupgrade/scale-down-clair''] else [''../components/clairpgupgrade/base''])
      else [])"

definition add_image :: "(string \<Rightarrow> string) \<Rightarrow> Image list \<Rightarrow> Component \<Rightarrow> Image list result" where
  "add_image getenv images component =
     and_then (ComponentImageFor getenv (cmp_Kind component)) (\<lambda>img.
       Inr (if im_NewName img \<noteq> '''' \<or> im_Digest img \<noteq> '''' then images @ [img] else images))"

definition quay_component :: Component where
  "quay_component = \<lparr>cmp_Kind = ComponentQuay, cmp_Managed = True, cmp_Overrides = None, cmp_SecretRef = None\<rparr>"

definition kustomization_images ::
  "(string \<Rightarrow> string) \<Rightarrow> QuayRegistryContext \<Rightarrow> QuayRegistry \<Rightarrow> Image list result" where
  "kustomization_images getenv ctx quay =
     and_then (fold_result (add_image getenv) [] (qr_Components quay @ [quay_component])) (\<lambda>images.
     and_then (if NeedsPgUpgrade ctx then and_then (postgresUpgradeImage getenv) (\<lambda>img. Inr (images @ [img]))
               else Inr images) (\<lambda>images.
       if NeedsClairPgUpgrade ctx then and_then (clairpostgresUpgradeImage getenv) (\<lambda>img. Inr (images @ [img]))
       else Inr images))"

definition KustomizationFor ::
  "'w InflateEnv \<Rightarrow> QuayRegistryContext \<Rightarrow> QuayRegistry \<Rightarrow> strmap \<Rightarrow> string \<Rightarrow> 'w
     \<Rightarrow> (Kustomization \<times> QuayRegistryContext) result \<times> 'w" where
  "KustomizationFor env ctx quay quayConfigFiles overlay w =
     (case ensure_clair_credentials (ie_Config env) ctx quay w of
        (Inl err, w) \<Rightarrow> (Inl err, w)
      | (Inr ctx, w) \<Rightarrow>
          (case ensure_root_password (ie_Config env) ctx w of
             (Inl err, w) \<Rightarrow> (Inl err, w)
           | (Inr ctx, w) \<Rightarrow>
               (and_then (fold_result (add_component env ctx quay quayConfigFiles)
                   (job_paths env ctx quay overlay, base_secrets env ctx quayConfigFiles)
                   (qr_Components quay)) (\<lambda>(componentPaths, generatedSecrets).
                and_then (kustomization_images (ke_Getenv (ie_Config env)) ctx quay) (\<lambda>images.
                  Inr (\<lparr>kz_Namespace = qr_Namespace quay, kz_NamePrefix = qr_Name quay @ ''-'',
                    kz_Resources = [''../base''], kz_Images = images,
                    kz_Components = componentPaths @ upgrade_paths ctx quay,
                    kz_SecretGenerator = generatedSecrets,
                    kz_CommonLabels = [QuayRegistryNameLabel \<mapsto> qr_Name quay],
                    kz_CommonAnnotations = [''quay-registry-hostname'' \<mapsto> ServerHostname ctx,
                      ''quay-buildmanager-hostname'' \<mapsto> hd (Split (BuildManagerHostname ctx) CHR '':''),
                      ''quay-operator-service-endpoint'' \<mapsto> operatorServiceEndpoint (ie_Config env)],
                    kz_Vars = [\<lparr>var_Name = ''QE_K8S_CONFIG_SECRET'', var_APIVersion = ''v1'',
                      var_Kind = ''Secret'', var_ObjName = ''quay-config-secret''\<rparr>]\<rparr>, ctx))), w)))"

section \<open>Inflate\<close>

text \<open>The block made for both secret keys: the user's value, else the one the context holds, else a new
  random one.\<close>

definition settle_key :: "'w KustomizeEnv \<Rightarrow> Config \<Rightarrow> string \<Rightarrow> string \<Rightarrow> 'w \<Rightarrow> string result \<times> 'w" where
  "settle_key env cfg name current w =
     (case maybe_string (gget cfg name) of
        Some key \<Rightarrow>
          if length key > 0 then (Inr key, w)
          else if current = '''' then generateRandomString env secretKeyLength w else (Inr current, w)
      | None \<Rightarrow> if current = '''' then generateRandomString env secretKeyLength w else (Inr current, w))"

definition generated_db_uri :: "QuayRegistry \<Rightarrow> string \<Rightarrow> string" where
  "generated_db_uri quay password =
     (let n = qr_Name quay @ ''-quay-database'' in
      ''postgresql://'' @ n @ '':'' @ password @ ''@'' @ n @ '':'' @ ''5432'' @ ''/'' @ n)"

text \<open>The result is the URI and whether the database configuration has changed.\<close>

definition settle_db_uri ::
  "'w KustomizeEnv \<Rightarrow> Config \<Rightarrow> QuayRegistryContext \<Rightarrow> QuayRegistry \<Rightarrow> 'w \<Rightarrow> (string \<times> bool) result \<times> 'w" where
  "settle_db_uri env cfg ctx quay w =
     (let otherwise =
        (if ComponentIsManaged (qr_Components quay) ComponentPostgres \<and> length (DbUri ctx) = 0
         then (case generateRandomString env secretKeyLength w of
                 (Inl err, w') \<Rightarrow> (Inl err, w')
               | (Inr password, w') \<Rightarrow> (Inr (generated_db_uri quay password, True), w'))
         else (Inr (DbUri ctx, False), w))
      in case maybe_string (gget cfg ''DB_URI'') of
           Some dbURI \<Rightarrow> if length dbURI > 0 then (Inr (dbURI, dbURI \<noteq> DbUri ctx), w) else otherwise
         | None \<Rightarrow> otherwise)"

text \<open>\<open>if _, ok := m[k]; !ok { m[k] = v }\<close>.\<close>

definition put_missing :: "string \<Rightarrow> yaml \<Rightarrow> (string \<rightharpoonup> yaml) \<Rightarrow> (string \<rightharpoonup> yaml)" where
  "put_missing k v m = (if m k = None then m(k \<mapsto> v) else m)"

definition complete_config ::
  "'w KustomizeEnv \<Rightarrow> QuayRegistryContext \<Rightarrow> (string \<rightharpoonup> yaml) \<Rightarrow> (string \<rightharpoonup> yaml)" where
  "complete_config env ctx m =
     (let m = fold (\<lambda>(k, v). put_missing k v) (BaseQuayConfig env) m;
          m = (if SSLProtocols ctx \<noteq> ''''
               then put_missing ''SSL_PROTOCOLS'' (YList (map YStr (Split (SSLProtocols ctx) CHR '' ''))) m else m)
      in if SSLCiphers ctx \<noteq> ''''
         then put_missing ''SSL_CIPHERS'' (YList (map YStr (Split (SSLCiphers ctx) CHR '':''))) m else m)"

text \<open>The keys of the config: the user's file with the settled keys, written into the context as well.
  Writing to the map of an empty document panics.\<close>

definition settle_config ::
  "'w KustomizeEnv \<Rightarrow> Config \<Rightarrow> QuayRegistryContext \<Rightarrow> QuayRegistry \<Rightarrow> 'w
     \<Rightarrow> ((string \<rightharpoonup> yaml) \<times> QuayRegistryContext \<times> bool) result \<times> 'w" where
  "settle_config env cfg ctx quay w =
     (case settle_key env cfg ''DATABASE_SECRET_KEY'' (DatabaseSecretKey ctx) w of
        (Inl err, w) \<Rightarrow> (Inl err, w)
      | (Inr k1, w) \<Rightarrow>
          (case gput cfg ''DATABASE_SECRET_KEY'' (YStr k1) of
             Inl panic \<Rightarrow> (Inl panic, w)
           | Inr cfg \<Rightarrow>
               (case settle_key env cfg ''SECRET_KEY'' (SecretKey ctx) w of
                  (Inl err, w) \<Rightarrow> (Inl err, w)
                | (Inr k2, w) \<Rightarrow>
                    (case settle_db_uri env cfg ctx quay w of
                       (Inl err, w) \<Rightarrow> (Inl err, w)
                     | (Inr (uri, changed), w) \<Rightarrow>
                         let ctx = ctx\<lparr>DatabaseSecretKey := k1, SecretKey := k2, DbUri := uri\<rparr>;
                             m = (case cfg of None \<Rightarrow> Map.empty | Some m \<Rightarrow> m)
                         in (Inr (complete_config env ctx (m(''SECRET_KEY'' \<mapsto> YStr k2, ''DB_URI'' \<mapsto> YStr uri)),
                                  ctx, changed), w)))))"

text \<open>One iteration over the components: the field group of a managed component.\<close>

fun add_field_groups ::
  "'w KustomizeEnv \<Rightarrow> QuayRegistry \<Rightarrow> Component list \<Rightarrow> strmap \<Rightarrow> QuayRegistryContext \<Rightarrow> 'w
     \<Rightarrow> (strmap \<times> QuayRegistryContext) result \<times> 'w" where
  "add_field_groups env quay [] files ctx w = (Inr (files, ctx), w)"
| "add_field_groups env quay (c # cs) files ctx w =
     (if \<not> cmp_Managed c then add_field_groups env quay cs files ctx w
      else case FieldGroupFor env ctx (cmp_Kind c) quay w of
        (Inl err, ctx, w) \<Rightarrow> (Inl err, w)
      | (Inr fieldGroup, ctx, w) \<Rightarrow>
          (case gput files (kind_name (cmp_Kind c) @ ''.config.yaml'') (ke_EncodeGroup env fieldGroup) of
             Inl panic \<Rightarrow> (Inl panic, w)
           | Inr files \<Rightarrow> add_field_groups env quay cs files ctx w))"

definition choose_overlay :: "'w InflateEnv \<Rightarrow> QuayRegistry \<Rightarrow> bool \<Rightarrow> string" where
  "choose_overlay env quay dbCfgHasChanged =
     (if st_CurrentVersion (qr_Status quay) \<noteq> ie_Version env \<or> dbCfgHasChanged then upgradeOverlayDir env
      else if \<not> ComponentIsManaged (qr_Components quay) ComponentTLS then unmanagedTLSOverlayDir env
      else overlayDir env)"

definition process_all ::
  "'w InflateEnv \<Rightarrow> QuayRegistry \<Rightarrow> QuayRegistryContext \<Rightarrow> bool \<Rightarrow> KObject list \<Rightarrow> KObject list result" where
  "process_all env quay ctx skipres resources =
     and_then (fold_result (\<lambda>done obj.
         and_then (Process (ke_Middleware (ie_Config env)) quay ctx obj skipres) (\<lambda>r. Inr (done @ [r])))
       [] resources) (\<lambda>processed.
     Inr (map (map_obj_meta (EnsureOwnerReference quay)) (List.map_filter id processed)))"

text \<open>The context is the caller's: what is left in it is part of the result.\<close>

definition Inflate ::
  "'w InflateEnv \<Rightarrow> QuayRegistryContext \<Rightarrow> QuayRegistry \<Rightarrow> Secret \<Rightarrow> bool \<Rightarrow> 'w
     \<Rightarrow> (KObject list \<times> QuayRegistryContext) result \<times> 'w" where
  "Inflate env ctx quay bundle skipres w =
     (case me_Unmarshal (ke_Middleware (ie_Config env)) (gstr (sec_Data bundle) ''config.yaml'') of
        Inl err \<Rightarrow> (Inl err, w)
      | Inr parsed \<Rightarrow>
          (case settle_config (ie_Config env) (config_of parsed) ctx quay w of
             (Inl err, w) \<Rightarrow> (Inl err, w)
           | (Inr (cfg, ctx, dbCfgHasChanged), w) \<Rightarrow>
               (case gput (sec_Data bundle) ''config.yaml'' (encode_config (ie_Config env) (Some cfg)) of
                  Inl panic \<Rightarrow> (Inl panic, w)
                | Inr files \<Rightarrow>
                    (case add_field_groups (ie_Config env) quay (qr_Components quay) files ctx w of
                       (Inl err, w) \<Rightarrow> (Inl err, w)
                     | (Inr (files, ctx), w) \<Rightarrow>
                         (case EnsureTLSFor (ie_Config env) ctx of
                            Inl err \<Rightarrow> (Inl err, w)
                          | Inr (cert, key) \<Rightarrow>
                              let ctx = ctx\<lparr>TLSCert := cert, TLSKey := key\<rparr>;
                                  overlay = choose_overlay env quay dbCfgHasChanged
                              in (case KustomizationFor env ctx quay files overlay w of
                                    (Inl err, w) \<Rightarrow> (Inl err, w)
                                  | (Inr (kustomization, ctx), w) \<Rightarrow>
                                      (and_then (generate env kustomization overlay files) (\<lambda>resources.
                                       and_then (process_all env quay ctx skipres resources) (\<lambda>objs.
                                         Inr (objs, ctx))), w)))))))"

end
