(* ===== verification/Controller_Status.thy ===== *)
theory Controller_Status
  imports Inflate Features
begin

text \<open>
  \<open>controllers/quay/quayregistry_controller.go\<close>, first part: how a reconcile ends, the conditions it
  writes, the handler of a deleted registry, the two handlers that wait for a job, and the creation of
  the first config bundle.
\<close>

section \<open>Settings and outcomes\<close>

text \<open>The reconciler: its fields and the variables it reads, with the libraries it calls (\<open>sjson.Set\<close> and the
  conversion of an autoscaler).\<close>

record 'w Reconciler =
  rr_Version :: string
  rr_WatchNamespace :: string
  rr_SkipResourceRequests :: bool
  rr_SupportsRoutes :: bool
  rr_LookupEnv :: "string \<Rightarrow> string option"
  rr_Features :: FeatureEnv
  rr_Inflate :: "'w InflateEnv"
  rr_SetJSON :: "string \<Rightarrow> string \<Rightarrow> string \<Rightarrow> string result"
  rr_ConvertHpa :: "ObjectMeta \<Rightarrow> go_error option"

text \<open>What \<open>Reconcile\<close> returns: \<open>ctrl.Result{}\<close>, the configured \<open>r.Requeue\<close> or a delay in seconds, with an
  error or nil; or the panic that ends it.\<close>

datatype Requeue = NoRequeue | DefaultRequeue | RequeueAfter int

text \<open>The delay in seconds that is asked for; \<open>main.go\<close> sets \<open>r.Requeue\<close> to ten.\<close>

fun delay_of :: "Requeue \<Rightarrow> int option" where
  "delay_of NoRequeue = None"
| "delay_of DefaultRequeue = Some 10"
| "delay_of (RequeueAfter n) = Some n"

datatype outcome = Returned Requeue "go_error option" | Panicked string

text \<open>The branch on an error: a panic ends the handler, an error value goes to \<open>h\<close>.\<close>

definition on_error :: "(go_error \<Rightarrow> ('w, outcome, 'a) step) \<Rightarrow> 'a result \<Rightarrow> ('w, outcome, 'a) step" where
  "on_error h r = (case r of
     Inr a \<Rightarrow> pass a
   | Inl e \<Rightarrow> (case e of GoPanic m \<Rightarrow> leave (Panicked m) | GoError _ _ \<Rightarrow> h e))"

lemma emits_on_error [emits_intros]: "(\<And>e. emits P (h e)) \<Longrightarrow> emits P (on_error h r)"
  by (auto simp: on_error_def intro: emits_intros split: sum.split go_error.split)

section \<open>Conditions\<close>

definition touch_status :: "Condition \<Rightarrow> Time \<Rightarrow> QuayRegistry \<Rightarrow> QuayRegistry" where
  "touch_status condition now quay = quay\<lparr>qr_Status := (qr_Status quay)\<lparr>
     st_Conditions := SetCondition (qr_Conditions quay) condition, st_LastUpdate := now\<rparr>\<rparr>"

text \<open>The clock is read three times, in the order of the source; the result is the error of the status
  update.\<close>

definition updateWithCondition ::
  "'w Client \<Rightarrow> QuayRegistry \<Rightarrow> ConditionType \<Rightarrow> ConditionStatus \<Rightarrow> ConditionReason \<Rightarrow> string
     \<Rightarrow> ('w, 'x, go_error option \<times> QuayRegistry) step" where
  "updateWithCondition cl quay ctype cstatus reason msg =
     go_on (call (cl_Now cl)) (\<lambda>updated.
     go_on (call (cl_Now cl)) (\<lambda>transition.
     go_on (call (cl_Now cl)) (\<lambda>now.
       let quay = touch_status \<lparr>c_Type = ctype, c_Status = cstatus, c_Reason = reason, c_Message = msg,
                    c_LastUpdateTime = updated, c_LastTransitionTime = transition\<rparr> now quay;
           eventType = (if cstatus = ConditionTrue then ''Warning'' else ''Normal'')
       in go_on (call (\<lambda>w. ((), cl_Event cl quay eventType reason msg w))) (\<lambda>_.
          go_on (call (cl_UpdateQuayStatus cl quay)) (\<lambda>err. pass (err, quay))))))"

definition reconcileWithCondition ::
  "'w Client \<Rightarrow> QuayRegistry \<Rightarrow> ConditionType \<Rightarrow> ConditionStatus \<Rightarrow> ConditionReason \<Rightarrow> string
     \<Rightarrow> ('w, outcome, 'a) step" where
  "reconcileWithCondition cl quay ctype cstatus reason msg =
     go_on (updateWithCondition cl quay ctype cstatus reason msg) (\<lambda>(err, _).
       leave (Returned DefaultRequeue err))"

text \<open>The call the loop makes on almost every error.\<close>

definition block_rollout :: "'w Client \<Rightarrow> QuayRegistry \<Rightarrow> ConditionReason \<Rightarrow> string \<Rightarrow> ('w, outcome, 'a) step" where
  "block_rollout cl quay reason msg =
     reconcileWithCondition cl quay ConditionTypeRolloutBlocked ConditionTrue reason msg"

text \<open>A failed status update is only logged.\<close>

definition set_condition_and_requeue ::
  "'w Client \<Rightarrow> QuayRegistry \<Rightarrow> ConditionType \<Rightarrow> ConditionStatus \<Rightarrow> ConditionReason \<Rightarrow> string
     \<Rightarrow> ('w, outcome, 'a) step" where
  "set_condition_and_requeue cl quay ctype cstatus reason msg =
     go_on (updateWithCondition cl quay ctype cstatus reason msg) (\<lambda>_.
       leave (Returned DefaultRequeue None))"

section \<open>Deletion\<close>

definition clusterMonitoringLabelKey :: string where
  "clusterMonitoringLabelKey = ''openshift.io/cluster-monitoring''"

definition quayOperatorManagedLabelKey :: string where
  "quayOperatorManagedLabelKey = ''quay-operator/managed-label''"

definition quayOperatorFinalizer :: string where
  "quayOperatorFinalizer = ''quay-operator/finalizer''"

definition grafanaDashboardConfigMapNameSuffix :: string where
  "grafanaDashboardConfigMapNameSuffix = ''grafana-dashboard-quay''"

text \<open>The \<open>controllerutil\<close> functions on the metadata.\<close>

definition ContainsFinalizer :: "QuayRegistry \<Rightarrow> string \<Rightarrow> bool" where
  "ContainsFinalizer quay f = List.member (om_Finalizers (qr_Meta quay)) f"

definition set_finalizers :: "string list \<Rightarrow> QuayRegistry \<Rightarrow> QuayRegistry" where
  "set_finalizers fs quay = quay\<lparr>qr_Meta := (qr_Meta quay)\<lparr>om_Finalizers := fs\<rparr>\<rparr>"

definition RemoveFinalizer :: "QuayRegistry \<Rightarrow> string \<Rightarrow> QuayRegistry" where
  "RemoveFinalizer quay f = set_finalizers (filter (\<lambda>x. x \<noteq> f) (om_Finalizers (qr_Meta quay))) quay"

definition AddFinalizer :: "QuayRegistry \<Rightarrow> string \<Rightarrow> QuayRegistry" where
  "AddFinalizer quay f = (if ContainsFinalizer quay f then quay
     else set_finalizers (om_Finalizers (qr_Meta quay) @ [f]) quay)"

definition cleanupNamespaceLabels :: "'w Client \<Rightarrow> QuayRegistry \<Rightarrow> ('w, 'x, go_error option) step" where
  "cleanupNamespaceLabels cl quay =
     go_on (look (\<lambda>w. cl_GetNamespaceLabels cl w (qr_Namespace quay))) (\<lambda>got.
       case got of
         Inl err \<Rightarrow> pass (Some err)
       | Inr ls \<Rightarrow>
           go_on (look (\<lambda>w. cl_ListQuays cl w (qr_Namespace quay))) (\<lambda>listed.
             case listed of
               Inl err \<Rightarrow> pass (Some err)
             | Inr items \<Rightarrow>
                 if ls \<noteq> None \<and> gstr ls quayOperatorManagedLabelKey \<noteq> '''' \<and> length items = 1
                 then call (cl_PatchNamespaceLabels cl (qr_Namespace quay)
                        (gdel (gdel ls clusterMonitoringLabelKey) quayOperatorManagedLabelKey))
                 else pass None))"

text \<open>A config map that was not found needs no cleanup; on any other answer, an error included, what the
  variable holds is deleted.\<close>

definition cleanupGrafanaConfigMap :: "'w Client \<Rightarrow> QuayRegistry \<Rightarrow> ('w, 'x, go_error option) step" where
  "cleanupGrafanaConfigMap cl quay =
     go_on (look (\<lambda>w. GetConfigMap (cl_Reader cl w) (nsn grafanaDashboardConfigNamespace
              (qr_Name quay @ ''-'' @ grafanaDashboardConfigMapNameSuffix)))) (\<lambda>got.
       case got of
         Inr cm \<Rightarrow> call (cl_Delete cl (OConfigMap cm))
       | Inl err \<Rightarrow> if IsNotFound err then pass None
                   else call (cl_Delete cl (OConfigMap \<lparr>cm_Meta = zero_meta, cm_Data = None\<rparr>)))"

definition finalizeQuay :: "'w Reconciler \<Rightarrow> 'w Client \<Rightarrow> QuayRegistry \<Rightarrow> ('w, 'x, go_error option) step" where
  "finalizeQuay r cl quay =
     go_on (if rr_WatchNamespace r \<noteq> '''' then pass None else cleanupNamespaceLabels cl quay) (\<lambda>err.
       case err of
         Some e \<Rightarrow> pass (Some e)
       | None \<Rightarrow> if rr_WatchNamespace r \<noteq> '''' then pass None else cleanupGrafanaConfigMap cl quay)"

definition manageQuayDeletion :: "'w Reconciler \<Rightarrow> 'w Client \<Rightarrow> QuayRegistry \<Rightarrow> ('w, outcome, 'a) step" where
  "manageQuayDeletion r cl quay =
     (if \<not> ContainsFinalizer quay quayOperatorFinalizer then leave (Returned NoRequeue None)
      else go_on (finalizeQuay r cl quay) (\<lambda>err.
        case err of
          Some e \<Rightarrow> leave (Returned DefaultRequeue (Some e))
        | None \<Rightarrow>
            go_on (call (cl_UpdateQuay cl (RemoveFinalizer quay quayOperatorFinalizer))) (\<lambda>err.
              leave (case err of Some e \<Rightarrow> Returned DefaultRequeue (Some e) | None \<Rightarrow> Returned NoRequeue None))))"

section \<open>Waiting for the migration job\<close>

definition success_condition :: "Time \<Rightarrow> Time \<Rightarrow> Condition" where
  "success_condition updated transition = \<lparr>c_Type = ConditionComponentsCreated, c_Status = ConditionTrue,
     c_Reason = ReasonComponentsCreationSuccess, c_Message = ''All registry components created'',
     c_LastUpdateTime = updated, c_LastTransitionTime = transition\<rparr>"

definition set_version :: "string \<Rightarrow> QuayRegistry \<Rightarrow> QuayRegistry" where
  "set_version v quay = quay\<lparr>qr_Status := (qr_Status quay)\<lparr>st_CurrentVersion := v\<rparr>\<rparr>"

text \<open>The literal with its two clock readings, the status update, whose error is only logged.\<close>

definition report_success :: "'w Client \<Rightarrow> QuayRegistry \<Rightarrow> ('w, outcome, 'a) step" where
  "report_success cl quay =
     go_on (call (cl_Now cl)) (\<lambda>updated.
     go_on (call (cl_Now cl)) (\<lambda>transition.
     go_on (call (cl_UpdateQuayStatus cl
              (set_conditions (SetCondition (qr_Conditions quay) (success_condition updated transition)) quay))) (\<lambda>_.
       leave (Returned DefaultRequeue None))))"

definition failure_message :: "string \<Rightarrow> Job \<Rightarrow> string" where
  "failure_message dflt job =
     (case find (\<lambda>c. jc_Type c = ''Failed'' \<and> jc_Status c = CoreTrue) (job_Conditions job) of
        None \<Rightarrow> dflt | Some c \<Rightarrow> jc_Message c)"

definition checkMigrationStatus :: "'w Reconciler \<Rightarrow> 'w Client \<Rightarrow> QuayRegistry \<Rightarrow> ('w, outcome, 'a) step" where
  "checkMigrationStatus r cl quay =
     go_on (look (\<lambda>w. GetJob (cl_Reader cl w) (nsn (qr_Namespace quay) (qr_Name quay @ ''-'' @ QuayUpgradeJobName)))) (\<lambda>got.
       case got of
         Inl err \<Rightarrow>
           if IsNotFound err
           then set_condition_and_requeue cl quay ConditionComponentsCreated ConditionFalse
                  ReasonMigrationsJobMissing ''upgrade job not found''
           else leave (Returned DefaultRequeue None)
       | Inr job \<Rightarrow>
           if job_Active job = 1 then leave (Returned DefaultRequeue None)
           else if job_Succeeded job = 1 then report_success cl (set_version (rr_Version r) quay)
           else set_condition_and_requeue cl quay ConditionComponentsCreated ConditionFalse
                  ReasonMigrationsFailed (failure_message ''failed to run migrations'' job))"

section \<open>Waiting for the database upgrade jobs\<close>

definition service_gvk :: GroupVersionKind where
  "service_gvk = gvk '''' ''v1'' ''Service''"

definition disowned :: "QuayRegistry \<Rightarrow> KObject \<Rightarrow> KObject" where
  "disowned quay = map_obj_meta (RemoveOwnerReference quay)"

text \<open>What a successful job leaves to clean up: the old deployment, the old service (of Clair, whichever job
  it is), the claim when the operator is told to delete backups. Each missing object ends the cleanup;
  an error of a deletion is only logged, and so is the claim without its owner.\<close>

definition cleanup_old_claim :: "'w Reconciler \<Rightarrow> 'w Client \<Rightarrow> QuayRegistry \<Rightarrow> bool \<Rightarrow> ('w, outcome, unit) step" where
  "cleanup_old_claim r cl quay clair =
     go_on (look (\<lambda>w. GetPVC (cl_Reader cl w) (nsn (qr_Namespace quay)
              (qr_Name quay @ ''-'' @ (if clair then ''clair-postgres'' else ''quay-database''))))) (\<lambda>got.
       case got of
         Inl _ \<Rightarrow> pass ()
       | Inr pvc \<Rightarrow>
           (case rr_LookupEnv r ''POSTGRES_UPGRADE_DELETE_BACKUP'' of
              None \<Rightarrow> pass ()
            | Some v \<Rightarrow> if v = ''false'' then pass ()
                else go_on (call (cl_Delete cl (disowned quay (OPVC pvc)))) (\<lambda>_. pass ())))"

definition cleanup_old_service :: "'w Reconciler \<Rightarrow> 'w Client \<Rightarrow> QuayRegistry \<Rightarrow> bool \<Rightarrow> ('w, outcome, unit) step" where
  "cleanup_old_service r cl quay clair =
     go_on (look (\<lambda>w. cl_GetService cl w (nsn (qr_Namespace quay) (qr_Name quay @ ''-'' @ ''clair-postgres-old'')))) (\<lambda>got.
       case got of
         Inl _ \<Rightarrow> pass ()
       | Inr service \<Rightarrow>
           go_on (call (cl_Delete cl (disowned quay (OOther service_gvk service)))) (\<lambda>_.
             cleanup_old_claim r cl quay clair))"

definition cleanup_old_database :: "'w Reconciler \<Rightarrow> 'w Client \<Rightarrow> QuayRegistry \<Rightarrow> bool \<Rightarrow> ('w, outcome, unit) step" where
  "cleanup_old_database r cl quay clair =
     go_on (look (\<lambda>w. GetDeployment (cl_Reader cl w) (nsn (qr_Namespace quay)
              (qr_Name quay @ ''-'' @ (if clair then ''clair-postgres-old'' else ''quay-database-old''))))) (\<lambda>got.
       case got of
         Inl _ \<Rightarrow> pass ()
       | Inr dep \<Rightarrow>
           go_on (call (cl_Delete cl (disowned quay (ODeployment dep)))) (\<lambda>_.
             cleanup_old_service r cl quay clair))"

text \<open>One iteration of the loop over the two jobs: it leaves the handler or goes on.\<close>

definition check_upgrade_job :: "'w Reconciler \<Rightarrow> 'w Client \<Rightarrow> QuayRegistry \<Rightarrow> bool \<Rightarrow> ('w, outcome, unit) step" where
  "check_upgrade_job r cl quay clair =
     go_on (look (\<lambda>w. GetJob (cl_Reader cl w) (nsn (qr_Namespace quay)
              (qr_Name quay @ ''-'' @ (if clair then ClairPostgresUpgradeJobName else PostgresUpgradeJobName))))) (\<lambda>got.
       case got of
         Inl err \<Rightarrow> if IsNotFound err then pass () else leave (Returned DefaultRequeue None)
       | Inr job \<Rightarrow>
           if job_Active job = 1 then leave (Returned DefaultRequeue None)
           else if job_Succeeded job = 1 then cleanup_old_database r cl quay clair
           else set_condition_and_requeue cl quay ConditionComponentsCreated ConditionFalse
                  ReasonPostgresUpgradeFailed (failure_message ''failed to run postgres upgrade'' job))"

definition checkPostgresUpgradeStatus :: "'w Reconciler \<Rightarrow> 'w Client \<Rightarrow> QuayRegistry \<Rightarrow> ('w, outcome, 'a) step" where
  "checkPostgresUpgradeStatus r cl quay =
     go_on (check_upgrade_job r cl quay False) (\<lambda>_.
     go_on (check_upgrade_job r cl quay True) (\<lambda>_.
       report_success cl quay))"

section \<open>The config bundle\<close>

definition set_bundle_name :: "string \<Rightarrow> QuayRegistry \<Rightarrow> QuayRegistry" where
  "set_bundle_name n quay = quay\<lparr>qr_Spec := (qr_Spec quay)\<lparr>spec_ConfigBundleSecret := n\<rparr>\<rparr>"

definition base_bundle :: "'w Reconciler \<Rightarrow> QuayRegistry \<Rightarrow> KObject" where
  "base_bundle r quay =
     (let env = ie_Config (rr_Inflate r) in
      map_obj_meta (EnsureOwnerReference quay)
        (OSecret \<lparr>sec_Meta = meta_named (qr_Namespace quay) '''', sec_Type = '''',
           sec_Data = Some [''config.yaml'' \<mapsto> encode_config env (Some (map_of (BaseQuayConfig env)))]\<rparr>))"

text \<open>\<open>cl_CreateGenerated\<close> creates under a name with the given prefix and answers that name.\<close>

definition createInitialBundleSecret :: "'w Reconciler \<Rightarrow> 'w Client \<Rightarrow> QuayRegistry \<Rightarrow> ('w, outcome, 'a) step" where
  "createInitialBundleSecret r cl quay =
     go_on (call (cl_CreateGenerated cl (qr_Name quay @ ''-config-bundle-'') (base_bundle r quay))) (\<lambda>created.
       case created of
         Inl err \<Rightarrow> block_rollout cl quay ReasonConfigInvalid
           (''unable to create base config bundle `Secret`: '' @ error_text err)
       | Inr name \<Rightarrow>
           go_on (call (cl_UpdateQuay cl (set_bundle_name name quay))) (\<lambda>err.
             leave (Returned DefaultRequeue err)))"

definition GetConfigBundleSecret :: "'w Client \<Rightarrow> 'w \<Rightarrow> QuayRegistry \<Rightarrow> Secret result" where
  "GetConfigBundleSecret cl w quay =
     GetSecret (cl_Reader cl w) (nsn (qr_Namespace quay) (spec_ConfigBundleSecret (qr_Spec quay)))"

definition GetOldConfigBundleSecrets :: "'w Client \<Rightarrow> 'w \<Rightarrow> QuayRegistry \<Rightarrow> Secret list result" where
  "GetOldConfigBundleSecrets cl w quay =
     and_then (cl_ListNamespaceSecrets cl w (qr_Namespace quay)) (\<lambda>items.
       if length items = 0 then Inl (plain_error ''no unused secrets found'')
       else Inr (filter (\<lambda>secret. HasPrefix (om_Name (sec_Meta secret)) (qr_Name quay @ ''-quay-config-secret'')
                    \<and> om_Name (sec_Meta secret) \<noteq> spec_ConfigBundleSecret (qr_Spec quay)) items))"

definition quayAppDeploymentRolledOut :: "Reader \<Rightarrow> QuayRegistry \<Rightarrow> bool result" where
  "quayAppDeploymentRolledOut cli quay =
     (case GetDeployment cli (nsn (qr_Namespace quay) (qr_Name quay @ ''-quay-app'')) of
        Inl err \<Rightarrow> if IsNotFound err then Inr True else Inl err
      | Inr dep \<Rightarrow>
          if dep_ObservedGeneration dep < om_Generation (dep_Meta dep) then Inr False
          else let desired = (case dep_Replicas dep of None \<Rightarrow> 1 | Some n \<Rightarrow> n) in
               Inr (dep_UpdatedReplicas dep = desired \<and> dep_AvailableReplicas dep = desired))"

end
