(* ===== verification/Controller_Objects.thy ===== *)
theory Controller_Objects
  imports Controller_Status
begin

text \<open>
  \<open>quayregistry_controller.go\<close>, second part: creating or updating one object, the Grafana dashboard, the
  namespace labels, the deferral of workloads, the cleanup of old config secrets, the check that the
  bundle configures what it must, and the watch on secrets.
\<close>

section \<open>The Grafana dashboard\<close>

definition isGrafanaConfigMap :: "KObject \<Rightarrow> bool" where
  "isGrafanaConfigMap obj =
     (if \<not> HasSuffix (obj_name obj) grafanaDashboardConfigMapNameSuffix then False
      else gvk_Version (obj_gvk obj) = ''v1'' \<and> gvk_Kind (obj_gvk obj) = ''ConfigMap'')"

text \<open>The paths set in the dashboard, in order, with what each is set to.\<close>

definition dashboard_settings :: "QuayRegistry \<Rightarrow> (string \<times> string) list" where
  "dashboard_settings quay =
     (let metricsServiceName = qr_Name quay @ ''-quay-metrics'' in
      [(''title'', ''Quay - '' @ qr_Namespace quay @ '' - '' @ qr_Name quay),
       (''templating.list.1.options.0.value'', qr_Namespace quay),
       (''templating.list.1.current.value'', qr_Namespace quay),
       (''templating.list.1.query'', qr_Namespace quay),
       (''templating.list.2.options.0.value'', metricsServiceName),
       (''templating.list.2.current.value'', metricsServiceName),
       (''templating.list.2.query'', metricsServiceName)])"

definition updateGrafanaDashboardData ::
  "(string \<Rightarrow> string \<Rightarrow> string \<Rightarrow> string result) \<Rightarrow> KObject \<Rightarrow> QuayRegistry \<Rightarrow> KObject result" where
  "updateGrafanaDashboardData set_json obj quay =
     (case obj of
        OConfigMap cm \<Rightarrow>
          and_then (fold_result (\<lambda>config (path, v). set_json config path v)
                      (gstr (cm_Data cm) ''quay.json'') (dashboard_settings quay)) (\<lambda>config.
            let config = ReplaceAll config ''$namespace'' (qr_Namespace quay);
                config = ReplaceAll config ''$service'' (qr_Name quay @ ''-quay-metrics'')
            in and_then (gput (cm_Data cm) ''quay.json'' config) (\<lambda>data.
                 Inr (OConfigMap (cm\<lparr>cm_Data := data\<rparr>))))
      | _ \<Rightarrow> Inl (plain_error ''unable to cast object to ConfigMap type''))"

definition set_namespace :: "string \<Rightarrow> KObject \<Rightarrow> KObject" where
  "set_namespace ns = map_obj_meta (\<lambda>m. m\<lparr>om_Namespace := ns\<rparr>)"

section \<open>createOrUpdateObject\<close>

definition adopt_object :: "QuayRegistry \<Rightarrow> KObject \<Rightarrow> KObject" where
  "adopt_object quay obj =
     (let obj = map_obj_meta (EnsureOwnerReference quay) obj in
      if isGrafanaConfigMap obj then map_obj_meta (RemoveOwnerReference quay) obj else obj)"

text \<open>Whether the job that exists must be left alone.\<close>

definition keep_job :: "string \<Rightarrow> QuayRegistry \<Rightarrow> Job \<Rightarrow> bool" where
  "keep_job version quay existing =
     (if job_Succeeded existing \<ge> 1 \<and> st_CurrentVersion (qr_Status quay) = version then True
      else job_Active existing \<ge> 1)"

text \<open>A job is deleted and created again. The result is the pair of the source: requeue, error.\<close>

definition create_job :: "'w Client \<Rightarrow> KObject \<Rightarrow> ('w, 'x, bool \<times> go_error option) step" where
  "create_job cl obj =
     go_on (call (cl_Create cl obj)) (\<lambda>created. pass (case created of
         None \<Rightarrow> (False, None)
       | Some err \<Rightarrow> if IsAlreadyExists err then (True, None) else (False, Some err)))"

definition recreate_job :: "'w Client \<Rightarrow> KObject \<Rightarrow> ('w, 'x, bool \<times> go_error option) step" where
  "recreate_job cl obj =
     go_on (call (cl_Delete cl obj)) (\<lambda>deleted.
       case deleted of
         Some err \<Rightarrow> if \<not> IsNotFound err then pass (False, Some err) else create_job cl obj
       | None \<Rightarrow> create_job cl obj)"

fun IsDiscoveryFailed :: "go_error \<Rightarrow> bool" where
  "IsDiscoveryFailed (GoError DiscoveryFailedError _) = True"
| "IsDiscoveryFailed _ = False"

text \<open>Server side apply, with the older version of an autoscaler where the newer one is unknown. The
  failed type assertion of the source cannot happen: an object of that kind is an autoscaler.\<close>

definition apply_object :: "'w Reconciler \<Rightarrow> 'w Client \<Rightarrow> KObject \<Rightarrow> ('w, 'x, bool \<times> go_error option) step" where
  "apply_object r cl obj =
     go_on (call (cl_Apply cl obj)) (\<lambda>applied.
       case applied of
         None \<Rightarrow> pass (False, None)
       | Some err \<Rightarrow>
           (case obj of
              OHPA hpa \<Rightarrow>
                if IsDiscoveryFailed err
                then (case rr_ConvertHpa r hpa of
                        Some err \<Rightarrow> pass (False, Some err)
                      | None \<Rightarrow> go_on (call (cl_ApplyV2beta2 cl obj)) (\<lambda>err. pass (False, err)))
                else pass (False, Some err)
            | _ \<Rightarrow> pass (False, Some err)))"

definition createOrUpdateObject ::
  "'w Reconciler \<Rightarrow> 'w Client \<Rightarrow> KObject \<Rightarrow> QuayRegistry \<Rightarrow> ('w, 'x, bool \<times> go_error option) step" where
  "createOrUpdateObject r cl obj quay =
     (let obj = adopt_object quay obj in
      if obj_gvk obj = gvk ''batch'' ''v1'' ''Job''
      then go_on (look (\<lambda>w. GetJob (cl_Reader cl w) (obj_key obj))) (\<lambda>existing.
             case existing of
               Inr job \<Rightarrow> if keep_job (rr_Version r) quay job then pass (False, None) else recreate_job cl obj
             | Inl _ \<Rightarrow> recreate_job cl obj)
      else apply_object r cl obj)"

section \<open>Deferred workloads\<close>

definition infrastructureComponents :: "string list" where
  "infrastructureComponents = [''postgres'', ''clair-postgres'', ''redis'']"

definition deferrable :: "KObject \<Rightarrow> bool" where
  "deferrable obj = (is_workload obj \<and>
     \<not> List.member infrastructureComponents (gstr (om_Labels (obj_meta obj)) ''quay-component''))"

definition filterDeferredWorkloads :: "KObject list \<Rightarrow> bool \<Rightarrow> KObject list" where
  "filterDeferredWorkloads objects deferWorkloads =
     (if \<not> deferWorkloads then objects else filter (\<lambda>obj. \<not> deferrable obj) objects)"

section \<open>Old config secrets\<close>

text \<open>A secret that cannot be deleted ends the loop with the error of the status update made about it.\<close>

fun cleanupPreviousSecrets :: "'w Client \<Rightarrow> QuayRegistry \<Rightarrow> Secret list \<Rightarrow> ('w, 'x, go_error option \<times> QuayRegistry) step" where
  "cleanupPreviousSecrets cl quay [] = pass (None, quay)"
| "cleanupPreviousSecrets cl quay (secret # secrets) =
     go_on (call (cl_Delete cl (OSecret secret))) (\<lambda>deleted.
       case deleted of
         Some err \<Rightarrow> updateWithCondition cl quay ConditionTypeRolloutBlocked ConditionTrue
           ReasonComponentCreationFailed (''could not delete previous config bundle secret: '' @ error_text err)
       | None \<Rightarrow> cleanupPreviousSecrets cl quay secrets)"

text \<open>The name of the rendered config secret among the objects, and the listed secrets without it.\<close>

definition current_config_secret :: "QuayRegistry \<Rightarrow> KObject list \<Rightarrow> string" where
  "current_config_secret quay objs =
     (case find (\<lambda>obj. obj_kind obj = ''Secret'' \<and>
                   HasPrefix (obj_name obj) (qr_Name quay @ ''-quay-config-secret'')) objs of
        None \<Rightarrow> '''' | Some obj \<Rightarrow> obj_name obj)"

definition previous_secrets :: "string \<Rightarrow> Secret list \<Rightarrow> Secret list" where
  "previous_secrets current secrets =
     (if current = '''' then [] else filter (\<lambda>s. om_Name (sec_Meta s) \<noteq> current) secrets)"

section \<open>Namespace labels\<close>

definition patchNamespaceForMonitoring :: "'w Client \<Rightarrow> QuayRegistry \<Rightarrow> ('w, 'x, go_error option) step" where
  "patchNamespaceForMonitoring cl quay =
     go_on (look (\<lambda>w. cl_GetNamespaceLabels cl w (qr_Namespace quay))) (\<lambda>got.
       case got of
         Inl err \<Rightarrow> pass (Some err)
       | Inr ls \<Rightarrow>
           if gstr ls clusterMonitoringLabelKey = ''true'' then pass None
           else call (cl_PatchNamespaceLabels cl (qr_Namespace quay)
                  (Some ((case ls of None \<Rightarrow> Map.empty | Some f \<Rightarrow> f)
                     (clusterMonitoringLabelKey \<mapsto> ''true'', quayOperatorManagedLabelKey \<mapsto> ''true''))))) "

section \<open>hasNecessaryConfig\<close>

definition check_component_config ::
  "'w KustomizeEnv \<Rightarrow> Component list \<Rightarrow> strmap \<Rightarrow> Component \<Rightarrow> go_error option" where
  "check_component_config env cs cfg cmp =
     (if cmp_Kind cmp = ComponentTLS \<and> cmp_SecretRef cmp \<noteq> None then None
      else case ContainsComponentConfig env cfg cmp of
        Inl err \<Rightarrow> Some (wrap_error ''unable to verify component config: '' err)
      | Inr hascfg \<Rightarrow>
          if cmp_Managed cmp
          then (if \<not> hascfg \<or> ComponentSupportsConfigWhenManaged cmp then None
                else Some (plain_error (kind_name (cmp_Kind cmp) @
                  '' component marked as managed, but `configBundleSecret` contains required fields'')))
          else if hascfg then None
          else if RequiredComponent (cmp_Kind cmp)
          then Some (plain_error (''required component `'' @ kind_name (cmp_Kind cmp) @
                  ''` marked as unmanaged, but `configBundleSecret` is missing necessary fields''))
          else if cmp_Kind cmp = ComponentClairPostgres \<and> ComponentIsManaged cs ComponentClair
          then Some (plain_error ''clairpostgres component unmanaged but no clair postgres config provided'')
          else None)"

fun first_error :: "('a \<Rightarrow> go_error option) \<Rightarrow> 'a list \<Rightarrow> go_error option" where
  "first_error f [] = None"
| "first_error f (x # xs) = (case f x of Some e \<Rightarrow> Some e | None \<Rightarrow> first_error f xs)"

definition hasNecessaryConfig :: "'w KustomizeEnv \<Rightarrow> QuayRegistry \<Rightarrow> strmap \<Rightarrow> go_error option" where
  "hasNecessaryConfig env quay cfg =
     first_error (check_component_config env (qr_Components quay) cfg) (qr_Components quay)"

section \<open>The watch on secrets\<close>

text \<open>The event of an object that is no secret asks for nothing, and so does a failed list.\<close>

definition findQuayRegistriesForSecret :: "'w Client \<Rightarrow> 'w \<Rightarrow> KObject \<Rightarrow> NamespacedName list" where
  "findQuayRegistriesForSecret cl w obj =
     (case obj of
        OSecret secret \<Rightarrow>
          (case cl_ListQuays cl w (om_Namespace (sec_Meta secret)) of
             Inl _ \<Rightarrow> []
           | Inr regs \<Rightarrow>
               map (\<lambda>reg. nsn (qr_Namespace reg) (qr_Name reg))
                 (filter (\<lambda>reg. GetTLSSecretRef (qr_Components reg) = Some (om_Name (sec_Meta secret))) regs))
      | _ \<Rightarrow> [])"

datatype watch_event = CreateEvent KObject | UpdateEvent KObject KObject | DeleteEvent KObject | GenericEvent KObject

text \<open>\<open>maps.EqualFunc\<close> on the data: nil and empty maps are equal.\<close>

definition same_data :: "strmap \<Rightarrow> strmap \<Rightarrow> bool" where
  "same_data a b = ((case a of None \<Rightarrow> Map.empty | Some f \<Rightarrow> f) = (case b of None \<Rightarrow> Map.empty | Some f \<Rightarrow> f))"

fun externalTLSSecretPredicate :: "watch_event \<Rightarrow> bool" where
  "externalTLSSecretPredicate (CreateEvent _) = True"
| "externalTLSSecretPredicate (UpdateEvent (OSecret a) (OSecret b)) = (\<not> same_data (sec_Data a) (sec_Data b))"
| "externalTLSSecretPredicate (UpdateEvent _ _) = False"
| "externalTLSSecretPredicate (DeleteEvent _) = True"
| "externalTLSSecretPredicate (GenericEvent _) = False"

end
