(* ===== verification/Reconcile.thy ===== *)
theory Reconcile
  imports Controller_Objects Overrides
begin

text \<open>
  \<open>Reconcile\<close> of \<open>quayregistry_controller.go\<close>, in the stages of the source: dispatch on the state of the
  registry, the checks on the bundle, the discovery of the cluster hostname, the rest of the context,
  the defaults and the validation of the spec, the rendering, the loop over the objects, and the end.
  A stage leaves the handler with its outcome or hands on what the next one needs.
\<close>

section \<open>Dispatch\<close>

definition set_observed :: "QuayRegistry \<Rightarrow> QuayRegistry" where
  "set_observed quay = quay\<lparr>qr_Status := (qr_Status quay)\<lparr>st_ObservedGeneration := om_Generation (qr_Meta quay)\<rparr>\<rparr>"

definition dispatch :: "'w Reconciler \<Rightarrow> 'w Client \<Rightarrow> QuayRegistry \<Rightarrow> ('w, outcome, QuayRegistry) step" where
  "dispatch r cl quay =
     (let updated = set_observed quay in
      if FlaggedForDeletion updated then manageQuayDeletion r cl updated
      else if PostgresUpgradeRunning updated then checkPostgresUpgradeStatus r cl updated
      else if MigrationsRunning updated then checkMigrationStatus r cl updated
      else if NeedsBundleSecret updated then createInitialBundleSecret r cl updated
      else pass updated)"

section \<open>The bundle\<close>

definition attempt :: "(go_error \<Rightarrow> ('w, outcome, 'a) step) \<Rightarrow> ('w \<Rightarrow> 'a result \<times> 'w) \<Rightarrow> ('w, outcome, 'a) step" where
  "attempt h f = go_on (call f) (on_error h)"

definition invalid_config :: "'w Client \<Rightarrow> QuayRegistry \<Rightarrow> string \<Rightarrow> go_error \<Rightarrow> ('w, outcome, 'a) step" where
  "invalid_config cl quay prefix err = block_rollout cl quay ReasonConfigInvalid (prefix @ error_text err)"

definition check_bundle ::
  "'w Reconciler \<Rightarrow> 'w Client \<Rightarrow> QuayRegistry \<Rightarrow> QuayRegistry \<Rightarrow> ('w, outcome, Secret \<times> QuayRegistryContext) step" where
  "check_bundle r cl quay updated =
     (let env = rr_Features r in
      go_on (attempt (invalid_config cl quay ''unable to get `configBundleSecret`: '')
               (\<lambda>w. (GetConfigBundleSecret cl w updated, w))) (\<lambda>bundle.
      go_on (attempt (invalid_config cl quay ''external TLS secret error: '')
               (checkExternalTLSSecret env cl NewQuayRegistryContext updated bundle)) (\<lambda>ctx.
      go_on (attempt (invalid_config cl quay ''unable to check cluster CA certs: '')
               (checkClusterCAHash env cl (checkManagedTLS ctx bundle) updated)) (\<lambda>ctx.
      go_on (attempt (invalid_config cl quay ''unable to retrieve managed keys `Secret`: '')
               (\<lambda>w. (checkManagedKeys cl w ctx updated, w))) (\<lambda>ctx.
      go_on (on_error (invalid_config cl quay ''unable to parse SERVER_HOSTNAME from config: '')
               (parseServerHostname env ctx bundle)) (\<lambda>ctx.
        pass (bundle, ctx)))))))"

section \<open>Route discovery\<close>

fun IsProbeInProgress :: "go_error \<Rightarrow> bool" where
  "IsProbeInProgress (GoError RouteProbeInProgress _) = True"
| "IsProbeInProgress _ = False"

definition needs_probe :: "QuayRegistry \<Rightarrow> QuayRegistryContext \<Rightarrow> bool" where
  "needs_probe updated ctx =
     (let routeIsUnmanaged = ComponentIsExplicitlyDefined (qr_Components updated) ComponentRoute \<and>
            \<not> ComponentIsManaged (qr_Components updated) ComponentRoute;
          userProvidedAll = ServerHostname ctx \<noteq> '''' \<and> TLSCert ctx \<noteq> None
      in \<not> routeIsUnmanaged \<and> \<not> userProvidedAll)"

text \<open>The cache belongs to the reconciler: from here on, leaving the handler says what the cache is.\<close>

definition with_cache :: "RouteCache \<Rightarrow> ('w, outcome, 'a) step \<Rightarrow> ('w, outcome \<times> RouteCache, 'a) step" where
  "with_cache cache m w = (case m w of (Inl x, w) \<Rightarrow> (Inl (x, cache), w) | (Inr a, w) \<Rightarrow> (Inr a, w))"

definition discover ::
  "'w Reconciler \<Rightarrow> 'w Client \<Rightarrow> QuayRegistry \<Rightarrow> QuayRegistry \<Rightarrow> QuayRegistryContext \<Rightarrow> RouteCache
     \<Rightarrow> ('w, outcome \<times> RouteCache, QuayRegistryContext \<times> RouteCache) step" where
  "discover r cl quay updated ctx cache =
     (if \<not> rr_SupportsRoutes r then pass (ctx, cache)
      else let ctx = ctx\<lparr>SupportsRoutes := True\<rparr> in
        if \<not> needs_probe updated ctx then pass (ctx, cache)
        else go_on (call (\<lambda>w. case ensureRouteDiscovery (rr_Features r) cl ctx updated cache w of
                      (found, cache, w) \<Rightarrow> ((found, cache), w))) (\<lambda>(found, cache).
          with_cache cache (go_on (on_error (\<lambda>err.
              if IsProbeInProgress err then leave (Returned (RequeueAfter 5) None)
              else block_rollout cl quay ReasonRouteComponentDependencyError
                     (''could not check for `Routes` API: '' @ error_text err)) found) (\<lambda>ctx. pass (ctx, cache)))))"

section \<open>The rest of the context\<close>

text \<open>A database that needs an upgrade is scaled down first; until it is, the reconcile ends here.\<close>

definition upgrade_gate ::
  "'w Reconciler \<Rightarrow> 'w Client \<Rightarrow> QuayRegistry \<Rightarrow> QuayRegistry \<Rightarrow> ComponentKind \<Rightarrow> QuayRegistryContext
     \<Rightarrow> ('w, outcome, QuayRegistryContext) step" where
  "upgrade_gate r cl quay updated component ctx =
     (if \<not> ComponentIsManaged (qr_Components updated) component then pass ctx
      else go_on (call (\<lambda>w. case checkNeedsPostgresUpgradeForComponent (rr_Features r) cl ctx updated component w
                         of (res, ctx, w) \<Rightarrow> ((res, ctx), w))) (\<lambda>((err, scaledDown), ctx).
        go_on (on_error (\<lambda>e. block_rollout cl quay ReasonPostgresUpgradeFailed
                           (''error checking for pg upgrade: '' @ error_text e))
                 (case err of Some e \<Rightarrow> Inl e | None \<Rightarrow> Inr ())) (\<lambda>_.
          if \<not> scaledDown then leave (Returned DefaultRequeue None) else pass ctx)))"

definition complete_context ::
  "'w Reconciler \<Rightarrow> 'w Client \<Rightarrow> QuayRegistry \<Rightarrow> QuayRegistry \<Rightarrow> Secret \<Rightarrow> QuayRegistryContext
     \<Rightarrow> ('w, outcome, QuayRegistryContext) step" where
  "complete_context r cl quay updated bundle ctx =
     (let env = rr_Features r; managed = ComponentIsManaged (qr_Components updated) in
      go_on (look (\<lambda>w. checkObjectBucketClaimsAvailable cl w (fillServerHostname ctx updated) updated)) (\<lambda>(err, ctx).
      go_on (case err of
               Some e \<Rightarrow> if managed ComponentObjectStorage
                 then block_rollout cl quay ReasonObjectStorageComponentDependencyError
                        (''error checking for object storage support: '' @ error_text e)
                 else pass ()
             | None \<Rightarrow> pass ()) (\<lambda>_.
      go_on (upgrade_gate r cl quay updated ComponentPostgres ctx) (\<lambda>ctx.
      go_on (upgrade_gate r cl quay updated ComponentClairPostgres ctx) (\<lambda>ctx.
      go_on (look (\<lambda>w. checkManagedDatabaseReady (cl_Reader cl w) ctx updated)) (\<lambda>ctx.
      go_on (on_error (invalid_config cl quay ''could not check for build manager support: '')
               (checkBuildManagerAvailable env ctx bundle)) (\<lambda>ctx.
      go_on (if managed ComponentTLS then pass ctx
             else attempt (invalid_config cl quay ''unable to check TLS security profile: '')
                    (\<lambda>w. (checkTLSSecurityProfile env cl w ctx bundle, w))) (\<lambda>ctx.
      go_on (look (\<lambda>w. checkMonitoringAvailable cl w (rr_WatchNamespace r) ctx)) (\<lambda>checked.
        case checked of
          Inr ctx \<Rightarrow> pass ctx
        | Inl err \<Rightarrow>
            if managed ComponentMonitoring
            then block_rollout cl quay ReasonMonitoringComponentDependencyError
                   (''could not check for monitoring support: '' @ error_text err)
            else pass ctx)))))))))"

section \<open>The spec\<close>

definition settle_spec ::
  "'w Client \<Rightarrow> QuayRegistry \<Rightarrow> QuayRegistry \<Rightarrow> QuayRegistryContext \<Rightarrow> ('w, outcome, QuayRegistry) step" where
  "settle_spec cl quay updated ctx =
     go_on (on_error (\<lambda>err. leave (Returned DefaultRequeue (Some err))) (EnsureDefaultComponents ctx updated)) (\<lambda>updated.
       case ValidateOverrides updated of
         Some err \<Rightarrow> block_rollout cl quay ReasonComponentOverrideInvalid (''invalid overrides: '' @ error_text err)
       | None \<Rightarrow>
           if \<not> ComponentsMatch (qr_Components quay) (qr_Components updated)
           then go_on (call (cl_UpdateQuay cl updated)) (\<lambda>_. leave (Returned DefaultRequeue None))
           else pass updated)"

section \<open>Rendering\<close>

definition clear_block :: "QuayRegistry \<Rightarrow> QuayRegistry" where
  "clear_block quay = set_conditions (RemoveCondition (qr_Conditions quay) ConditionTypeRolloutBlocked) quay"

definition render ::
  "'w Reconciler \<Rightarrow> 'w Client \<Rightarrow> QuayRegistry \<Rightarrow> QuayRegistry \<Rightarrow> Secret \<Rightarrow> QuayRegistryContext
     \<Rightarrow> ('w, outcome, Config \<times> KObject list \<times> QuayRegistryContext) step" where
  "render r cl quay updated bundle ctx =
     go_on (on_error (invalid_config cl quay '''') (unmarshal_config (rr_Features r) bundle)) (\<lambda>usercfg.
     go_on (on_error (invalid_config cl quay '''')
              (case hasNecessaryConfig (ie_Config (rr_Inflate r)) quay (sec_Data bundle) of
                 None \<Rightarrow> Inr () | Some err \<Rightarrow> Inl err)) (\<lambda>_.
     go_on (attempt (\<lambda>err. block_rollout cl quay ReasonComponentCreationFailed
                       (''could not inflate kubernetes objects: '' @ error_text err))
              (Inflate (rr_Inflate r) ctx (clear_block updated) bundle (rr_SkipResourceRequests r))) (\<lambda>(objs, ctx).
       pass (usercfg, objs, ctx))))"

definition list_previous_secrets ::
  "'w Client \<Rightarrow> QuayRegistry \<Rightarrow> QuayRegistry \<Rightarrow> KObject list \<Rightarrow> ('w, outcome, Secret list) step" where
  "list_previous_secrets cl quay updated objs =
     go_on (look (\<lambda>w. GetOldConfigBundleSecrets cl w updated)) (\<lambda>got.
     go_on (case got of
              Inr secrets \<Rightarrow> pass secrets
            | Inl err \<Rightarrow> if IsNotFound err then pass []
                else invalid_config cl quay ''could not get previous config bundle secrets: '' err) (\<lambda>secrets.
       pass (previous_secrets (current_config_secret updated objs) secrets)))"

section \<open>The loop over the objects\<close>

definition deferWorkloads :: "bool \<Rightarrow> QuayRegistryContext \<Rightarrow> bool" where
  "deferWorkloads osmanaged ctx = ((osmanaged \<and> \<not> ObjectStorageInitialized ctx) \<or>
     \<not> DatabaseInitialized ctx \<or> \<not> ClairDatabaseInitialized ctx)"

definition create_object ::
  "'w Reconciler \<Rightarrow> 'w Client \<Rightarrow> QuayRegistry \<Rightarrow> QuayRegistry \<Rightarrow> QuayRegistryContext \<Rightarrow> KObject
     \<Rightarrow> ('w, outcome, unit) step" where
  "create_object r cl quay updated ctx obj =
     go_on (if SupportsMonitoring ctx \<and> isGrafanaConfigMap obj
            then on_error (\<lambda>err. block_rollout cl quay ReasonMonitoringComponentDependencyError
                             (''unable to update title on Grafana '' @ error_text err))
                   (updateGrafanaDashboardData (rr_SetJSON r)
                      (set_namespace grafanaDashboardConfigNamespace obj) updated)
            else pass obj) (\<lambda>obj.
     go_on (createOrUpdateObject r cl obj quay) (\<lambda>(requeue, err).
       case err of
         Some e \<Rightarrow> block_rollout cl quay ReasonComponentCreationFailed (''error creating/updating object '' @
           obj_kind obj @ '' '' @ obj_name obj @ '': '' @ error_text e)
       | None \<Rightarrow> if requeue then leave (Returned DefaultRequeue None) else pass ()))"

fun create_objects ::
  "'w Reconciler \<Rightarrow> 'w Client \<Rightarrow> QuayRegistry \<Rightarrow> QuayRegistry \<Rightarrow> QuayRegistryContext \<Rightarrow> KObject list
     \<Rightarrow> ('w, outcome, unit) step" where
  "create_objects r cl quay updated ctx [] = pass ()"
| "create_objects r cl quay updated ctx (obj # objs) =
     go_on (create_object r cl quay updated ctx obj) (\<lambda>_. create_objects r cl quay updated ctx objs)"

section \<open>After the loop\<close>

definition label_namespace ::
  "'w Client \<Rightarrow> QuayRegistry \<Rightarrow> QuayRegistry \<Rightarrow> QuayRegistryContext \<Rightarrow> ('w, outcome, unit) step" where
  "label_namespace cl quay updated ctx =
     (if \<not> SupportsMonitoring ctx then pass ()
      else go_on (patchNamespaceForMonitoring cl quay) (\<lambda>err.
        case err of
          Some e \<Rightarrow> block_rollout cl updated ReasonMonitoringComponentDependencyError (error_text e)
        | None \<Rightarrow> pass ()))"

definition remove_previous_secrets ::
  "'w Client \<Rightarrow> QuayRegistry \<Rightarrow> QuayRegistry \<Rightarrow> Secret list \<Rightarrow> ('w, outcome, unit) step" where
  "remove_previous_secrets cl quay updated secrets =
     (if length secrets > 0
      then go_on (look (\<lambda>w. quayAppDeploymentRolledOut (cl_Reader cl w) updated)) (\<lambda>rolledOut.
        case rolledOut of
          Inl err \<Rightarrow> pass ()
        | Inr done \<Rightarrow>
            if \<not> done then pass ()
            else go_on (cleanupPreviousSecrets cl quay secrets) (\<lambda>(err, quay).
              case err of
                Some e \<Rightarrow> invalid_config cl quay ''could not remove previous config bundle secret: '' e
              | None \<Rightarrow> pass ()))
      else pass ())"

definition recheck_block :: "'w Client \<Rightarrow> QuayRegistry \<Rightarrow> ('w, outcome, unit) step" where
  "recheck_block cl updated =
     (case GetCondition (qr_Conditions updated) ConditionTypeRolloutBlocked of
        None \<Rightarrow> pass ()
      | Some c \<Rightarrow>
          if c_Reason c = ReasonConfigInvalid \<and> c_Status c = ConditionTrue
          then block_rollout cl updated ReasonConfigInvalid (c_Message c)
          else pass ())"

text \<open>Which wait starts next: for the upgrade of a database, for the migration to this version, or none, in
  which case the finalizer is set.\<close>

definition conclude :: "'w Reconciler \<Rightarrow> 'w Client \<Rightarrow> QuayRegistry \<Rightarrow> QuayRegistryContext \<Rightarrow> ('w, outcome, 'a) step" where
  "conclude r cl updated ctx =
     (if NeedsPgUpgrade ctx \<or> NeedsClairPgUpgrade ctx
      then set_condition_and_requeue cl updated ConditionComponentsCreated ConditionFalse
             ReasonPostgresUpgradeInProgress ''running postgres update operations''
      else if st_CurrentVersion (qr_Status updated) \<noteq> rr_Version r
      then set_condition_and_requeue cl updated ConditionComponentsCreated ConditionFalse
             ReasonMigrationsInProgress ''running database migrations''
      else if \<not> ContainsFinalizer updated quayOperatorFinalizer
      then go_on (call (cl_UpdateQuay cl (AddFinalizer updated quayOperatorFinalizer))) (\<lambda>err.
             leave (case err of Some e \<Rightarrow> Returned DefaultRequeue (Some e)
                              | None \<Rightarrow> Returned (RequeueAfter 60) None))
      else leave (Returned (RequeueAfter 60) None))"

definition publish_endpoint ::
  "'w Reconciler \<Rightarrow> 'w Client \<Rightarrow> QuayRegistry \<Rightarrow> QuayRegistryContext \<Rightarrow> Config \<Rightarrow> ('w, outcome, 'a) step" where
  "publish_endpoint r cl updated ctx usercfg =
     go_on (on_error (\<lambda>e. leave (Returned DefaultRequeue (Some e)))
              (EnsureRegistryEndpoint ctx updated usercfg)) (\<lambda>(upToDate, updated).
       go_on (if upToDate then pass None else call (cl_UpdateQuayStatus cl updated)) (\<lambda>err.
         if err \<noteq> None then leave (Returned DefaultRequeue None) else conclude r cl updated ctx))"

definition finish ::
  "'w Reconciler \<Rightarrow> 'w Client \<Rightarrow> QuayRegistry \<Rightarrow> QuayRegistryContext \<Rightarrow> bool \<Rightarrow> Config \<Rightarrow> ('w, outcome, 'a) step" where
  "finish r cl updated ctx osmanaged usercfg =
     go_on (updateWithCondition cl updated ConditionTypeRolloutBlocked ConditionFalse
              ReasonComponentsCreationSuccess ''All objects created/updated successfully'') (\<lambda>(err, updated).
       if err \<noteq> None then leave (Returned DefaultRequeue None)
       else if osmanaged \<and> \<not> ObjectStorageInitialized ctx then leave (Returned DefaultRequeue None)
       else if \<not> DatabaseInitialized ctx \<or> \<not> ClairDatabaseInitialized ctx then leave (Returned DefaultRequeue None)
       else publish_endpoint r cl updated ctx usercfg)"

section \<open>Reconcile\<close>

definition load_quay :: "'w Client \<Rightarrow> NamespacedName \<Rightarrow> ('w, outcome, QuayRegistry) step" where
  "load_quay cl req =
     go_on (look (\<lambda>w. cl_GetQuay cl w req)) (\<lambda>got.
       case got of
         Inr quay \<Rightarrow> pass quay
       | Inl err \<Rightarrow> if IsNotFound err then leave (Returned NoRequeue None) else leave (Returned DefaultRequeue None))"

definition before_discovery ::
  "'w Reconciler \<Rightarrow> 'w Client \<Rightarrow> QuayRegistry
     \<Rightarrow> ('w, outcome, QuayRegistry \<times> Secret \<times> QuayRegistryContext) step" where
  "before_discovery r cl quay =
     go_on (dispatch r cl quay) (\<lambda>updated.
     go_on (check_bundle r cl quay updated) (\<lambda>(bundle, ctx).
       pass (updated, bundle, ctx)))"

definition roll_out ::
  "'w Reconciler \<Rightarrow> 'w Client \<Rightarrow> QuayRegistry \<Rightarrow> QuayRegistry \<Rightarrow> QuayRegistryContext \<Rightarrow> bool \<Rightarrow> Config \<Rightarrow> KObject list
     \<Rightarrow> Secret list \<Rightarrow> ('w, outcome, 'a) step" where
  "roll_out r cl quay updated ctx osmanaged usercfg objs previous =
     go_on (create_objects r cl quay updated ctx
              (filterDeferredWorkloads (EnsureCreationOrder objs) (deferWorkloads osmanaged ctx))) (\<lambda>_.
     go_on (label_namespace cl quay updated ctx) (\<lambda>_.
     go_on (remove_previous_secrets cl quay updated previous) (\<lambda>_.
     go_on (recheck_block cl updated) (\<lambda>_.
       finish r cl updated ctx osmanaged usercfg))))"

definition after_discovery ::
  "'w Reconciler \<Rightarrow> 'w Client \<Rightarrow> QuayRegistry \<Rightarrow> QuayRegistry \<Rightarrow> Secret \<Rightarrow> QuayRegistryContext
     \<Rightarrow> ('w, outcome, 'a) step" where
  "after_discovery r cl quay updated bundle ctx =
     (let osmanaged = ComponentIsManaged (qr_Components updated) ComponentObjectStorage in
      go_on (complete_context r cl quay updated bundle ctx) (\<lambda>ctx.
      go_on (settle_spec cl quay updated ctx) (\<lambda>updated.
      go_on (render r cl quay updated bundle ctx) (\<lambda>(usercfg, objs, ctx).
      go_on (list_previous_secrets cl quay (clear_block updated) objs) (\<lambda>previous.
        roll_out r cl quay (clear_block updated) ctx osmanaged usercfg objs previous)))))"

text \<open>The whole handler ends with its outcome and the cache it leaves.\<close>

definition reconcile_quay ::
  "'w Reconciler \<Rightarrow> 'w Client \<Rightarrow> QuayRegistry \<Rightarrow> RouteCache \<Rightarrow> ('w, outcome \<times> RouteCache, 'a) step" where
  "reconcile_quay r cl quay cache =
     go_on (with_cache cache (before_discovery r cl quay)) (\<lambda>(updated, bundle, ctx).
     go_on (discover r cl quay updated ctx cache) (\<lambda>(ctx, cache).
       with_cache cache (after_discovery r cl quay updated bundle ctx)))"

definition Reconcile ::
  "'w Reconciler \<Rightarrow> 'w Client \<Rightarrow> NamespacedName \<Rightarrow> RouteCache \<Rightarrow> ('w, outcome \<times> RouteCache, 'a) step" where
  "Reconcile r cl req cache =
     go_on (with_cache cache (load_quay cl req)) (\<lambda>quay. reconcile_quay r cl quay cache)"

end
