(* ===== verification/Controller_Laws.thy ===== *)
theory Controller_Laws
  imports Reconcile
begin

text \<open>
  Lemmas about the controller: which writes each step attempts (for every client, through the log), how
  the steps treat the status, and when a stage is passed.
\<close>

section \<open>The writes of the feature checks\<close>

fun feature_write :: "cluster_write \<Rightarrow> bool" where
  "feature_write (Updated (OConfigMap _)) = True"
| "feature_write (Updated (ODeployment _)) = True"
| "feature_write (Patched (OSecret _)) = True"
| "feature_write (Created (ORoute _)) = True"
| "feature_write (Deleted (ORoute _)) = True"
| "feature_write _ = False"

fun_cases feature_writeE: "feature_write wr"

lemma emits_track_ca [emits_intros]:
  assumes "\<And>cm. P (Updated (OConfigMap cm))"
  shows "emits P (track_ca env (logged cl) quay caName key)"
  by (rule emitsI) (use assms in \<open>auto simp: track_ca_def log_write_def Let_def
      split: sum.split prod.split option.split\<close>)

lemma emits_checkClusterCAHash [emits_intros]:
  assumes "\<And>cm. P (Updated (OConfigMap cm))"
  shows "emits P (checkClusterCAHash env (logged cl) ctx quay)"
proof -
  let ?t = "track_ca env (logged cl) quay"
  have track: "emits P (?t n k)" for n k
    using assms by (rule emits_track_ca)
  show ?thesis
  proof (rule emitsI)
    fix w l
    obtain a w1 l1 where 1: "?t ClusterServiceCAName ''service-ca.crt'' (w, l) = (a, w1, l1)"
      by (metis prod_cases3)
    obtain b w2 l2 where 2: "?t ClusterTrustedCAName ''ca-bundle.crt'' (w1, l1) = (b, w2, l2)"
      by (metis prod_cases3)
    obtain ws vs where "l1 = l @ ws" "list_all P ws" "l2 = l1 @ vs" "list_all P vs"
      using emitsD [OF track, of _ _ w l] emitsD [OF track, of _ _ w1 l1] 1 2 by (metis snd_conv)
    with 1 2 show "\<exists>ws. snd (snd (checkClusterCAHash env (logged cl) ctx quay (w, l))) = l @ ws \<and> list_all P ws"
      by (cases a; cases b) (auto simp: checkClusterCAHash_def Let_def)
  qed
qed

lemma emits_checkExternalTLSSecret [emits_intros]:
  assumes "\<And>s. P (Patched (OSecret s))"
  shows "emits P (checkExternalTLSSecret env (logged cl) ctx quay bundle)"
  by (rule emitsI) (use assms in \<open>auto simp: checkExternalTLSSecret_def label_external_secret_def log_write_def
      split: sum.split prod.split option.split\<close>)

text \<open>A check whose result is a triple: the same rule for the world it leaves.\<close>

lemma emits_ensureRouteDiscovery:
  assumes "\<And>rt. P (Created (ORoute rt))" and "\<And>rt. P (Deleted (ORoute rt))"
  shows "emits P (\<lambda>s. case ensureRouteDiscovery env (logged cl) ctx quay cache s of (a, c, s') \<Rightarrow> ((a, c), s'))"
  by (rule emitsI) (use assms in \<open>auto simp: ensureRouteDiscovery_def discover_from_def log_write_def Let_def
      split: sum.split prod.split option.split list.split\<close>)

lemma emits_checkNeedsPostgresUpgrade [emits_intros]:
  assumes "\<And>dep. P (Updated (ODeployment dep))"
  shows "emits P (\<lambda>s. case checkNeedsPostgresUpgradeForComponent env (logged cl) ctx quay component s of
           (a, c, s') \<Rightarrow> ((a, c), s'))"
  by (rule emitsI) (use assms in \<open>auto simp: checkNeedsPostgresUpgradeForComponent_def scale_down_database_def
      log_write_def Let_def split: sum.split prod.split option.split list.split\<close>)

section \<open>The writes of the status steps\<close>

abbreviation condition_of :: "ConditionType \<Rightarrow> ConditionStatus \<Rightarrow> ConditionReason \<Rightarrow> string \<Rightarrow> Time \<Rightarrow> Time \<Rightarrow> Condition" where
  "condition_of ty st rs msg u t \<equiv> \<lparr>c_Type = ty, c_Status = st, c_Reason = rs, c_Message = msg,
     c_LastUpdateTime = u, c_LastTransitionTime = t\<rparr>"

lemma emits_updateWithCondition:
  assumes "\<And>u t n. P (StatusUpdated (touch_status (condition_of ctype cstatus reason msg u t) n quay))"
  shows "emits P (updateWithCondition (logged cl) quay ctype cstatus reason msg)"
  unfolding updateWithCondition_def Let_def using assms
  by (intro emits_go_on emits_call emits_quiet emits_leave) (simp add: emits_log)

lemma emits_reconcileWithCondition:
  assumes "\<And>u t n. P (StatusUpdated (touch_status (condition_of ctype cstatus reason msg u t) n quay))"
  shows "emits P (reconcileWithCondition (logged cl) quay ctype cstatus reason msg)"
  unfolding reconcileWithCondition_def using assms
  by (intro emits_go_on emits_updateWithCondition) (auto intro: emits_leave)

lemma emits_set_condition_and_requeue:
  assumes "\<And>u t n. P (StatusUpdated (touch_status (condition_of ctype cstatus reason msg u t) n quay))"
  shows "emits P (set_condition_and_requeue (logged cl) quay ctype cstatus reason msg)"
  unfolding set_condition_and_requeue_def using assms
  by (intro emits_go_on emits_updateWithCondition) (auto intro: emits_leave)

lemma emits_block_rollout:
  assumes "\<And>u t n. P (StatusUpdated (touch_status (condition_of ConditionTypeRolloutBlocked ConditionTrue reason msg u t) n quay))"
  shows "emits P (block_rollout (logged cl) quay reason msg)"
  unfolding block_rollout_def using assms by (rule emits_reconcileWithCondition)

lemma emits_invalid_config:
  assumes "\<And>m u t n. P (StatusUpdated (touch_status (condition_of ConditionTypeRolloutBlocked ConditionTrue ReasonConfigInvalid m u t) n quay))"
  shows "emits P (invalid_config (logged cl) quay prefix err)"
  unfolding invalid_config_def using assms by (rule emits_block_rollout)

lemma emits_report_success:
  assumes "\<And>u t. P (StatusUpdated (set_conditions (SetCondition (qr_Conditions quay) (success_condition u t)) quay))"
  shows "emits P (report_success (logged cl) quay)"
  unfolding report_success_def
  by (intro emits_go_on emits_call emits_quiet emits_leave) (simp add: emits_log assms)

lemma emits_attempt [emits_intros]: "(\<And>e. emits P (h e)) \<Longrightarrow> emits P f \<Longrightarrow> emits P (attempt h f)"
  unfolding attempt_def by (intro emits_intros) auto

text \<open>How a block keeps what the phases of a registry depend on.\<close>

lemma touch_status_simps [simp]:
  "qr_Meta (touch_status c n q) = qr_Meta q"
  "qr_Spec (touch_status c n q) = qr_Spec q"
  "st_CurrentVersion (qr_Status (touch_status c n q)) = st_CurrentVersion (qr_Status q)"
  "qr_Conditions (touch_status c n q) = SetCondition (qr_Conditions q) c"
  by (simp_all add: touch_status_def)

lemma set_version_simps [simp]:
  "qr_Meta (set_version v q) = qr_Meta q"
  "qr_Spec (set_version v q) = qr_Spec q"
  "st_CurrentVersion (qr_Status (set_version v q)) = v"
  "qr_Conditions (set_version v q) = qr_Conditions q"
  by (simp_all add: set_version_def)

lemma set_observed_simps [simp]:
  "qr_Meta (set_observed q) = qr_Meta q"
  "qr_Spec (set_observed q) = qr_Spec q"
  "st_CurrentVersion (qr_Status (set_observed q)) = st_CurrentVersion (qr_Status q)"
  "qr_Conditions (set_observed q) = qr_Conditions q"
  by (simp_all add: set_observed_def)

lemma observed_tests [simp]:
  "FlaggedForDeletion (set_observed q) = FlaggedForDeletion q"
  "PostgresUpgradeRunning (set_observed q) = PostgresUpgradeRunning q"
  "MigrationsRunning (set_observed q) = MigrationsRunning q"
  "NeedsBundleSecret (set_observed q) = NeedsBundleSecret q"
  "ContainsFinalizer (set_observed q) f = ContainsFinalizer q f"
  by (simp_all add: FlaggedForDeletion_def PostgresUpgradeRunning_def MigrationsRunning_def
      NeedsBundleSecret_def ContainsFinalizer_def)

lemma finalizer_simps [simp]:
  "qr_Status (set_finalizers fs q) = qr_Status q"
  "qr_Spec (set_finalizers fs q) = qr_Spec q"
  "om_Finalizers (qr_Meta (set_finalizers fs q)) = fs"
  by (simp_all add: set_finalizers_def)

lemma ContainsFinalizer_laws [simp]:
  "\<not> ContainsFinalizer (RemoveFinalizer q f) f"
  "ContainsFinalizer (AddFinalizer q f) f"
  by (simp_all add: ContainsFinalizer_def RemoveFinalizer_def AddFinalizer_def)

text \<open>A condition about the rollout leaves the tests on the created components alone.\<close>

lemma rollout_condition_tests:
  assumes "c_Type c \<noteq> ConditionComponentsCreated"
  shows "MigrationsRunning (touch_status c n q) = MigrationsRunning q"
    and "PostgresUpgradeRunning (touch_status c n q) = PostgresUpgradeRunning q"
  using assms by (auto simp: MigrationsRunning_def PostgresUpgradeRunning_def)

lemma created_condition_tests:
  assumes "c_Type c = ConditionComponentsCreated"
  shows "MigrationsRunning (touch_status c n q) = (c_Reason c = ReasonMigrationsInProgress)"
    and "PostgresUpgradeRunning (touch_status c n q) =
      (c_Reason c = ReasonPostgresUpgradeInProgress \<or> c_Reason c = ReasonPostgresUpgradeFailed)"
  using assms by (auto simp: MigrationsRunning_def PostgresUpgradeRunning_def)

lemma set_conditions_tests:
  "c_Type c = ConditionComponentsCreated \<Longrightarrow>
     MigrationsRunning (set_conditions (SetCondition cs c) q) = (c_Reason c = ReasonMigrationsInProgress)"
  "c_Type c = ConditionComponentsCreated \<Longrightarrow>
     PostgresUpgradeRunning (set_conditions (SetCondition cs c) q) =
       (c_Reason c = ReasonPostgresUpgradeInProgress \<or> c_Reason c = ReasonPostgresUpgradeFailed)"
  by (auto simp: MigrationsRunning_def PostgresUpgradeRunning_def)

lemma clear_block_tests [simp]:
  "MigrationsRunning (clear_block q) = MigrationsRunning q"
  "PostgresUpgradeRunning (clear_block q) = PostgresUpgradeRunning q"
  "qr_Meta (clear_block q) = qr_Meta q"
  "qr_Spec (clear_block q) = qr_Spec q"
  "st_CurrentVersion (qr_Status (clear_block q)) = st_CurrentVersion (qr_Status q)"
  by (simp_all add: MigrationsRunning_def PostgresUpgradeRunning_def clear_block_def)

section \<open>The logged reconciler\<close>

text \<open>The same reconciler over the world with a log: its random source does not touch the log.\<close>

definition logged_config :: "'w KustomizeEnv \<Rightarrow> ('w \<times> cluster_write list) KustomizeEnv" where
  "logged_config env = \<lparr>ke_Middleware = ke_Middleware env, ke_Getenv = ke_Getenv env,
     ke_Rand = (\<lambda>n s. case ke_Rand env n (fst s) of (b, w') \<Rightarrow> (b, w', snd s)),
     ke_Decode = ke_Decode env, ke_EncodeGroup = ke_EncodeGroup env, ke_MarshalYaml = ke_MarshalYaml env,
     ke_NewSecurityScanner = ke_NewSecurityScanner env, ke_NewRedis = ke_NewRedis env,
     ke_NewDatabase = ke_NewDatabase env, ke_Fields = ke_Fields env, ke_ClairConn = ke_ClairConn env,
     ke_ClairKey = ke_ClairKey env, ke_DatabaseUri = ke_DatabaseUri env, ke_ParseURL = ke_ParseURL env,
     ke_ValidCertPair = ke_ValidCertPair env\<rparr>"

definition logged_inflate :: "'w InflateEnv \<Rightarrow> ('w \<times> cluster_write list) InflateEnv" where
  "logged_inflate env = \<lparr>ie_Config = logged_config (ie_Config env), ie_Version = ie_Version env,
     ie_Dir = ie_Dir env, ie_BaseFiles = ie_BaseFiles env, ie_WriteFile = ie_WriteFile env,
     ie_MarshalKustomization = ie_MarshalKustomization env, ie_Run = ie_Run env,
     ie_UnmarshalObject = ie_UnmarshalObject env, ie_Proxy = ie_Proxy env, ie_Visit = ie_Visit env\<rparr>"

definition logged_reconciler :: "'w Reconciler \<Rightarrow> ('w \<times> cluster_write list) Reconciler" where
  "logged_reconciler r = \<lparr>rr_Version = rr_Version r, rr_WatchNamespace = rr_WatchNamespace r,
     rr_SkipResourceRequests = rr_SkipResourceRequests r, rr_SupportsRoutes = rr_SupportsRoutes r,
     rr_LookupEnv = rr_LookupEnv r, rr_Features = rr_Features r, rr_Inflate = logged_inflate (rr_Inflate r),
     rr_SetJSON = rr_SetJSON r, rr_ConvertHpa = rr_ConvertHpa r\<rparr>"

lemma logged_reconciler_simps [simp]:
  "rr_Version (logged_reconciler r) = rr_Version r"
  "rr_WatchNamespace (logged_reconciler r) = rr_WatchNamespace r"
  "rr_SkipResourceRequests (logged_reconciler r) = rr_SkipResourceRequests r"
  "rr_SupportsRoutes (logged_reconciler r) = rr_SupportsRoutes r"
  "rr_LookupEnv (logged_reconciler r) = rr_LookupEnv r"
  "rr_Features (logged_reconciler r) = rr_Features r"
  "rr_Inflate (logged_reconciler r) = logged_inflate (rr_Inflate r)"
  "rr_SetJSON (logged_reconciler r) = rr_SetJSON r"
  "rr_ConvertHpa (logged_reconciler r) = rr_ConvertHpa r"
  "ie_Config (logged_inflate env) = logged_config (ie_Config env)"
  by (simp_all add: logged_reconciler_def logged_inflate_def)

lemma generateRandomString_quiet:
  "generateRandomString (logged_config env) n (w, l) = (x, w', l') \<Longrightarrow> l' = l"
  by (auto simp: generateRandomString_def generateRandomBytes_def logged_config_def split: prod.splits sum.splits)

lemma settle_key_quiet: "settle_key (logged_config env) cfg n c (w, l) = (x, w', l') \<Longrightarrow> l' = l"
  by (auto simp: settle_key_def split: option.splits if_splits dest: generateRandomString_quiet)

lemma settle_db_uri_quiet: "settle_db_uri (logged_config env) cfg ctx quay (w, l) = (x, w', l') \<Longrightarrow> l' = l"
  by (auto simp: settle_db_uri_def Let_def split: option.splits if_splits prod.splits sum.splits
      dest: generateRandomString_quiet)

lemma settle_config_quiet: "settle_config (logged_config env) cfg ctx quay (w, l) = (x, w', l') \<Longrightarrow> l' = l"
  by (auto simp: settle_config_def Let_def split: sum.splits prod.splits
      dest!: settle_key_quiet settle_db_uri_quiet)

lemma FieldGroupFor_quiet: "FieldGroupFor (logged_config env) ctx k quay (w, l) = (x, c, w', l') \<Longrightarrow> l' = l"
  by (auto simp: FieldGroupFor_def clair_field_group_def Let_def split: sum.splits prod.splits if_splits
      ComponentKind.splits dest!: generateRandomString_quiet)

lemma add_field_groups_quiet:
  "add_field_groups (logged_config env) quay cs files ctx (w, l) = (x, w', l') \<Longrightarrow> l' = l"
proof (induction cs arbitrary: files ctx w l)
  case Nil
  then show ?case by simp
next
  case (Cons c cs)
  then show ?case
    by (auto split: if_splits sum.splits prod.splits dest!: FieldGroupFor_quiet)
qed

lemma KustomizationFor_quiet:
  "KustomizationFor (logged_inflate env) ctx quay files overlay (w, l) = (x, w', l') \<Longrightarrow> l' = l"
  by (auto simp: KustomizationFor_def ensure_clair_credentials_def ensure_root_password_def
      split: sum.splits prod.splits if_splits dest!: generateRandomString_quiet)

lemma Inflate_quiet: "Inflate (logged_inflate env) ctx quay b skip (w, l) = (x, w', l') \<Longrightarrow> l' = l"
  by (auto simp: Inflate_def Let_def split: sum.splits prod.splits
      dest!: settle_config_quiet add_field_groups_quiet KustomizationFor_quiet)

lemma emits_Inflate [emits_intros]: "emits P (Inflate (logged_inflate env) ctx quay b skip)"
proof (rule emitsI)
  fix w l
  obtain x w' l' where "Inflate (logged_inflate env) ctx quay b skip (w, l) = (x, w', l')"
    by (metis prod_cases3)
  with Inflate_quiet [OF this] show "\<exists>ws. snd (snd (Inflate (logged_inflate env) ctx quay b skip (w, l))) = l @ ws \<and> list_all P ws"
    by simp
qed

end
