(* ===== verification/Context_Laws.thy ===== *)
theory Context_Laws
  imports Controller_Laws
begin

text \<open>
  What the stages hand on: a predicate on the value a step continues with, and the field of the context that
  says monitoring is available, which only the check for it sets.
\<close>

section \<open>The cache around a step\<close>

lemma emits_with_cache [emits_intros]: "emits P m \<Longrightarrow> emits P (with_cache c m)"
proof -
  assume m: "emits P m"
  have "with_cache c m = (\<lambda>s. case m s of (y, s') \<Rightarrow>
      (\<lambda>s. ((case y of Inl x \<Rightarrow> Inl (x, c) | Inr a \<Rightarrow> Inr a), s)) s')"
    by (rule ext) (simp add: with_cache_def split: prod.split sum.split)
  then show ?thesis using emits_bind [OF m, of "\<lambda>y s. ((case y of Inl x \<Rightarrow> Inl (x, c) | Inr a \<Rightarrow> Inr a), s)"]
    by (simp add: emits_pure)
qed

lemma with_cache_Inr: "with_cache c m s = (Inr a, s') \<longleftrightarrow> m s = (Inr a, s')"
  by (auto simp: with_cache_def split: prod.splits sum.splits)

lemma snd_with_cache [simp]: "snd (with_cache c m s) = snd (m s)"
  by (simp add: with_cache_def split: prod.split sum.split)

lemma returns_with_cache [simp]: "returns (with_cache c m) a = returns m a"
  by (simp add: returns_def with_cache_Inr)

text \<open>A step that does nothing, as the simplifier writes it.\<close>

lemma emits_Pair [emits_intros]: "emits P (Pair a)"
  by (rule emitsI) simp

lemma returns_Pair [simp]: "returns (Pair (Inr b)) a = (a = b)" "returns (Pair (Inl x)) a = False"
  by (auto simp: returns_def)

section \<open>Values handed on\<close>

definition hands_on :: "('a \<Rightarrow> bool) \<Rightarrow> ('w, 'x, 'a) step \<Rightarrow> bool" where
  "hands_on Q m \<longleftrightarrow> (\<forall>a. returns m a \<longrightarrow> Q a)"

lemma hands_on_leave [simp]: "hands_on Q (leave x)"
  by (simp add: hands_on_def)

lemma hands_on_pass [simp]: "hands_on Q (pass a) = Q a"
  by (simp add: hands_on_def)

lemma hands_on_go_on:
  assumes "hands_on R m" and "\<And>a. R a \<Longrightarrow> hands_on Q (k a)"
  shows "hands_on Q (go_on m k)"
  using assms by (auto simp: hands_on_def dest!: returns_go_on)

lemma emits_go_on_hands:
  assumes "emits P m" and "hands_on Q m" and "\<And>a. Q a \<Longrightarrow> emits P (k a)"
  shows "emits P (go_on m k)"
  by (rule emits_go_on_returns [OF assms(1)]) (use assms(2,3) in \<open>simp add: hands_on_def\<close>)

lemma hands_on_both: "hands_on Q m \<Longrightarrow> hands_on R m \<Longrightarrow> hands_on (\<lambda>a. Q a \<and> R a) m"
  by (simp add: hands_on_def)

lemma hands_on_any: "hands_on (\<lambda>_. True) m"
  by (simp add: hands_on_def)

lemma hands_on_block [simp]: "hands_on Q (block_rollout cl quay rs msg)"
  by (auto simp: hands_on_def block_rollout_def reconcileWithCondition_def dest!: returns_go_on)

lemma hands_on_invalid [simp]: "hands_on Q (invalid_config cl quay prefix err)"
  by (simp add: invalid_config_def)

lemma hands_on_look: "(\<And>w. Q (f w)) \<Longrightarrow> hands_on Q (look f)"
  by (auto simp: hands_on_def dest!: returns_look)

lemma hands_on_call: "(\<And>w. Q (fst (f w))) \<Longrightarrow> hands_on Q (call f)"
  by (auto simp: hands_on_def returns_def call_simp split: prod.splits)

lemma hands_on_error:
  assumes "\<And>e. hands_on Q (h e)" and "\<And>a. res = Inr a \<Longrightarrow> Q a"
  shows "hands_on Q (on_error h res)"
  using assms by (auto simp: hands_on_def on_error_def split: sum.splits go_error.splits)

lemma hands_on_attempt:
  assumes "\<And>e. hands_on Q (h e)" and "\<And>w a w'. f w = (Inr a, w') \<Longrightarrow> Q a"
  shows "hands_on Q (attempt h f)"
  unfolding attempt_def
proof (rule hands_on_go_on [of "\<lambda>res. \<forall>a. res = Inr a \<longrightarrow> Q a"])
  show "hands_on (\<lambda>res. \<forall>a. res = Inr a \<longrightarrow> Q a) (call f)"
    using assms(2) by (intro hands_on_call) (metis prod.collapse)
qed (use assms(1) in \<open>auto intro: hands_on_error\<close>)

lemma hands_on_with_cache [simp]: "hands_on Q (with_cache c m) = hands_on Q m"
  by (simp add: hands_on_def)

section \<open>Monitoring\<close>

lemma monitoring_features:
  "SupportsMonitoring (populate_keys s ctx) = SupportsMonitoring ctx"
  "SupportsMonitoring (checkManagedTLS ctx b) = SupportsMonitoring ctx"
  "SupportsMonitoring (fillServerHostname ctx q) = SupportsMonitoring ctx"
  "SupportsMonitoring (checkManagedDatabaseReady rd ctx q) = SupportsMonitoring ctx"
  "SupportsMonitoring (mark_upgrade k ctx) = SupportsMonitoring ctx"
  "SupportsMonitoring (snd (read_datastore rd ctx n)) = SupportsMonitoring ctx"
  "SupportsMonitoring (fst (discover_from env cl ctx cache rt ing w)) = SupportsMonitoring ctx"
  by (simp_all add: populate_keys_def checkManagedTLS_def fillServerHostname_def checkManagedDatabaseReady_def
      mark_upgrade_def read_datastore_def discover_from_def Let_def split: sum.split)

lemma monitoring_checks:
  "checkExternalTLSSecret env cl ctx q b w = (Inr ctx', w') \<Longrightarrow> SupportsMonitoring ctx' = SupportsMonitoring ctx"
  "checkClusterCAHash env cl ctx q w = (Inr ctx', w') \<Longrightarrow> SupportsMonitoring ctx' = SupportsMonitoring ctx"
  "checkManagedKeys cl w ctx q = Inr ctx' \<Longrightarrow> SupportsMonitoring ctx' = SupportsMonitoring ctx"
  "parseServerHostname env ctx b = Inr ctx' \<Longrightarrow> SupportsMonitoring ctx' = SupportsMonitoring ctx"
  "checkBuildManagerAvailable env ctx b = Inr ctx' \<Longrightarrow> SupportsMonitoring ctx' = SupportsMonitoring ctx"
  "checkTLSSecurityProfile env cl w ctx b = Inr ctx' \<Longrightarrow> SupportsMonitoring ctx' = SupportsMonitoring ctx"
  by (auto simp: checkExternalTLSSecret_def checkClusterCAHash_def checkManagedKeys_def checkDeprecatedManagedKeys_def
      parseServerHostname_def checkBuildManagerAvailable_def checkTLSSecurityProfile_def Let_def and_then_Inr_iff
      monitoring_features split: option.splits sum.splits prod.splits if_splits)

lemma monitoring_of_storage: "SupportsMonitoring (snd (checkObjectBucketClaimsAvailable cl w ctx q)) = SupportsMonitoring ctx"
  by (simp add: checkObjectBucketClaimsAvailable_def Let_def monitoring_features split: sum.split)

lemma monitoring_of_discovery:
  "fst (ensureRouteDiscovery env cl ctx q cache w) = Inr ctx' \<Longrightarrow> SupportsMonitoring ctx' = SupportsMonitoring ctx"
  by (auto simp: ensureRouteDiscovery_def Let_def split: option.splits prod.splits sum.splits if_splits list.splits)
    (metis monitoring_features(7) fst_conv)+

lemma monitoring_of_upgrade:
  "SupportsMonitoring (fst (snd (checkNeedsPostgresUpgradeForComponent env cl ctx q k w))) = SupportsMonitoring ctx"
  by (auto simp: checkNeedsPostgresUpgradeForComponent_def monitoring_features
      split: option.split sum.split list.split prod.split)

lemma monitoring_of_check:
  "checkMonitoringAvailable cl w ns ctx = Inr ctx' \<Longrightarrow> ns = ''''"
  by (auto simp: checkMonitoringAvailable_def split: if_splits)

lemma monitoring_of_field_group:
  "FieldGroupFor env ctx k q w = (res, ctx', w') \<Longrightarrow> SupportsMonitoring ctx' = SupportsMonitoring ctx"
  by (auto simp: FieldGroupFor_def clair_field_group_def Let_def split: ComponentKind.splits sum.splits prod.splits if_splits)

lemma monitoring_of_field_groups:
  "add_field_groups env q cs fs ctx w = (Inr (fs', ctx'), w') \<Longrightarrow> SupportsMonitoring ctx' = SupportsMonitoring ctx"
  by (induction cs arbitrary: fs ctx w)
    (auto dest!: monitoring_of_field_group split: if_splits sum.splits prod.splits)

lemma monitoring_of_Kustomization:
  "KustomizationFor env ctx q fs ov w = (Inr (kz, ctx'), w') \<Longrightarrow> SupportsMonitoring ctx' = SupportsMonitoring ctx"
  by (auto simp: KustomizationFor_def ensure_clair_credentials_def ensure_root_password_def and_then_Inr_iff
      split: sum.splits prod.splits if_splits)

lemma monitoring_of_config:
  "settle_config env cfg ctx q w = (Inr (m, ctx', changed), w') \<Longrightarrow> SupportsMonitoring ctx' = SupportsMonitoring ctx"
  by (auto simp: settle_config_def Let_def split: sum.splits prod.splits)

lemma monitoring_of_Inflate:
  "Inflate env ctx q b skip w = (Inr (objs, ctx'), w') \<Longrightarrow> SupportsMonitoring ctx' = SupportsMonitoring ctx"
  by (auto simp: Inflate_def Let_def and_then_Inr_iff dest!: monitoring_of_field_groups monitoring_of_Kustomization
      monitoring_of_config split: sum.splits prod.splits)

text \<open>Monitoring is on only in an operator that watches all namespaces.\<close>

definition watches :: "'w Reconciler \<Rightarrow> QuayRegistryContext \<Rightarrow> bool" where
  "watches r ctx \<longleftrightarrow> (SupportsMonitoring ctx \<longrightarrow> rr_WatchNamespace r = '''')"

lemma watches_logged [simp]: "watches (logged_reconciler r) ctx = watches r ctx"
  by (simp add: watches_def)

lemma watches_same: "SupportsMonitoring ctx' = SupportsMonitoring ctx \<Longrightarrow> watches r ctx \<Longrightarrow> watches r ctx'"
  by (simp add: watches_def)

lemma watches_new [simp, intro]: "watches r NewQuayRegistryContext"
  by (simp add: watches_def NewQuayRegistryContext_def)

lemma watches_simps [simp]:
  "watches r (checkManagedTLS ctx b) = watches r ctx"
  "watches r (fillServerHostname ctx q) = watches r ctx"
  "watches r (checkManagedDatabaseReady rd ctx q) = watches r ctx"
  "watches r (ctx\<lparr>SupportsRoutes := True\<rparr>) = watches r ctx"
  by (simp_all add: watches_def monitoring_features)

lemmas watches_steps = monitoring_checks [THEN watches_same] monitoring_of_discovery [THEN watches_same]
  monitoring_of_Inflate [THEN watches_same]

lemma check_bundle_watches: "hands_on (\<lambda>(_, ctx). watches r ctx) (check_bundle r cl quay updated)"
  unfolding check_bundle_def Let_def
  by (rule hands_on_go_on [OF hands_on_any] hands_on_go_on [of "watches r"] hands_on_attempt hands_on_error
      hands_on_invalid | (fastforce intro: watches_steps simp del: watches_simps(2-)))+

lemma discover_watches:
  assumes "watches r ctx"
  shows "hands_on (\<lambda>(ctx', _). watches r ctx') (discover r cl quay updated ctx cache)"
proof -
  let ?ctx = "ctx\<lparr>SupportsRoutes := True\<rparr>"
  have ctx: "watches r ?ctx"
    using assms by simp
  have found: "hands_on (\<lambda>(found, _). \<forall>c. found = Inr c \<longrightarrow> watches r c)
      (call (\<lambda>w. case ensureRouteDiscovery (rr_Features r) cl ?ctx updated cache w of
         (found, cache, w) \<Rightarrow> ((found, cache), w)))"
  proof (rule hands_on_call)
    fix w
    show "case fst (case ensureRouteDiscovery (rr_Features r) cl ?ctx updated cache w of
        (found, cache, w) \<Rightarrow> ((found, cache), w)) of (found, _) \<Rightarrow> \<forall>c. found = Inr c \<longrightarrow> watches r c"
      using monitoring_of_discovery [of "rr_Features r" cl ?ctx updated cache w] ctx
      by (auto simp: watches_def split: prod.split)
  qed
  show ?thesis
    unfolding discover_def Let_def using assms ctx
    by (auto intro!: hands_on_go_on [OF found] hands_on_go_on [of "watches r"] hands_on_error)
qed

lemma upgrade_gate_watches:
  assumes "watches r ctx"
  shows "hands_on (watches r) (upgrade_gate r cl quay updated k ctx)"
proof -
  have checked: "hands_on (\<lambda>(_, ctx). watches r ctx) (call (\<lambda>w.
      case checkNeedsPostgresUpgradeForComponent (rr_Features r) cl ctx updated k w of (res, ctx, w) \<Rightarrow> ((res, ctx), w)))"
  proof (rule hands_on_call)
    fix w
    show "case fst (case checkNeedsPostgresUpgradeForComponent (rr_Features r) cl ctx updated k w of
        (res, ctx, w) \<Rightarrow> ((res, ctx), w)) of (_, ctx) \<Rightarrow> watches r ctx"
      using monitoring_of_upgrade [of "rr_Features r" cl ctx updated k w] assms
      by (auto simp: watches_def split: prod.split)
  qed
  have rest: "hands_on (watches r) (go_on (on_error h res) (\<lambda>_. if \<not> b then leave x else pass c))" if "watches r c" for h res b x c
    using that by (auto intro!: hands_on_go_on [OF hands_on_any])
  show ?thesis
    unfolding upgrade_gate_def using assms by (auto intro!: hands_on_go_on [OF checked] rest)
qed

lemma check_monitoring_watches:
  "watches r ctx \<Longrightarrow> hands_on (\<lambda>checked. \<forall>c. checked = Inr c \<longrightarrow> watches r c)
     (look (\<lambda>w. checkMonitoringAvailable cl w (rr_WatchNamespace r) ctx))"
  by (rule hands_on_look) (auto simp: watches_def dest: monitoring_of_check)

lemma complete_context_watches:
  assumes "watches r ctx"
  shows "hands_on (watches r) (complete_context r cl quay updated b ctx)"
proof -
  have storage: "hands_on (\<lambda>(_, ctx). watches r ctx)
      (look (\<lambda>w. checkObjectBucketClaimsAvailable cl w (fillServerHostname ctx updated) updated))"
    using assms by (intro hands_on_look) (simp add: watches_def monitoring_of_storage monitoring_features case_prod_beta)
  have rest: "hands_on (watches r) (go_on (look (\<lambda>w. checkMonitoringAvailable cl w (rr_WatchNamespace r) c)) (\<lambda>checked.
      case checked of Inr ctx \<Rightarrow> pass ctx | Inl err \<Rightarrow> if m then block_rollout cl quay rs (msg @ error_text err) else pass c))"
    if "watches r c" for c m rs msg
    using that by (auto intro!: hands_on_go_on [OF check_monitoring_watches] split: sum.split)
  have tls: "hands_on (watches r) (if m then pass c else attempt (invalid_config cl quay p)
      (\<lambda>w. (checkTLSSecurityProfile (rr_Features r) cl w c b, w)))" if "watches r c" for c m p
    using that by (auto intro!: hands_on_attempt intro: watches_steps)
  have build: "hands_on (watches r) (on_error (invalid_config cl quay p) (checkBuildManagerAvailable (rr_Features r) c b))"
    if "watches r c" for c p
    using that by (auto intro!: hands_on_error intro: watches_steps)
  have ready: "hands_on (watches r) (look (\<lambda>w. checkManagedDatabaseReady (cl_Reader cl w) c updated))"
    if "watches r c" for c
    using that by (intro hands_on_look) simp
  show ?thesis
    unfolding complete_context_def Let_def
    by (rule hands_on_go_on [OF storage], clarify, rule hands_on_go_on [OF hands_on_any])
      (intro hands_on_go_on [OF upgrade_gate_watches] hands_on_go_on [OF ready] hands_on_go_on [OF build]
        hands_on_go_on [OF tls] rest, assumption+)
qed

lemma render_watches:
  assumes "watches r ctx"
  shows "hands_on (\<lambda>(_, _, ctx'). watches r ctx') (render r cl quay updated b ctx)"
proof -
  have inflated: "hands_on (\<lambda>(_, ctx'). watches r ctx') (attempt h (Inflate (rr_Inflate r) ctx q b skip))"
    if "\<And>e. hands_on (\<lambda>(_, ctx'). watches r ctx') (h e)" for h q skip
    using that assms by (auto intro!: hands_on_attempt intro: watches_steps)
  show ?thesis
    unfolding render_def
    by (rule hands_on_go_on [OF hands_on_any], rule hands_on_go_on [OF hands_on_any],
        rule hands_on_go_on [OF inflated]) auto
qed

end
