(* ===== verification/Write_Policy.thy ===== *)
theory Write_Policy
  imports Context_Laws
begin

text \<open>
  What a rollout may write, stated once. A registry is \<open>derived\<close> from the stored one when only its
  spec, its endpoint, its observed generation and its rollout condition may differ. The locale
  \<open>status_policy\<close> takes a predicate on writes that admits a status; \<open>gate_policy\<close> extends it to what the
  stages before the loop over the objects need, \<open>cleanup_policy\<close> and \<open>label_policy\<close> to what the stages after it
  need, \<open>rollout_policy\<close> adds the loop, and \<open>write_policy\<close> joins them all. Each proves that its stages write nothing else, for every
  client; each safety property of the loop is an interpretation of one of them.
\<close>

section \<open>Derived registries\<close>

definition derived :: "QuayRegistry \<Rightarrow> QuayRegistry \<Rightarrow> bool" where
  "derived quay q \<longleftrightarrow> qr_Meta q = qr_Meta quay \<and>
     st_CurrentVersion (qr_Status q) = st_CurrentVersion (qr_Status quay) \<and>
     GetCondition (qr_Conditions q) ConditionComponentsCreated =
       GetCondition (qr_Conditions quay) ConditionComponentsCreated"

lemma derived_refl [simp]: "derived q q"
  by (simp add: derived_def)

lemma derived_steps:
  "derived quay (set_observed q) = derived quay q"
  "derived quay (clear_block q) = derived quay q"
  "derived quay (set_components cs q) = derived quay q"
  "derived quay (set_endpoint e q) = derived quay q"
  "c_Type c \<noteq> ConditionComponentsCreated \<Longrightarrow> derived quay (touch_status c n q) = derived quay q"
  by (auto simp: derived_def clear_block_def set_components_def set_endpoint_def)

lemma derived_tests:
  assumes "derived quay q"
  shows "FlaggedForDeletion q = FlaggedForDeletion quay"
    and "PostgresUpgradeRunning q = PostgresUpgradeRunning quay"
    and "MigrationsRunning q = MigrationsRunning quay"
    and "st_CurrentVersion (qr_Status q) = st_CurrentVersion (qr_Status quay)"
  using assms by (auto simp: derived_def FlaggedForDeletion_def PostgresUpgradeRunning_def MigrationsRunning_def)

lemma EnsureDefaultComponents_derived:
  "EnsureDefaultComponents ctx q = Inr q' \<Longrightarrow> derived quay q \<Longrightarrow> derived quay q'"
  by (auto simp: EnsureDefaultComponents_Inr derived_steps)

lemma EnsureRegistryEndpoint_derived:
  "EnsureRegistryEndpoint ctx q cfg = Inr (b, q') \<Longrightarrow> derived quay q \<Longrightarrow> derived quay q'"
  by (auto simp: EnsureRegistryEndpoint_def Let_def and_then_Inr_iff derived_steps split: option.splits if_splits)

section \<open>The policy of a rollout\<close>

locale status_policy =
  fixes P :: "cluster_write \<Rightarrow> bool"
    and quay :: QuayRegistry
  assumes status: "derived quay q \<Longrightarrow> P (StatusUpdated q)"
begin

lemma block: "derived quay q \<Longrightarrow> emits P (block_rollout (logged cl) q reason msg)"
  by (intro emits_block_rollout status) (simp add: derived_steps)

lemma invalid: "derived quay q \<Longrightarrow> emits P (invalid_config (logged cl) q prefix err)"
  unfolding invalid_config_def by (rule block)

end

text \<open>The stages before the loop over the objects.\<close>

locale gate_policy = status_policy +
  assumes features: "feature_write wr \<Longrightarrow> P wr"
    and registry: "derived quay q \<Longrightarrow> P (QuayUpdated q)"
    and first_bundle: "spec_ConfigBundleSecret (qr_Spec quay) = '''' \<Longrightarrow> derived quay q \<Longrightarrow> P (QuayUpdated (set_bundle_name nm q))"
    and created: "P (Created (OSecret s))"
begin

lemma check_bundle: "emits P (check_bundle r (logged cl) quay updated)"
  unfolding check_bundle_def Let_def
  by (intro emits_go_on emits_attempt emits_on_error invalid derived_refl emits_pure emits_leave
      emits_checkExternalTLSSecret emits_checkClusterCAHash features)
    (auto intro!: emits_leave emits_go_on emits_attempt emits_on_error invalid emits_pure
      emits_checkClusterCAHash features)

lemma upgrade_gate: "emits P (upgrade_gate r (logged cl) quay updated component ctx)"
  by (auto simp: upgrade_gate_def intro!: emits_go_on emits_call emits_checkNeedsPostgresUpgrade features
      emits_on_error block emits_leave split: prod.split)

lemma complete_context: "emits P (complete_context r (logged cl) quay updated b ctx)"
  unfolding complete_context_def Let_def
  by (intro emits_go_on emits_leave)
    (auto intro!: emits_go_on emits_leave upgrade_gate emits_on_error emits_attempt emits_pure block invalid
      split: prod.split option.split sum.split)

lemma settle_spec:
  assumes "derived quay updated"
  shows "emits P (settle_spec (logged cl) quay updated ctx)"
  unfolding settle_spec_def
proof (rule emits_go_on_returns)
  show "emits P (on_error (\<lambda>err. leave (Returned DefaultRequeue (Some err))) (EnsureDefaultComponents ctx updated))"
    by (intro emits_on_error emits_leave)
next
  fix a :: QuayRegistry
  assume "returns (on_error (\<lambda>err. leave (Returned DefaultRequeue (Some err))) (EnsureDefaultComponents ctx updated)
      :: ('a \<times> cluster_write list, outcome, QuayRegistry) step) a"
  then have "EnsureDefaultComponents ctx updated = Inr a"
    by (auto simp: on_error_def split: sum.splits go_error.splits)
  then have "derived quay a"
    using assms by (rule EnsureDefaultComponents_derived)
  then show "emits P (case ValidateOverrides a of
      Some err \<Rightarrow> block_rollout (logged cl) quay ReasonComponentOverrideInvalid (''invalid overrides: '' @ error_text err)
    | None \<Rightarrow> if \<not> ComponentsMatch (qr_Components quay) (qr_Components a)
        then go_on (call (cl_UpdateQuay (logged cl) a)) (\<lambda>_. leave (Returned DefaultRequeue None)) else pass a)"
    by (auto intro!: block emits_go_on emits_call emits_log registry emits_leave split: option.split)
qed

lemma render:
  assumes "emits P (Inflate (rr_Inflate r) ctx (clear_block updated) b (rr_SkipResourceRequests r))"
  shows "emits P (render r (logged cl) quay updated b ctx)"
  unfolding render_def
  by (intro emits_go_on emits_on_error emits_attempt invalid block derived_refl emits_leave assms)
    (auto intro: emits_leave)

lemma list_previous: "emits P (list_previous_secrets (logged cl) quay updated objs)"
  unfolding list_previous_secrets_def
  by (auto intro!: emits_go_on emits_leave invalid split: sum.split)

lemma discover: "emits P (discover r (logged cl) quay updated ctx cache)"
  unfolding discover_def Let_def
  by (auto intro!: emits_go_on emits_call emits_ensureRouteDiscovery features emits_with_cache emits_on_error
      emits_leave block split: prod.split)

lemma initial_bundle:
  assumes "derived quay updated" and "NeedsBundleSecret quay"
  shows "emits P (createInitialBundleSecret r (logged cl) updated)"
  using assms unfolding createInitialBundleSecret_def NeedsBundleSecret_def
  by (intro emits_go_on emits_call)
    (auto intro!: emits_log created block first_bundle emits_go_on emits_call emits_leave
      simp: base_bundle_def Let_def split: sum.split)

end

text \<open>The stages between the loop over the objects and the end.\<close>

locale cleanup_policy = status_policy +
  assumes secrets: "P (Deleted (OSecret s))"
begin

lemma cleanup: "emits P (cleanupPreviousSecrets (logged cl) quay ss)"
  by (induction ss) (auto intro!: emits_Pair emits_go_on emits_call emits_log emits_leave secrets emits_updateWithCondition
      status simp: derived_steps split: option.split)

lemma cleanup_derived: "returns (cleanupPreviousSecrets cl quay ss) (err, q) \<Longrightarrow> derived quay q"
proof (induction ss)
  case Nil
  then show ?case by simp
next
  case (Cons s ss)
  then show ?case
    by (auto dest!: returns_go_on simp: updateWithCondition_def Let_def derived_steps split: option.splits)
qed

lemma remove_previous: "emits P (remove_previous_secrets (logged cl) quay updated ss)"
proof -
  have "emits P (go_on (cleanupPreviousSecrets (logged cl) quay ss) (\<lambda>(err, q). case err of
      Some e \<Rightarrow> invalid_config (logged cl) q ''could not remove previous config bundle secret: '' e
    | None \<Rightarrow> pass ()))"
    by (rule emits_go_on_returns [OF cleanup])
      (auto intro!: invalid emits_leave dest: cleanup_derived split: option.split)
  then show ?thesis
    by (auto simp: remove_previous_secrets_def intro!: emits_go_on emits_leave split: sum.split)
qed

lemma recheck: "derived quay updated \<Longrightarrow> emits P (recheck_block (logged cl) updated)"
  by (auto simp: recheck_block_def intro!: emits_leave block split: option.split)

end

locale label_policy = status_policy +
  assumes labelled: "P (Labelled ns ls)"
begin

lemma label_namespace: "derived quay updated \<Longrightarrow> emits P (label_namespace (logged cl) quay updated ctx)"
  by (auto simp: label_namespace_def patchNamespaceForMonitoring_def
      intro!: emits_go_on emits_call emits_log emits_leave block labelled split: sum.split option.split)

end

text \<open>The policy of the whole loop: what the loop over the objects and the end of the reconcile write as well.\<close>

locale rollout_policy = gate_policy + cleanup_policy +
  fixes version :: string
  assumes upgrade: "derived quay q \<Longrightarrow> P (StatusUpdated (touch_status (condition_of ConditionComponentsCreated
        ConditionFalse ReasonPostgresUpgradeInProgress ''running postgres update operations'' u t) n q))"
    and migrate: "derived quay q \<Longrightarrow> st_CurrentVersion (qr_Status q) \<noteq> version \<Longrightarrow>
        P (StatusUpdated (touch_status (condition_of ConditionComponentsCreated
        ConditionFalse ReasonMigrationsInProgress ''running database migrations'' u t) n q))"
    and finalizer: "derived quay q \<Longrightarrow> P (QuayUpdated (AddFinalizer q quayOperatorFinalizer))"
    and applied: "P (Applied obj)"
    and jobs: "obj_gvk obj = gvk ''batch'' ''v1'' ''Job'' \<Longrightarrow> P (Deleted obj) \<and> P (Created obj)"
begin

lemma recreate_job: "obj_gvk x = gvk ''batch'' ''v1'' ''Job'' \<Longrightarrow> emits P (recreate_job (logged cl) x)"
  using jobs [of x] by (auto simp: recreate_job_def create_job_def
      intro!: emits_go_on emits_call emits_log emits_leave split: option.split)

lemma apply_object: "emits P (apply_object r (logged cl) x)"
  by (auto simp: apply_object_def intro!: emits_go_on emits_call emits_log emits_leave applied
      split: option.split KObject.split)

lemma createOrUpdateObject: "emits P (createOrUpdateObject r (logged cl) x q)"
  by (auto simp: createOrUpdateObject_def Let_def intro!: emits_go_on emits_leave recreate_job apply_object
      split: sum.split)

lemma create_object: "emits P (create_object r (logged cl) quay updated ctx x)"
  by (auto simp: create_object_def intro!: emits_go_on emits_on_error emits_leave block createOrUpdateObject
      split: prod.split option.split)

lemma create_objects: "emits P (create_objects r (logged cl) quay updated ctx objs)"
  by (induction objs) (auto intro!: emits_Pair emits_go_on emits_leave create_object)

text \<open>The end: the version test decides whether the migration starts.\<close>

lemma conclude:
  assumes "derived quay updated" and "rr_Version r = version"
  shows "emits P (conclude r (logged cl) updated ctx)"
  using assms by (auto simp: conclude_def intro!: emits_set_condition_and_requeue upgrade migrate emits_go_on
      emits_call emits_log emits_leave finalizer)

lemma publish_endpoint:
  assumes "derived quay updated" and "rr_Version r = version"
  shows "emits P (publish_endpoint r (logged cl) updated ctx usercfg)"
  unfolding publish_endpoint_def
proof (rule emits_go_on_returns)
  show "emits P (on_error (\<lambda>e. leave (Returned DefaultRequeue (Some e))) (EnsureRegistryEndpoint ctx updated usercfg))"
    by (intro emits_on_error emits_leave)
  fix a
  assume "returns (on_error (\<lambda>e. leave (Returned DefaultRequeue (Some e)))
      (EnsureRegistryEndpoint ctx updated usercfg) :: ('a \<times> cluster_write list, outcome, bool \<times> QuayRegistry) step) a"
  then obtain b q where a: "a = (b, q)" and "EnsureRegistryEndpoint ctx updated usercfg = Inr (b, q)"
    by (cases a) (auto simp: on_error_def split: sum.splits go_error.splits)
  then have q: "derived quay q"
    using EnsureRegistryEndpoint_derived assms(1) by blast
  show "emits P (case a of (upToDate, updated) \<Rightarrow>
      go_on (if upToDate then pass None else call (cl_UpdateQuayStatus (logged cl) updated)) (\<lambda>err.
        if err \<noteq> None then leave (Returned DefaultRequeue None) else conclude r (logged cl) updated ctx))"
    unfolding a using q assms(2)
    by (auto intro!: emits_go_on emits_call emits_log emits_leave status conclude)
qed

lemma finish:
  assumes "derived quay updated" and "rr_Version r = version"
  shows "emits P (finish r (logged cl) updated ctx osmanaged usercfg)"
  unfolding finish_def
proof (rule emits_go_on_returns)
  let ?m = "\<lambda>cl. updateWithCondition cl updated ConditionTypeRolloutBlocked ConditionFalse
      ReasonComponentsCreationSuccess ''All objects created/updated successfully''"
  show "emits P (?m (logged cl))"
    by (intro emits_updateWithCondition status) (simp add: derived_steps assms)
  fix a
  assume "returns (?m (logged cl) :: ('a \<times> cluster_write list, outcome, go_error option \<times> QuayRegistry) step) a"
  then have "derived quay (snd a)"
    using assms(1) by (auto dest!: returns_go_on simp: updateWithCondition_def Let_def derived_steps)
  then show "emits P (case a of (err, updated) \<Rightarrow> if err \<noteq> None then leave (Returned DefaultRequeue None)
      else if osmanaged \<and> \<not> ObjectStorageInitialized ctx then leave (Returned DefaultRequeue None)
      else if \<not> DatabaseInitialized ctx \<or> \<not> ClairDatabaseInitialized ctx then leave (Returned DefaultRequeue None)
      else publish_endpoint r (logged cl) updated ctx usercfg)"
    using assms(2) by (cases a) (auto intro!: emits_leave publish_endpoint)
qed

lemma roll_out:
  assumes "derived quay updated" and "rr_Version r = version"
    and "emits P (label_namespace (logged cl) quay updated ctx)"
  shows "emits P (roll_out r (logged cl) quay updated ctx osmanaged usercfg objs previous)"
  unfolding roll_out_def using assms
  by (intro emits_go_on create_objects remove_previous recheck finish)

text \<open>The whole handler, for a registry that waits for nothing and is not being deleted. The namespace is
  labelled under a context that has monitoring only where all namespaces are watched.\<close>

definition labels_allowed :: "'w Reconciler \<Rightarrow> 'w Client \<Rightarrow> bool" where
  "labels_allowed r cl \<longleftrightarrow> (\<forall>u ctx. derived quay u \<longrightarrow> watches r ctx \<longrightarrow>
     emits P (label_namespace (logged cl) quay u ctx :: ('w \<times> cluster_write list, outcome, unit) step))"

lemma settle_spec_derived:
  "derived quay updated \<Longrightarrow> hands_on (derived quay) (settle_spec cl quay updated ctx)"
  by (auto dest!: returns_go_on EnsureDefaultComponents_derived simp: hands_on_def settle_spec_def on_error_def
      block_rollout_def reconcileWithCondition_def split: sum.splits go_error.splits option.splits if_splits)

lemma after_discovery:
  assumes "derived quay updated" and "rr_Version r = version" and "watches r ctx" and "labels_allowed r cl"
  shows "emits P (after_discovery (logged_reconciler r) (logged cl) quay updated b ctx)"
  unfolding after_discovery_def Let_def
proof (rule emits_go_on_hands [OF complete_context complete_context_watches])
  show "watches (logged_reconciler r) ctx"
    using assms(3) by simp
next
  fix ctx1
  assume ctx1: "watches (logged_reconciler r) ctx1"
  have rest: "emits P (go_on (list_previous_secrets (logged cl) quay (clear_block q) objs)
      (roll_out (logged_reconciler r) (logged cl) quay (clear_block q) ctx2 os usercfg objs))"
    if "derived quay q" and "watches (logged_reconciler r) ctx2" for q ctx2 objs os usercfg
    using that assms(2,4) by (auto intro!: emits_go_on list_previous roll_out simp: labels_allowed_def derived_steps)
  show "emits P (go_on (settle_spec (logged cl) quay updated ctx1) (\<lambda>q.
      go_on (render (logged_reconciler r) (logged cl) quay q b ctx1) (\<lambda>(usercfg, objs, ctx).
      go_on (list_previous_secrets (logged cl) quay (clear_block q) objs)
        (roll_out (logged_reconciler r) (logged cl) quay (clear_block q) ctx
           (ComponentIsManaged (qr_Components updated) ComponentObjectStorage) usercfg objs))))"
    by (rule emits_go_on_hands [OF settle_spec [OF assms(1)] settle_spec_derived [OF assms(1)]],
        rule emits_go_on_hands [OF render render_watches [OF ctx1]]) (auto intro: emits_Inflate rest)
qed

lemma reconcile_serving:
  assumes "\<not> FlaggedForDeletion quay" and "\<not> PostgresUpgradeRunning quay" and "\<not> MigrationsRunning quay"
    and version: "rr_Version r = version" and labels: "labels_allowed r cl"
  shows "emits P (reconcile_quay (logged_reconciler r) (logged cl) quay cache)"
proof -
  let ?r = "logged_reconciler r" and ?cl = "logged cl"
  have dispatch: "dispatch ?r ?cl quay = (if NeedsBundleSecret quay then createInitialBundleSecret ?r ?cl (set_observed quay)
      else pass (set_observed quay))"
    using assms(1-3) by (simp add: dispatch_def Let_def)
  have before: "emits P (before_discovery ?r ?cl quay)"
    unfolding before_discovery_def dispatch
    by (auto intro!: emits_go_on initial_bundle check_bundle emits_leave simp: derived_steps)
  have "hands_on (derived quay) (createInitialBundleSecret ?r ?cl (set_observed quay))"
    unfolding createInitialBundleSecret_def
    by (auto intro!: hands_on_go_on [OF hands_on_any] split: sum.split)
  then have "hands_on (derived quay) (dispatch ?r ?cl quay)"
    unfolding dispatch by (simp add: derived_steps)
  then have handed: "hands_on (\<lambda>(u, b, ctx). derived quay u \<and> watches ?r ctx) (before_discovery ?r ?cl quay)"
    unfolding before_discovery_def
    by (rule hands_on_go_on) (auto intro!: hands_on_go_on [OF check_bundle_watches])
  have later: "emits P (go_on (discover ?r ?cl quay u ctx cache) (\<lambda>(ctx, cache).
      with_cache cache (after_discovery ?r ?cl quay u b ctx)))" if "derived quay u" and "watches ?r ctx" for u b ctx
    by (rule emits_go_on_hands [OF discover discover_watches [OF that(2)]])
      (use that(1) labels version in \<open>auto intro!: emits_with_cache after_discovery\<close>)
  show ?thesis
    unfolding reconcile_quay_def
    by (rule emits_go_on_hands [OF emits_with_cache [OF before], unfolded hands_on_with_cache, OF handed])
      (auto intro: later)
qed

end

text \<open>The policy of the whole loop, where labelling a namespace is admitted too.\<close>

locale write_policy = rollout_policy + label_policy
begin

lemma reconcile_all:
  assumes "\<not> FlaggedForDeletion quay" and "\<not> PostgresUpgradeRunning quay" and "\<not> MigrationsRunning quay"
    and "rr_Version r = version"
  shows "emits P (reconcile_quay (logged_reconciler r) (logged cl) quay cache)"
  using assms by (intro reconcile_serving) (simp_all add: labels_allowed_def label_namespace)

end

end
