(* ===== verification/Lifecycle.thy ===== *)
theory Lifecycle
  imports Write_Policy Status_Controller
begin

text \<open>
  The life of a registry, seen from its stored status. A registry is in one of four phases, told apart by
  the tests \<open>dispatch\<close> makes; with the version it reports this is its abstract state. \<open>lifecycle\<close> is the
  abstract specification of what one status write of the main controller may do to it, \<open>evolves\<close> the
  interleaving of both controllers and the user on the stored registry. The API server rejects a write
  that is not based on the stored object, so every write starts from the object its handler read.
\<close>

section \<open>The abstract machine\<close>

datatype phase = Deleting | UpgradingDatabase | Migrating | Serving

instantiation phase :: enum
begin

definition enum_phase :: "phase list" where
  "enum_phase = [Deleting, UpgradingDatabase, Migrating, Serving]"

definition enum_all_phase :: "(phase \<Rightarrow> bool) \<Rightarrow> bool" where
  "enum_all_phase P \<longleftrightarrow> P Deleting \<and> P UpgradingDatabase \<and> P Migrating \<and> P Serving"

definition enum_ex_phase :: "(phase \<Rightarrow> bool) \<Rightarrow> bool" where
  "enum_ex_phase P \<longleftrightarrow> P Deleting \<or> P UpgradingDatabase \<or> P Migrating \<or> P Serving"

instance
proof
  show "UNIV = set (enum_class.enum :: phase list)" "distinct (enum_class.enum :: phase list)"
    using phase.exhaust by (auto simp: enum_phase_def)
  show "enum_class.enum_all P \<longleftrightarrow> Ball UNIV P" "enum_class.enum_ex P \<longleftrightarrow> Bex UNIV P" for P :: "phase \<Rightarrow> bool"
    unfolding enum_all_phase_def enum_ex_phase_def by (metis (full_types) UNIV_I phase.exhaust)+
qed

end

definition phase_of :: "QuayRegistry \<Rightarrow> phase" where
  "phase_of quay =
     (if FlaggedForDeletion quay then Deleting
      else if PostgresUpgradeRunning quay then UpgradingDatabase
      else if MigrationsRunning quay then Migrating
      else Serving)"

abbreviation version_of :: "QuayRegistry \<Rightarrow> string" where
  "version_of quay \<equiv> st_CurrentVersion (qr_Status quay)"

definition abs_state :: "QuayRegistry \<Rightarrow> phase \<times> string" where
  "abs_state quay = (phase_of quay, version_of quay)"

inductive lifecycle :: "string \<Rightarrow> phase \<times> string \<Rightarrow> phase \<times> string \<Rightarrow> bool" for v where
  stay: "lifecycle v (p, x) (p, x)"
| start_database_upgrade: "lifecycle v (Serving, x) (UpgradingDatabase, x)"
| finish_database_upgrade: "lifecycle v (UpgradingDatabase, x) (Serving, x)"
| start_migration: "x \<noteq> v \<Longrightarrow> lifecycle v (Serving, x) (Migrating, x)"
| finish_migration: "lifecycle v (Migrating, x) (Serving, v)"
| abandon_migration: "lifecycle v (Migrating, x) (Serving, x)"

code_pred lifecycle .

inductive_simps lifecycle_to_Migrating: "lifecycle v (p, x) (Migrating, y)"
inductive_cases lifecycleE: "lifecycle v (p, x) (q, y)"

lemma lifecycle_version: "lifecycle v (p, x) (q, y) \<Longrightarrow> y = x \<or> y = v"
  by (auto elim: lifecycleE)

lemma lifecycle_promotion: "lifecycle v (p, x) (q, y) \<Longrightarrow> y \<noteq> x \<Longrightarrow> p = Migrating \<and> q = Serving \<and> y = v"
  by (auto elim: lifecycleE)

text \<open>While the registry is behind the operator's version no live phase is a trap: each leads back to
  serving, and serving to each. At the operator's version no migration starts; the executable relation
  decides both.\<close>

definition connected :: "string \<Rightarrow> string \<Rightarrow> phase \<Rightarrow> bool" where
  "connected v x q \<longleftrightarrow> (\<forall>p. p \<noteq> Deleting \<longrightarrow> (\<exists>m. lifecycle v (p, x) (m, x) \<and> lifecycle v (m, x) (q, x)))"

lemma lifecycle_connected:
  assumes "x \<noteq> v" and "q \<noteq> Deleting"
  shows "connected v x q"
  unfolding connected_def
proof (intro allI impI exI [of _ Serving])
  fix p assume "p \<noteq> Deleting"
  with assms show "lifecycle v (p, x) (Serving, x) \<and> lifecycle v (Serving, x) (q, x)"
    by (cases p; cases q) (auto intro: lifecycle.intros)
qed

lemma lifecycle_connected_examples:
  "connected ''3.9'' ''3.8'' Migrating" "\<not> connected ''3.9'' ''3.9'' Migrating" "\<not> connected ''3.9'' ''3.8'' Deleting"
  by code_simp+

section \<open>The main controller refines it\<close>

fun lifecycle_write :: "string \<Rightarrow> QuayRegistry \<Rightarrow> cluster_write \<Rightarrow> bool" where
  "lifecycle_write v quay (StatusUpdated q) = (phase_of quay \<noteq> Deleting \<and> qr_Meta q = qr_Meta quay \<and>
     lifecycle v (abs_state quay) (abs_state q))"
| "lifecycle_write v quay (QuayUpdated q) = (version_of q = version_of quay)"
| "lifecycle_write v quay _ = True"

lemma phase_of_derived: "derived quay q \<Longrightarrow> phase_of q = phase_of quay \<and> version_of q = version_of quay"
  using derived_tests by (simp add: phase_of_def)

lemma feature_write_lifecycle: "feature_write wr \<Longrightarrow> lifecycle_write v quay wr"
  by (auto elim: feature_writeE)

lemma phase_of_created:
  assumes "c_Type c = ConditionComponentsCreated" and "\<not> FlaggedForDeletion q"
  shows "phase_of (touch_status c n q) =
    (if c_Reason c = ReasonPostgresUpgradeInProgress \<or> c_Reason c = ReasonPostgresUpgradeFailed then UpgradingDatabase
     else if c_Reason c = ReasonMigrationsInProgress then Migrating else Serving)"
  using assms by (simp add: phase_of_def created_condition_tests FlaggedForDeletion_def)

lemma phase_of_success:
  "\<not> FlaggedForDeletion q \<Longrightarrow>
     phase_of (set_conditions (SetCondition cs (success_condition u t)) q) = Serving"
  by (simp add: phase_of_def set_conditions_tests success_condition_def FlaggedForDeletion_def)

lemma serving_iff: "phase_of quay = Serving \<longleftrightarrow>
    \<not> FlaggedForDeletion quay \<and> \<not> PostgresUpgradeRunning quay \<and> \<not> MigrationsRunning quay"
  by (auto simp: phase_of_def)

text \<open>The policy of a serving registry: the two writes that change its phase are admitted exactly as the
  abstract machine has them.\<close>

definition serving_write :: "string \<Rightarrow> QuayRegistry \<Rightarrow> cluster_write \<Rightarrow> bool" where
  "serving_write v quay wr = (phase_of quay = Serving \<longrightarrow> lifecycle_write v quay wr)"

interpretation serving: write_policy "serving_write v quay" quay v for v quay
proof
  fix q u t n
  assume d: "derived quay q"
  note phase = phase_of_derived [OF d]
  have meta: "qr_Meta q = qr_Meta quay"
    using d by (simp add: derived_def)
  have flag: "\<not> FlaggedForDeletion q" if "phase_of quay = Serving"
    using that derived_tests(1) [OF d] by (simp add: serving_iff)
  show "serving_write v quay (StatusUpdated q)"
    using phase meta by (auto simp: serving_write_def abs_state_def intro: lifecycle.stay)
  show "serving_write v quay (StatusUpdated (touch_status (condition_of ConditionComponentsCreated ConditionFalse
      ReasonPostgresUpgradeInProgress ''running postgres update operations'' u t) n q))"
    using phase meta by (auto simp: serving_write_def abs_state_def phase_of_created flag
        intro: lifecycle.start_database_upgrade)
  show "serving_write v quay (StatusUpdated (touch_status (condition_of ConditionComponentsCreated ConditionFalse
      ReasonMigrationsInProgress ''running database migrations'' u t) n q))" if "version_of q \<noteq> v"
    using phase meta that by (auto simp: serving_write_def abs_state_def phase_of_created flag
        intro: lifecycle.start_migration)
  show "serving_write v quay (QuayUpdated q)"
    using phase by (simp add: serving_write_def)
  show "serving_write v quay (QuayUpdated (AddFinalizer q quayOperatorFinalizer))"
    using phase by (simp add: serving_write_def AddFinalizer_def)
  show "serving_write v quay (QuayUpdated (set_bundle_name nm q))" for nm
    using phase by (simp add: serving_write_def set_bundle_name_def)
qed (auto simp: serving_write_def feature_write_lifecycle)

lemma checkMigrationStatus_lifecycle:
  assumes "phase_of quay = Migrating"
  shows "emits (lifecycle_write (rr_Version r) quay) (checkMigrationStatus r (logged cl) (set_observed quay))"
proof -
  have q: "\<not> FlaggedForDeletion quay"
    using assms by (auto simp: phase_of_def)
  have "\<not> FlaggedForDeletion (set_version x (set_observed quay))" for x
    using q by (simp add: FlaggedForDeletion_def)
  note facts = q this assms phase_of_created phase_of_success lifecycle.abandon_migration lifecycle.finish_migration
  show ?thesis
    unfolding checkMigrationStatus_def using facts
    by (auto intro!: emits_go_on emits_leave emits_set_condition_and_requeue emits_report_success
        simp: abs_state_def split: sum.split)
qed

lemma checkPostgresUpgradeStatus_lifecycle:
  assumes "phase_of quay = UpgradingDatabase"
  shows "emits (lifecycle_write (rr_Version r) quay) (checkPostgresUpgradeStatus r (logged cl) (set_observed quay))"
proof -
  have q: "\<not> FlaggedForDeletion quay"
    using assms by (auto simp: phase_of_def)
  note facts = q assms phase_of_created phase_of_success lifecycle.stay lifecycle.finish_database_upgrade
  show ?thesis
    unfolding checkPostgresUpgradeStatus_def check_upgrade_job_def cleanup_old_database_def
      cleanup_old_service_def cleanup_old_claim_def using facts
    by (auto intro!: emits_go_on emits_leave emits_call emits_log emits_set_condition_and_requeue emits_report_success
        simp: abs_state_def disowned_def split: sum.split option.split)
qed

lemma manageQuayDeletion_lifecycle:
  "emits (lifecycle_write v quay) (manageQuayDeletion r (logged cl) (set_observed quay))"
  by (auto simp: manageQuayDeletion_def finalizeQuay_def cleanupNamespaceLabels_def cleanupGrafanaConfigMap_def
      RemoveFinalizer_def intro!: emits_go_on emits_leave emits_Pair emits_call emits_log split: sum.split option.split)

text \<open>A handler that never hands on is the whole reconcile.\<close>

lemma handlers_leave [simp]:
  "\<not> returns (set_condition_and_requeue cl q ty st rs msg) a"
  "\<not> returns (report_success cl q) a"
  "\<not> returns (manageQuayDeletion r cl q) a"
  "\<not> returns (checkMigrationStatus r cl q) a"
  "\<not> returns (checkPostgresUpgradeStatus r cl q) a"
  by (auto dest!: returns_go_on simp: set_condition_and_requeue_def report_success_def manageQuayDeletion_def
      checkMigrationStatus_def checkPostgresUpgradeStatus_def split: sum.splits if_splits option.splits)

lemma emits_handler:
  assumes "dispatch r cl quay = h" and "emits P h" and "\<And>a. \<not> returns h a"
  shows "emits P (reconcile_quay r cl quay cache)"
proof -
  have never: "\<not> returns (before_discovery r cl quay) a" for a
    using assms(1,3) by (auto simp: before_discovery_def dest!: returns_go_on)
  have "emits P (before_discovery r cl quay)"
    unfolding before_discovery_def by (rule emits_go_on_returns) (use assms in auto)
  then show ?thesis
    unfolding reconcile_quay_def
    by (intro emits_go_on_returns [OF emits_with_cache]) (use never in auto)
qed

lemma dispatch_phase:
  "phase_of quay = Deleting \<Longrightarrow> dispatch r cl quay = manageQuayDeletion r cl (set_observed quay)"
  "phase_of quay = UpgradingDatabase \<Longrightarrow> dispatch r cl quay = checkPostgresUpgradeStatus r cl (set_observed quay)"
  "phase_of quay = Migrating \<Longrightarrow> dispatch r cl quay = checkMigrationStatus r cl (set_observed quay)"
  "phase_of quay = Serving \<Longrightarrow> dispatch r cl quay =
     (if NeedsBundleSecret quay then createInitialBundleSecret r cl (set_observed quay) else pass (set_observed quay))"
  by (auto simp: dispatch_def phase_of_def Let_def split: if_splits)

lemma reconcile_quay_lifecycle:
  "emits (lifecycle_write (rr_Version r) quay) (reconcile_quay (logged_reconciler r) (logged cl) quay cache)"
proof (cases "phase_of quay")
  case Serving
  then have "emits (serving_write (rr_Version r) quay) (reconcile_quay (logged_reconciler r) (logged cl) quay cache)"
    by (intro serving.reconcile_all) (simp_all add: serving_iff)
  with Serving show ?thesis by (auto elim: emits_mono simp: serving_write_def)
next
  case Deleting
  show ?thesis
    by (rule emits_handler [OF dispatch_phase(1) [OF Deleting]]) (simp_all add: manageQuayDeletion_lifecycle)
next
  case UpgradingDatabase
  show ?thesis
    by (rule emits_handler [OF dispatch_phase(2) [OF UpgradingDatabase]])
      (use checkPostgresUpgradeStatus_lifecycle [OF UpgradingDatabase, of "logged_reconciler r"] in simp_all)
next
  case Migrating
  show ?thesis
    by (rule emits_handler [OF dispatch_phase(3) [OF Migrating]])
      (use checkMigrationStatus_lifecycle [OF Migrating, of "logged_reconciler r"] in simp_all)
qed

text \<open>One reconcile of the stored registry, as the loop starts it.\<close>

lemma Reconcile_loaded:
  "cl_GetQuay cl w req = Inr quay \<Longrightarrow> Reconcile r (logged cl) req cache (w, l) = reconcile_quay r (logged cl) quay cache (w, l)"
  by (simp add: Reconcile_def load_quay_def go_on_def with_cache_def)

section \<open>Both controllers and the user\<close>

text \<open>What can happen to the stored registry: a status write of either controller that was based on it, an
  update of the main controller, a change of spec or metadata by the user.\<close>

inductive evolves :: "'w Reconciler \<Rightarrow> QuayRegistry \<Rightarrow> QuayRegistry \<Rightarrow> bool" for r q0 where
  start: "evolves r q0 q0"
| main_status: "evolves r q0 q \<Longrightarrow> cl_GetQuay cl w req = Inr q \<Longrightarrow>
    Reconcile (logged_reconciler r) (logged cl) req cache (w, []) = (Inl (out :: outcome \<times> RouteCache) :: _ + unit, w', ws) \<Longrightarrow>
    StatusUpdated q' \<in> set ws \<Longrightarrow> evolves r q0 q'"
| status_controller: "evolves r q0 q \<Longrightarrow> Evaluate title cli q clock = Inr conds \<Longrightarrow>
    evolves r q0 (overwriteConditions conds q t u)"
| edited: "evolves r q0 q \<Longrightarrow> qr_Status q' = qr_Status q \<Longrightarrow> evolves r q0 q'"

lemma Evaluate_types:
  assumes "Evaluate title cli q clock = Inr conds"
  shows "ConditionComponentsCreated \<notin> c_Type ` set conds"
proof -
  from assms obtain ind deps qc mc where
    ind: "outcomes cli q clock independent_checkers ind" and
    deps: "outcomes cli q clock (dependency_checkers title) deps" and
    qm: "quay_and_mirror title cli q clock deps qc mc" and conds: "conds = ind @ deps @ [qc, mc]"
    unfolding Evaluate_shape by blast
  have "ConditionComponentsCreated \<notin> c_Type ` set ind"
    using ind by (auto simp: independent_outcomes Monitoring_Check_def service_monitor_check_def Let_def
        mk_condition_def zero_condition_def dest!: hpa_check.check_type route_check.check_type
        split: if_splits sum.splits)
  moreover have "ConditionComponentsCreated \<notin> c_Type ` set deps"
    unfolding set_map [symmetric] dependency_types [OF deps] by simp
  ultimately show ?thesis
    using quay_and_mirror_types(1,2) [OF qm] by (auto simp: conds)
qed

lemma overwrite_loop_other:
  "ty \<notin> c_Type ` set conds \<Longrightarrow> GetCondition (fst (overwrite_loop conds ex f)) ty = GetCondition ex ty"
  by (induction conds arbitrary: ex f) auto

lemma status_controller_keeps_phase:
  assumes "Evaluate title cli q clock = Inr conds"
  shows "phase_of (overwriteConditions conds q t u) = phase_of q"
    and "version_of (overwriteConditions conds q t u) = version_of q"
proof -
  have created: "GetCondition (qr_Conditions (overwriteConditions conds q t u)) ConditionComponentsCreated =
      GetCondition (qr_Conditions q) ConditionComponentsCreated"
    using Evaluate_types [OF assms] overwrite_loop_other
    by (simp add: overwriteConditions_get validConditionTypes_def)
  have rest: "qr_Meta (overwriteConditions conds q t u) = qr_Meta q"
    "version_of (overwriteConditions conds q t u) = version_of q"
    by (simp_all add: overwriteConditions_def RemoveUnusedConditions_def case_prod_beta)
  show "phase_of (overwriteConditions conds q t u) = phase_of q"
    using created rest by (simp add: phase_of_def FlaggedForDeletion_def PostgresUpgradeRunning_def MigrationsRunning_def)
  show "version_of (overwriteConditions conds q t u) = version_of q"
    by (rule rest)
qed

text \<open>The invariants of every evolution: the version is the first one or the current one, a migration waits
  only while the version is not current, the current version stays.\<close>

definition version_invariant :: "string \<Rightarrow> QuayRegistry \<Rightarrow> QuayRegistry \<Rightarrow> bool" where
  "version_invariant v q0 q \<longleftrightarrow>
     (version_of q = version_of q0 \<or> version_of q = v) \<and>
     (MigrationsRunning q \<and> \<not> PostgresUpgradeRunning q \<longrightarrow> version_of q \<noteq> v)"

lemma main_status_lifecycle:
  assumes "cl_GetQuay cl w req = Inr q"
    and "Reconcile (logged_reconciler r) (logged cl) req cache (w, []) = (out, w', ws)"
    and "StatusUpdated q' \<in> set ws"
  shows "phase_of q \<noteq> Deleting \<and> qr_Meta q' = qr_Meta q \<and> lifecycle (rr_Version r) (abs_state q) (abs_state q')"
proof -
  have "reconcile_quay (logged_reconciler r) (logged cl) q cache (w, []) = (out, w', ws)"
    using assms(1,2) by (simp add: Reconcile_loaded)
  then have "list_all (lifecycle_write (rr_Version r) q) ws"
    by (rule emits_run [OF reconcile_quay_lifecycle])
  with assms(3) show ?thesis by (auto simp: list_all_iff)
qed

lemma waits_iff_phase:
  "\<not> FlaggedForDeletion q \<Longrightarrow> MigrationsRunning q \<and> \<not> PostgresUpgradeRunning q \<longleftrightarrow> phase_of q = Migrating"
  by (auto simp: phase_of_def)

lemma version_invariant_main:
  assumes inv: "version_invariant v q0 q" and not_deleting: "phase_of q \<noteq> Deleting"
    and meta: "qr_Meta q' = qr_Meta q" and step: "lifecycle v (abs_state q) (abs_state q')"
  shows "version_invariant v q0 q'"
proof -
  have live: "\<not> FlaggedForDeletion q" "\<not> FlaggedForDeletion q'"
    using not_deleting meta by (auto simp: phase_of_def FlaggedForDeletion_def split: if_splits)
  have "version_of q' = version_of q \<or> version_of q' = v"
    using step lifecycle_version by (auto simp: abs_state_def)
  moreover have "version_of q' \<noteq> v" if "phase_of q' = Migrating"
  proof -
    have "phase_of q = Migrating \<and> version_of q' = version_of q \<or> version_of q' \<noteq> v"
      using step unfolding abs_state_def that lifecycle_to_Migrating by auto
    moreover have "version_of q \<noteq> v" if "phase_of q = Migrating"
      using inv waits_iff_phase [OF live(1)] that unfolding version_invariant_def by blast
    ultimately show ?thesis by auto
  qed
  ultimately show ?thesis
    using inv waits_iff_phase [OF live(2)] unfolding version_invariant_def by metis
qed

lemma version_invariant_evolves:
  assumes "evolves r q0 q" and "version_invariant (rr_Version r) q0 q0"
  shows "version_invariant (rr_Version r) q0 q"
  using assms
proof induction
  case start
  then show ?case .
next
  case (main_status q cl w req cache out w' ws q')
  then show ?case
    using main_status_lifecycle [OF main_status.hyps(2,3,4)] version_invariant_main by blast
next
  case (status_controller q title cli clock conds t u)
  have "version_of (overwriteConditions conds q t u) = version_of q"
    by (rule status_controller_keeps_phase(2) [OF status_controller.hyps(2)])
  moreover have "GetCondition (qr_Conditions (overwriteConditions conds q t u)) ConditionComponentsCreated =
      GetCondition (qr_Conditions q) ConditionComponentsCreated"
    using Evaluate_types [OF status_controller.hyps(2)] overwrite_loop_other
    by (simp add: overwriteConditions_get validConditionTypes_def)
  ultimately show ?case
    using status_controller.IH [OF status_controller.prems]
    by (simp add: version_invariant_def MigrationsRunning_def PostgresUpgradeRunning_def)
next
  case (edited q q')
  then show ?case
    by (simp add: version_invariant_def MigrationsRunning_def PostgresUpgradeRunning_def)
qed

lemma current_version_stays:
  assumes "evolves r q0 q" and "version_of q0 = rr_Version r"
  shows "version_of q = rr_Version r"
  using assms
proof induction
  case (main_status q cl w req cache out w' ws q')
  then show ?case
    using main_status_lifecycle [OF main_status.hyps(2,3,4)]
    by (auto simp: abs_state_def dest: lifecycle_version)
next
  case (status_controller q title cli clock conds t u)
  then show ?case using status_controller_keeps_phase(2) by metis
qed simp_all

end
