(* ===== verification/Outcomes.thy ===== *)
theory Outcomes
  imports Lifecycle
begin

text \<open>
  How the handlers end: the outcomes a step can leave with, what passing a gate means for the steps
  after it, and the exact runs of the short handlers through the log.
\<close>

section \<open>Exits\<close>

text \<open>\<open>ends Q m\<close>: whatever \<open>m\<close> leaves the handler with satisfies \<open>Q\<close>.\<close>

definition ends :: "('x \<Rightarrow> bool) \<Rightarrow> ('w, 'x, 'a) step \<Rightarrow> bool" where
  "ends Q m \<longleftrightarrow> (\<forall>s x s'. m s = (Inl x, s') \<longrightarrow> Q x)"

named_theorems ends_intros \<open>compositional rules for the outcomes of a handler\<close>

lemma ends_simple [ends_intros]:
  "Q x \<Longrightarrow> ends Q (leave x)" "ends Q (pass a)" "ends Q (look f)" "ends Q (call g)" "ends Q (Pair (Inr a))"
  "Q x \<Longrightarrow> ends Q (Pair (Inl x))"
  by (auto simp: ends_def call_simp)

lemma ends_go_on [ends_intros]: "ends Q m \<Longrightarrow> (\<And>a. ends Q (k a)) \<Longrightarrow> ends Q (go_on m k)"
  by (fastforce simp: ends_def go_on_Inl)

lemma ends_on_error [ends_intros]:
  "(\<And>m. Q (Panicked m)) \<Longrightarrow> (\<And>e. ends Q (h e)) \<Longrightarrow> ends Q (on_error h r)"
  by (auto simp: on_error_def intro: ends_simple split: sum.split go_error.split)

lemma ends_attempt [ends_intros]:
  "(\<And>m. Q (Panicked m)) \<Longrightarrow> (\<And>e. ends Q (h e)) \<Longrightarrow> ends Q (attempt h f)"
  by (auto simp: attempt_def intro!: ends_intros)

lemma ends_with_cache [ends_intros]: "ends Q m \<Longrightarrow> ends (\<lambda>(x, c). Q x) (with_cache c m)"
  by (auto simp: ends_def with_cache_def split: prod.splits sum.splits)

lemma ends_conditions [ends_intros]: "ends Q (updateWithCondition cl q ty st rs msg)"
  by (auto simp: updateWithCondition_def Let_def intro!: ends_intros)

lemma cleanup_ends [ends_intros]: "ends Q (cleanupPreviousSecrets cl q ss)"
  by (induction ss) (auto intro!: ends_intros split: option.split)

lemma create_ends [ends_intros]: "ends Q (createOrUpdateObject r cl x q)"
  by (auto simp: createOrUpdateObject_def recreate_job_def create_job_def apply_object_def Let_def
      intro!: ends_intros split: sum.split option.split KObject.split)

text \<open>The contract most stages share: every exit is a panic or asks for the default delay.\<close>

locale requeueing =
  fixes Q :: "outcome \<Rightarrow> bool"
  assumes requeue [simp, intro]: "Q (Returned DefaultRequeue e)"
    and panic [simp, intro]: "Q (Panicked m)"
begin

lemma conditions [ends_intros]:
  "ends Q (block_rollout cl q rs msg)"
  "ends Q (invalid_config cl q p e)"
  "ends Q (set_condition_and_requeue cl q ty st rs msg)"
  "ends Q (report_success cl q)"
  unfolding invalid_config_def block_rollout_def reconcileWithCondition_def
    set_condition_and_requeue_def report_success_def
  by (auto intro!: ends_intros)

lemma stages [ends_intros]:
  "ends Q (check_bundle r cl quay updated)"
  "ends Q (upgrade_gate r cl quay updated component ctx)"
  "ends Q (settle_spec cl quay updated ctx)"
  "ends Q (render r cl quay updated b ctx)"
  "ends Q (list_previous_secrets cl quay updated objs)"
  "ends Q (create_object r cl quay updated ctx x)"
  "ends Q (label_namespace cl quay updated ctx)"
  "ends Q (remove_previous_secrets cl quay updated ss)"
  "ends Q (recheck_block cl updated)"
  unfolding check_bundle_def upgrade_gate_def settle_spec_def render_def list_previous_secrets_def create_object_def
    label_namespace_def remove_previous_secrets_def recheck_block_def patchNamespaceForMonitoring_def Let_def
  by (auto intro!: ends_intros split: prod.split option.split sum.split)

lemma complete [ends_intros]: "ends Q (complete_context r cl quay updated b ctx)"
  unfolding complete_context_def Let_def
  by (auto intro!: ends_intros split: prod.split option.split sum.split)

lemma objects [ends_intros]: "ends Q (create_objects r cl quay updated ctx objs)"
  by (induction objs) (auto intro!: ends_intros)

lemma waiting [ends_intros]:
  "ends Q (checkMigrationStatus r cl q)"
  "ends Q (checkPostgresUpgradeStatus r cl q)"
  "ends Q (createInitialBundleSecret r cl q)"
  unfolding checkMigrationStatus_def checkPostgresUpgradeStatus_def createInitialBundleSecret_def check_upgrade_job_def
    cleanup_old_database_def cleanup_old_service_def cleanup_old_claim_def
  by (auto intro!: ends_intros split: sum.split option.split)

end

text \<open>The outcomes after which the registry is looked at again within a minute, and those that
  do not put it off for that long.\<close>

fun comes_back :: "outcome \<Rightarrow> bool" where
  "comes_back (Returned d _) = (case delay_of d of None \<Rightarrow> False | Some n \<Rightarrow> 0 < n \<and> n \<le> 60)"
| "comes_back (Panicked _) = True"

fun no_long_delay :: "outcome \<Rightarrow> bool" where
  "no_long_delay (Returned (RequeueAfter n) _) = (n < 60)"
| "no_long_delay _ = True"

interpretation again: requeueing comes_back
  by unfold_locales simp_all

interpretation hurry: requeueing no_long_delay
  by unfold_locales simp_all

lemma ends_discover:
  "ends (\<lambda>(x, c). comes_back x) (discover r cl quay updated ctx cache)"
  "ends (\<lambda>(x, c). no_long_delay x) (discover r cl quay updated ctx cache)"
  by (auto simp: discover_def Let_def intro!: ends_intros split: prod.split)

lemma ends_conclude [ends_intros]:
  "ends comes_back (conclude r cl updated ctx)"
  by (auto simp: conclude_def intro!: ends_intros split: option.split)

lemma ends_finish [ends_intros]: "ends comes_back (finish r cl updated ctx osmanaged cfg)"
  by (auto simp: finish_def publish_endpoint_def intro!: ends_intros split: prod.split)

lemma ends_after_discovery [ends_intros]: "ends comes_back (after_discovery r cl quay updated b ctx)"
  by (auto simp: after_discovery_def roll_out_def Let_def intro!: ends_intros split: prod.split)

lemma reconcile_comes_back:
  assumes "\<not> FlaggedForDeletion quay"
  shows "ends (\<lambda>(x, c). comes_back x) (reconcile_quay r cl quay cache)"
proof -
  have "ends comes_back (dispatch r cl quay)"
    using assms by (auto simp: dispatch_def Let_def intro!: ends_intros)
  then have "ends comes_back (before_discovery r cl quay)"
    by (auto simp: before_discovery_def intro!: ends_intros split: prod.split)
  then show ?thesis
    by (auto simp: reconcile_quay_def intro!: ends_intros ends_discover split: prod.split)
qed

text \<open>The two ways a reconcile may not come back: the registry is gone, or it is being deleted.\<close>

lemma Reconcile_not_back:
  fixes w w' :: 'w
  assumes run: "Reconcile r cl req cache w = (Inl (x, c) :: _ + 'z, w')" and "\<not> comes_back x"
  shows "(\<exists>err. cl_GetQuay cl w req = Inl err \<and> IsNotFound err) \<or>
    (\<exists>quay. cl_GetQuay cl w req = Inr quay \<and> FlaggedForDeletion quay)"
proof (cases "cl_GetQuay cl w req")
  case (Inl err)
  with assms show ?thesis
    by (auto simp: Reconcile_def load_quay_def go_on_def with_cache_def split: if_splits)
next
  case (Inr quay)
  with run have "reconcile_quay r cl quay cache w = (Inl (x, c) :: _ + 'z, w')"
    by (simp add: Reconcile_def load_quay_def go_on_def with_cache_def)
  with assms(2) have "\<not> ends (\<lambda>(x, c). comes_back x) (reconcile_quay r cl quay cache :: ('w, _, 'z) step)"
    unfolding ends_def by fastforce
  with reconcile_comes_back have "FlaggedForDeletion quay" by blast
  with Inr show ?thesis by blast
qed

section \<open>Gates\<close>

text \<open>A write that a step does not make was made after it, so the step was passed.\<close>

lemma emits_gate:
  assumes "emits P m" and "go_on m k (w, l) = (out, w', l')" and "x \<in> set l'" and "x \<notin> set l" and "\<not> P x"
  obtains a w1 l1 where "m (w, l) = (Inr a, w1, l1)" and "k a (w1, l1) = (out, w', l')" and "x \<notin> set l1"
proof -
  obtain y w1 l1 where m: "m (w, l) = (y, w1, l1)" by (metis prod_cases3)
  obtain vs where "l1 = l @ vs" "list_all P vs"
    using emitsD [OF assms(1), of w l] m by (metis snd_conv)
  with assms(4,5) have x: "x \<notin> set l1" by (auto simp: list_all_iff)
  with assms(2,3) m show ?thesis
    by (cases y) (auto simp: go_on_def intro: that)
qed

definition not_applied :: "cluster_write \<Rightarrow> bool" where
  "not_applied wr = (case wr of Applied x \<Rightarrow> False | _ \<Rightarrow> True)"

lemma not_applied_simps [simp]: "\<not> not_applied (Applied x)" "not_applied (StatusUpdated q)" "not_applied (QuayUpdated q)"
  "not_applied (Created x)" "not_applied (Deleted x)" "not_applied (Labelled n ls)" "not_applied (Updated x)"
  "not_applied (Patched x)"
  by (simp_all add: not_applied_def)

lemma applied_refused: "\<not> not_applied wr \<Longrightarrow> \<exists>x. wr = Applied x"
  by (cases wr) auto

interpretation quiet: gate_policy not_applied quay for quay
  by unfold_locales (auto elim: feature_writeE)

lemma handlers_quiet:
  "emits not_applied (manageQuayDeletion r (logged cl) q)"
  "emits not_applied (checkMigrationStatus r (logged cl) q)"
  "emits not_applied (checkPostgresUpgradeStatus r (logged cl) q)"
  "emits not_applied (createInitialBundleSecret r (logged cl) q)"
  unfolding manageQuayDeletion_def finalizeQuay_def cleanupNamespaceLabels_def cleanupGrafanaConfigMap_def
    checkMigrationStatus_def checkPostgresUpgradeStatus_def check_upgrade_job_def createInitialBundleSecret_def
    cleanup_old_database_def cleanup_old_service_def cleanup_old_claim_def
  by (auto intro!: emits_go_on emits_leave emits_Pair emits_call emits_log emits_set_condition_and_requeue
      emits_report_success emits_block_rollout split: sum.split option.split)

lemma before_discovery_quiet: "emits not_applied (before_discovery r (logged cl) quay)"
  by (auto simp: before_discovery_def dispatch_def Let_def intro!: emits_go_on emits_leave handlers_quiet quiet.check_bundle)

text \<open>What passing the stages means.\<close>

lemma blocked_never_passes [simp]:
  "block_rollout cl q rs msg s \<noteq> (Inr a, s')"
  "invalid_config cl q p e s \<noteq> (Inr a, s')"
  by (auto simp: invalid_config_def block_rollout_def reconcileWithCondition_def go_on_Inr)

lemma on_error_passed: "(\<And>e. h e s \<noteq> (Inr a, s')) \<Longrightarrow> on_error h r s = (Inr a, s') \<longleftrightarrow> r = Inr a \<and> s' = s"
  by (auto simp: on_error_def split: sum.splits go_error.splits)

lemma attempt_passed: "(\<And>e s. h e s \<noteq> (Inr a, s')) \<Longrightarrow> attempt h f s = (Inr a, s') \<longleftrightarrow> f s = (Inr a, s')"
  by (auto simp: attempt_def go_on_call on_error_passed split: prod.splits)

lemma settle_spec_passed:
  assumes "settle_spec cl quay updated ctx s = (Inr q, s')"
  shows "EnsureDefaultComponents ctx updated = Inr q \<and> ValidateOverrides q = None \<and>
    ComponentsMatch (qr_Components quay) (qr_Components q)"
  using assms by (auto simp: settle_spec_def go_on_Inr on_error_passed split: option.splits if_splits)

lemma render_passed:
  assumes "render r cl quay updated b ctx s = (Inr (cfg, objs, ctx'), s')"
  shows "hasNecessaryConfig (ie_Config (rr_Inflate r)) quay (sec_Data b) = None \<and>
    unmarshal_config (rr_Features r) b = Inr cfg \<and>
    Inflate (rr_Inflate r) ctx (clear_block updated) b (rr_SkipResourceRequests r) s = (Inr (objs, ctx'), s')"
  using assms by (auto simp: render_def go_on_Inr on_error_passed attempt_passed split: option.splits)

lemma initial_bundle_leaves [simp]: "\<not> returns (createInitialBundleSecret r cl q) a"
  by (auto simp: createInitialBundleSecret_def returns_def go_on_Inr split: sum.splits)

lemma dispatch_passed:
  assumes "dispatch r cl quay s = (Inr u, s')"
  shows "phase_of quay = Serving \<and> \<not> NeedsBundleSecret quay \<and> u = set_observed quay \<and> s' = s"
proof -
  have "returns (dispatch r cl quay) u"
    using assms by (auto simp: returns_def)
  with assms show ?thesis
    by (cases "phase_of quay") (auto simp: dispatch_phase split: if_splits)
qed

lemma before_discovery_passed:
  assumes "before_discovery r cl quay s = (Inr (u, b, ctx), s')"
  shows "phase_of quay = Serving \<and> \<not> NeedsBundleSecret quay \<and> u = set_observed quay \<and>
    GetConfigBundleSecret cl s quay = Inr b"
  using assms
  by (auto simp: before_discovery_def check_bundle_def Let_def go_on_Inr attempt_passed GetConfigBundleSecret_def
      dest!: dispatch_passed)

lemma logged_config_simps [simp]:
  "ke_Middleware (logged_config env) = ke_Middleware env"
  "ke_Fields (logged_config env) = ke_Fields env"
  "ke_ClairConn (logged_config env) = ke_ClairConn env"
  by (simp_all add: logged_config_def)

lemma hasNecessaryConfig_logged [simp]: "hasNecessaryConfig (logged_config env) = hasNecessaryConfig env"
proof -
  have "has_field (logged_config env) = has_field env" "contains_clair_connection (logged_config env) = contains_clair_connection env"
    by (intro ext, simp add: has_field_def contains_clair_connection_def split: option.split)+
  then have "ContainsComponentConfig (logged_config env) = ContainsComponentConfig env"
    by (intro ext) (simp add: ContainsComponentConfig_def cong: ComponentKind.case_cong)
  then have "check_component_config (logged_config env) = check_component_config env"
    by (intro ext) (simp only: check_component_config_def)
  then show ?thesis
    by (intro ext) (simp add: hasNecessaryConfig_def)
qed

lemma with_cache_run: "with_cache c m s = (out, s') \<Longrightarrow> \<exists>y. m s = (y, s')"
  by (auto simp: with_cache_def split: prod.splits sum.splits)

text \<open>An object is applied only after every gate of the rollout.\<close>

lemma applied_passed_gates:
  fixes out :: "outcome \<times> RouteCache + 'z"
  assumes run: "reconcile_quay (logged_reconciler r) (logged cl) quay cache (w, []) = (out, w', ws)"
    and applied: "Applied x \<in> set ws"
  shows "phase_of quay = Serving \<and> \<not> NeedsBundleSecret quay \<and>
    (\<exists>bundle ctx updated. GetConfigBundleSecret cl w quay = Inr bundle \<and>
       EnsureDefaultComponents ctx (set_observed quay) = Inr updated \<and> ValidateOverrides updated = None \<and>
       ComponentsMatch (qr_Components quay) (qr_Components updated) \<and>
       hasNecessaryConfig (ie_Config (rr_Inflate r)) quay (sec_Data bundle) = None)"
proof -
  let ?r = "logged_reconciler r" and ?cl = "logged cl"
  note gate = emits_gate [OF _ _ applied, where P = not_applied, simplified]
  obtain u b ctx w1 l1 where 1: "before_discovery ?r ?cl quay (w, []) = (Inr (u, b, ctx), w1, l1)"
      "Applied x \<notin> set l1"
      "go_on (discover ?r ?cl quay u ctx cache) (\<lambda>(ctx, cache). with_cache cache (after_discovery ?r ?cl quay u b ctx))
        (w1, l1) = (out, w', ws)"
    using run unfolding reconcile_quay_def
    by (elim gate [OF emits_with_cache [OF before_discovery_quiet]]) (auto simp: with_cache_Inr)
  then obtain ctx c w2 l2 where 2: "Applied x \<notin> set l2"
      "with_cache c (after_discovery ?r ?cl quay u b ctx) (w2, l2) = (out, w', ws)"
    by (elim gate [OF quiet.discover]) auto
  obtain y :: "outcome + 'z" where "after_discovery ?r ?cl quay u b ctx (w2, l2) = (y, w', ws)"
    using with_cache_run [OF 2(2)] by blast
  then obtain ctx w3 l3 where 3: "Applied x \<notin> set l3"
      "go_on (settle_spec ?cl quay u ctx) (\<lambda>u'. go_on (render ?r ?cl quay u' b ctx) (\<lambda>(usercfg, objs, ctx).
         go_on (list_previous_secrets ?cl quay (clear_block u') objs) (\<lambda>previous.
           roll_out ?r ?cl quay (clear_block u') ctx (ComponentIsManaged (qr_Components u) ComponentObjectStorage)
             usercfg objs previous))) (w3, l3) = (y, w', ws)"
    unfolding after_discovery_def Let_def using 2(1) by (elim gate [OF quiet.complete_context]) auto
  have u: "derived quay u"
    using before_discovery_passed [OF 1(1)] by (simp add: derived_steps)
  from 3 obtain u' w4 l4 where 4: "settle_spec ?cl quay u ctx (w3, l3) = (Inr u', w4, l4)" "Applied x \<notin> set l4"
      "go_on (render ?r ?cl quay u' b ctx) (\<lambda>(usercfg, objs, ctx).
         go_on (list_previous_secrets ?cl quay (clear_block u') objs) (\<lambda>previous.
           roll_out ?r ?cl quay (clear_block u') ctx (ComponentIsManaged (qr_Components u) ComponentObjectStorage)
             usercfg objs previous)) (w4, l4) = (y, w', ws)"
    by (elim gate [OF quiet.settle_spec [OF u]]) auto
  have "emits not_applied (render ?r ?cl quay u' b ctx)"
    by (intro quiet.render) (simp add: emits_Inflate)
  with 4(2,3) obtain cfg objs ctx' s where "render ?r ?cl quay u' b ctx (w4, l4) = (Inr (cfg, objs, ctx'), s)"
    by (elim gate) auto
  with render_passed [OF this] settle_spec_passed [OF 4(1)] before_discovery_passed [OF 1(1)]
  show ?thesis
    by (auto simp: GetConfigBundleSecret_def)
qed

section \<open>Exact runs of the short handlers\<close>

text \<open>What a status step leaves in the log, whatever the clock says and the API server answers.\<close>

lemma updateWithCondition_run:
  "\<exists>u t n err w'. updateWithCondition (logged cl) q ty st rs msg (w, l) =
     (Inr (err, touch_status (condition_of ty st rs msg u t) n q), w',
      l @ [StatusUpdated (touch_status (condition_of ty st rs msg u t) n q)])"
  by (auto simp: updateWithCondition_def Let_def go_on_call logged_def log_write_def split: prod.split)

lemma set_condition_run:
  "\<exists>u t n w'. set_condition_and_requeue (logged cl) q ty st rs msg (w, l) =
     (Inl (Returned DefaultRequeue None), w',
      l @ [StatusUpdated (touch_status (condition_of ty st rs msg u t) n q)])"
proof -
  obtain u t n err w' where "updateWithCondition (logged cl) q ty st rs msg (w, l) =
     (Inr (err, touch_status (condition_of ty st rs msg u t) n q) :: outcome + _, w',
      l @ [StatusUpdated (touch_status (condition_of ty st rs msg u t) n q)])"
    using updateWithCondition_run by meson
  then show ?thesis by (auto simp: set_condition_and_requeue_def go_on_def)
qed

lemma report_success_run:
  "\<exists>u t w'. report_success (logged cl) q (w, l) =
     (Inl (Returned DefaultRequeue None), w',
      l @ [StatusUpdated (set_conditions (SetCondition (qr_Conditions q) (success_condition u t)) q)])"
  by (auto simp: report_success_def go_on_call logged_def log_write_def split: prod.split)

lemma success_condition_simps [simp]:
  "c_Type (success_condition u t) = ConditionComponentsCreated"
  "c_Status (success_condition u t) = ConditionTrue"
  "c_Reason (success_condition u t) = ReasonComponentsCreationSuccess"
  by (simp_all add: success_condition_def)

text \<open>A handler that leaves at once is the whole reconcile of its phase.\<close>

lemma reconcile_left:
  assumes "dispatch r cl quay s = (Inl x, s')"
  shows "reconcile_quay r cl quay cache s = (Inl (x, cache), s')"
  using assms by (simp add: reconcile_quay_def before_discovery_def go_on_def with_cache_def)

text \<open>A registry in the phase that waits for its upgrade job.\<close>

definition upgrade_job :: "'w Client \<Rightarrow> 'w \<Rightarrow> QuayRegistry \<Rightarrow> Job result" where
  "upgrade_job cl w quay = GetJob (cl_Reader cl w) (nsn (qr_Namespace quay) (qr_Name quay @ ''-'' @ QuayUpgradeJobName))"

definition job_pending :: "Job result \<Rightarrow> bool" where
  "job_pending got = (case got of Inl err \<Rightarrow> \<not> IsNotFound err | Inr job \<Rightarrow> job_Active job = 1)"

definition job_done :: "Job result \<Rightarrow> bool" where
  "job_done got = (case got of Inl err \<Rightarrow> False | Inr job \<Rightarrow> job_Active job \<noteq> 1 \<and> job_Succeeded job = 1)"

text \<open>What a pass over a migrating registry writes, by the state of the upgrade job.\<close>

abbreviation migration_writes ::
    "'v Reconciler \<Rightarrow> 'w Client \<Rightarrow> 'w \<Rightarrow> QuayRegistry \<Rightarrow> cluster_write list \<Rightarrow> bool" where
  "migration_writes r cl w quay ws \<equiv> (if job_pending (upgrade_job cl w quay) then ws = []
     else \<exists>q c. ws = [StatusUpdated q] \<and> phase_of q = Serving \<and>
       GetCondition (qr_Conditions q) ConditionComponentsCreated = Some c \<and>
       (if job_done (upgrade_job cl w quay) then version_of q = rr_Version r \<and> c_Status c = ConditionTrue
        else version_of q = version_of quay \<and> c_Status c = ConditionFalse))"

lemma checkMigrationStatus_run:
  assumes "phase_of quay = Migrating"
  shows "\<exists>w' ws. checkMigrationStatus r (logged cl) (set_observed quay) (w, []) =
      (Inl (Returned DefaultRequeue None) :: _ + QuayRegistry, w', ws) \<and> migration_writes r cl w quay ws"
proof -
  let ?q = "set_observed quay"
  have live: "\<not> FlaggedForDeletion quay" "\<And>v. \<not> FlaggedForDeletion (set_version v ?q)"
    using assms by (auto simp: phase_of_def FlaggedForDeletion_def split: if_splits)
  have set: "\<exists>u t n w'. set_condition_and_requeue (logged cl) ?q ty st rs msg (w, []) = (Inl (Returned DefaultRequeue None) :: _ + QuayRegistry, w',
      [StatusUpdated (touch_status (condition_of ty st rs msg u t) n ?q)])" for ty st rs msg
    using set_condition_run [of cl ?q ty st rs msg w "[]"] by simp
  have success: "\<exists>u t w'. report_success (logged cl) (set_version v ?q) (w, []) = (Inl (Returned DefaultRequeue None) :: _ + QuayRegistry, w',
      [StatusUpdated (set_conditions (SetCondition (qr_Conditions ?q) (success_condition u t)) (set_version v ?q))])" for v
    using report_success_run [of cl "set_version v ?q" w "[]"] by simp
  show ?thesis
  proof (cases "upgrade_job cl w quay")
    case (Inl err)
    with set [of ConditionComponentsCreated ConditionFalse ReasonMigrationsJobMissing "''upgrade job not found''"] show ?thesis
      by (auto simp: checkMigrationStatus_def upgrade_job_def job_pending_def job_done_def phase_of_created live)
  next
    case (Inr job)
    with set [of ConditionComponentsCreated ConditionFalse ReasonMigrationsFailed "failure_message ''failed to run migrations'' job"]
      success [of "rr_Version r"] show ?thesis
      by (auto simp: checkMigrationStatus_def upgrade_job_def job_pending_def job_done_def phase_of_created phase_of_success live)
  qed
qed

lemma migration_run:
  assumes "phase_of quay = Migrating"
  shows "\<exists>w' ws. reconcile_quay r (logged cl) quay cache (w, []) =
      (Inl (Returned DefaultRequeue None, cache), w', ws) \<and> migration_writes r cl w quay ws"
proof -
  obtain w' ws where d: "dispatch r (logged cl) quay (w, []) = (Inl (Returned DefaultRequeue None), w', ws)"
    and ws: "migration_writes r cl w quay ws"
    using checkMigrationStatus_run [OF assms, of r cl w] unfolding dispatch_phase(3) [OF assms, symmetric] by blast
  show ?thesis
    by (rule exI [of _ w'], rule exI [of _ ws], rule conjI [OF reconcile_left [OF d] ws])
qed

section \<open>Deletion\<close>

text \<open>What the finalizer may do: relabel the namespace and delete the dashboard of the registry.\<close>

fun finalizing :: "cluster_write \<Rightarrow> bool" where
  "finalizing (Labelled _ _) = True"
| "finalizing (Deleted (OConfigMap _)) = True"
| "finalizing _ = False"

lemma emits_finalizeQuay: "emits finalizing (finalizeQuay r (logged cl) q)"
  unfolding finalizeQuay_def cleanupNamespaceLabels_def cleanupGrafanaConfigMap_def
  by (auto intro!: emits_go_on emits_leave emits_Pair emits_call emits_log split: sum.split option.split)

lemma finalizeQuay_passes: "\<exists>err. fst (finalizeQuay r cl q s) = Inr err" (is "\<exists>err. ?f = Inr err")
proof (cases ?f)
  case (Inl x)
  then obtain s' where "finalizeQuay r cl q s = (Inl x, s')" by (metis prod.collapse)
  then show ?thesis
    by (auto simp: finalizeQuay_def cleanupNamespaceLabels_def cleanupGrafanaConfigMap_def go_on_Inl call_simp
        split: if_splits sum.splits option.splits)
qed simp

lemma finalizeQuay_run:
  obtains err w' ws where "finalizeQuay r (logged cl) q (w, []) = (Inr err :: 'x + _, w', ws)" and "list_all finalizing ws"
proof -
  obtain y :: "'x + go_error option" and w' ws where run: "finalizeQuay r (logged cl) q (w, []) = (y, w', ws)"
    by (metis prod_cases3)
  then have y: "fst (finalizeQuay r (logged cl) q (w, [])) = y" by simp
  obtain err where "y = Inr err" unfolding y [symmetric] by (rule exE [OF finalizeQuay_passes])
  with run emits_run [OF emits_finalizeQuay run] that show ?thesis by blast
qed

section \<open>Completing a spec\<close>

lemma ComponentsMatch_refl [simp]: "ComponentsMatch cs cs"
  by (auto simp: ComponentsMatch_def list_all_iff list_ex_iff)

lemma set_observed_spec [simp]:
  "qr_Components (set_observed q) = qr_Components q"
  "ValidateOverrides (set_observed q) = ValidateOverrides q"
  "set_components (qr_Components q) (set_observed q) = set_observed q"
  by (simp_all add: ValidateOverrides_def set_observed_def set_components_def)

lemma completed_stays:
  assumes "EnsureDefaultComponents ctx (set_observed quay) = Inr q"
  shows "EnsureDefaultComponents ctx (set_observed q) = Inr (set_observed q)"
proof -
  let ?d = "defaulted ctx AllComponents (qr_Components quay)"
  have "ComponentQuay \<in> set AllComponents" by (simp add: AllComponents_def)
  then have twice: "defaulted ctx AllComponents ?d = ?d"
    by (intro defaulted_defaulted) simp_all
  have q: "q = set_components ?d (set_observed quay)"
    using assms by (simp add: EnsureDefaultComponents_Inr)
  then have cs: "qr_Components q = ?d" by simp
  have "set_components ?d (set_observed q) = set_observed q"
    unfolding cs [symmetric] by simp
  with assms show ?thesis
    by (auto simp: EnsureDefaultComponents_Inr unsupported_after_defaulting twice cs)
qed

end
