(* ===== verification/Go_Sort_Laws.thy ===== *)
theory Go_Sort_Laws
  imports Go_Sort
begin

text \<open>
  What \<open>sort.Slice\<close> does under the comparison of \<open>EnsureCreationOrder\<close>, which is no strict weak order: the
  elements of one class still end up before those of the other, for any number of elements.
\<close>

section \<open>Two classes\<close>

text \<open>The comparison of \<open>EnsureCreationOrder\<close>: an element is less than any other, itself included, exactly when
  it is not in the class \<open>w\<close>. Where a range is in one class, or once the list is sorted by class, the
  algorithm moves elements within their class only; and the first split of the whole list sorts it.\<close>

abbreviation classes :: "('a \<Rightarrow> bool) \<Rightarrow> 'a \<Rightarrow> 'a \<Rightarrow> bool" where
  "classes w \<equiv> (\<lambda>x y. \<not> w x)"

definition one_class :: "('a \<Rightarrow> bool) \<Rightarrow> bool \<Rightarrow> nat \<Rightarrow> nat \<Rightarrow> 'a list \<Rightarrow> bool" where
  "one_class w c a b xs \<longleftrightarrow> b \<le> length xs \<and> (\<forall>i. a \<le> i \<and> i < b \<longrightarrow> w (xs ! i) = c)"

lemma one_class_same:
  assumes "map w ys = map w xs"
  shows "one_class w c a b ys = one_class w c a b xs"
proof -
  have "length ys = length xs" using assms by (metis length_map)
  moreover have "w (ys ! i) = w (xs ! i)" if "i < length xs" for i
    using assms that calculation by (metis nth_map)
  ultimately show ?thesis unfolding one_class_def by (metis less_le_trans)
qed

lemma one_class_part: "one_class w c a b xs \<Longrightarrow> a \<le> a' \<Longrightarrow> b' \<le> b \<Longrightarrow> one_class w c a' b' xs"
  by (auto simp: one_class_def)

lemma swap_class:
  assumes "i < length xs" and "j < length xs" and "w (xs ! i) = w (xs ! j)"
  shows "map w (swap i j xs) = map w xs"
  by (rule nth_equalityI) (use assms in \<open>auto simp: swap_def nth_list_update\<close>)

lemma reach_class:
  assumes "reach lo hi xs ys" and "one_class w c lo hi xs"
  shows "map w ys = map w xs"
  using assms
proof (induction rule: reach.induct)
  case (reach_step ys i j)
  then have same: "map w ys = map w xs" by simp
  then have "one_class w c lo hi ys" using one_class_same reach_step.prems by blast
  then have "map w (swap i j ys) = map w ys"
    using reach_step.hyps by (intro swap_class) (auto simp: one_class_def)
  with same show ?case by simp
qed simp

lemma scan_up_all: "(\<And>k. i \<le> k \<Longrightarrow> k < b \<Longrightarrow> p k) \<Longrightarrow> i \<le> b \<Longrightarrow> scan_up p b i = b"
proof (induction p b i rule: scan_up.induct)
  case (1 p b i)
  show ?case
  proof (cases "i < b")
    case True
    then have "p i" "scan_up p b (Suc i) = b" using 1 by simp_all
    with True show ?thesis by (subst scan_up.simps) simp
  next
    case False
    with 1(3) show ?thesis by (subst scan_up.simps) simp
  qed
qed

lemma partialInsertionSort_sorted:
  assumes "one_class w True a b xs" and "a < i" and "i \<le> b"
  shows "partialInsertionSort (classes w) a b (Suc n) i xs = (True, xs)"
proof -
  have "scan_up (\<lambda>k. \<not> \<not> w (xs ! k)) b i = b"
    by (rule scan_up_all) (use assms in \<open>auto simp: one_class_def\<close>)
  then show ?thesis by (simp add: Let_def)
qed

text \<open>A range of one class, below which everything is in the lower class where the range is.\<close>

definition settled_range :: "('a \<Rightarrow> bool) \<Rightarrow> nat \<Rightarrow> nat \<Rightarrow> 'a list \<Rightarrow> bool" where
  "settled_range w a b xs \<longleftrightarrow> one_class w False 0 b xs \<or> one_class w True a b xs"

lemma settled_same:
  assumes "map w ys = map w xs"
  shows "settled_range w a b ys = settled_range w a b xs"
  unfolding settled_range_def one_class_same [OF assms] ..

lemma settled_part: "settled_range w a b xs \<Longrightarrow> a \<le> a' \<Longrightarrow> b' \<le> b \<Longrightarrow> settled_range w a' b' xs"
  by (auto simp: settled_range_def intro: one_class_part)

lemma settled_reach:
  assumes "settled_range w a b xs" and "reach a b xs ys"
  shows "map w ys = map w xs"
  using assms(1) unfolding settled_range_def
proof
  assume "one_class w False 0 b xs"
  then have "one_class w False a b xs" by (rule one_class_part) simp_all
  with assms(2) show ?thesis by (rule reach_class)
next
  assume "one_class w True a b xs"
  with assms(2) show ?thesis by (rule reach_class)
qed

lemma partialInsertionSort_class:
  assumes "settled_range w a b xs" and "a < i" and "i \<le> b"
  shows "map w (snd (partialInsertionSort (classes w) a b (Suc n) i xs)) = map w xs"
  using assms(1) unfolding settled_range_def
proof
  assume "one_class w False 0 b xs"
  with partialInsertionSort_reach [OF assms(2,3)] show ?thesis by (rule reach_class)
next
  assume "one_class w True a b xs"
  then show ?thesis using partialInsertionSort_sorted assms(2,3) by (metis snd_conv)
qed

lemma pdq_prepare_class:
  assumes "settled_range w a b xs" and "12 < b - a"
    and "pdq_prepare (classes w) a b limit bal part xs = (limit', pivot, f, ys)"
  shows "map w ys = map w xs"
proof -
  let ?x1 = "if \<not> bal then breakPatterns a b xs else xs"
  obtain p h where c: "choosePivot (classes w) a b ?x1 = (p, h)" by (metis surj_pair)
  let ?x2 = "if h = decreasingHint then reverseRange a (b - 1) ?x1 else ?x1"
  let ?x3 = "if bal \<and> part \<and> h \<noteq> unknownHint then snd (partialInsertionSort (classes w) a b (Suc 4) (a + 1) ?x2) else ?x2"
  have "ys = ?x3"
    using assms(3) c by (cases h) (auto simp: pdq_prepare_def Let_def simp del: partialInsertionSort.simps split: if_splits prod.splits)
  moreover have 1: "map w ?x1 = map w xs"
    using settled_reach [OF assms(1) breakPatterns_reach] by simp
  moreover have 2: "map w ?x2 = map w ?x1"
  proof (cases "h = decreasingHint")
    case True
    have "settled_range w a b ?x1" using assms(1) settled_same [OF 1] by blast
    then have "map w (reverseRange a (b - 1) ?x1) = map w ?x1"
      by (rule settled_reach [OF _ reverseRange_reach]) (use assms(2) in linarith)+
    with True show ?thesis by (simp only: if_True simp_thms)
  qed simp
  moreover have "map w ?x3 = map w ?x2"
  proof -
    have "settled_range w a b ?x2" using assms(1) settled_same [OF 1] settled_same [OF 2] by blast
    then have "map w (snd (partialInsertionSort (classes w) a b (Suc 4) (a + 1) ?x2)) = map w ?x2"
      by (rule partialInsertionSort_class) (use assms(2) in simp_all)
    then show ?thesis
      by (cases "bal \<and> part \<and> h \<noteq> unknownHint") (simp_all only: if_True if_False simp_thms)
  qed
  ultimately show ?thesis by simp
qed

lemma pdqsort_class:
  "settled_range w a b xs \<Longrightarrow> map w (pdqsort (classes w) a b limit bal part xs) = map w xs"
proof (induction "b - a" arbitrary: a b limit bal part xs rule: less_induct)
  case less
  note IH = less.hyps and xs = less.prems
  show ?case
  proof (cases "b - a \<le> 12 \<or> limit = 0")
    case True
    then show ?thesis
      by (subst pdqsort.simps) (auto intro: settled_reach [OF xs insertionSort_reach] settled_reach [OF xs heapSort_reach])
  next
    case False
    obtain l p f ys where prep: "pdq_prepare (classes w) a b limit bal part xs = (l, p, f, ys)" by (metis prod_cases4)
    have p: "a \<le> p" "p < b" and ys: "map w ys = map w xs"
      using pdq_prepare_pivot [OF _ prep] pdq_prepare_class [OF xs _ prep] False by auto
    obtain mid zs where eq: "partitionEqual (classes w) a b p ys = (mid, zs)" by (metis surj_pair)
    obtain mid' al us where pr: "partition_range (classes w) a b p ys = (mid', al, us)" by (metis prod_cases3)
    have sy: "settled_range w a b ys" using xs settled_same [OF ys] by simp
    have mid: "a < mid" "map w zs = map w xs"
      using partitionEqual_bounds [OF eq p] settled_reach [OF sy] ys by auto
    have mid': "a \<le> mid'" "mid' < b" "map w us = map w xs"
      using partition_range_bounds [OF pr p] settled_reach [OF sy] ys by auto
    have again: "map w (pdqsort (classes w) a' b' l' bal' part' vs) = map w xs"
      if "map w vs = map w xs" and "a \<le> a'" and "b' \<le> b" and "b' - a' < b - a" for a' b' l' bal' part' vs
      using IH [OF that(4), of vs] settled_part [OF xs that(2,3)] settled_same [OF that(1)] that(1) by simp
    have "map w (pdqsort (classes w) mid b l' bal' part' zs) = map w xs"
      "map w (pdqsort (classes w) (Suc mid') b l' bal' part' (pdqsort (classes w) a mid' l2 bal2 part2 us)) = map w xs"
      "map w (pdqsort (classes w) a mid' l' bal' part' (pdqsort (classes w) (Suc mid') b l2 bal2 part2 us)) = map w xs"
      for l' bal' part' l2 bal2 part2
      using mid mid' p by (auto intro!: again)
    then show ?thesis
      using False prep eq pr ys by (subst pdqsort.simps) auto
  qed
qed

text \<open>An element of the lower class goes to the front.\<close>

lemma sink_front:
  "j < length xs \<Longrightarrow> \<not> w (xs ! j) \<Longrightarrow> sink (classes w) 0 j xs = (xs ! j) # take j xs @ drop (Suc j) xs"
proof (induction j arbitrary: xs)
  case 0
  then show ?case by (cases xs) auto
next
  case (Suc j)
  let ?ys = "swap (Suc j) j xs"
  have "sink (classes w) 0 (Suc j) xs = sink (classes w) 0 j ?ys" using Suc.prems by simp
  also have "\<dots> = (?ys ! j) # take j ?ys @ drop (Suc j) ?ys"
    using Suc.prems by (intro Suc.IH) (auto simp: swap_def)
  also have "?ys ! j = xs ! Suc j" using Suc.prems by (simp add: swap_def)
  also have "take j ?ys = take j xs" by (simp add: swap_def)
  also have "drop (Suc j) ?ys = (xs ! j) # drop (Suc (Suc j)) xs"
    using Suc.prems by (simp add: swap_def drop_update_swap Cons_nth_drop_Suc [symmetric])
  also have "take j xs @ (xs ! j) # drop (Suc (Suc j)) xs = take (Suc j) xs @ drop (Suc (Suc j)) xs"
    using Suc.prems by (simp add: take_Suc_conv_app_nth)
  finally show ?case .
qed

lemma sink_step:
  "0 < j \<Longrightarrow> \<not> w (xs ! j) \<Longrightarrow> sink (classes w) 0 j xs = sink (classes w) 0 (j - 1) (swap j (j - 1) xs)"
  by (cases j) simp_all

lemma sink_sorted:
  assumes "j < length xs" and "sorted (map w (take j xs))"
  shows "sorted (map w (take (Suc j) (sink (classes w) 0 j xs)))"
proof (cases "w (xs ! j)")
  case True
  then have "sink (classes w) 0 j xs = xs" by (cases j) simp_all
  with True assms show ?thesis by (simp add: take_Suc_conv_app_nth sorted_append)
next
  case False
  with assms show ?thesis by (simp add: sink_front)
qed

lemma sink_length [simp]: "length (sink lt a j xs) = length xs"
  by (induction lt a j xs rule: sink.induct) (simp_all add: swap_def)

lemma insertion_sorted:
  "n \<le> length xs \<Longrightarrow> sorted (map w (take n (fold (sink (classes w) 0) [Suc 0..<n] xs)))"
proof (induction n)
  case (Suc n)
  have len: "length (fold (sink (classes w) 0) [Suc 0..<n] xs) = length xs" for n
    by (induction n) simp_all
  show ?case
  proof (cases n)
    case 0
    then show ?thesis by (cases xs) simp_all
  next
    case (Suc m)
    then have "[Suc 0..<Suc n] = [Suc 0..<n] @ [n]" by simp
    then have "fold (sink (classes w) 0) [Suc 0..<Suc n] xs = sink (classes w) 0 n (fold (sink (classes w) 0) [Suc 0..<n] xs)"
      by (simp only: fold_append o_apply fold_simps)
    moreover have "n < length (fold (sink (classes w) 0) [Suc 0..<n] xs)"
      using Suc.prems len [of n] by simp
    ultimately show ?thesis using sink_sorted Suc.IH Suc.prems by (metis Suc_leD)
  qed
qed simp

lemma sorted_split:
  assumes "\<And>k. k < m \<Longrightarrow> \<not> w (xs ! k)" and "\<And>k. m < k \<Longrightarrow> k < length xs \<Longrightarrow> w (xs ! k)"
  shows "sorted (map w xs)"
  unfolding sorted_iff_nth_mono
proof (intro allI impI)
  fix i j assume "i \<le> j" "j < length (map w xs)"
  then show "map w xs ! i \<le> map w xs ! j"
    using assms(1) [of i] assms(2) [of j] by (cases "i = j"; cases "m < j") auto
qed

lemma scan_up_spec:
  "(\<forall>k. i \<le> k \<and> k < scan_up p b i \<longrightarrow> p k) \<and> (scan_up p b i < b \<longrightarrow> \<not> p (scan_up p b i))"
proof (induction p b i rule: scan_up.induct)
  case (1 p b i)
  show ?case
  proof (cases "i < b \<and> p i")
    case True
    then have "scan_up p b i = scan_up p b (Suc i)" by (subst scan_up.simps) simp
    with 1 True show ?thesis by (metis le_antisym not_less_eq_eq)
  next
    case False
    then have "scan_up p b i = i" by (subst scan_up.simps) (simp only: if_False)
    with False show ?thesis by auto
  qed
qed

lemma scan_down_spec:
  "0 < i \<Longrightarrow> (\<forall>k. scan_down p i j < k \<and> k \<le> j \<longrightarrow> p k) \<and> (i \<le> scan_down p i j \<longrightarrow> \<not> p (scan_down p i j))"
proof (induction j)
  case (Suc j)
  then show ?case by (cases "i \<le> Suc j \<and> p (Suc j)") (auto simp: le_Suc_eq)
qed simp

text \<open>The split: the positions passed by \<open>i\<close> are in the lower class, those passed by \<open>j\<close> in the upper one.\<close>

lemma scans_split:
  assumes "a < i" and "a \<le> j" and low: "\<forall>k. a < k \<and> k < i \<longrightarrow> \<not> w (xs ! k)"
    and high: "\<forall>k. j < k \<and> k < b \<longrightarrow> w (xs ! k)"
  defines "i' \<equiv> scan_up (\<lambda>k. \<not> w (xs ! k)) (Suc j) i"
  defines "j' \<equiv> scan_down (\<lambda>k. w (xs ! k)) i' j"
  shows "a < i' \<and> a \<le> j' \<and> j' \<le> j \<and> (\<forall>k. a < k \<and> k < i' \<longrightarrow> \<not> w (xs ! k)) \<and>
    (\<forall>k. j' < k \<and> k < b \<longrightarrow> w (xs ! k)) \<and> (i' \<le> j' \<longrightarrow> w (xs ! i') \<and> \<not> w (xs ! j'))"
proof -
  have i: "a < i'" unfolding i'_def by (rule less_le_trans [OF assms(1) scan_up_ge])
  have j: "a \<le> j'" "j' \<le> j" unfolding j'_def using scan_down_ge [OF i assms(2)] scan_down_le by auto
  have "0 < i'" using i by (rule le_less_trans [OF le0])
  then have down: "\<forall>k. j' < k \<and> k \<le> j \<longrightarrow> w (xs ! k)" "i' \<le> j' \<longrightarrow> \<not> w (xs ! j')"
    unfolding j'_def using scan_down_spec [of i' "\<lambda>k. w (xs ! k)" j] by blast+
  have up: "\<forall>k. i \<le> k \<and> k < i' \<longrightarrow> \<not> w (xs ! k)" "i' < Suc j \<longrightarrow> w (xs ! i')"
    unfolding i'_def using scan_up_spec [of i "\<lambda>k. \<not> w (xs ! k)" "Suc j"] by blast+
  have "\<not> w (xs ! k)" if "a < k" "k < i'" for k
    using up(1) low that by (meson not_less)
  moreover have "w (xs ! k)" if "j' < k" "k < b" for k
    using down(1) high that by (meson not_less)
  moreover have "i' \<le> j' \<longrightarrow> w (xs ! i')"
    using up(2) j(2) by (meson le_imp_less_Suc le_trans)
  ultimately show ?thesis using i j down(2) by blast
qed

lemma part_loop_class:
  "part_loop (\<lambda>p x. \<not> w x) (\<lambda>p x. w x) a i j xs = (i', j', ys) \<Longrightarrow> a < i \<Longrightarrow> a \<le> j \<Longrightarrow> j < b \<Longrightarrow> b \<le> length xs \<Longrightarrow>
     (\<And>k. a < k \<Longrightarrow> k < i \<Longrightarrow> \<not> w (xs ! k)) \<Longrightarrow> (\<And>k. j < k \<Longrightarrow> k < b \<Longrightarrow> w (xs ! k)) \<Longrightarrow>
     (\<forall>k. a < k \<and> k \<le> j' \<longrightarrow> \<not> w (ys ! k)) \<and> (\<forall>k. j' < k \<and> k < b \<longrightarrow> w (ys ! k))"
proof (induction "\<lambda>(p :: 'a) x. \<not> w x" "\<lambda>(p :: 'a) x. w x" a i j xs rule: part_loop.induct)
  case (1 a i j xs)
  let ?i = "scan_up (\<lambda>k. \<not> w (xs ! k)) (Suc j) i"
  let ?j = "scan_down (\<lambda>k. w (xs ! k)) ?i j"
  have "\<forall>k. a < k \<and> k < i \<longrightarrow> \<not> w (xs ! k)" "\<forall>k. j < k \<and> k < b \<longrightarrow> w (xs ! k)" using 1(7,8) by blast+
  note scans = scans_split [OF 1(3,4) this]
  have i: "a < ?i" and j: "a \<le> ?j" "?j \<le> j" using scans by blast+
  have low': "\<not> w (xs ! k)" if "a < k" "k < ?i" for k using scans that by blast
  have high': "w (xs ! k)" if "?j < k" "k < b" for k using scans that by blast
  have turn: "part_loop (\<lambda>p x. \<not> w x) (\<lambda>p x. w x) a i j xs = (if ?i > ?j then (?i, ?j, xs)
      else part_loop (\<lambda>p x. \<not> w x) (\<lambda>p x. w x) a (Suc ?i) (?j - 1) (swap ?i ?j xs))"
    by (subst part_loop.simps) (simp only: Let_def)
  show ?case
  proof (cases "?i > ?j")
    case True
    with 1(2) have "(?i, ?j, xs) = (i', j', ys)" unfolding turn by (simp only: if_True)
    then have "ys = xs" "j' = ?j" unfolding prod.inject by (blast dest: sym)+
    then show ?thesis using low' high' True by (metis le_less_trans)
  next
    case False
    with 1(2) have next_run: "part_loop (\<lambda>p x. \<not> w x) (\<lambda>p x. w x) a (Suc ?i) (?j - 1) (swap ?i ?j xs) = (i', j', ys)"
      unfolding turn by (simp only: if_False)
    have at: "w (xs ! ?i)" "\<not> w (xs ! ?j)"
      using scans False by (meson not_less)+
    have neq: "?i \<noteq> ?j" using at by metis
    have nth: "swap ?i ?j xs ! k = (if k = ?j then xs ! ?i else if k = ?i then xs ! ?j else xs ! k)" for k
      using False j 1(5,6) by (simp add: swap_def nth_list_update)
    show ?thesis
    proof (rule 1(1) [OF refl refl False next_run])
      show "a < Suc ?i" "a \<le> ?j - 1" "?j - 1 < b" "b \<le> length (swap ?i ?j xs)"
        using i j False neq 1(5,6) by (auto simp: swap_def)
      show "\<not> w (swap ?i ?j xs ! k)" if "a < k" "k < Suc ?i" for k
        using low' [OF that(1)] that(2) at neq False unfolding nth by (cases "k = ?i") auto
      show "w (swap ?i ?j xs ! k)" if "?j - 1 < k" "k < b" for k
        using high' [OF _ that(2)] that(1) at neq False unfolding nth by (cases "k = ?j") auto
    qed
  qed
qed

lemma partition_class:
  assumes "partition_range (classes w) 0 b pivot xs = (mid, already, ys)" and "pivot < b" and "b = length xs"
  shows "(\<forall>k < mid. \<not> w (ys ! k)) \<and> (\<forall>k. mid < k \<and> k < b \<longrightarrow> w (ys ! k))"
proof -
  obtain i j zs where loop: "part_loop (\<lambda>p x. \<not> w x) (\<lambda>p x. w x) 0 (Suc 0) (b - Suc 0) (swap 0 pivot xs) = (i, j, zs)"
    by (metis prod_cases3)
  have b: "0 < b" using assms(2) by simp
  have run: "mid = j" "ys = swap j 0 zs"
    using assms(1) loop by (auto simp: partition_range_def Let_def)
  have bounds: "j < b \<and> reach 0 b (swap 0 pivot xs) zs"
    using part_loop_bounds [OF loop, of b] b by auto
  have split: "(\<forall>k. 0 < k \<and> k \<le> j \<longrightarrow> \<not> w (zs ! k)) \<and> (\<forall>k. j < k \<and> k < b \<longrightarrow> w (zs ! k))"
    by (rule part_loop_class [OF loop]) (use b assms(3) in \<open>auto simp: swap_def\<close>)
  have len: "length zs = b"
    using reach_length bounds assms(3) by (metis length_list_update swap_def)
  show ?thesis
    unfolding run using split bounds len by (auto simp: swap_def nth_list_update)
qed

text \<open>The attempt to finish a nearly sorted list: when it says so, the list is sorted by class.\<close>

lemma shift_right_take: "n < j \<Longrightarrow> take n (shift_right lt b j xs) = take n xs"
proof (induction lt b j xs rule: shift_right.induct)
  case (1 lt b j xs)
  then show ?case by (subst shift_right.simps) (simp add: swap_def)
qed

lemma shift_right_length [simp]: "length (shift_right lt b j xs) = length xs"
proof (induction lt b j xs rule: shift_right.induct)
  case (1 lt b j xs)
  then show ?case by (subst shift_right.simps) (simp add: swap_def)
qed

lemma scan_sorted:
  assumes "sorted (map w (take i xs))" and "i \<le> length xs"
  shows "sorted (map w (take (scan_up (\<lambda>k. w (xs ! k)) b i) xs))" (is "sorted (map w (take ?i xs))")
  unfolding sorted_iff_nth_mono
proof (intro allI impI)
  fix m n assume mn: "m \<le> n" "n < length (map w (take ?i xs))"
  show "map w (take ?i xs) ! m \<le> map w (take ?i xs) ! n"
  proof (cases "n < i")
    case True
    then have "map w (take i xs) ! m \<le> map w (take i xs) ! n"
      using assms mn by (intro sorted_nth_mono) auto
    with True mn scan_up_ge [of i] show ?thesis by simp
  next
    case False
    then have "w (xs ! n)" using scan_up_spec [of i "\<lambda>k. w (xs ! k)" b] mn by auto
    with mn show ?thesis by simp
  qed
qed

lemma moved_to_front:
  assumes "0 < i" and "i < length xs" and "\<not> w (xs ! i)"
  shows "take i (if i - 0 \<ge> 2 then sink (classes w) 0 (i - 1) (swap i (i - 1) xs) else swap i (i - 1) xs) =
    (xs ! i) # take (i - 1) xs" (is "take i ?ys = _")
proof (cases "i - 0 \<ge> 2")
  case True
  have "?ys = sink (classes w) 0 i xs"
    using sink_step [of i w xs, OF assms(1,3)] True by (simp only: if_True)
  then have "?ys = (xs ! i) # take i xs @ drop (Suc i) xs"
    using sink_front [of i xs w, OF assms(2,3)] by (rule trans)
  then show ?thesis using assms(1,2) by (cases i) (simp_all add: take_Suc_conv_app_nth)
next
  case False
  then have "i = 1" using assms(1) by linarith
  with assms(2) show ?thesis by (cases xs) (auto simp: swap_def take_Suc_conv_app_nth)
qed

lemma moved_sorted:
  assumes "0 < i" and "\<not> c" and "sorted (map w (take i xs))" and "w x = c"
  shows "sorted (map w (x # take (i - 1) xs))"
proof -
  have "sorted (take (i - 1) (map w (take i xs)))" by (rule sorted_wrt_take [OF assms(3)])
  moreover have "take (i - 1) (map w (take i xs)) = map w (take (i - 1) xs)"
    by (simp add: take_map min_def)
  ultimately show ?thesis using assms(2,4) by simp
qed

lemma partialInsertionSort_claims:
  "partialInsertionSort (classes w) 0 b steps i xs = (True, ys) \<Longrightarrow> b = length xs \<Longrightarrow> 0 < i \<Longrightarrow> i \<le> b \<Longrightarrow>
     sorted (map w (take i xs)) \<Longrightarrow> sorted (map w ys)"
proof (induction steps arbitrary: i xs)
  case (Suc steps)
  let ?i = "scan_up (\<lambda>k. w (xs ! k)) b i"
  let ?x1 = "swap ?i (?i - 1) xs"
  let ?x2 = "if ?i - 0 \<ge> 2 then sink (classes w) 0 (?i - 1) ?x1 else ?x1"
  let ?x3 = "if b - ?i \<ge> 2 then shift_right (classes w) b (?i + 1) ?x2 else ?x2"
  have i: "0 < ?i" "?i \<le> b"
    using scan_up_ge [of i] scan_up_le Suc.prems by (auto intro: less_le_trans)
  have sorted_i: "sorted (map w (take ?i xs))"
    by (rule scan_sorted [OF Suc.prems(5)]) (use Suc.prems(2,4) in simp)
  show ?case
  proof (cases "?i = b")
    case True
    have run: "partialInsertionSort (classes w) 0 b (Suc steps) i xs = (True, xs)"
      by (simp only: partialInsertionSort.simps Let_def not_not True if_True simp_thms)
    with Suc.prems(1) have "ys = xs" by simp
    moreover have "take ?i xs = xs" using True Suc.prems(2) by simp
    ultimately show ?thesis using sorted_i by (simp only:)
  next
    case False
    then have less: "?i < length xs" and low: "\<not> w (xs ! ?i)"
      using i Suc.prems(2) scan_up_spec [of i "\<lambda>k. w (xs ! k)" b] by auto
    have big: "\<not> b - 0 < 50"
    proof
      assume "b - 0 < 50"
      with False have "partialInsertionSort (classes w) 0 b (Suc steps) i xs = (False, xs)"
        by (simp only: partialInsertionSort.simps Let_def not_not if_True if_False)
      with Suc.prems(1) show False by simp
    qed
    have run: "partialInsertionSort (classes w) 0 b steps ?i ?x3 = (True, ys)"
      using Suc.prems(1) False big by (simp only: partialInsertionSort.simps Let_def not_not if_False)
    have "take ?i ?x3 = (xs ! ?i) # take (?i - 1) xs"
      using moved_to_front [of ?i xs w, OF i(1) less low] by (simp add: shift_right_take)
    then have "sorted (map w (take ?i ?x3))"
      using moved_sorted [of ?i False w xs, OF i(1) _ sorted_i] low by simp
    moreover have "b = length ?x3" using Suc.prems(2) by (simp add: swap_def)
    ultimately show ?thesis using Suc.IH [OF run] i by blast
  qed
qed simp

text \<open>All of it: whatever the number of objects, the lower class comes first.\<close>

lemma pdqsort_settled:
  assumes "settled_range w a b us" and "map w vs = map w us"
  shows "map w (pdqsort (classes w) a b limit bal part vs) = map w us"
  using pdqsort_class [of w a b vs] settled_same [OF assms(2)] assms by metis

lemma finished_early_sorted:
  assumes "12 < length xs" and "pdq_prepare (classes w) 0 (length xs) limit True True xs = (l, p, True, ys)"
  shows "sorted (map w ys)"
proof -
  let ?n = "length xs"
  obtain q h where c: "choosePivot (classes w) 0 ?n xs = (q, h)" by (metis surj_pair)
  let ?zs = "if h = decreasingHint then reverseRange 0 (?n - 1) xs else xs"
  have run: "partialInsertionSort (classes w) 0 ?n 5 1 ?zs = (True, ys)"
    using assms(2) c by (auto simp: pdq_prepare_def Let_def simp del: partialInsertionSort.simps split: if_splits prod.splits)
  have zs: "?n = length ?zs" using reach_length [OF reverseRange_reach [of 0 0 "?n - 1" ?n xs]] assms(1) by simp
  have "sorted (map w (take 1 ?zs))" by (cases ?zs) simp_all
  then show ?thesis by (rule partialInsertionSort_claims [OF run zs, rotated 2]) (use assms(1) in simp_all)
qed

lemma SortSlice_classes: "sorted (map w (SortSlice (classes w) xs))"
proof -
  let ?n = "length xs"
  show ?thesis
  proof (cases "?n \<le> 12")
    case True
    have "length (fold (sink (classes w) 0) [Suc 0..<n] xs) = length xs" for n
      by (induction n) simp_all
    with True insertion_sorted [of ?n xs w] show ?thesis
      unfolding SortSlice_def by (subst pdqsort.simps) (simp add: insertionSort_def)
  next
    case False
    then have limit: "bit_len ?n \<noteq> 0" by (subst bit_len.simps) auto
    obtain l p f ys where prep: "pdq_prepare (classes w) 0 ?n (bit_len ?n) True True xs = (l, p, f, ys)" by (metis prod_cases4)
    have p: "p < ?n" using pdq_prepare_pivot [OF _ prep] False by simp
    have len: "length ys = ?n" using reach_length [OF pdq_prepare_reach [OF _ prep]] False by simp
    obtain mid al us where pr: "partition_range (classes w) 0 ?n p ys = (mid, al, us)" by (metis prod_cases3)
    have mid: "mid < ?n" "length us = ?n"
      using partition_range_bounds [OF pr _ p] len by (auto dest: reach_length)
    have split: "\<forall>k < mid. \<not> w (us ! k)" "\<forall>k. mid < k \<and> k < ?n \<longrightarrow> w (us ! k)"
      using partition_class [OF pr p] len by auto
    have classes: "sorted (map w us)" using sorted_split [of mid w us] split mid(2) by auto
    have halves: "settled_range w 0 mid us" "settled_range w (Suc mid) ?n us"
      using split mid by (auto simp: settled_range_def one_class_def)
    have finished: "sorted (map w ys)" if f
      using finished_early_sorted prep False that by (metis not_le)
    show ?thesis
      unfolding SortSlice_def using False limit prep pr finished classes
      by (subst pdqsort.simps) (simp add: pdqsort_settled [OF halves(1)] pdqsort_settled [OF halves(2)])
  qed
qed

lemma sorted_classes_split:
  "sorted (map w xs) \<Longrightarrow> \<exists>ys zs. xs = ys @ zs \<and> set ys = {x \<in> set xs. \<not> w x} \<and> list_all w zs"
proof (induction xs)
  case (Cons x xs)
  then have later: "y \<in> set xs \<Longrightarrow> w x \<Longrightarrow> w y" for y by auto
  from Cons obtain ys zs where split: "xs = ys @ zs" "set ys = {x \<in> set xs. \<not> w x}" "list_all w zs" by auto
  show ?case
  proof (cases "w x")
    case True
    with later have "list_all w (x # xs)" by (simp add: list_all_iff)
    then have "x # xs = [] @ (x # xs) \<and> set [] = {y \<in> set (x # xs). \<not> w y} \<and> list_all w (x # xs)"
      by (auto simp: list_all_iff)
    then show ?thesis by blast
  next
    case False
    then have "x # xs = (x # ys) @ zs \<and> set (x # ys) = {y \<in> set (x # xs). \<not> w y} \<and> list_all w zs"
      using split by auto
    then show ?thesis by blast
  qed
qed simp

end
