(* ===== verification/Progress.thy ===== *)
theory Progress
  imports Outcomes Go_Sort_Laws
begin

text \<open>
  The order in which objects are created, what a reconcile has done when it comes back late, and when the
  wait for a database upgrade ends. The
  argument runs backwards from the exit: a stage that cannot leave with the long delay was passed, and
  what passing it means is a fact about the registry or the log.
\<close>

section \<open>Exits that pass the earlier stages\<close>

lemma ends_gate:
  assumes "ends Q m" and "go_on m k s = (Inl x, s')" and "\<not> Q x"
  obtains a s1 where "m s = (Inr a, s1)" and "k a s1 = (Inl x, s')"
  using assms unfolding ends_def go_on_Inl by blast

lemma with_cache_Inl: "with_cache c m s = (Inl y, s') \<longleftrightarrow> snd y = c \<and> m s = (Inl (fst y), s')"
  by (cases y) (auto simp: with_cache_def split: prod.splits sum.splits)

text \<open>The log only grows.\<close>

interpretation any: write_policy "\<lambda>_. True" quay v for quay v
  by unfold_locales simp_all

lemma log_grows:
  assumes "emits (\<lambda>_. True) m" and "m (w, l) = (out, w', l')"
  shows "set l \<subseteq> set l'"
  using emitsD [OF assms(1), of w l] assms(2) by (metis Un_upper1 set_append snd_conv)

section \<open>The loop over the objects\<close>

text \<open>Two objects are the same resource up to the namespace, which the dashboard changes.\<close>

definition same_resource :: "KObject \<Rightarrow> KObject \<Rightarrow> bool" where
  "same_resource x y \<longleftrightarrow> obj_gvk x = obj_gvk y \<and> obj_name x = obj_name y"

definition is_job :: "KObject \<Rightarrow> bool" where
  "is_job x \<longleftrightarrow> obj_gvk x = gvk ''batch'' ''v1'' ''Job''"

definition in_place :: "cluster_write list \<Rightarrow> KObject \<Rightarrow> bool" where
  "in_place ws x \<longleftrightarrow> is_job x \<or> (\<exists>y. Applied y \<in> set ws \<and> same_resource y x)"

lemma in_place_mono: "in_place l x \<Longrightarrow> set l \<subseteq> set l' \<Longrightarrow> in_place l' x"
  by (auto simp: in_place_def)

lemma obj_gvk_map [simp]: "obj_gvk (map_obj_meta f x) = obj_gvk x"
  by (cases x) simp_all

lemma adopted_identity [simp]:
  "obj_gvk (adopt_object quay x) = obj_gvk x" "obj_name (adopt_object quay x) = obj_name x"
  by (simp_all add: adopt_object_def Let_def EnsureOwnerReference_def RemoveOwnerReference_def)

lemma dashboard_identity:
  assumes "updateGrafanaDashboardData set_json (set_namespace ns x) quay = Inr y"
  shows "same_resource y x"
  using assms
  by (cases x) (auto simp: updateGrafanaDashboardData_def and_then_Inr_iff set_namespace_def same_resource_def)

lemma apply_object_done:
  assumes "apply_object r (logged cl) x (w, l) = (Inr (b, None), w', l')"
  shows "Applied x \<in> set l'"
  using assms by (auto simp: apply_object_def go_on_call log_write_def
      split: prod.splits option.splits KObject.splits if_splits)

lemma createOrUpdateObject_done:
  assumes "createOrUpdateObject r (logged cl) x quay (w, l) = (Inr (b, None), w', l')"
  shows "in_place l' x"
  using assms by (auto simp: createOrUpdateObject_def Let_def in_place_def is_job_def same_resource_def
      dest!: apply_object_done split: if_splits)

lemma create_object_done:
  assumes "create_object r (logged cl) quay updated ctx x (w, l) = (Inr (), w', l')"
  shows "in_place l' x"
proof -
  from assms obtain y w1 l1 b where same: "same_resource y x"
    and y: "createOrUpdateObject r (logged cl) y quay (w1, l1) = (Inr (b, None) :: outcome + _, w', l')"
    by (auto simp: create_object_def go_on_Inr on_error_passed same_resource_def dest: dashboard_identity
        split: if_splits option.splits)
  from createOrUpdateObject_done [OF y] same show ?thesis
    by (auto simp: in_place_def is_job_def same_resource_def)
qed

lemma create_objects_done:
  assumes "create_objects r (logged cl) quay updated ctx objs (w, l) = (Inr (), w', l')"
  shows "list_all (in_place l') objs"
  using assms
proof (induction objs arbitrary: w l)
  case (Cons x objs)
  then obtain w1 l1 where 1: "create_object r (logged cl) quay updated ctx x (w, l) = (Inr (), w1, l1)"
    and 2: "create_objects r (logged cl) quay updated ctx objs (w1, l1) = (Inr (), w', l')"
    by (auto simp: go_on_Inr)
  have "set l1 \<subseteq> set l'"
    by (rule log_grows [OF any.create_objects 2])
  with create_object_done [OF 1] Cons.IH [OF 2] show ?case
    by (auto intro: in_place_mono)
qed simp

section \<open>The order of the objects\<close>

text \<open>A write that touches a deployment or a job.\<close>

fun touches_workload :: "cluster_write \<Rightarrow> bool" where
  "touches_workload (Applied x) = (obj_kind x \<in> {''Deployment'', ''Job''})"
| "touches_workload (Created x) = (obj_kind x \<in> {''Deployment'', ''Job''})"
| "touches_workload (Deleted x) = (obj_kind x \<in> {''Deployment'', ''Job''})"
| "touches_workload _ = False"

lemma creation_classes: "creation_less = classes is_workload"
  by (intro ext) (simp add: creation_less_def is_workload_def)

text \<open>The objects in creation order, deferred ones left out: first the rest, then the workloads.\<close>

lemma creation_split:
  "\<exists>first later. filterDeferredWorkloads (EnsureCreationOrder objs) d = first @ later \<and>
     set first = {x \<in> set objs. \<not> is_workload x} \<and> list_all is_workload later"
proof -
  let ?all = "filterDeferredWorkloads (EnsureCreationOrder objs) d"
  have "sorted (map is_workload (EnsureCreationOrder objs))"
    unfolding EnsureCreationOrder_def creation_classes by (rule SortSlice_classes)
  then have "sorted (map is_workload (filter (\<lambda>x. d \<longrightarrow> \<not> deferrable x) (EnsureCreationOrder objs)))"
    by (rule sorted_filter)
  moreover have "?all = filter (\<lambda>x. d \<longrightarrow> \<not> deferrable x) (EnsureCreationOrder objs)"
    by (cases d) (simp_all add: filterDeferredWorkloads_def)
  ultimately have sorted: "sorted (map is_workload ?all)" by (simp only:)
  have "{x \<in> set ?all. \<not> is_workload x} = {x \<in> set objs. \<not> is_workload x}"
    by (auto simp: filterDeferredWorkloads_def EnsureCreationOrder_def deferrable_def)
  with sorted_classes_split [OF sorted] show ?thesis by (simp only:)
qed

lemma create_objects_append:
  "create_objects r cl quay u ctx (xs @ ys) = go_on (create_objects r cl quay u ctx xs) (\<lambda>_. create_objects r cl quay u ctx ys)"
  by (induction xs) (auto simp: go_on_def fun_eq_iff split: prod.split sum.split)

lemma emits_no_workload:
  assumes "\<not> is_workload x"
  shows "emits (\<lambda>wr. \<not> touches_workload wr) (create_object r (logged cl) quay u ctx x)"
proof -
  let ?P = "\<lambda>wr. \<not> touches_workload wr"
  have one: "emits ?P (createOrUpdateObject r (logged cl) y quay :: (_, outcome, _) step)" if "same_resource y x" for y
  proof -
    have y: "\<not> is_workload y" using assms that by (simp add: same_resource_def is_workload_def)
    then have "obj_gvk (adopt_object quay y) \<noteq> gvk ''batch'' ''v1'' ''Job''" by (auto simp: is_workload_def)
    then have "createOrUpdateObject r (logged cl) y quay =
        (apply_object r (logged cl) (adopt_object quay y) :: (_, outcome, _) step)"
      by (simp add: createOrUpdateObject_def Let_def)
    moreover have "?P (Applied (adopt_object quay y))" using y by (simp add: is_workload_def)
    then have "emits ?P (apply_object r (logged cl) (adopt_object quay y) :: (_, outcome, _) step)"
      by (auto simp: apply_object_def simp del: touches_workload.simps
          intro!: emits_go_on emits_call emits_log emits_leave split: option.split KObject.split)
    ultimately show ?thesis by simp
  qed
  show ?thesis
    unfolding create_object_def
  proof (rule emits_go_on_hands [where Q = "\<lambda>y. same_resource y x"])
    show "hands_on (\<lambda>y. same_resource y x) (if SupportsMonitoring ctx \<and> isGrafanaConfigMap x
        then on_error (\<lambda>err. block_rollout (logged cl) quay ReasonMonitoringComponentDependencyError
               (''unable to update title on Grafana '' @ error_text err))
             (updateGrafanaDashboardData (rr_SetJSON r) (set_namespace grafanaDashboardConfigNamespace x) u)
        else pass x)"
      by (auto intro!: hands_on_error dest: dashboard_identity simp: same_resource_def)
  qed (auto intro!: emits_on_error emits_block_rollout emits_leave emits_go_on one split: option.split)
qed

lemma emits_no_workloads:
  "list_all (\<lambda>x. \<not> is_workload x) xs \<Longrightarrow> emits (\<lambda>wr. \<not> touches_workload wr) (create_objects r (logged cl) quay u ctx xs)"
  by (induction xs) (auto intro!: emits_go_on emits_leave emits_Pair emits_no_workload)

lemma emits_extends:
  assumes "emits P m" and "m (w, l) = (out, w', l')"
  obtains ws where "l' = l @ ws" and "list_all P ws"
  using emitsD [OF assms(1), of w l] assms(2) by auto

lemma dependencies_first:
  fixes out :: "outcome + unit"
  assumes derived: "derived quay u"
    and run: "roll_out r (logged cl) quay u ctx os cfg objs previous (w, []) = (out, w', before @ wr # after)"
    and wr: "touches_workload wr" and y: "y \<in> set objs" "\<not> is_workload y"
  shows "in_place before y"
proof -
  obtain first later where split: "filterDeferredWorkloads (EnsureCreationOrder objs) (deferWorkloads os ctx) = first @ later"
    and first: "set first = {x \<in> set objs. \<not> is_workload x}"
    using creation_split by blast
  define rest where "rest = (\<lambda>_ :: unit. go_on (create_objects r (logged cl) quay u ctx later) (\<lambda>_.
      go_on (label_namespace (logged cl) quay u ctx) (\<lambda>_. go_on (remove_previous_secrets (logged cl) quay u previous) (\<lambda>_.
      go_on (recheck_block (logged cl) u) (\<lambda>_. finish r (logged cl) u ctx os cfg :: (_, outcome, unit) step)))))"
  have whole: "go_on (create_objects r (logged cl) quay u ctx first) rest (w, []) = (out, w', before @ wr # after)"
    using run unfolding roll_out_def split create_objects_append rest_def go_on_assoc .
  have quiet: "emits (\<lambda>wr. \<not> touches_workload wr) (create_objects r (logged cl) quay u ctx first)"
    using first by (intro emits_no_workloads) (simp add: list_all_iff)
  obtain res w1 l1 where 1: "create_objects r (logged cl) quay u ctx first (w, []) = (res, w1, l1)"
    by (metis surj_pair)
  then have none: "list_all (\<lambda>wr. \<not> touches_workload wr) l1"
    by (rule emits_run [OF quiet])
  show ?thesis
  proof (cases res)
    case (Inl x)
    with whole 1 none wr show ?thesis by (auto simp: go_on_def)
  next
    case (Inr a)
    have 2: "rest () (w1, l1) = (out, w', before @ wr # after)"
      using whole 1 Inr by (simp add: go_on_def)
    have "emits (\<lambda>_. True) (rest ())"
      unfolding rest_def using derived
      by (intro emits_go_on any.create_objects any.label_namespace any.remove_previous any.recheck any.finish [OF _ refl])
    then obtain ws where "before @ wr # after = l1 @ ws"
      using 2 by (rule emits_extends)
    with none wr have "set l1 \<subseteq> set before"
      by (auto simp: append_eq_append_conv2 Cons_eq_append_conv list_all_iff)
    moreover have "in_place l1 y"
      using create_objects_done [of r cl quay u ctx first w "[]"] 1 Inr first y by (auto simp: list_all_iff)
    ultimately show ?thesis by (rule in_place_mono [rotated])
  qed
qed

section \<open>The end of a settled reconcile\<close>

definition rolled_out :: "QuayRegistry \<Rightarrow> bool" where
  "rolled_out q \<longleftrightarrow> (case GetCondition (qr_Conditions q) ConditionTypeRolloutBlocked of
     None \<Rightarrow> False | Some c \<Rightarrow> c_Status c = ConditionFalse \<and> c_Reason c = ReasonComponentsCreationSuccess)"

definition finalized_by :: "QuayRegistry \<Rightarrow> cluster_write list \<Rightarrow> bool" where
  "finalized_by quay ws \<longleftrightarrow> ContainsFinalizer quay quayOperatorFinalizer \<or>
     (\<exists>q. QuayUpdated q \<in> set ws \<and> ContainsFinalizer q quayOperatorFinalizer)"

lemma AddFinalizer_contains [simp]: "ContainsFinalizer (AddFinalizer q f) f"
  by (simp add: AddFinalizer_def ContainsFinalizer_def set_finalizers_def)

lemma derived_finalizer: "derived quay q \<Longrightarrow> ContainsFinalizer q f = ContainsFinalizer quay f"
  by (simp add: derived_def ContainsFinalizer_def)

lemma waits_no_long_delay:
  assumes "set_condition_and_requeue cl q ty st rs msg s = (Inl x :: outcome + 'z, s')"
  shows "no_long_delay x"
proof -
  have "ends no_long_delay (set_condition_and_requeue cl q ty st rs msg :: (_, outcome, 'z) step)"
    by (rule hurry.conditions)
  with assms show ?thesis unfolding ends_def by blast
qed

lemma conclude_settled:
  assumes run: "conclude r (logged cl) u ctx (w, l) = (Inl x, w', l')" and late: "\<not> no_long_delay x"
    and "derived quay u"
  shows "x = Returned (RequeueAfter 60) None \<and> version_of quay = rr_Version r \<and> finalized_by quay l'"
proof -
  have "\<not> (NeedsPgUpgrade ctx \<or> NeedsClairPgUpgrade ctx)" and version: "version_of u = rr_Version r"
    using run late by (auto simp: conclude_def dest!: waits_no_long_delay split: if_splits)
  with run late have "x = Returned (RequeueAfter 60) None" "ContainsFinalizer u quayOperatorFinalizer \<or>
      QuayUpdated (AddFinalizer u quayOperatorFinalizer) \<in> set l'"
    by (auto simp: conclude_def go_on_call log_write_def split: if_splits option.splits prod.splits)
  moreover have "version_of quay = version_of u"
    using phase_of_derived [OF assms(3)] by simp
  ultimately show ?thesis
    using version derived_finalizer [OF assms(3)] by (auto simp: finalized_by_def)
qed

lemma finish_settled:
  assumes run: "finish r (logged cl) u ctx osmanaged cfg (w, l) = (Inl x :: outcome + 'z, w', l')" and late: "\<not> no_long_delay x"
    and derived: "derived quay u"
  shows "x = Returned (RequeueAfter 60) None \<and> version_of quay = rr_Version r \<and> finalized_by quay l' \<and>
    \<not> deferWorkloads osmanaged ctx \<and> (\<exists>q. StatusUpdated q \<in> set l' \<and> rolled_out q)"
proof -
  let ?c = "condition_of ConditionTypeRolloutBlocked ConditionFalse ReasonComponentsCreationSuccess
    ''All objects created/updated successfully''"
  obtain t1 t2 n err w1 where start: "updateWithCondition (logged cl) u ConditionTypeRolloutBlocked ConditionFalse
      ReasonComponentsCreationSuccess ''All objects created/updated successfully'' (w, l) =
      (Inr (err, touch_status (?c t1 t2) n u) :: outcome + _, w1, l @ [StatusUpdated (touch_status (?c t1 t2) n u)])"
    using updateWithCondition_run by meson
  define u1 where "u1 = touch_status (?c t1 t2) n u"
  let ?u = u1 and ?l = "l @ [StatusUpdated u1]"
  note start = start [folded u1_def]
  have ready: "\<not> deferWorkloads osmanaged ctx" and
    publish: "publish_endpoint r (logged cl) ?u ctx cfg (w1, ?l) = (Inl x :: _ + 'z, w', l')"
    using run late start by (auto simp: finish_def go_on_def deferWorkloads_def split: if_splits)
  then obtain up u2 s2 where endpoint: "EnsureRegistryEndpoint ctx ?u cfg = Inr (up, u2)"
    and last: "go_on (if up then pass None else call (cl_UpdateQuayStatus (logged cl) u2)) (\<lambda>err.
         if err \<noteq> None then leave (Returned DefaultRequeue None) else conclude r (logged cl) u2 ctx) (w1, ?l) = (Inl x :: _ + 'z, w', l')"
    using late by (auto simp: publish_endpoint_def on_error_def split: sum.splits go_error.splits)
  then obtain w3 l3 where conclude: "conclude r (logged cl) u2 ctx (w3, l3) = (Inl x :: _ + 'z, w', l')" and "set ?l \<subseteq> set l3"
    using late by (cases up) (fastforce simp: go_on_call log_write_def split: if_splits prod.splits)+
  have d: "derived quay ?u" using derived by (simp add: derived_steps u1_def)
  have u2: "derived quay u2"
    by (rule EnsureRegistryEndpoint_derived [OF endpoint d])
  note settled = conclude_settled [OF conclude late u2]
  have "set l3 \<subseteq> set l'"
    by (rule log_grows [OF any.conclude [OF u2 refl] conclude])
  moreover have "rolled_out ?u" by (simp add: rolled_out_def u1_def)
  ultimately show ?thesis
    using settled ready \<open>set ?l \<subseteq> set l3\<close> by auto
qed

lemma roll_out_settled:
  assumes run: "roll_out r (logged cl) quay u ctx osmanaged cfg objs previous (w, l) = (Inl x :: outcome + 'z, w', l')"
    and late: "\<not> no_long_delay x" and derived: "derived quay u"
  shows "x = Returned (RequeueAfter 60) None \<and> version_of quay = rr_Version r \<and> finalized_by quay l' \<and>
    (\<exists>q. StatusUpdated q \<in> set l' \<and> rolled_out q) \<and> list_all (in_place l') (EnsureCreationOrder objs)"
proof -
  let ?all = "filterDeferredWorkloads (EnsureCreationOrder objs) (deferWorkloads osmanaged ctx)"
  let ?rest = "go_on (label_namespace (logged cl) quay u ctx) (\<lambda>_.
      go_on (remove_previous_secrets (logged cl) quay u previous) (\<lambda>_.
      go_on (recheck_block (logged cl) u) (\<lambda>_. finish r (logged cl) u ctx osmanaged cfg))) :: (_, outcome, 'z) step"
  from run obtain w1 l1 where 1: "create_objects r (logged cl) quay u ctx ?all (w, l) = (Inr (), w1, l1)"
    and rest: "?rest (w1, l1) = (Inl x, w', l')"
    unfolding roll_out_def by (elim ends_gate [OF hurry.objects _ late]) auto
  then obtain w2 l2 where "finish r (logged cl) u ctx osmanaged cfg (w2, l2) = (Inl x :: _ + 'z, w', l')"
    by (elim ends_gate [OF hurry.stages(7) _ late] ends_gate [OF hurry.stages(8) _ late] ends_gate [OF hurry.stages(9) _ late])
      auto
  note settled = finish_settled [OF this late derived]
  have "emits (\<lambda>_. True) ?rest"
    using derived by (intro emits_go_on any.label_namespace any.remove_previous any.recheck any.finish [OF _ refl])
  from log_grows [where m = ?rest, OF this rest] have "set l1 \<subseteq> set l'" .
  moreover have "?all = EnsureCreationOrder objs"
    using settled by (simp add: filterDeferredWorkloads_def)
  ultimately show ?thesis
    using settled create_objects_done [OF 1] by (auto simp: list_all_iff intro: in_place_mono)
qed

lemma ends_deletion: "ends no_long_delay (manageQuayDeletion r cl q)"
  by (auto simp: manageQuayDeletion_def finalizeQuay_def cleanupNamespaceLabels_def cleanupGrafanaConfigMap_def
      intro!: ends_intros split: option.split sum.split)

lemma ends_before: "ends no_long_delay (before_discovery r cl quay)"
  by (auto simp: before_discovery_def dispatch_def Let_def intro!: ends_intros ends_deletion split: prod.split)

text \<open>The stages before the loop, passed one by one.\<close>

definition rendered_from ::
  "'w Reconciler \<Rightarrow> 'w Client \<Rightarrow> 'w \<Rightarrow> QuayRegistry \<Rightarrow> KObject list \<Rightarrow> bool" where
  "rendered_from r cl w quay objs \<longleftrightarrow>
     (\<exists>bundle ctx updated ctx' s s'. GetConfigBundleSecret cl w quay = Inr bundle \<and>
        EnsureDefaultComponents ctx (set_observed quay) = Inr updated \<and> ValidateOverrides updated = None \<and>
        Inflate (logged_inflate (rr_Inflate r)) ctx (clear_block updated) bundle (rr_SkipResourceRequests r) s =
          (Inr (objs, ctx'), s'))"

lemma after_discovery_settled:
  assumes run: "after_discovery (logged_reconciler r) (logged cl) quay (set_observed quay) b ctx0 (w0, l) =
      (Inl x :: outcome + 'z, w', l')"
    and late: "\<not> no_long_delay x" and got: "GetConfigBundleSecret cl w quay = Inr b"
  shows "x = Returned (RequeueAfter 60) None \<and> version_of quay = rr_Version r \<and> finalized_by quay l' \<and>
    (\<exists>q. StatusUpdated q \<in> set l' \<and> rolled_out q) \<and>
    (\<exists>objs. rendered_from r cl w quay objs \<and> list_all (in_place l') (EnsureCreationOrder objs))"
proof -
  let ?r = "logged_reconciler r" and ?cl = "logged cl" and ?u = "set_observed quay"
  let ?os = "ComponentIsManaged (qr_Components ?u) ComponentObjectStorage"
  from run obtain ctx w1 l1 where "go_on (settle_spec ?cl quay ?u ctx) (\<lambda>q.
      go_on (render ?r ?cl quay q b ctx) (\<lambda>(cfg, objs, ctx).
      go_on (list_previous_secrets ?cl quay (clear_block q) objs)
        (roll_out ?r ?cl quay (clear_block q) ctx ?os cfg objs))) (w1, l1) = (Inl x :: _ + 'z, w', l')"
    unfolding after_discovery_def Let_def by (elim ends_gate [OF hurry.complete _ late]) auto
  then obtain q w2 l2 where spec: "settle_spec ?cl quay ?u ctx (w1, l1) = (Inr q, w2, l2)" and
    "go_on (render ?r ?cl quay q b ctx) (\<lambda>(cfg, objs, ctx).
      go_on (list_previous_secrets ?cl quay (clear_block q) objs)
        (roll_out ?r ?cl quay (clear_block q) ctx ?os cfg objs)) (w2, l2) = (Inl x :: _ + 'z, w', l')"
    by (elim ends_gate [OF hurry.stages(3) _ late]) auto
  then obtain cfg objs ctx' w3 l3 where render: "render ?r ?cl quay q b ctx (w2, l2) = (Inr (cfg, objs, ctx'), w3, l3)" and
    "go_on (list_previous_secrets ?cl quay (clear_block q) objs)
        (roll_out ?r ?cl quay (clear_block q) ctx' ?os cfg objs) (w3, l3) = (Inl x :: _ + 'z, w', l')"
    by (elim ends_gate [OF hurry.stages(4) _ late]) auto
  then obtain previous w4 l4 where roll:
      "roll_out ?r ?cl quay (clear_block q) ctx' ?os cfg objs previous (w4, l4) = (Inl x :: _ + 'z, w', l')"
    by (elim ends_gate [OF hurry.stages(5) _ late]) auto
  note passed = settle_spec_passed [OF spec] render_passed [OF render]
  have "derived quay (clear_block q)"
    using passed EnsureDefaultComponents_derived by (auto simp: derived_steps)
  from roll_out_settled [OF roll late this] have settled: "x = Returned (RequeueAfter 60) None"
    "version_of quay = rr_Version r" "finalized_by quay l'" "\<exists>q. StatusUpdated q \<in> set l' \<and> rolled_out q"
    "list_all (in_place l') (EnsureCreationOrder objs)" by auto
  have "rendered_from r cl w quay objs"
    unfolding rendered_from_def using passed got by (simp only: logged_reconciler_simps) blast
  with settled show ?thesis by blast
qed

lemma reconcile_settled:
  assumes run: "reconcile_quay (logged_reconciler r) (logged cl) quay cache (w, []) = (Inl (x, c) :: _ + 'z, w', ws)"
    and late: "\<not> no_long_delay x"
  shows "x = Returned (RequeueAfter 60) None \<and> phase_of quay = Serving \<and> version_of quay = rr_Version r \<and>
    finalized_by quay ws \<and> (\<exists>q. StatusUpdated q \<in> set ws \<and> rolled_out q) \<and>
    (\<exists>objs. rendered_from r cl w quay objs \<and> list_all (in_place ws) (EnsureCreationOrder objs))"
proof -
  let ?r = "logged_reconciler r" and ?cl = "logged cl"
  let ?Q = "\<lambda>(x, c). no_long_delay x"
  have late': "\<not> ?Q (x, c)" using late by simp
  from run obtain u b ctx w1 l1 where before: "before_discovery ?r ?cl quay (w, []) = (Inr (u, b, ctx), w1, l1)" and
    "go_on (discover ?r ?cl quay u ctx cache) (\<lambda>(ctx, cache). with_cache cache (after_discovery ?r ?cl quay u b ctx))
       (w1, l1) = (Inl (x, c) :: _ + 'z, w', ws)"
    unfolding reconcile_quay_def
    by (elim ends_gate [OF ends_with_cache [OF ends_before] _ late']) (auto simp: with_cache_Inr)
  then obtain ctx c' w2 l2 where
    "with_cache c' (after_discovery ?r ?cl quay u b ctx) (w2, l2) = (Inl (x, c) :: _ + 'z, w', ws)"
    by (elim ends_gate [OF ends_discover(2) _ late']) auto
  then have "after_discovery ?r ?cl quay u b ctx (w2, l2) = (Inl x :: _ + 'z, w', ws)"
    by (simp add: with_cache_Inl)
  moreover have "u = set_observed quay" "phase_of quay = Serving" "GetConfigBundleSecret cl w quay = Inr b"
    using before_discovery_passed [OF before] by (auto simp: GetConfigBundleSecret_def)
  ultimately show ?thesis
    using after_discovery_settled [OF _ late, of r cl quay b ctx w2 l2 w' ws w] by auto
qed

section \<open>The wait for a database upgrade\<close>

definition database_job :: "'w Client \<Rightarrow> 'w \<Rightarrow> QuayRegistry \<Rightarrow> bool \<Rightarrow> Job result" where
  "database_job cl w quay clair = GetJob (cl_Reader cl w) (nsn (qr_Namespace quay)
     (qr_Name quay @ ''-'' @ (if clair then ClairPostgresUpgradeJobName else PostgresUpgradeJobName)))"

text \<open>A job is over when it is gone or has succeeded; one that has failed is not.\<close>

definition job_over :: "Job result \<Rightarrow> bool" where
  "job_over got = (case got of Inl err \<Rightarrow> IsNotFound err | Inr job \<Rightarrow> job_Active job \<noteq> 1 \<and> job_Succeeded job = 1)"

fun still_upgrading :: "cluster_write \<Rightarrow> bool" where
  "still_upgrading (StatusUpdated q) = (phase_of q = UpgradingDatabase)"
| "still_upgrading (Deleted x) = True"
| "still_upgrading _ = False"

lemma cleanup_old_database_passes:
  "\<exists>w' ws. cleanup_old_database r (logged cl) q clair (w, l) = (Inr (), w', l @ ws) \<and> list_all still_upgrading ws"
  by (auto simp: cleanup_old_database_def cleanup_old_service_def cleanup_old_claim_def go_on_call log_write_def
      disowned_def split: sum.split option.split prod.split)

lemma check_upgrade_job_cases:
  "check_upgrade_job r (logged cl) q clair (w, l) =
     (case database_job cl w q clair of
        Inl err \<Rightarrow> if IsNotFound err then pass () else leave (Returned DefaultRequeue None)
      | Inr job \<Rightarrow>
          if job_Active job = 1 then leave (Returned DefaultRequeue None)
          else if job_Succeeded job = 1 then cleanup_old_database r (logged cl) q clair
          else set_condition_and_requeue (logged cl) q ConditionComponentsCreated ConditionFalse
                 ReasonPostgresUpgradeFailed (failure_message ''failed to run postgres upgrade'' job)) (w, l)"
  unfolding check_upgrade_job_def database_job_def by simp

lemma check_upgrade_job_over:
  assumes "job_over (database_job cl w q clair)"
  shows "\<exists>w' ws. check_upgrade_job r (logged cl) q clair (w, l) = (Inr (), w', l @ ws) \<and> list_all still_upgrading ws"
  using assms cleanup_old_database_passes [of r cl q clair w l]
  by (auto simp: check_upgrade_job_cases job_over_def split: sum.splits)

lemma check_upgrade_job_waits:
  assumes "\<not> job_over (database_job cl w q clair)" and "\<not> FlaggedForDeletion q"
  shows "\<exists>w' ws. check_upgrade_job r (logged cl) q clair (w, l) = (Inl (Returned DefaultRequeue None), w', l @ ws) \<and>
    list_all still_upgrading ws"
proof (cases "database_job cl w q clair")
  case (Inl err)
  with assms(1) show ?thesis by (simp add: check_upgrade_job_cases job_over_def)
next
  case (Inr job)
  let ?m = "failure_message ''failed to run postgres upgrade'' job"
  obtain u t n w' where "set_condition_and_requeue (logged cl) q ConditionComponentsCreated ConditionFalse
      ReasonPostgresUpgradeFailed ?m (w, l) = (Inl (Returned DefaultRequeue None) :: _ + unit, w',
      l @ [StatusUpdated (touch_status (condition_of ConditionComponentsCreated ConditionFalse
        ReasonPostgresUpgradeFailed ?m u t) n q)])"
    using set_condition_run by meson
  with Inr assms show ?thesis
    by (auto simp: check_upgrade_job_cases job_over_def phase_of_created)
qed

text \<open>The whole reconcile of a registry that waits for its database.\<close>

abbreviation upgrade_writes :: "(bool \<Rightarrow> Job result) \<Rightarrow> QuayRegistry \<Rightarrow> cluster_write list \<Rightarrow> bool" where
  "upgrade_writes got quay ws \<equiv> (if job_over (got False) \<and> job_over (got True)
     then \<exists>deletions q. ws = deletions @ [StatusUpdated q] \<and> list_all still_upgrading deletions \<and>
       phase_of q = Serving \<and> version_of q = version_of quay
     else list_all still_upgrading ws)"

lemma checkPostgresUpgradeStatus_run:
  assumes "phase_of quay = UpgradingDatabase"
    and jobs: "\<And>w clair. database_job cl w quay clair = got clair"
  shows "\<exists>w' ws. checkPostgresUpgradeStatus r (logged cl) (set_observed quay) (w, []) =
      (Inl (Returned DefaultRequeue None) :: _ + QuayRegistry, w', ws) \<and> upgrade_writes got quay ws"
proof -
  let ?q = "set_observed quay"
  have live: "\<not> FlaggedForDeletion ?q"
    using assms(1) by (auto simp: phase_of_def FlaggedForDeletion_def set_observed_def split: if_splits)
  have got: "database_job cl w ?q clair = got clair" for w clair
    using jobs by (simp add: database_job_def set_observed_def)
  note over = check_upgrade_job_over [of cl _ ?q, unfolded got] and waits = check_upgrade_job_waits [of cl _ ?q, unfolded got, OF _ live]
  show ?thesis
  proof (cases "job_over (got False)")
    case False
    then obtain w1 ws where "check_upgrade_job r (logged cl) ?q False (w, []) =
        (Inl (Returned DefaultRequeue None), w1, ws)" "list_all still_upgrading ws"
      using waits [of False r w "[]"] by auto
    with False show ?thesis by (simp add: checkPostgresUpgradeStatus_def go_on_def)
  next
    case True
    then obtain w1 ws where 1: "check_upgrade_job r (logged cl) ?q False (w, []) = (Inr (), w1, ws)" "list_all still_upgrading ws"
      using over [of False r w "[]"] by auto
    show ?thesis
    proof (cases "job_over (got True)")
      case False
      then obtain w2 vs where "check_upgrade_job r (logged cl) ?q True (w1, ws) =
          (Inl (Returned DefaultRequeue None), w2, ws @ vs)" "list_all still_upgrading vs"
        using waits [of True r w1 ws] by auto
      with 1 False show ?thesis by (simp add: checkPostgresUpgradeStatus_def go_on_def)
    next
      case True
      then obtain w2 vs where 2: "check_upgrade_job r (logged cl) ?q True (w1, ws) = (Inr (), w2, ws @ vs)" "list_all still_upgrading vs"
        using over [of True r w1 ws] by auto
      obtain u t w3 where "report_success (logged cl) ?q (w2, ws @ vs) = (Inl (Returned DefaultRequeue None) :: _ + QuayRegistry, w3,
          (ws @ vs) @ [StatusUpdated (set_conditions (SetCondition (qr_Conditions ?q) (success_condition u t)) ?q)])"
        using report_success_run [of cl ?q w2 "ws @ vs"] by meson
      with 1 2 True \<open>job_over (got False)\<close> live show ?thesis
        by (auto simp: checkPostgresUpgradeStatus_def go_on_def phase_of_success set_observed_def
            intro!: exI [of _ "ws @ vs"])
    qed
  qed
qed

lemma upgrade_run:
  assumes "phase_of quay = UpgradingDatabase"
    and "\<And>w clair. database_job cl w quay clair = got clair"
  shows "\<exists>w' ws. reconcile_quay r (logged cl) quay cache (w, []) = (Inl (Returned DefaultRequeue None, cache), w', ws) \<and>
    upgrade_writes got quay ws"
proof -
  obtain w' ws where d: "dispatch r (logged cl) quay (w, []) = (Inl (Returned DefaultRequeue None), w', ws)"
    and ws: "upgrade_writes got quay ws"
    using checkPostgresUpgradeStatus_run [OF assms, of r w] unfolding dispatch_phase(2) [OF assms(1), symmetric] by blast
  show ?thesis
    by (rule exI [of _ w'], rule exI [of _ ws], rule conjI [OF reconcile_left [OF d] ws])
qed

end
