(* ===== verification/Demo_Reconcile.thy ===== *)
theory Demo_Reconcile
  imports Outcomes Demo_Client
begin

text \<open>
  One whole reconcile on concrete data: a registry with every component declared and only Quay managed,
  the libraries as simple functions, and a client that answers from a fixed reader. The witnesses of
  the properties of the main controller run on it.
\<close>

definition demo_config :: "'w KustomizeEnv" where
  "demo_config = \<lparr>ke_Middleware = demo_env, ke_Getenv = (\<lambda>_. ''''),
     ke_Rand = (\<lambda>n w. (Inr (replicate n 0), w)), ke_Decode = (\<lambda>_. YMap []), ke_EncodeGroup = (\<lambda>_. ''group''),
     ke_MarshalYaml = (\<lambda>_. Inr ''yaml''),
     ke_NewSecurityScanner = Inr \<lparr>ss_FeatureSecurityScanner = False, ss_V4Endpoint = '''',
       ss_V4NamespaceWhitelist = [], ss_Notifications = False, ss_V4PSK = '''', ss_Rest = ''''\<rparr>,
     ke_NewRedis = Inr \<lparr>rg_Buildlogs = None, rg_UserEvents = None, rg_Rest = ''''\<rparr>,
     ke_NewDatabase = Inr \<lparr>dg_DbUri = '''', dg_ConnectionArgs = None, dg_Rest = ''''\<rparr>,
     ke_Fields = (\<lambda>_. [''cfg'']), ke_ClairConn = (\<lambda>_. Inr ('''', '''', '''')), ke_ClairKey = YStr,
     ke_DatabaseUri = Inr, ke_ParseURL = (\<lambda>_. Inr (''user'', ''pw'', ''/db'')),
     ke_ValidCertPair = (\<lambda>_ _ _ _. (True, ''''))\<rparr>"

text \<open>The manifests: a deployment, a secret and the upgrade job.\<close>

definition demo_manifest :: "string \<Rightarrow> KObject \<Rightarrow> KObject result" where
  "demo_manifest json model = Inr (case model of
     ODeployment _ \<Rightarrow> ODeployment (demo_deployment ''reg-quay-app'' ''quay'')
   | OSecret s \<Rightarrow> OSecret (s\<lparr>sec_Meta := meta_named ''ns'' ''reg-quay-config-secret-1'', sec_Data := Some Map.empty\<rparr>)
   | OJob j \<Rightarrow> OJob (j\<lparr>job_Meta := meta_named ''ns'' ''reg-quay-app-upgrade'', job_Template := demo_template\<rparr>)
   | m \<Rightarrow> m)"

definition demo_inflate :: "'w InflateEnv" where
  "demo_inflate = \<lparr>ie_Config = demo_config, ie_Version = ''3.9.0'', ie_Dir = '''', ie_BaseFiles = Inr [],
     ie_WriteFile = (\<lambda>fs p c. Inr (fs(p \<mapsto> c))), ie_MarshalKustomization = (\<lambda>_. Inr ''kustomization''),
     ie_Run = (\<lambda>_ _. Inr [(gvk ''apps'' ''v1'' ''Deployment'', Inr ''''), (gvk '''' ''v1'' ''Secret'', Inr ''''),
       (gvk ''batch'' ''v1'' ''Job'', Inr '''')]),
     ie_UnmarshalObject = demo_manifest, ie_Proxy = ('''', '''', ''''), ie_Visit = (\<lambda>_. [])\<rparr>"

text \<open>A sort for the one comparison it is called with.\<close>

definition demo_reconciler :: "'w Reconciler" where
  "demo_reconciler = \<lparr>rr_Version = ''3.9.0'', rr_WatchNamespace = '''', rr_SkipResourceRequests = False,
     rr_SupportsRoutes = False, rr_LookupEnv = (\<lambda>_. None), rr_Features = demo_features,
     rr_Inflate = demo_inflate, rr_SetJSON = (\<lambda>c p v. Inr c), rr_ConvertHpa = (\<lambda>_. None)\<rparr>"

lemma demo_routes [simp]: "\<not> rr_SupportsRoutes demo_reconciler"
  by (simp add: demo_reconciler_def)

definition serving_registry :: QuayRegistry where
  "serving_registry = demo_registry (map (\<lambda>k. demo_component k (k = ComponentQuay)) AllComponents)"

definition serving_bundle :: Secret where
  "serving_bundle = demo_bundle\<lparr>sec_Data := Some [''config.yaml'' \<mapsto> ''cfg'', ''ssl.cert'' \<mapsto> ''cert'', ''ssl.key'' \<mapsto> ''key'']\<rparr>"

definition serving_reader :: Reader where
  "serving_reader = demo_reader\<lparr>GetSecret := (\<lambda>n. if nn_Name n = ''bundle'' then Inr serving_bundle
     else not_found (nn_Name n))\<rparr>"

definition serving_client :: "cluster_write list Client" where
  "serving_client = (fixed_client serving_reader)\<lparr>cl_GetQuay := (\<lambda>_ _. Inr serving_registry),
     cl_ListNamespaceSecrets := (\<lambda>_ _. Inr [demo_bundle])\<rparr>"

fun write_tag :: "cluster_write \<Rightarrow> string" where
  "write_tag (Created x) = ''create '' @ obj_name x"
| "write_tag (Updated x) = ''update '' @ obj_name x"
| "write_tag (Patched x) = ''patch '' @ obj_name x"
| "write_tag (Applied x) = ''apply '' @ obj_name x"
| "write_tag (Deleted x) = ''delete '' @ obj_name x"
| "write_tag (QuayUpdated q) = ''registry''"
| "write_tag (StatusUpdated q) = ''status''"
| "write_tag (Labelled n ls) = ''label''"

abbreviation demo_run :: "(outcome \<times> RouteCache + unit) \<times> cluster_write list \<times> cluster_write list" where
  "demo_run \<equiv> reconcile_quay (logged_reconciler demo_reconciler) (logged serving_client) serving_registry
     \<lparr>rc_Hostname = None, rc_WildcardCert = None\<rparr> ([], [])"

text \<open>The whole handler, evaluated in two stages: the secret comes before the workloads, the finished job of
  the old version is replaced, the namespace is labelled, and the last status starts the wait for the
  migration.\<close>

definition demo_context :: QuayRegistryContext where
  "demo_context = NewQuayRegistryContext\<lparr>ServerHostname := ''quay.example'', TLSCert := Some ''cert'', TLSKey := Some ''key''\<rparr>"

lemma demo_stages:
  assumes "case before_discovery (logged_reconciler demo_reconciler) (logged serving_client) quay ([], []) of
      (Inr (u, b, ctx), w, l) \<Rightarrow> ctx = demo_context \<and> List.null w \<and> List.null l | (Inl x, s) \<Rightarrow> False"
    and "spec_ConfigBundleSecret (qr_Spec quay) = ''bundle''" and "qr_Namespace quay = ''ns''"
  shows "reconcile_quay (logged_reconciler demo_reconciler) (logged serving_client) quay cache ([], []) =
    with_cache cache (after_discovery (logged_reconciler demo_reconciler) (logged serving_client) quay
      (set_observed quay) serving_bundle demo_context) ([], [])"
proof -
  obtain u b where run: "before_discovery (logged_reconciler demo_reconciler) (logged serving_client) quay ([], []) =
      (Inr (u, b, demo_context), [], [])"
    using assms(1) by (auto split: prod.splits sum.splits)
  have "b = serving_bundle"
    using before_discovery_passed [OF run] assms(2,3)
    by (simp add: GetConfigBundleSecret_def serving_client_def fixed_client_def serving_reader_def)
  then have "before_discovery (logged_reconciler demo_reconciler) (logged serving_client) quay ([], []) =
      (Inr (set_observed quay, serving_bundle, demo_context), [], [])"
    using before_discovery_passed [OF run] run by simp
  then show ?thesis
    by (simp add: reconcile_quay_def with_cache_def [of cache "before_discovery r cl q" for r cl q] go_on_def discover_def)
qed

lemma demo_checked: "case before_discovery (logged_reconciler demo_reconciler) (logged serving_client) serving_registry ([], []) of
    (Inr (u, b, ctx), w, l) \<Rightarrow> ctx = demo_context \<and> List.null w \<and> List.null l | (Inl x, s) \<Rightarrow> False"
  by code_simp

lemma serving_registry_simps [simp]:
  "spec_ConfigBundleSecret (qr_Spec serving_registry) = ''bundle''"
  "qr_Namespace serving_registry = ''ns''"
  by (simp_all add: serving_registry_def demo_registry_def demo_meta_def)

lemma demo_after: "map write_tag (snd (snd (after_discovery (logged_reconciler demo_reconciler) (logged serving_client)
      serving_registry (set_observed serving_registry) serving_bundle demo_context ([], []) :: (_ + unit) \<times> _))) =
    [''apply reg-quay-config-secret-1'', ''apply reg-quay-app'', ''delete reg-quay-app-upgrade'',
     ''create reg-quay-app-upgrade'', ''label'', ''status'', ''status'', ''status'']"
  by code_simp

lemma demo_run_writes: "map write_tag (snd (snd demo_run)) =
    [''apply reg-quay-config-secret-1'', ''apply reg-quay-app'', ''delete reg-quay-app-upgrade'',
     ''create reg-quay-app-upgrade'', ''label'', ''status'', ''status'', ''status'']"
proof -
  have "demo_run = with_cache \<lparr>rc_Hostname = None, rc_WildcardCert = None\<rparr> (after_discovery (logged_reconciler demo_reconciler)
      (logged serving_client) serving_registry (set_observed serving_registry) serving_bundle demo_context) ([], [])"
    by (rule demo_stages [OF demo_checked]) simp_all
  then show ?thesis
    using demo_after by simp
qed

lemma demo_run_applied: "\<exists>x. Applied x \<in> set (snd (snd demo_run))"
proof -
  have "''apply reg-quay-app'' \<in> set (map write_tag (snd (snd demo_run)))"
    unfolding demo_run_writes by simp
  then have "\<exists>wr \<in> set (snd (snd demo_run)). write_tag wr = ''apply reg-quay-app''"
    unfolding set_map image_iff by metis
  moreover have "\<exists>x. wr = Applied x" if "write_tag wr = ''apply reg-quay-app''" for wr
    using that by (cases wr) auto
  ultimately show ?thesis by blast
qed

end
