(* ===== verification/Controller_Properties.thy ===== *)
theory Controller_Properties
  imports Progress Demo_Reconcile
begin

text \<open>
  The properties of the main controller outside the loop over the objects: the life of a registry as its
  status shows it, the handlers that wait for a job, deletion, and the labels of the namespace.
\<close>

section \<open>The life of a registry\<close>

text \<open>C1: every status write of a reconcile, for any client and any answer of it, moves the registry along the
  abstract life cycle: a database upgrade or a migration starts only from serving, a migration only when
  the reported version is not the current one, the version changes only by a finished migration and then
  to the current one, and a registry being deleted gets no status at all. The metadata stays as read.
\<close>

theorem reconcile_refines_lifecycle:
  fixes out :: "outcome \<times> RouteCache + unit"
  assumes "cl_GetQuay cl w req = Inr quay"
    and "Reconcile (logged_reconciler r) (logged cl) req cache (w, []) = (out, w', ws)"
    and "StatusUpdated q \<in> set ws"
  shows "phase_of quay \<noteq> Deleting \<and> qr_Meta q = qr_Meta quay \<and>
    lifecycle (rr_Version r) (abs_state quay) (abs_state q)"
  using assms by (rule main_status_lifecycle)

definition migrating_registry :: QuayRegistry where
  "migrating_registry = set_conditions [mk_condition ConditionComponentsCreated ConditionFalse
     ReasonMigrationsInProgress ''running database migrations'' 1] serving_registry"

definition migrating_client :: "cluster_write list Client" where
  "migrating_client = (fixed_client serving_reader)\<lparr>cl_GetQuay := (\<lambda>_ _. Inr migrating_registry)\<rparr>"

lemma migrating_phase: "phase_of migrating_registry = Migrating" "version_of migrating_registry = ''3.7.0''"
  by code_simp+

lemma migrating_job: "\<not> job_pending (upgrade_job migrating_client w migrating_registry)"
    "job_done (upgrade_job migrating_client w migrating_registry)"
  by (simp_all add: job_pending_def job_done_def upgrade_job_def migrating_client_def fixed_client_def
      serving_reader_def demo_reader_def finished_job_def)

lemma migrating_run:
  obtains q w' where "Reconcile (logged_reconciler demo_reconciler) (logged migrating_client) req cache ([], []) =
      (Inl (Returned DefaultRequeue None, cache) :: _ + unit, w', [StatusUpdated q])"
    and "phase_of q = Serving" and "version_of q = ''3.9.0''"
proof -
  let ?r = "logged_reconciler demo_reconciler :: (cluster_write list \<times> cluster_write list) Reconciler"
  have "\<exists>w' ws. reconcile_quay ?r (logged migrating_client) migrating_registry cache ([], []) =
      (Inl (Returned DefaultRequeue None, cache) :: _ + unit, w', ws) \<and>
    (if job_pending (upgrade_job migrating_client [] migrating_registry) then ws = []
     else \<exists>q c. ws = [StatusUpdated q] \<and> phase_of q = Serving \<and>
       GetCondition (qr_Conditions q) ConditionComponentsCreated = Some c \<and>
       (if job_done (upgrade_job migrating_client [] migrating_registry) then version_of q = rr_Version ?r \<and> c_Status c = ConditionTrue
        else version_of q = version_of migrating_registry \<and> c_Status c = ConditionFalse))"
    by (rule migration_run [OF migrating_phase(1)])
  then obtain w' q where "reconcile_quay ?r (logged migrating_client) migrating_registry cache ([], []) =
      (Inl (Returned DefaultRequeue None, cache) :: _ + unit, w', [StatusUpdated q])"
    and "phase_of q = Serving" and "version_of q = rr_Version ?r"
    unfolding if_not_P [OF migrating_job(1)] if_P [OF migrating_job(2)] by blast
  moreover have "cl_GetQuay migrating_client [] req = Inr migrating_registry"
    by (simp add: migrating_client_def)
  moreover have "rr_Version ?r = ''3.9.0''"
    by (simp add: demo_reconciler_def)
  ultimately show ?thesis
    using that by (simp add: Reconcile_loaded)
qed

lemma migrating_get [simp]: "cl_GetQuay migrating_client w req = Inr migrating_registry"
  by (simp add: migrating_client_def)

theorem reconcile_refines_lifecycle_witness:
  "\<exists>q. lifecycle ''3.9.0'' (Migrating, ''3.7.0'') (abs_state q) \<and> abs_state q = (Serving, ''3.9.0'')"
proof -
  obtain q w' where run: "Reconcile (logged_reconciler demo_reconciler) (logged migrating_client) (nsn ''ns'' ''reg'')
      \<lparr>rc_Hostname = None, rc_WildcardCert = None\<rparr> ([], []) =
      (Inl (Returned DefaultRequeue None, \<lparr>rc_Hostname = None, rc_WildcardCert = None\<rparr>) :: _ + unit, w', [StatusUpdated q])"
    and q: "phase_of q = Serving" "version_of q = ''3.9.0''"
    by (rule migrating_run)
  have "lifecycle (rr_Version (demo_reconciler :: cluster_write list Reconciler)) (abs_state migrating_registry) (abs_state q)"
    using reconcile_refines_lifecycle [OF migrating_get run] by simp
  then show ?thesis
    using q by (intro exI [of _ q]) (simp add: abs_state_def migrating_phase demo_reconciler_def)
qed



section \<open>Waiting for a job\<close>

text \<open>C19: a reconcile of a registry that waits for its migration touches nothing else: it comes back with the
  default delay, without an error. While the job runs or cannot be read it writes nothing; once the job
  is over it makes exactly one status write, which ends the wait, and which reports the current version
  when the job has succeeded and the old one when it failed or is gone.
\<close>

theorem migration_outcomes:
  assumes "phase_of quay = Migrating"
  shows "\<exists>w' ws. reconcile_quay r (logged cl) quay cache (w, []) =
      (Inl (Returned DefaultRequeue None, cache) :: _ + unit, w', ws) \<and>
    (if job_pending (upgrade_job cl w quay) then ws = []
     else \<exists>q c. ws = [StatusUpdated q] \<and> phase_of q = Serving \<and>
       GetCondition (qr_Conditions q) ConditionComponentsCreated = Some c \<and>
       (if job_done (upgrade_job cl w quay) then version_of q = rr_Version r \<and> c_Status c = ConditionTrue
        else version_of q = version_of quay \<and> c_Status c = ConditionFalse))"
  using assms by (rule migration_run)

theorem migration_outcomes_witness:
  "\<exists>w' q. reconcile_quay demo_reconciler (logged migrating_client) migrating_registry \<lparr>rc_Hostname = None, rc_WildcardCert = None\<rparr>
      ([], []) = (Inl (Returned DefaultRequeue None, \<lparr>rc_Hostname = None, rc_WildcardCert = None\<rparr>) :: _ + unit, w',
        [StatusUpdated q]) \<and> version_of q = ''3.9.0''"
proof -
  have "rr_Version (demo_reconciler :: (cluster_write list \<times> cluster_write list) Reconciler) = ''3.9.0''"
    by (simp add: demo_reconciler_def)
  then show ?thesis
    using migration_outcomes [OF migrating_phase(1), of demo_reconciler migrating_client
      "\<lparr>rc_Hostname = None, rc_WildcardCert = None\<rparr>" "[]"]
    unfolding if_not_P [OF migrating_job(1)] if_P [OF migrating_job(2)] by auto
qed










definition upgrading_registry :: QuayRegistry where
  "upgrading_registry = set_conditions [mk_condition ConditionComponentsCreated ConditionFalse
     ReasonPostgresUpgradeInProgress ''running postgres update operations'' 1] serving_registry"

definition old_claim :: PersistentVolumeClaim where
  "old_claim = \<lparr>pvc_Meta = owned_meta ''reg-quay-database'', pvc_Spec = \<lparr>ps_Requests = None, ps_StorageClassName = None\<rparr>,
     pvc_Phase = ''Bound''\<rparr>"

definition upgrading_client :: "cluster_write list Client" where
  "upgrading_client = (fixed_client (serving_reader\<lparr>GetPVC := (\<lambda>_. Inr old_claim)\<rparr>))\<lparr>
     cl_GetService := (\<lambda>_ n. Inr (owned_meta (nn_Name n)))\<rparr>"


text \<open>C20: the wait for a database upgrade ends exactly when its jobs are over. Each reconcile asks for the
  default delay without an error. When both jobs are gone or have succeeded, what is left of the old
  databases is deleted and the last write is a status that ends the wait at the same version. As long as
  one of them runs, cannot be read or has failed, every status written keeps the registry waiting: other
  than a failed migration, a failed upgrade blocks the registry until its job is removed or succeeds.
\<close>

theorem database_upgrade_wait:
  assumes "phase_of quay = UpgradingDatabase"
    and "\<And>w clair. database_job cl w quay clair = got clair"
  shows "\<exists>w' ws. reconcile_quay r (logged cl) quay cache (w, []) =
      (Inl (Returned DefaultRequeue None, cache) :: _ + unit, w', ws) \<and>
    (if job_over (got False) \<and> job_over (got True)
     then \<exists>deletions q. ws = deletions @ [StatusUpdated q] \<and> list_all still_upgrading deletions \<and>
       phase_of q = Serving \<and> version_of q = version_of quay
     else list_all still_upgrading ws)"
  using assms by (rule upgrade_run)

theorem database_upgrade_wait_witness:
  "\<exists>w' deletions q. reconcile_quay demo_reconciler (logged upgrading_client) upgrading_registry
      \<lparr>rc_Hostname = None, rc_WildcardCert = None\<rparr> ([], []) =
      (Inl (Returned DefaultRequeue None, \<lparr>rc_Hostname = None, rc_WildcardCert = None\<rparr>) :: _ + unit, w',
        deletions @ [StatusUpdated q]) \<and> phase_of q = Serving"
proof -
  have phase: "phase_of upgrading_registry = UpgradingDatabase"
    by code_simp
  define got where "got clair = database_job upgrading_client [] upgrading_registry clair" for clair
  have jobs: "database_job upgrading_client w upgrading_registry clair = got clair" for w clair
    by (simp add: got_def database_job_def upgrading_client_def fixed_client_def)
  have "job_over (got False)" "job_over (got True)"
    unfolding got_def by code_simp+
  then show ?thesis
    using database_upgrade_wait [OF phase jobs, of demo_reconciler "\<lparr>rc_Hostname = None, rc_WildcardCert = None\<rparr>" "[]"] by auto
qed

section \<open>Deletion\<close>

text \<open>C10: a registry being deleted is let go only after it was cleaned up. Without the finalizer nothing is
  written and the reconcile ends. With it, the cleanup relabels the namespace and deletes dashboards, no
  more; an error of the cleanup comes back as the error of the reconcile and the finalizer stays; without
  one the last write removes this finalizer and no other, and only if that succeeds does the reconcile end
  for good.
\<close>

theorem deletion_finalizes_first:
  fixes out :: "outcome \<times> RouteCache + unit"
  assumes "phase_of quay = Deleting"
    and run: "reconcile_quay r (logged cl) quay cache (w, []) = (out, w', ws)"
  shows "if \<not> ContainsFinalizer quay quayOperatorFinalizer then out = Inl (Returned NoRequeue None, cache) \<and> ws = []
    else \<exists>err w1 cleanup. finalizeQuay r (logged cl) (set_observed quay) (w, []) = (Inr err :: outcome + _, w1, cleanup) \<and>
      list_all finalizing cleanup \<and>
      (case err of
         Some e \<Rightarrow> out = Inl (Returned DefaultRequeue (Some e), cache) \<and> ws = cleanup
       | None \<Rightarrow> (\<exists>q. ws = cleanup @ [QuayUpdated q] \<and>
           om_Finalizers (qr_Meta q) = filter (\<lambda>f. f \<noteq> quayOperatorFinalizer) (om_Finalizers (qr_Meta quay)) \<and>
           (fst (cl_UpdateQuay cl q w1) = None \<longleftrightarrow> out = Inl (Returned NoRequeue None, cache))))"
proof -
  let ?q = "set_observed quay"
  have handler: "dispatch r (logged cl) quay = manageQuayDeletion r (logged cl) ?q"
    by (rule dispatch_phase(1) [OF assms(1)])
  have left: "reconcile_quay r (logged cl) quay cache (w, []) = (Inl (x, cache) :: _ + unit, s)"
    if "dispatch r (logged cl) quay (w, []) = (Inl x, s)" for x s
    using that by (rule reconcile_left)
  show ?thesis
  proof (cases "ContainsFinalizer quay quayOperatorFinalizer")
    case False
    then have "dispatch r (logged cl) quay (w, []) = (Inl (Returned NoRequeue None), w, [])"
      by (simp add: handler manageQuayDeletion_def)
    from left [OF this] run False show ?thesis by simp
  next
    case True
    obtain err w1 cleanup where fin: "finalizeQuay r (logged cl) ?q (w, []) = (Inr err :: outcome + _, w1, cleanup)"
      and only: "list_all finalizing cleanup"
      by (rule finalizeQuay_run)
    let ?rq = "RemoveFinalizer ?q quayOperatorFinalizer"
    have "dispatch r (logged cl) quay (w, []) = (case err of
        Some e \<Rightarrow> (Inl (Returned DefaultRequeue (Some e)), w1, cleanup)
      | None \<Rightarrow> (case cl_UpdateQuay cl ?rq w1 of (up, w2) \<Rightarrow>
          (Inl (case up of Some e \<Rightarrow> Returned DefaultRequeue (Some e) | None \<Rightarrow> Returned NoRequeue None), w2, cleanup @ [QuayUpdated ?rq])))"
      using True fin by (simp add: handler manageQuayDeletion_def go_on_def call_simp log_write_def
          split: option.split prod.split)
    then have "case err of
        Some e \<Rightarrow> out = Inl (Returned DefaultRequeue (Some e), cache) \<and> ws = cleanup
      | None \<Rightarrow> ws = cleanup @ [QuayUpdated ?rq] \<and>
          (fst (cl_UpdateQuay cl ?rq w1) = None \<longleftrightarrow> out = Inl (Returned NoRequeue None, cache))"
      using run left by (auto split: option.splits prod.splits)
    moreover have "om_Finalizers (qr_Meta ?rq) = filter (\<lambda>f. f \<noteq> quayOperatorFinalizer) (om_Finalizers (qr_Meta quay))"
      by (simp add: RemoveFinalizer_def)
    ultimately show ?thesis using True fin only by (cases err) auto
  qed
qed

definition deleted_registry :: QuayRegistry where
  "deleted_registry = serving_registry\<lparr>qr_Meta := (demo_meta ''reg'')\<lparr>om_DeletionTimestamp := Some 5,
     om_Finalizers := [''other'', quayOperatorFinalizer]\<rparr>\<rparr>"

theorem deletion_finalizes_first_witness:
  "\<exists>q. QuayUpdated q \<in> set (snd (snd (reconcile_quay demo_reconciler (logged (fixed_client demo_reader)) deleted_registry
     \<lparr>rc_Hostname = None, rc_WildcardCert = None\<rparr> ([], []) :: (_ + unit) \<times> _))) \<and> om_Finalizers (qr_Meta q) = [''other'']"
proof -
  let ?r = "demo_reconciler :: (cluster_write list \<times> cluster_write list) Reconciler" and ?cl = "fixed_client demo_reader"
  let ?run = "reconcile_quay ?r (logged ?cl) deleted_registry
    \<lparr>rc_Hostname = None, rc_WildcardCert = None\<rparr> ([], []) :: (_ + unit) \<times> _"
  have phase: "phase_of deleted_registry = Deleting"
    by code_simp
  have "?run = (fst ?run, fst (snd ?run), snd (snd ?run))"
    by simp
  from deletion_finalizes_first [OF phase this]
  have if_run: "\<exists>err w1 cleanup. finalizeQuay ?r (logged ?cl) (set_observed deleted_registry) ([], []) = (Inr err :: outcome + _, w1, cleanup) \<and>
      (err = None \<longrightarrow> (\<exists>q. snd (snd ?run) = cleanup @ [QuayUpdated q] \<and>
        om_Finalizers (qr_Meta q) = filter (\<lambda>f. f \<noteq> quayOperatorFinalizer) (om_Finalizers (qr_Meta deleted_registry))))"
    by (auto simp: deleted_registry_def ContainsFinalizer_def split: option.splits)
  have "fst (finalizeQuay ?r (logged ?cl) (set_observed deleted_registry) ([], []) :: (outcome + _) \<times> _) = Inr None"
    by code_simp
  moreover have "filter (\<lambda>f. f \<noteq> quayOperatorFinalizer) (om_Finalizers (qr_Meta deleted_registry)) = [''other'']"
    by code_simp
  ultimately show ?thesis
    using if_run by auto
qed

section \<open>The labels of the namespace\<close>

text \<open>C28: turning monitoring on and cleaning up after the last registry leave the labels of the namespace as
  they were, when neither of the two labels was there before.
\<close>

theorem monitoring_labels_roundtrip:
  assumes labels: "cl_GetNamespaceLabels cl w (qr_Namespace quay) = Inr ls"
    and unmonitored: "gget ls clusterMonitoringLabelKey = None" "gget ls quayOperatorManagedLabelKey = None"
    and patch: "patchNamespaceForMonitoring (logged cl) quay (w, []) = (Inr None :: unit + _, w1, [Labelled ns ls'])"
    and later: "cl_GetNamespaceLabels cl w2 (qr_Namespace quay) = Inr ls'" "cl_ListQuays cl w2 (qr_Namespace quay) = Inr [quay]"
    and cleanup: "cleanupNamespaceLabels (logged cl) quay (w2, []) = (Inr None :: unit + _, w3, ws)"
  shows "gstr ls' clusterMonitoringLabelKey = ''true'' \<and> ns = qr_Namespace quay \<and>
    (\<exists>ls''. ws = [Labelled (qr_Namespace quay) ls''] \<and> (\<forall>k. gget ls'' k = gget ls k))"
proof -
  have keys: "clusterMonitoringLabelKey \<noteq> quayOperatorManagedLabelKey"
    by (simp add: clusterMonitoringLabelKey_def quayOperatorManagedLabelKey_def)
  have ls': "ns = qr_Namespace quay \<and> ls' = Some ((case ls of None \<Rightarrow> Map.empty | Some f \<Rightarrow> f)
      (clusterMonitoringLabelKey \<mapsto> ''true'', quayOperatorManagedLabelKey \<mapsto> ''true''))"
    using patch labels unmonitored
    by (auto simp: patchNamespaceForMonitoring_def gstr_def call_simp log_write_def split: prod.splits)
  moreover have "ws = [Labelled (qr_Namespace quay) (gdel (gdel ls' clusterMonitoringLabelKey) quayOperatorManagedLabelKey)]"
    using cleanup later ls' by (auto simp: cleanupNamespaceLabels_def gstr_def call_simp log_write_def split: prod.splits)
  moreover have "gget (gdel (gdel ls' clusterMonitoringLabelKey) quayOperatorManagedLabelKey) k = gget ls k" for k
    using ls' unmonitored by (cases ls) auto
  ultimately show ?thesis
    using keys by (simp add: gstr_def)
qed

definition namespace_client :: "strmap Client" where
  "namespace_client = \<lparr>cl_Reader = (\<lambda>_. demo_reader), cl_ListSecrets = (\<lambda>_ _ _. Inr []),
     cl_ListNamespaceSecrets = (\<lambda>_ _. Inr []),
     cl_ListPodPhases = (\<lambda>_ _. Inr []), cl_ListKind = (\<lambda>_ _. None),
     cl_GetNamespaceLabels = (\<lambda>w _. Inr w), cl_GetAPIServer = (\<lambda>_. Inr None),
     cl_GetRoute = (\<lambda>_ _. not_found ''route''), cl_GetService = (\<lambda>_ _. not_found ''service''),
     cl_GetQuay = (\<lambda>_ _. Inr serving_registry), cl_ListQuays = (\<lambda>_ _. Inr [serving_registry]),
     cl_Create = (\<lambda>x w. (None, w)), cl_CreateGenerated = (\<lambda>p x w. (Inr (p @ ''x''), w)),
     cl_Update = (\<lambda>x w. (None, w)), cl_Patch = (\<lambda>x w. (None, w)),
     cl_Apply = (\<lambda>x w. (None, w)), cl_ApplyV2beta2 = (\<lambda>x w. (None, w)),
     cl_Delete = (\<lambda>x w. (None, w)), cl_UpdateQuay = (\<lambda>q w. (None, w)),
     cl_UpdateQuayStatus = (\<lambda>q w. (None, w)), cl_PatchNamespaceLabels = (\<lambda>n l w. (None, l)),
     cl_Event = (\<lambda>_ _ _ _ w. w), cl_Now = (\<lambda>w. (7, w))\<rparr>"

abbreviation monitored_labels :: strmap where
  "monitored_labels \<equiv> Some [''team'' \<mapsto> ''a'', clusterMonitoringLabelKey \<mapsto> ''true'', quayOperatorManagedLabelKey \<mapsto> ''true'']"

theorem monitoring_labels_roundtrip_witness:
  "\<exists>w3 ls. cleanupNamespaceLabels (logged namespace_client) serving_registry (monitored_labels, [])
      = (Inr None :: unit + _, w3, [Labelled ''ns'' ls]) \<and> (\<forall>k. gget ls k = [''team'' \<mapsto> ''a''] k)"
proof -
  have ns: "qr_Namespace serving_registry = ''ns''"
    by (simp add: serving_registry_def demo_registry_def demo_meta_def)
  have patch: "patchNamespaceForMonitoring (logged namespace_client) serving_registry (Some [''team'' \<mapsto> ''a''], [])
      = (Inr None :: unit + _, monitored_labels, [Labelled ''ns'' monitored_labels])"
    by (simp add: patchNamespaceForMonitoring_def namespace_client_def gstr_def call_simp log_write_def ns
        clusterMonitoringLabelKey_def quayOperatorManagedLabelKey_def)
  have cleanup: "cleanupNamespaceLabels (logged namespace_client) serving_registry (monitored_labels, []) = (Inr None :: unit + _,
      gdel (gdel monitored_labels clusterMonitoringLabelKey) quayOperatorManagedLabelKey,
      [Labelled ''ns'' (gdel (gdel monitored_labels clusterMonitoringLabelKey) quayOperatorManagedLabelKey)])"
    by (simp add: cleanupNamespaceLabels_def namespace_client_def gstr_def call_simp log_write_def ns)
  have "\<exists>ls. [Labelled ''ns'' (gdel (gdel monitored_labels clusterMonitoringLabelKey) quayOperatorManagedLabelKey)] =
      [Labelled (qr_Namespace serving_registry) ls] \<and> (\<forall>k. gget ls k = gget (Some [''team'' \<mapsto> ''a'']) k)"
    by (rule monitoring_labels_roundtrip [THEN conjunct2, THEN conjunct2, OF _ _ _ patch _ _ cleanup])
      (simp_all add: namespace_client_def clusterMonitoringLabelKey_def quayOperatorManagedLabelKey_def)
  then show ?thesis
    unfolding cleanup by (simp add: ns)
qed

end
