(* ===== verification/Rollout_Properties.thy ===== *)
theory Rollout_Properties
  imports Demo_Reconcile
begin

text \<open>
  The properties of the loop over the objects and of the gates before it: what must hold before an object
  is written, what is deferred, when a job runs again, what becomes of old config secrets.
\<close>

section \<open>The gates\<close>



text \<open>C11: a registry is never forgotten. However the client answers, panics included, a reconcile of a
  registry that exists and is not being deleted asks to be called again within a minute.
\<close>

theorem reconcile_comes_back_until_gone:
  fixes w' :: "'w"
  assumes "Reconcile r cl req cache w = (Inl (Returned d e, c) :: _ + unit, w')"
  shows "(\<exists>n. delay_of d = Some n \<and> 0 < n \<and> n \<le> 60) \<or>
    (\<exists>err. cl_GetQuay cl w req = Inl err \<and> IsNotFound err) \<or>
    (\<exists>quay. cl_GetQuay cl w req = Inr quay \<and> FlaggedForDeletion quay)"
proof (cases "comes_back (Returned d e)")
  case True
  then show ?thesis by (simp split: option.splits)
next
  case False
  with Reconcile_not_back [OF assms] show ?thesis by blast
qed

theorem reconcile_comes_back_until_gone_witness:
  "\<exists>err. cl_GetQuay (fixed_client demo_reader) [] (nsn ''ns'' ''reg'') = Inl err \<and> IsNotFound err"
proof -
  let ?req = "nsn ''ns'' ''reg''" and ?cache = "\<lparr>rc_Hostname = None, rc_WildcardCert = None\<rparr>"
  have "Reconcile demo_reconciler (fixed_client demo_reader) ?req ?cache [] = (Inl (Returned NoRequeue None, ?cache) :: _ + unit, [])"
    by (simp add: Reconcile_def load_quay_def fixed_client_def not_found_def with_cache_def go_on_def)
  from reconcile_comes_back_until_gone [OF this] show ?thesis
    by (auto simp: fixed_client_def not_found_def)
qed

text \<open>C12: completing a spec is done in one update. When a reconcile stores a completed spec, the next one that
  sees it under the same cluster features finds nothing to store and goes on to render, so the two
  controllers of a spec do not chase each other.
\<close>

theorem completing_a_spec_settles:
  fixes out :: "outcome + QuayRegistry"
  assumes "settle_spec (logged cl) quay (set_observed quay) ctx (w, []) = (out, w', ws)"
    and "QuayUpdated q \<in> set ws"
  shows "out = Inl (Returned DefaultRequeue None) \<and> ws = [QuayUpdated q] \<and>
    settle_spec cl2 q (set_observed q) ctx s = (Inr (set_observed q), s)"
proof -
  let ?u = "set_observed quay" and ?other = "\<lambda>wr. \<forall>q. wr \<noteq> QuayUpdated q"
  obtain u' where u': "EnsureDefaultComponents ctx ?u = Inr u'"
    using assms by (cases "EnsureDefaultComponents ctx ?u") (auto simp: settle_spec_def on_error_def split: go_error.splits)
  have valid: "ValidateOverrides u' = None"
  proof (rule ccontr)
    assume "\<not> ?thesis"
    then obtain rs msg where "block_rollout (logged cl) quay rs msg (w, []) = (out, w', ws)"
      using assms(1) u' by (auto simp: settle_spec_def on_error_def)
    then have "list_all ?other ws"
      by (rule emits_run [OF emits_block_rollout, rotated]) simp
    with assms(2) show False by (auto simp: list_all_iff)
  qed
  with assms u' have run: "out = Inl (Returned DefaultRequeue None)" "ws = [QuayUpdated q]" "q = u'"
    by (auto simp: settle_spec_def on_error_def call_simp go_on_def log_write_def split: if_splits prod.splits)
  have "EnsureDefaultComponents ctx (set_observed q) = Inr (set_observed q)"
    using completed_stays u' run(3) by simp
  then have "settle_spec cl2 q (set_observed q) ctx s = (Inr (set_observed q), s)"
    using valid run(3) by (simp add: settle_spec_def on_error_def)
  with run show ?thesis by simp
qed

fun registry_update :: "cluster_write \<Rightarrow> bool" where
  "registry_update (QuayUpdated _) = True"
| "registry_update _ = False"

theorem completing_a_spec_settles_witness:
  "\<exists>q. QuayUpdated q \<in> set (snd (snd (settle_spec (logged (fixed_client demo_reader)) (demo_registry [])
       (set_observed (demo_registry [])) NewQuayRegistryContext ([], [])))) \<and>
     settle_spec (fixed_client demo_reader) q (set_observed q) NewQuayRegistryContext [] = (Inr (set_observed q), [])"
proof -
  let ?run = "settle_spec (logged (fixed_client demo_reader)) (demo_registry []) (set_observed (demo_registry []))
    NewQuayRegistryContext ([], [])"
  have "list_ex registry_update (snd (snd ?run))"
    by code_simp
  then obtain wr where "wr \<in> set (snd (snd ?run))" and "registry_update wr"
    unfolding list_ex_iff by blast
  then obtain q where q: "QuayUpdated q \<in> set (snd (snd ?run))"
    using registry_update.elims(2) by blast
  have "?run = (fst ?run, fst (snd ?run), snd (snd ?run))"
    by (simp only: prod.collapse)
  from completing_a_spec_settles [OF this q, of "fixed_client demo_reader" "[]"] q show ?thesis by blast
qed

section \<open>Deferred workloads\<close>

text \<open>A workload that needs the data services, and what a rollout may write while those are not ready: no such
  workload, no change to the stored spec, and only statuses that start no wait.\<close>

definition needs_data :: "KObject \<Rightarrow> bool" where
  "needs_data x \<longleftrightarrow> obj_kind x \<in> {''Deployment'', ''Job''} \<and>
     gstr (om_Labels (obj_meta x)) ''quay-component'' \<notin> {''postgres'', ''clair-postgres'', ''redis''}"

lemma deferrable_iff: "deferrable x = needs_data x"
  by (auto simp: deferrable_def is_workload_def needs_data_def infrastructureComponents_def)

fun deferring :: "QuayRegistry \<Rightarrow> cluster_write \<Rightarrow> bool" where
  "deferring quay (Applied x) = (\<not> needs_data x)"
| "deferring quay (Created x) = (\<not> needs_data x)"
| "deferring quay (Deleted x) = (\<not> needs_data x)"
| "deferring quay (StatusUpdated q) = derived quay q"
| "deferring quay (QuayUpdated q) = False"
| "deferring quay _ = True"

lemma needs_data_meta:
  assumes "om_Labels (f (obj_meta obj)) = om_Labels (obj_meta obj)"
  shows "needs_data (map_obj_meta f obj) = needs_data obj"
  using assms by (cases obj) (simp_all add: needs_data_def)

lemma owner_reference_labels [simp]:
  "om_Labels (EnsureOwnerReference q m) = om_Labels m" "om_Labels (RemoveOwnerReference q m) = om_Labels m"
  by (simp_all add: EnsureOwnerReference_def RemoveOwnerReference_def)

lemma needs_data_adopted [simp]: "needs_data (adopt_object quay obj) = needs_data obj"
  by (simp add: adopt_object_def Let_def needs_data_meta)

lemma needs_data_others [simp]: "\<not> needs_data (OSecret s)" "\<not> needs_data (OHPA m)" "\<not> needs_data (OConfigMap c)"
  by (simp_all add: needs_data_def)

lemma emits_undeferred:
  assumes "\<not> needs_data obj"
  shows "emits (deferring quay) (createOrUpdateObject r (logged cl) obj q)"
  using assms by (auto simp: createOrUpdateObject_def recreate_job_def create_job_def apply_object_def Let_def
      intro!: emits_go_on emits_call emits_log emits_leave split: sum.split option.split KObject.split)

lemma emits_create_undeferred:
  assumes "\<not> needs_data obj"
  shows "emits (deferring quay) (create_object r (logged cl) quay updated ctx obj)"
  unfolding create_object_def
proof (rule emits_go_on_returns)
  fix a
  assume a: "returns (if SupportsMonitoring ctx \<and> isGrafanaConfigMap obj
      then on_error (\<lambda>err. block_rollout (logged cl) quay ReasonMonitoringComponentDependencyError
             (''unable to update title on Grafana '' @ error_text err))
           (updateGrafanaDashboardData (rr_SetJSON r) (set_namespace grafanaDashboardConfigNamespace obj) updated)
      else pass obj :: (_, outcome, _) step) a"
  have "\<not> needs_data a"
  proof (cases "SupportsMonitoring ctx \<and> isGrafanaConfigMap obj")
    case True
    with a have "updateGrafanaDashboardData (rr_SetJSON r) (set_namespace grafanaDashboardConfigNamespace obj) updated = Inr a"
      by (auto simp: on_error_def returns_def split: sum.splits go_error.splits)
    then show ?thesis
      by (auto simp: updateGrafanaDashboardData_def and_then_Inr_iff needs_data_def split: KObject.splits)
  next
    case False
    with a assms show ?thesis by (auto split: if_splits)
  qed
  then show "emits (deferring quay) (go_on (createOrUpdateObject r (logged cl) a quay) (\<lambda>(requeue, err).
       case err of
         Some e \<Rightarrow> block_rollout (logged cl) quay ReasonComponentCreationFailed (''error creating/updating object '' @
           obj_kind a @ '' '' @ obj_name a @ '': '' @ error_text e)
       | None \<Rightarrow> if requeue then leave (Returned DefaultRequeue None) else pass ()))"
    by (auto intro!: emits_go_on emits_undeferred emits_block_rollout emits_leave simp: derived_steps split: option.split)
qed (auto intro!: emits_on_error emits_block_rollout emits_leave simp: derived_steps)

lemma emits_create_all_undeferred:
  "list_all (\<lambda>x. \<not> needs_data x) objs \<Longrightarrow> emits (deferring quay) (create_objects r (logged cl) quay updated ctx objs)"
  by (induction objs) (auto intro!: emits_go_on emits_leave emits_Pair emits_create_undeferred)

interpretation waiting: cleanup_policy "deferring quay" quay for quay
  by unfold_locales simp_all

interpretation waiting_labels: label_policy "deferring quay" quay for quay
  by unfold_locales simp_all

text \<open>C3: while the storage or a database a workload needs is not ready, the rollout writes no deferrable
  workload: every deployment and job that is not part of the infrastructure waits, whatever the order of
  the objects is. The statuses written start no migration and no upgrade, and the stored spec and the
  finalizers are not touched.
\<close>

theorem deferred_workloads_wait:
  fixes out :: "outcome + unit"
  assumes "deferWorkloads osmanaged ctx" and "derived quay updated"
    and "roll_out r (logged cl) quay updated ctx osmanaged usercfg objs previous (w, []) = (out, w', ws)"
  shows "list_all (deferring quay) ws"
proof -
  let ?objs = "filterDeferredWorkloads (EnsureCreationOrder objs) True"
  have "list_all (\<lambda>x. \<not> needs_data x) ?objs"
    by (simp add: filterDeferredWorkloads_def list_all_iff deferrable_iff)
  then have create: "emits (deferring quay) (create_objects r (logged cl) quay updated ctx ?objs)"
    by (rule emits_create_all_undeferred)
  have "emits (deferring quay) (finish r (logged cl) updated ctx osmanaged usercfg)"
    using assms(1,2) by (auto simp: finish_def deferWorkloads_def derived_steps
        intro!: emits_go_on emits_leave emits_updateWithCondition)
  then have "emits (deferring quay) (roll_out r (logged cl) quay updated ctx osmanaged usercfg objs previous)"
    using assms(1,2) unfolding roll_out_def
    by (intro emits_go_on waiting_labels.label_namespace waiting.remove_previous waiting.recheck) (simp_all add: create)
  then show ?thesis
    using assms(3) by (rule emits_run)
qed

definition waiting_context :: QuayRegistryContext where
  "waiting_context = NewQuayRegistryContext\<lparr>ClairDatabaseInitialized := True\<rparr>"

theorem deferred_workloads_wait_witness:
  "list_all (deferring serving_registry) (snd (snd (roll_out demo_reconciler (logged serving_client) serving_registry
     serving_registry waiting_context False (Some Map.empty) [ODeployment (demo_deployment ''reg-quay-app'' ''quay'')] []
     ([], []) :: (outcome + unit) \<times> _)))"
proof -
  let ?run = "roll_out demo_reconciler (logged serving_client) serving_registry
     serving_registry waiting_context False (Some Map.empty) [ODeployment (demo_deployment ''reg-quay-app'' ''quay'')] []
     ([], []) :: (outcome + unit) \<times> _"
  have "deferWorkloads False waiting_context"
    by (simp add: deferWorkloads_def waiting_context_def NewQuayRegistryContext_def)
  moreover have "?run = (fst ?run, fst (snd ?run), snd (snd ?run))"
    by (simp only: prod.collapse)
  ultimately show ?thesis
    by (rule deferred_workloads_wait [OF _ derived_refl])
qed

section \<open>Jobs\<close>

lemma adopted_key [simp]: "obj_key (adopt_object quay x) = obj_key x"
  by (cases x) (simp_all add: adopt_object_def Let_def obj_key_def EnsureOwnerReference_def RemoveOwnerReference_def)

lemma adopted_gvk [simp]: "obj_gvk (adopt_object quay x) = obj_gvk x"
  by (cases x) (simp_all add: adopt_object_def Let_def)

text \<open>C6: a job is never disturbed while it runs, and never run again once it has succeeded and the status
  reports the current version. In every other case, an unreadable job included, it is deleted and, unless
  the deletion fails with anything but a missing job, created again; a job still there asks for another
  reconcile and is no error.
\<close>

theorem jobs_run_once:
  fixes out :: "unit + bool \<times> go_error option"
  assumes "obj_gvk x = gvk ''batch'' ''v1'' ''Job''"
    and "createOrUpdateObject r (logged cl) x quay (w, []) = (out, w', ws)"
  shows "if \<exists>job. GetJob (cl_Reader cl w) (obj_key x) = Inr job \<and>
      (job_Active job \<ge> 1 \<or> job_Succeeded job \<ge> 1 \<and> version_of quay = rr_Version r)
    then ws = [] \<and> out = Inr (False, None)
    else let y = adopt_object quay x; (deleted, w1) = cl_Delete cl y w in
      case deleted of
        Some e \<Rightarrow> if IsNotFound e then ws = [Deleted y, Created y] else ws = [Deleted y] \<and> out = Inr (False, Some e)
      | None \<Rightarrow> ws = [Deleted y, Created y] \<and> (out = Inr (True, None) \<longleftrightarrow> (\<exists>e. fst (cl_Create cl y w1) = Some e \<and> IsAlreadyExists e))"
  using assms
  by (auto simp: createOrUpdateObject_def Let_def keep_job_def recreate_job_def create_job_def go_on_def call_simp
      log_write_def split: sum.splits prod.splits option.splits if_splits)

theorem jobs_run_once_witness:
  "snd (snd (createOrUpdateObject demo_reconciler (logged serving_client) (OJob (finished_job ''reg-quay-app-upgrade''))
     (set_version ''3.9.0'' serving_registry) ([], []) :: (unit + _) \<times> _)) = []"
proof -
  let ?run = "createOrUpdateObject demo_reconciler (logged serving_client) (OJob (finished_job ''reg-quay-app-upgrade''))
     (set_version ''3.9.0'' serving_registry) ([], []) :: (unit + _) \<times> _"
  have "?run = (fst ?run, fst (snd ?run), snd (snd ?run))"
    by (simp only: prod.collapse)
  from jobs_run_once [OF _ this] show ?thesis
    by (simp add: serving_client_def fixed_client_def serving_reader_def demo_reader_def finished_job_def demo_reconciler_def
        split: if_splits)
qed

section \<open>Old config secrets\<close>

lemma listed_previous:
  assumes "list_previous_secrets (logged cl) quay updated objs s = (Inr previous, s')" and "x \<in> set previous"
  shows "HasPrefix (om_Name (sec_Meta x)) (qr_Name updated @ ''-quay-config-secret'') \<and>
    om_Name (sec_Meta x) \<noteq> spec_ConfigBundleSecret (qr_Spec updated) \<and>
    om_Name (sec_Meta x) \<noteq> current_config_secret updated objs \<and> current_config_secret updated objs \<noteq> ''''"
  using assms by (auto simp: list_previous_secrets_def GetOldConfigBundleSecrets_def previous_secrets_def go_on_def
      and_then_def split: sum.splits if_splits prod.splits)

fun secrets_among :: "Secret list \<Rightarrow> cluster_write \<Rightarrow> bool" where
  "secrets_among ss (Deleted (OSecret s)) = (s \<in> set ss)"
| "secrets_among ss _ = True"

lemma emits_cleanup_among: "set ss \<subseteq> set previous \<Longrightarrow> emits (secrets_among previous) (cleanupPreviousSecrets (logged cl) quay ss)"
  by (induction ss) (auto intro!: emits_Pair emits_go_on emits_call emits_log emits_leave emits_updateWithCondition
      split: option.split)

text \<open>C9: an old config secret is deleted only once the deployment of Quay is rolled out, or gone. What is
  deleted then carries the prefix of the rendered config secrets of this registry, is not the user's
  config bundle, and is not the secret just rendered; when no rendered secret was found among the
  objects, nothing is deleted.
\<close>

theorem old_secrets_go_after_the_rollout:
  fixes out :: "outcome + unit"
  assumes "list_previous_secrets (logged cl0) quay updated objs s = (Inr previous :: outcome + _, s')"
    and "remove_previous_secrets (logged cl) quay updated previous (w, []) = (out, w', ws)"
    and "Deleted (OSecret x) \<in> set ws"
  shows "quayAppDeploymentRolledOut (cl_Reader cl w) updated = Inr True \<and>
    HasPrefix (om_Name (sec_Meta x)) (qr_Name updated @ ''-quay-config-secret'') \<and>
    om_Name (sec_Meta x) \<noteq> spec_ConfigBundleSecret (qr_Spec updated) \<and>
    om_Name (sec_Meta x) \<noteq> current_config_secret updated objs \<and> current_config_secret updated objs \<noteq> ''''"
proof -
  have rolled: "quayAppDeploymentRolledOut (cl_Reader cl w) updated = Inr True"
    using assms(2,3) by (auto simp: remove_previous_secrets_def split: if_splits sum.splits)
  have "emits (secrets_among previous) (remove_previous_secrets (logged cl) quay updated previous)"
    by (auto simp: remove_previous_secrets_def intro!: emits_go_on emits_leave emits_cleanup_among emits_invalid_config
        split: sum.split option.split)
  then have "list_all (secrets_among previous) ws"
    using assms(2) by (rule emits_run)
  with assms(3) have "secrets_among previous (Deleted (OSecret x))"
    unfolding list_all_iff by blast
  then have "x \<in> set previous" by simp
  with listed_previous [OF assms(1)] rolled show ?thesis by blast
qed

definition rolled_out_secret :: Secret where
  "rolled_out_secret = demo_bundle\<lparr>sec_Meta := meta_named ''ns'' ''reg-quay-config-secret-0''\<rparr>"

definition rendered_secret :: KObject where
  "rendered_secret = OSecret (demo_bundle\<lparr>sec_Meta := meta_named ''ns'' ''reg-quay-config-secret-1''\<rparr>)"

theorem old_secrets_go_after_the_rollout_witness:
  "Deleted (OSecret rolled_out_secret) \<in> set (snd (snd (remove_previous_secrets (logged serving_client) serving_registry
       serving_registry [rolled_out_secret] ([], []) :: (outcome + unit) \<times> _))) \<and>
   quayAppDeploymentRolledOut (cl_Reader serving_client []) serving_registry = Inr True"
proof -
  let ?old = "serving_client\<lparr>cl_ListNamespaceSecrets := \<lambda>_ _. Inr [demo_bundle, rolled_out_secret]\<rparr>"
  have list: "list_previous_secrets (logged ?old) serving_registry serving_registry [rendered_secret] ([], []) =
      (Inr [rolled_out_secret] :: outcome + _, [], [])"
    by (simp add: list_previous_secrets_def GetOldConfigBundleSecrets_def logged_def previous_secrets_def
        current_config_secret_def rendered_secret_def rolled_out_secret_def demo_bundle_def serving_registry_def
        demo_registry_def demo_meta_def)
  let ?run = "remove_previous_secrets (logged serving_client) serving_registry serving_registry [rolled_out_secret]
      ([], []) :: (outcome + unit) \<times> _"
  have "quayAppDeploymentRolledOut (cl_Reader serving_client []) serving_registry = Inr True"
    by code_simp
  moreover have "cl_Delete serving_client y w = (None, w @ [Deleted y])" for y w
    by (simp add: serving_client_def fixed_client_def)
  ultimately have "Deleted (OSecret rolled_out_secret) \<in> set (snd (snd ?run))"
    by (simp add: remove_previous_secrets_def go_on_def log_write_def call_simp split: prod.split option.split sum.split)
  moreover have "?run = (fst ?run, fst (snd ?run), snd (snd ?run))"
    by (simp only: prod.collapse)
  ultimately show ?thesis
    using old_secrets_go_after_the_rollout [OF list, of serving_client "[]"] by blast
qed

text \<open>C39: a secret that cannot be deleted is reported on the status as a blocked rollout and ends the loop, but
  when that report succeeds the cleanup returns no error: the secrets after it stay, and the rest of the
  reconcile goes on as if all were gone.
\<close>

theorem failed_cleanup_is_no_error:
  assumes "cl_Delete cl (OSecret x) w = (Some err, w1)"
    and "\<And>q w. fst (cl_UpdateQuayStatus cl q w) = None"
  shows "\<exists>q c w'. cleanupPreviousSecrets (logged cl) quay (x # xs) (w, []) =
      (Inr (None, q) :: unit + _, w', [Deleted (OSecret x), StatusUpdated q]) \<and>
    GetCondition (qr_Conditions q) ConditionTypeRolloutBlocked = Some c \<and> c_Status c = ConditionTrue \<and>
    c_Reason c = ReasonComponentCreationFailed"
proof -
  let ?msg = "''could not delete previous config bundle secret: '' @ error_text err"
  let ?c = "condition_of ConditionTypeRolloutBlocked ConditionTrue ReasonComponentCreationFailed ?msg"
  define upd where "upd q w = snd (cl_UpdateQuayStatus cl q w)" for q w
  have "cl_UpdateQuayStatus cl q w = (None, upd q w)" for q w
    using assms(2) by (metis prod.collapse upd_def)
  then have accepted: "\<exists>u t n w'. updateWithCondition (logged cl) quay ty st rs msg (w, l) =
      (Inr (None, touch_status (condition_of ty st rs msg u t) n quay) :: unit + _, w',
       l @ [StatusUpdated (touch_status (condition_of ty st rs msg u t) n quay)])" for ty st rs msg w l
    by (auto simp: updateWithCondition_def Let_def go_on_call logged_def log_write_def split: prod.split)
  obtain u t n w' where up: "updateWithCondition (logged cl) quay ConditionTypeRolloutBlocked ConditionTrue
      ReasonComponentCreationFailed ?msg (w1, [Deleted (OSecret x)]) =
      (Inr (None, touch_status (?c u t) n quay) :: unit + _, w',
       [Deleted (OSecret x)] @ [StatusUpdated (touch_status (?c u t) n quay)])"
    using accepted [of ConditionTypeRolloutBlocked ConditionTrue ReasonComponentCreationFailed ?msg w1 "[Deleted (OSecret x)]"]
    by blast
  have "cleanupPreviousSecrets (logged cl) quay (x # xs) (w, []) =
      (Inr (None, touch_status (?c u t) n quay) :: unit + _, w', [Deleted (OSecret x), StatusUpdated (touch_status (?c u t) n quay)])"
    using assms(1) up by (simp add: go_on_call log_write_def)
  moreover have "GetCondition (qr_Conditions (touch_status (?c u t) n quay)) ConditionTypeRolloutBlocked = Some (?c u t)"
    by simp
  ultimately show ?thesis
    by (intro exI conjI) (assumption | simp)+
qed

definition stuck_client :: "cluster_write list Client" where
  "stuck_client = serving_client\<lparr>cl_Delete := (\<lambda>x w. (Some (plain_error ''denied''), w))\<rparr>"

theorem failed_cleanup_is_no_error_witness:
  "\<exists>q w'. cleanupPreviousSecrets (logged stuck_client) serving_registry [demo_bundle, demo_bundle] ([], []) =
      (Inr (None, q) :: unit + _, w', [Deleted (OSecret demo_bundle), StatusUpdated q])"
proof -
  have "cl_Delete stuck_client (OSecret demo_bundle) [] = (Some (plain_error ''denied''), [])"
    by (simp add: stuck_client_def)
  moreover have "fst (cl_UpdateQuayStatus stuck_client q w) = None" for q w
    by (simp add: stuck_client_def serving_client_def fixed_client_def)
  ultimately show ?thesis
    using failed_cleanup_is_no_error [of stuck_client demo_bundle "[]" _ "[]" serving_registry "[demo_bundle]"] by blast
qed

section \<open>The check of the bundle\<close>

definition component_configured :: "'w KustomizeEnv \<Rightarrow> Component list \<Rightarrow> strmap \<Rightarrow> Component \<Rightarrow> bool" where
  "component_configured env cs cfg c \<longleftrightarrow>
     cmp_Kind c = ComponentTLS \<and> cmp_SecretRef c \<noteq> None \<or>
     (case ContainsComponentConfig env cfg c of
        Inl _ \<Rightarrow> False
      | Inr has \<Rightarrow>
          if cmp_Managed c then has \<longrightarrow> ComponentSupportsConfigWhenManaged c
          else has \<or> \<not> RequiredComponent (cmp_Kind c) \<and>
            \<not> (cmp_Kind c = ComponentClairPostgres \<and> ComponentIsManaged cs ComponentClair))"

lemma first_error_None: "first_error f xs = None \<longleftrightarrow> (\<forall>x \<in> set xs. f x = None)"
  by (induction xs) (auto split: option.split)

text \<open>C18: a bundle is accepted exactly when every component of the spec is configured by the right side: a
  managed one not by the user, unless it allows that; an unmanaged one by the user, if it is required or is
  the database of a managed Clair; a TLS component with an external secret in either case. Every other
  bundle is refused, a bundle that cannot be parsed included.
\<close>

theorem hasNecessaryConfig_iff:
  "hasNecessaryConfig env quay cfg = None \<longleftrightarrow>
     list_all (component_configured env (qr_Components quay) cfg) (qr_Components quay)"
proof -
  have "check_component_config env cs cfg c = None \<longleftrightarrow> component_configured env cs cfg c" for cs c
    by (auto simp: check_component_config_def component_configured_def split: sum.split)
  then show ?thesis
    by (simp add: hasNecessaryConfig_def first_error_None list_all_iff)
qed

section \<open>The watch on secrets\<close>

text \<open>a change of an external TLS secret reaches every registry that refers to it and no other: an update
  passes the filter exactly when the data differ at some key, and the requests made are those of the
  registries of the secret's own namespace that name it.
\<close>

theorem external_secret_changes_are_seen:
  "(externalTLSSecretPredicate (UpdateEvent (OSecret a) (OSecret b)) \<longleftrightarrow>
      (\<exists>k. gget (sec_Data a) k \<noteq> gget (sec_Data b) k)) \<and>
   (n \<in> set (findQuayRegistriesForSecret cl w (OSecret b)) \<longleftrightarrow>
      (\<exists>regs reg. cl_ListQuays cl w (om_Namespace (sec_Meta b)) = Inr regs \<and> reg \<in> set regs \<and>
         GetTLSSecretRef (qr_Components reg) = Some (om_Name (sec_Meta b)) \<and>
         n = nsn (qr_Namespace reg) (qr_Name reg)))"
proof -
  have "same_data x y \<longleftrightarrow> (\<forall>k. gget x k = gget y k)" for x y
    by (cases x; cases y) (auto simp: same_data_def fun_eq_iff)
  then show ?thesis
    by (cases "cl_ListQuays cl w (om_Namespace (sec_Meta b))") (auto simp: findQuayRegistriesForSecret_def)
qed

section \<open>The second look at the block\<close>

lemma go_on_pass: "go_on (pass a) k = k a"
  by (rule ext) simp

text \<open>the test for a blocked rollout after the loop never acts: the condition was removed before the loop
  and nothing in between sets it on the object tested, so the rollout is the same without the test.
\<close>

theorem second_block_check_is_dead:
  "roll_out r cl quay (clear_block updated) ctx osmanaged usercfg objs previous =
     go_on (create_objects r cl quay (clear_block updated) ctx
              (filterDeferredWorkloads (EnsureCreationOrder objs) (deferWorkloads osmanaged ctx))) (\<lambda>_.
     go_on (label_namespace cl quay (clear_block updated) ctx) (\<lambda>_.
     go_on (remove_previous_secrets cl quay (clear_block updated) previous) (\<lambda>_.
       finish r cl (clear_block updated) ctx osmanaged usercfg)))"
proof -
  have "GetCondition (qr_Conditions (clear_block updated)) ConditionTypeRolloutBlocked = None"
    by (simp add: clear_block_def)
  then have "recheck_block cl (clear_block updated) = pass ()"
    by (simp add: recheck_block_def)
  then show ?thesis
    by (simp add: roll_out_def go_on_pass)
qed

end
