(* ===== verification/Progress_Properties.thy ===== *)
theory Progress_Properties
  imports Progress Demo_Reconcile
begin

text \<open>
  A reconcile that comes back late has everything in place, and one whole run that does.
\<close>

section \<open>A settled registry\<close>

text \<open>C7: the long delay means that the work is done. When a reconcile comes back after a minute or more, for
  any client and any answer of it, the delay is one minute and there is no error, the registry waits for
  nothing and reports the current version, it has the finalizer or an update with it was sent, a status
  was sent that reports a successful rollout, and every object rendered from the bundle and a valid spec,
  jobs apart, was applied under its own type and name; none was deferred.
\<close>

theorem settled_means_applied:
  fixes w' :: "'w"
  assumes "reconcile_quay (logged_reconciler r) (logged cl) quay cache (w, []) =
      (Inl (Returned (RequeueAfter n) e, c) :: _ + unit, w', ws)"
    and "60 \<le> n"
  shows "n = 60 \<and> e = None \<and> phase_of quay = Serving \<and> version_of quay = rr_Version r \<and> finalized_by quay ws \<and>
    (\<exists>q. StatusUpdated q \<in> set ws \<and> rolled_out q) \<and>
    (\<exists>objs. rendered_from r cl w quay objs \<and> list_all (in_place ws) objs)"
proof -
  have late: "\<not> no_long_delay (Returned (RequeueAfter n) e)"
    using assms(2) by simp
  have "list_all P (EnsureCreationOrder objs) = list_all P objs" for P objs
    by (simp add: EnsureCreationOrder_def list_all_iff)
  with reconcile_settled [OF assms(1) late] show ?thesis by simp
qed

text \<open>The demonstration registry once its migration is over and the finalizer is set.\<close>

definition settled_registry :: QuayRegistry where
  "settled_registry = AddFinalizer (set_version ''3.9.0'' serving_registry) quayOperatorFinalizer"

abbreviation settled_run :: "(outcome \<times> RouteCache + unit) \<times> cluster_write list \<times> cluster_write list" where
  "settled_run \<equiv> reconcile_quay (logged_reconciler demo_reconciler) (logged serving_client) settled_registry
     \<lparr>rc_Hostname = None, rc_WildcardCert = None\<rparr> ([], [])"

lemma settled_checked: "case before_discovery (logged_reconciler demo_reconciler) (logged serving_client) settled_registry ([], []) of
    (Inr (u, b, ctx), w, l) \<Rightarrow> ctx = demo_context \<and> List.null w \<and> List.null l | (Inl x, s) \<Rightarrow> False"
  by code_simp

lemma settled_after: "case after_discovery (logged_reconciler demo_reconciler) (logged serving_client) settled_registry
      (set_observed settled_registry) serving_bundle demo_context ([], []) :: (_ + unit) \<times> _ of
    (Inl (Returned (RequeueAfter n) e), s) \<Rightarrow> 60 \<le> n | _ \<Rightarrow> False"
  by code_simp

theorem settled_means_applied_witness:
  "finalized_by settled_registry (snd (snd settled_run)) \<and>
   (\<exists>q. StatusUpdated q \<in> set (snd (snd settled_run)) \<and> rolled_out q) \<and>
   (\<exists>objs. rendered_from demo_reconciler serving_client [] settled_registry objs \<and>
      list_all (in_place (snd (snd settled_run))) objs)"
proof -
  let ?after = "after_discovery (logged_reconciler demo_reconciler) (logged serving_client) settled_registry
      (set_observed settled_registry) serving_bundle demo_context ([], []) :: (_ + unit) \<times> _"
  obtain n e w ws where after: "?after = (Inl (Returned (RequeueAfter n) e), w, ws)" and n: "60 \<le> n"
    using settled_after by (auto split: prod.splits sum.splits outcome.splits Requeue.splits)
  have "settled_run = with_cache \<lparr>rc_Hostname = None, rc_WildcardCert = None\<rparr> (after_discovery (logged_reconciler demo_reconciler)
      (logged serving_client) settled_registry (set_observed settled_registry) serving_bundle demo_context) ([], [])"
    by (rule demo_stages [OF settled_checked]) (simp_all add: settled_registry_def AddFinalizer_def set_finalizers_def)
  with after have run: "settled_run = (Inl (Returned (RequeueAfter n) e, \<lparr>rc_Hostname = None, rc_WildcardCert = None\<rparr>), w, ws)"
    by (simp add: with_cache_def)
  from settled_means_applied [OF run n] run show ?thesis by simp
qed

section \<open>The order of creation\<close>

text \<open>C8: dependencies come first. Before a rollout applies, creates or deletes any deployment or job, every
  rendered object of another kind was applied, for any number of objects: the comparison handed to
  \<open>sort.Slice\<close> is no strict weak order, and still the algorithm puts the workloads last.
\<close>

theorem dependencies_come_first:
  fixes out :: "outcome + unit"
  assumes "roll_out r (logged cl) quay updated ctx osmanaged usercfg objs previous (w, []) = (out, w', before @ wr # after)"
    and "derived quay updated"
    and "touches_workload wr" and "y \<in> set objs" and "obj_kind y \<notin> {''Deployment'', ''Job''}"
  shows "\<exists>x. Applied x \<in> set before \<and> obj_gvk x = obj_gvk y \<and> obj_name x = obj_name y"
  using dependencies_first [OF assms(2,1,3,4)] assms(5)
  by (auto simp: is_workload_def in_place_def is_job_def same_resource_def)

definition ready_context :: QuayRegistryContext where
  "ready_context = NewQuayRegistryContext\<lparr>DatabaseInitialized := True, ClairDatabaseInitialized := True\<rparr>"

abbreviation ordered_run :: "(outcome + unit) \<times> cluster_write list \<times> cluster_write list" where
  "ordered_run \<equiv> roll_out demo_reconciler (logged serving_client) serving_registry serving_registry ready_context False
     (Some Map.empty) [ODeployment (demo_deployment ''reg-quay-app'' ''quay''), OSecret serving_bundle] [] ([], [])"

theorem dependencies_come_first_witness:
  "\<exists>before wr after x. snd (snd ordered_run) = before @ wr # after \<and> touches_workload wr \<and>
     Applied x \<in> set before \<and> obj_name x = om_Name (sec_Meta serving_bundle)"
proof -
  have "list_ex touches_workload (snd (snd ordered_run))"
    by code_simp
  then obtain wr where "wr \<in> set (snd (snd ordered_run))" and wr: "touches_workload wr"
    unfolding list_ex_iff by blast
  then obtain before after where log: "snd (snd ordered_run) = before @ wr # after"
    by (meson split_list)
  have "ordered_run = (fst ordered_run, fst (snd ordered_run), before @ wr # after)"
    unfolding log [symmetric] by (simp only: prod.collapse)
  from dependencies_come_first [OF this derived_refl wr, of "OSecret serving_bundle"] log wr
  show ?thesis by auto
qed

end
