(* ===== verification/Setup.thy ===== *)
theory Setup
  imports Controller_Objects
begin

text \<open>
  \<open>main.go\<close> and the two \<open>SetupWithManager\<close>: how the reconciler is configured, and which events of the
  cluster become requests for it. The event handlers and the predicates of controller-runtime that the
  set-up names are modelled as its documentation states them: an owned object enqueues the owner that
  its controller reference names, a mapped object the requests of the map function, an update passes
  the generation predicate when the generation changed.
\<close>

section \<open>main\<close>

record Flags =
  fl_EnableHTTP2 :: bool
  fl_MetricsAddr :: string
  fl_MetricsSecure :: bool
  fl_EnableLeaderElection :: bool
  fl_Namespace :: string

definition default_flags :: Flags where
  "default_flags = \<lparr>fl_EnableHTTP2 = False, fl_MetricsAddr = '':8080'', fl_MetricsSecure = False,
     fl_EnableLeaderElection = False, fl_Namespace = ''''\<rparr>"

definition disableHTTP2 :: "Flags \<Rightarrow> string list \<Rightarrow> string list" where
  "disableHTTP2 flags protos = (if fl_EnableHTTP2 flags then protos else [''http/1.1''])"

text \<open>The informer cache: the labels a secret must carry, and the namespaces it is limited to, if any.\<close>

record CacheOptions =
  co_SecretLabels :: "(string \<times> string) list"
  co_Namespaces :: "string list option"

definition cacheOptions :: "Flags \<Rightarrow> CacheOptions" where
  "cacheOptions flags = \<lparr>co_SecretLabels = [(TLSSecretLabel, ''true'')],
     co_Namespaces = (if fl_Namespace flags \<noteq> '''' then Some [fl_Namespace flags] else None)\<rparr>"

definition informer_sees :: "CacheOptions \<Rightarrow> KObject \<Rightarrow> bool" where
  "informer_sees co obj =
     ((case co_Namespaces co of None \<Rightarrow> True | Some nss \<Rightarrow> List.member nss (om_Namespace (obj_meta obj))) \<and>
      (case obj of
         OSecret s \<Rightarrow> list_all (\<lambda>(k, v). gget (om_Labels (sec_Meta s)) k = Some v) (co_SecretLabels co)
       | _ \<Rightarrow> True))"

text \<open>The kinds the client reads past the cache.\<close>

definition uncached_kinds :: "string list" where
  "uncached_kinds = [''QuayRegistry'', ''APIServer'', ''Secret'']"

text \<open>The options of the manager: the flags, the two ports, and the restriction of TLS on both servers.\<close>

record ManagerOptions =
  mo_Cache :: CacheOptions
  mo_LeaderElection :: bool
  mo_LeaderElectionID :: string
  mo_MetricsAddress :: string
  mo_MetricsSecure :: bool
  mo_NextProtos :: "string list \<Rightarrow> string list"
  mo_WebhookPort :: int
  mo_HealthProbeAddress :: string

definition manager_options :: "Flags \<Rightarrow> ManagerOptions" where
  "manager_options flags = \<lparr>mo_Cache = cacheOptions flags, mo_LeaderElection = fl_EnableLeaderElection flags,
     mo_LeaderElectionID = ''7daa4ab6.quay.redhat.com'', mo_MetricsAddress = fl_MetricsAddr flags,
     mo_MetricsSecure = fl_MetricsSecure flags, mo_NextProtos = disableHTTP2 flags,
     mo_WebhookPort = 9443, mo_HealthProbeAddress = '':8081''\<rparr>"

text \<open>The reconciler of a deployment of the operator: the flags and one variable over the libraries, with
  what the REST mapper says about routes when the controller is set up.\<close>

definition supports_routes :: "go_error option \<Rightarrow> bool" where
  "supports_routes route_mapping = (route_mapping = None)"

definition main_reconciler ::
  "Flags \<Rightarrow> (string \<Rightarrow> string) \<Rightarrow> go_error option \<Rightarrow> 'w Reconciler \<Rightarrow> 'w Reconciler" where
  "main_reconciler flags getenv route_mapping libraries = libraries\<lparr>
     rr_WatchNamespace := fl_Namespace flags,
     rr_SkipResourceRequests := (getenv ''SKIP_RESOURCE_REQUESTS'' = ''true''),
     rr_SupportsRoutes := supports_routes route_mapping\<rparr>"

text \<open>The index on events that the check of a pending volume claim reads by: the UID of the object an event
  is about, which is empty for none, and no key for an object that is not an event.\<close>

definition event_uid_index :: "string option \<Rightarrow> string list" where
  "event_uid_index involved =
     (case involved of None \<Rightarrow> [] | Some uid \<Rightarrow> if uid = '''' then [] else [uid])"

text \<open>The start: each call may fail, and the first that does ends the process with its message.\<close>

record StartCalls =
  su_NewManager :: "go_error option"
  su_MainController :: "go_error option"
  su_StatusController :: "go_error option"
  su_IndexField :: "go_error option"
  su_Healthz :: "go_error option"
  su_Readyz :: "go_error option"
  su_Start :: "go_error option"

definition start_calls :: "StartCalls \<Rightarrow> (go_error option \<times> string) list" where
  "start_calls su = [(su_NewManager su, ''unable to start manager''),
     (su_MainController su, ''unable to create controller''),
     (su_StatusController su, ''unable to create controller''),
     (su_IndexField su, ''unable to set up field indexer for Event involvedObject.uid''),
     (su_Healthz su, ''unable to set up health check''),
     (su_Readyz su, ''unable to set up ready check''),
     (su_Start su, ''problem running manager'')]"

fun exit_message :: "(go_error option \<times> string) list \<Rightarrow> string option" where
  "exit_message [] = None"
| "exit_message ((None, _) # calls) = exit_message calls"
| "exit_message ((Some _, msg) # _) = Some msg"

section \<open>Events\<close>

fun event_objects :: "watch_event \<Rightarrow> KObject list" where
  "event_objects (CreateEvent x) = [x]"
| "event_objects (UpdateEvent old new) = [old, new]"
| "event_objects (DeleteEvent x) = [x]"
| "event_objects (GenericEvent x) = [x]"

fun generation_changed :: "watch_event \<Rightarrow> bool" where
  "generation_changed (UpdateEvent old new) = (om_Generation (obj_meta new) \<noteq> om_Generation (obj_meta old))"
| "generation_changed _ = True"

text \<open>The reference of the controller, and the request for a registry it names.\<close>

definition controller_of :: "ObjectMeta \<Rightarrow> OwnerReference option" where
  "controller_of m = find (\<lambda>r. or_Controller r = Some True) (om_OwnerReferences m)"

definition version_group :: "string \<Rightarrow> string" where
  "version_group v = (case Split v CHR ''/'' of [g, _] \<Rightarrow> g | _ \<Rightarrow> '''')"

definition owner_requests :: "KObject \<Rightarrow> NamespacedName list" where
  "owner_requests obj = (case controller_of (obj_meta obj) of
     None \<Rightarrow> []
   | Some r \<Rightarrow>
       if or_Kind r = ''QuayRegistry'' \<and> version_group (or_APIVersion r) = ''quay.redhat.com''
       then [nsn (om_Namespace (obj_meta obj)) (or_Name r)] else [])"

section \<open>SetupWithManager\<close>

text \<open>\<open>Owns\<close>, for each of six kinds with the generation predicate.\<close>

definition owned_kinds :: "GroupVersionKind list" where
  "owned_kinds = [gvk ''apps'' ''v1'' ''Deployment'', gvk ''batch'' ''v1'' ''Job'', gvk '''' ''v1'' ''Service'',
     gvk '''' ''v1'' ''Secret'', gvk '''' ''v1'' ''ConfigMap'', gvk '''' ''v1'' ''PersistentVolumeClaim'']"

definition owned_event :: "watch_event \<Rightarrow> NamespacedName list" where
  "owned_event ev =
     (if list_all (\<lambda>x. List.member owned_kinds (obj_gvk x)) (event_objects ev) \<and> generation_changed ev
      then concat (map owner_requests (event_objects ev)) else [])"

text \<open>\<open>Watches\<close> on secrets, with the map function and the predicate of the controller.\<close>

definition secret_event :: "'w Client \<Rightarrow> 'w \<Rightarrow> watch_event \<Rightarrow> NamespacedName list" where
  "secret_event cl w ev =
     (if list_all (\<lambda>x. obj_gvk x = gvk '''' ''v1'' ''Secret'') (event_objects ev) \<and> externalTLSSecretPredicate ev
      then concat (map (findQuayRegistriesForSecret cl w) (event_objects ev)) else [])"

text \<open>All requests the main controller gets from an event about an object other than a registry.\<close>

definition requests_from :: "Flags \<Rightarrow> 'w Client \<Rightarrow> 'w \<Rightarrow> watch_event \<Rightarrow> NamespacedName list" where
  "requests_from flags cl w ev =
     (if list_all (informer_sees (cacheOptions flags)) (event_objects ev)
      then owned_event ev @ secret_event cl w ev else [])"

text \<open>\<open>For\<close>: the update of a registry reaches the main controller when the generation changed, and the
  status controller, which is set up without a predicate, in any case.\<close>

definition main_for :: "QuayRegistry \<Rightarrow> QuayRegistry \<Rightarrow> NamespacedName list" where
  "main_for old new =
     (if om_Generation (qr_Meta new) \<noteq> om_Generation (qr_Meta old) then [nsn (qr_Namespace new) (qr_Name new)] else [])"

definition status_for :: "QuayRegistry \<Rightarrow> QuayRegistry \<Rightarrow> NamespacedName list" where
  "status_for old new = [nsn (qr_Namespace new) (qr_Name new)]"

section \<open>Laws\<close>

lemma version_group_quay [simp]: "version_group GroupVersion = ''quay.redhat.com''"
  by code_simp

lemma adopted_controller: "controller_of (obj_meta (adopt_object quay x)) =
    (if isGrafanaConfigMap (map_obj_meta (EnsureOwnerReference quay) x)
     then controller_of (RemoveOwnerReference quay (EnsureOwnerReference quay (obj_meta x)))
     else controller_of (obj_meta x))"
  by (simp add: adopt_object_def Let_def controller_of_def EnsureOwnerReference_def owner_reference_of_def find_append
      split: option.split)

lemma adopted_none:
  assumes "controller_of (obj_meta x) = None"
  shows "controller_of (obj_meta (adopt_object quay x)) = None"
proof -
  have "controller_of (RemoveOwnerReference quay (EnsureOwnerReference quay (obj_meta x))) = None"
    using assms by (auto simp: controller_of_def RemoveOwnerReference_def EnsureOwnerReference_def owner_reference_of_def
        find_None_iff)
  with assms show ?thesis by (simp add: adopted_controller)
qed

lemma secret_update_requests:
  assumes "cl_ListQuays cl w (om_Namespace (sec_Meta new)) = Inr regs" and "quay \<in> set regs"
    and "GetTLSSecretRef (qr_Components quay) = Some (om_Name (sec_Meta new))"
    and "\<not> same_data (sec_Data old) (sec_Data new)"
  shows "nsn (qr_Namespace quay) (qr_Name quay) \<in> set (secret_event cl w (UpdateEvent (OSecret old) (OSecret new)))"
  using assms by (auto simp: secret_event_def findQuayRegistriesForSecret_def)

end
