(* ===== verification/Setup_Properties.thy ===== *)
theory Setup_Properties
  imports Setup Demo_Reconcile
begin

text \<open>
  Properties of the set-up together with the handlers: which changes in the cluster wake the main
  controller, and which do not.
\<close>

section \<open>External TLS secrets\<close>

lemma label_external_secret_run:
  assumes "label_external_secret (logged cl) name s (w, []) = (None, w', ws)"
  obtains s' where "ws = [] \<and> s' = s \<or> ws = [Patched (OSecret s')]"
    and "gget (om_Labels (sec_Meta s')) TLSSecretLabel = Some ''true''"
    and "sec_Data s' = sec_Data s" and "om_Name (sec_Meta s') = om_Name (sec_Meta s)"
    and "om_Namespace (sec_Meta s') = om_Namespace (sec_Meta s)"
proof (cases "gstr (om_Labels (sec_Meta s)) TLSSecretLabel = ''true''")
  case True
  with assms have "ws = []" by (simp add: label_external_secret_def)
  with True that [of s] show thesis by (simp add: gstr_def split: option.splits)
next
  case False
  then obtain ls where ls: "gput (gmake (om_Labels (sec_Meta s))) TLSSecretLabel ''true'' = Inr ls"
    by (cases "gput (gmake (om_Labels (sec_Meta s))) TLSSecretLabel ''true''") (auto simp: gmake_def split: option.splits)
  with assms False have "ws = [Patched (OSecret (s\<lparr>sec_Meta := (sec_Meta s)\<lparr>om_Labels := ls\<rparr>\<rparr>))]"
    by (auto simp: label_external_secret_def log_write_def split: prod.splits option.splits)
  with that [of "s\<lparr>sec_Meta := (sec_Meta s)\<lparr>om_Labels := ls\<rparr>\<rparr>"] show thesis
    by (simp add: gget_gput [OF ls])
qed

text \<open>C38: an external TLS secret stays watched. Once a reconcile has accepted the secret a registry refers
  to, the secret carries the label the informer selects by, because it had it or because a patch with it
  was sent and nothing else was; and from then on every change of its data asks for a reconcile of that
  registry, provided the operator watches the namespace.
\<close>

theorem external_tls_secret_stays_watched:
  assumes "GetTLSSecretRef (qr_Components quay) = Some name"
    and "checkExternalTLSSecret env (logged cl) qctx quay bndl (w, []) = (Inr ctx, w', ws)"
    and "\<And>s. GetSecret (cl_Reader cl w) (nsn (qr_Namespace quay) name) = Inr s \<Longrightarrow>
      om_Namespace (sec_Meta s) = qr_Namespace quay \<and> om_Name (sec_Meta s) = name"
    and "fl_Namespace flags \<in> {'''', qr_Namespace quay}"
    and "cl_ListQuays cl w2 (qr_Namespace quay) = Inr regs" and "quay \<in> set regs"
  shows "\<exists>s0 s. GetSecret (cl_Reader cl w) (nsn (qr_Namespace quay) name) = Inr s0 \<and>
    (ws = [] \<and> s = s0 \<or> ws = [Patched (OSecret s)]) \<and> sec_Data s = sec_Data s0 \<and>
    (\<forall>d. \<not> same_data (sec_Data s) d \<longrightarrow> nsn (qr_Namespace quay) (qr_Name quay) \<in>
       set (requests_from flags cl w2 (UpdateEvent (OSecret s) (OSecret (s\<lparr>sec_Data := d\<rparr>)))))"
proof -
  obtain s0 where s0: "GetSecret (cl_Reader cl w) (nsn (qr_Namespace quay) name) = Inr s0"
    and label: "label_external_secret (logged cl) name s0 (w, []) = (None, w', ws)"
    using assms(1,2) by (auto simp: checkExternalTLSSecret_def FetchAndValidate_def Let_def
        split: if_splits sum.splits option.splits prod.splits)
  obtain s where s: "ws = [] \<and> s = s0 \<or> ws = [Patched (OSecret s)]"
    and seen: "gget (om_Labels (sec_Meta s)) TLSSecretLabel = Some ''true''" and same: "sec_Data s = sec_Data s0"
    and names: "om_Name (sec_Meta s) = om_Name (sec_Meta s0)" "om_Namespace (sec_Meta s) = om_Namespace (sec_Meta s0)"
    using label by (rule label_external_secret_run)
  have name: "om_Name (sec_Meta s) = name" "om_Namespace (sec_Meta s) = qr_Namespace quay"
    using assms(3) [OF s0] names by simp_all
  have "nsn (qr_Namespace quay) (qr_Name quay) \<in>
      set (requests_from flags cl w2 (UpdateEvent (OSecret s) (OSecret (s\<lparr>sec_Data := d\<rparr>))))"
    if "\<not> same_data (sec_Data s) d" for d
    using that secret_update_requests [of cl w2 "s\<lparr>sec_Data := d\<rparr>" regs quay s] assms(1,4-6) name seen
    by (auto simp: requests_from_def informer_sees_def cacheOptions_def)
  with s0 s same show ?thesis by blast
qed

definition external_tls_client :: "cluster_write list Client" where
  "external_tls_client = (fixed_client external_tls_reader)\<lparr>cl_ListQuays := \<lambda>_ _. Inr [external_tls_registry]\<rparr>"

theorem external_tls_secret_stays_watched_witness:
  "\<exists>s. nsn (qr_Namespace external_tls_registry) (qr_Name external_tls_registry) \<in> set (requests_from default_flags external_tls_client []
       (UpdateEvent (OSecret s) (OSecret (s\<lparr>sec_Data := None\<rparr>))))"
proof -
  let ?b = "demo_bundle\<lparr>sec_Data := Some [''config.yaml'' \<mapsto> '''']\<rparr>"
  let ?run = "checkExternalTLSSecret demo_features (logged external_tls_client) NewQuayRegistryContext
      external_tls_registry ?b ([], [])"
  note demo = external_tls_client_def external_tls_registry_def external_tls_reader_def fixed_client_def
    demo_registry_def demo_component_def GetTLSSecretRef_def
  have "\<exists>ctx. fst ?run = Inr ctx"
    by (simp add: demo logged_def checkExternalTLSSecret_def FetchAndValidate_def label_external_secret_def gstr_def
        gmake_def log_write_def demo_bundle_def)
  then obtain ctx w' ws where "?run = (Inr ctx, w', ws)" by (metis prod.collapse)
  then have "\<exists>s0 s. GetSecret (cl_Reader external_tls_client []) (nsn (qr_Namespace external_tls_registry) ''ext'') = Inr s0 \<and>
      (ws = [] \<and> s = s0 \<or> ws = [Patched (OSecret s)]) \<and> sec_Data s = sec_Data s0 \<and>
      (\<forall>d. \<not> same_data (sec_Data s) d \<longrightarrow> nsn (qr_Namespace external_tls_registry) (qr_Name external_tls_registry) \<in>
         set (requests_from default_flags external_tls_client []
           (UpdateEvent (OSecret s) (OSecret (s\<lparr>sec_Data := d\<rparr>)))))"
    by (rule external_tls_secret_stays_watched [rotated, where regs = "[external_tls_registry]"])
      (simp_all add: demo default_flags_def demo_meta_def)
  moreover have "\<exists>s0. GetSecret (cl_Reader external_tls_client []) (nsn (qr_Namespace external_tls_registry) ''ext'') = Inr s0 \<and>
      \<not> same_data (sec_Data s0) None"
    by (auto simp: demo same_data_def fun_eq_iff)
  ultimately show ?thesis by auto
qed

section \<open>Owned objects\<close>



section \<open>Operators that watch one namespace\<close>

text \<open>The writes that reach past the registry's namespace: the labels of a namespace, which belong to its
  administrator, and the removal of the dashboard in the namespace of the cluster's monitoring.\<close>

fun stays_home :: "cluster_write \<Rightarrow> bool" where
  "stays_home (Labelled _ _) = False"
| "stays_home (Deleted (OConfigMap _)) = False"
| "stays_home _ = True"

lemma feature_write_home: "feature_write wr \<Longrightarrow> stays_home wr"
  by (auto elim: feature_writeE)

interpretation home: rollout_policy stays_home quay v for quay v
proof
  fix obj
  assume "obj_gvk obj = gvk ''batch'' ''v1'' ''Job''"
  then show "stays_home (Deleted obj) \<and> stays_home (Created obj)"
    by (cases obj) simp_all
qed (auto simp: feature_write_home)

lemma home_handlers:
  "emits stays_home (checkMigrationStatus r (logged cl) q)"
  "emits stays_home (checkPostgresUpgradeStatus r (logged cl) q)"
  "rr_WatchNamespace r \<noteq> '''' \<Longrightarrow> emits stays_home (manageQuayDeletion r (logged cl) q)"
  unfolding checkMigrationStatus_def checkPostgresUpgradeStatus_def check_upgrade_job_def cleanup_old_database_def
    cleanup_old_service_def cleanup_old_claim_def manageQuayDeletion_def finalizeQuay_def disowned_def
  by (auto intro!: emits_go_on emits_leave emits_Pair emits_call emits_log emits_set_condition_and_requeue
      emits_report_success split: sum.split option.split)

lemma home_reconcile:
  assumes "rr_WatchNamespace r \<noteq> ''''"
  shows "emits stays_home (reconcile_quay (logged_reconciler r) (logged cl) quay cache)"
proof (cases "phase_of quay")
  case Serving
  have "home.labels_allowed quay r cl"
    using assms by (simp add: home.labels_allowed_def label_namespace_def watches_def emits_leave)
  with Serving show ?thesis
    by (intro home.reconcile_serving) (simp_all add: serving_iff)
qed (rule emits_handler [OF dispatch_phase(1)] emits_handler [OF dispatch_phase(2)] emits_handler [OF dispatch_phase(3)];
    use assms in \<open>simp add: home_handlers\<close>)+

text \<open>C37: an operator restricted to one namespace keeps to it. Started with the namespace flag it labels no
  namespace and removes no dashboard, whatever the registry declares, the cluster offers and the client
  answers, also while a registry is deleted: monitoring is never available to it.
\<close>

theorem restricted_operator_stays_home:
  fixes out :: "outcome \<times> RouteCache + unit"
  assumes "fl_Namespace flags \<noteq> ''''"
    and "Reconcile (logged_reconciler (main_reconciler flags getenv mapping libraries)) (logged cl) req cache (w, [])
      = (out, w', ws)"
  shows "list_all stays_home ws"
proof -
  let ?r = "main_reconciler flags getenv mapping libraries"
  have "emits stays_home (Reconcile (logged_reconciler ?r) (logged cl) req cache)"
    unfolding Reconcile_def load_quay_def using assms(1)
    by (auto intro!: emits_go_on emits_with_cache emits_leave home_reconcile simp: main_reconciler_def split: sum.split)
  then show ?thesis
    using assms(2) by (rule emits_run)
qed

theorem restricted_operator_stays_home_witness:
  "list_all stays_home (snd (snd (Reconcile
     (logged_reconciler (main_reconciler (default_flags\<lparr>fl_Namespace := ''ns''\<rparr>) (\<lambda>_. '''') None demo_reconciler))
     (logged serving_client) (nsn ''ns'' ''reg'') \<lparr>rc_Hostname = None, rc_WildcardCert = None\<rparr> ([], [])
       :: (outcome \<times> RouteCache + unit) \<times> _)))"
proof -
  let ?flags = "default_flags\<lparr>fl_Namespace := ''ns''\<rparr>"
  let ?run = "Reconcile (logged_reconciler (main_reconciler ?flags (\<lambda>_. '''') None demo_reconciler))
     (logged serving_client) (nsn ''ns'' ''reg'') \<lparr>rc_Hostname = None, rc_WildcardCert = None\<rparr> ([], [])
       :: (outcome \<times> RouteCache + unit) \<times> _"
  have "?run = (fst ?run, fst (snd ?run), snd (snd ?run))"
    by (simp only: prod.collapse)
  with _ show ?thesis
    by (rule restricted_operator_stays_home) (simp add: default_flags_def)
qed

section \<open>Status writes\<close>

text \<open>a status write wakes the status controller and not the main one, which so depends on the delay it
  asked for.
\<close>

theorem status_writes_wake_one_controller:
  fixes out :: "outcome \<times> RouteCache + unit"
  assumes "cl_GetQuay cl w req = Inr quay"
    and "Reconcile (logged_reconciler r) (logged cl) req cache (w, []) = (out, w', ws)"
    and "StatusUpdated q \<in> set ws"
  shows "main_for quay q = [] \<and> status_for quay q = [nsn (qr_Namespace quay) (qr_Name quay)]"
  using main_status_lifecycle [OF assms] by (simp add: main_for_def status_for_def)

end
