(* ===== verification/Kustomize_Properties.thy ===== *)
theory Kustomize_Properties
  imports Demo_Reconcile
begin

text \<open>
  The properties of the inflation: the keys that must survive from one reconcile to the next, the config
  the user's file is completed to, what is handed to Kustomize, and the objects that come back.
\<close>

section \<open>Managed keys\<close>

text \<open>What \<open>rand.Read\<close> promises: it fills the buffer.\<close>

definition rand_fills :: "'w KustomizeEnv \<Rightarrow> bool" where
  "rand_fills env \<longleftrightarrow> (\<forall>n w bs w'. ke_Rand env n w = (Inr bs, w') \<longrightarrow> length bs = n)"

text \<open>What Kustomize promises of a secret generated from literals: each one is an entry.\<close>

definition holds_literals :: "strmap \<Rightarrow> string list \<Rightarrow> bool" where
  "holds_literals data literals \<longleftrightarrow>
     (\<forall>k v. CHR ''='' \<notin> set k \<longrightarrow> k @ ''='' @ v \<in> set literals \<longrightarrow> gget data k = Some v)"

lemma generateRandomString_length:
  "rand_fills env \<Longrightarrow> generateRandomString env n w = (Inr s, w') \<Longrightarrow> length s = n"
  by (auto simp: generateRandomString_def generateRandomBytes_def rand_fills_def split: prod.splits sum.splits) blast

lemma settle_key_nonempty:
  "rand_fills env \<Longrightarrow> settle_key env cfg n current w = (Inr k, w') \<Longrightarrow> k \<noteq> ''''"
  by (auto simp: settle_key_def secretKeyLength_def split: option.splits if_splits dest: generateRandomString_length)

lemma settle_key_again:
  "settle_key env cfg n current w = (Inr k, w1) \<Longrightarrow> k \<noteq> '''' \<Longrightarrow> gget cfg' n = gget cfg n \<Longrightarrow>
     settle_key env cfg' n k w2 = (Inr k, w2)"
  by (auto simp: settle_key_def split: option.splits if_splits)

lemma settle_db_uri_again:
  assumes "settle_db_uri env cfg ctx quay w = (Inr (uri, changed), w1)"
    and "gget cfg' ''DB_URI'' = gget cfg ''DB_URI''" and "DbUri ctx2 = uri"
  shows "settle_db_uri env cfg' ctx2 quay w2 = (Inr (uri, False), w2)"
  using assms by (auto simp: settle_db_uri_def Let_def generated_db_uri_def split: option.splits if_splits sum.splits prod.splits)

text \<open>The keys of a context, which nothing after \<open>settle_config\<close> touches.\<close>

definition keys_of :: "QuayRegistryContext \<Rightarrow> string \<times> string \<times> string" where
  "keys_of ctx = (DatabaseSecretKey ctx, SecretKey ctx, DbUri ctx)"

lemma FieldGroupFor_keys: "FieldGroupFor env ctx k quay w = (x, ctx', w') \<Longrightarrow> keys_of ctx' = keys_of ctx"
  by (auto simp: FieldGroupFor_def clair_field_group_def Let_def keys_of_def
      split: ComponentKind.splits sum.splits if_splits prod.splits)

lemma add_field_groups_keys:
  "add_field_groups env quay cs files ctx w = (Inr (files', ctx'), w') \<Longrightarrow> keys_of ctx' = keys_of ctx"
proof (induction cs arbitrary: files ctx w)
  case Nil
  then show ?case by simp
next
  case (Cons c cs)
  then show ?case
    by (auto split: if_splits sum.splits prod.splits dest!: FieldGroupFor_keys)
qed

lemma KustomizationFor_keys:
  "KustomizationFor env ctx quay files overlay w = (Inr (kz, ctx'), w') \<Longrightarrow> keys_of ctx' = keys_of ctx"
  by (auto simp: KustomizationFor_def ensure_clair_credentials_def ensure_root_password_def keys_of_def and_then_Inr_iff
      split: sum.splits prod.splits if_splits)

lemma keys_of_tls [simp]: "keys_of (ctx\<lparr>TLSCert := c, TLSKey := k\<rparr>) = keys_of ctx"
  by (simp add: keys_of_def)

lemma Inflate_settled:
  assumes "Inflate env ctx quay b skip w = (Inr (objs, ctx'), w')"
  obtains parsed m ctx1 changed w1 where "me_Unmarshal (ke_Middleware (ie_Config env)) (gstr (sec_Data b) ''config.yaml'') = Inr parsed"
    and "settle_config (ie_Config env) (config_of parsed) ctx quay w = (Inr (m, ctx1, changed), w1)"
    and "keys_of ctx' = keys_of ctx1"
  using assms
  by (auto simp: Inflate_def Let_def and_then_Inr_iff split: sum.splits prod.splits
      dest!: add_field_groups_keys KustomizationFor_keys)

lemma settle_config_Inr:
  assumes "settle_config env cfg ctx quay w = (Inr (m, ctx1, changed), w1)"
  obtains k1 k2 uri u cfg' wa wb where "settle_key env cfg ''DATABASE_SECRET_KEY'' (DatabaseSecretKey ctx) w = (Inr k1, wa)"
    and "cfg = Some u" and "cfg' = Some (u(''DATABASE_SECRET_KEY'' \<mapsto> YStr k1))"
    and "settle_key env cfg' ''SECRET_KEY'' (SecretKey ctx) wa = (Inr k2, wb)"
    and "settle_db_uri env cfg' ctx quay wb = (Inr (uri, changed), w1)"
    and "ctx1 = ctx\<lparr>DatabaseSecretKey := k1, SecretKey := k2, DbUri := uri\<rparr>"
    and "m = complete_config env ctx1 (u(''DATABASE_SECRET_KEY'' \<mapsto> YStr k1, ''SECRET_KEY'' \<mapsto> YStr k2, ''DB_URI'' \<mapsto> YStr uri))"
  using assms by (cases cfg) (auto simp: settle_config_def Let_def split: sum.splits prod.splits)

lemma settle_config_again:
  assumes fills: "rand_fills env"
    and run: "settle_config env cfg ctx quay w = (Inr (m, ctx1, changed), w1)"
    and keys: "keys_of ctx2 = keys_of ctx1"
  shows "\<exists>m' ctx'. settle_config env cfg ctx2 quay w2 = (Inr (m', ctx', False), w2) \<and> keys_of ctx' = keys_of ctx1"
proof -
  obtain k1 k2 uri u cfg' wa wb where 1: "settle_key env cfg ''DATABASE_SECRET_KEY'' (DatabaseSecretKey ctx) w = (Inr k1, wa)"
    and cfg: "cfg = Some u" "cfg' = Some (u(''DATABASE_SECRET_KEY'' \<mapsto> YStr k1))"
    and 2: "settle_key env cfg' ''SECRET_KEY'' (SecretKey ctx) wa = (Inr k2, wb)"
    and 3: "settle_db_uri env cfg' ctx quay wb = (Inr (uri, changed), w1)"
    and ctx1: "ctx1 = ctx\<lparr>DatabaseSecretKey := k1, SecretKey := k2, DbUri := uri\<rparr>"
    using run by (rule settle_config_Inr)
  have ctx2: "DatabaseSecretKey ctx2 = k1" "SecretKey ctx2 = k2" "DbUri ctx2 = uri"
    using keys by (simp_all add: ctx1 keys_of_def)
  have "settle_key env cfg ''DATABASE_SECRET_KEY'' k1 w2 = (Inr k1, w2)"
    by (rule settle_key_again [OF 1 settle_key_nonempty [OF fills 1] refl])
  moreover have "settle_key env cfg' ''SECRET_KEY'' k2 w2 = (Inr k2, w2)"
    by (rule settle_key_again [OF 2 settle_key_nonempty [OF fills 2] refl])
  moreover have "settle_db_uri env cfg' ctx2 quay w2 = (Inr (uri, False), w2)"
    by (rule settle_db_uri_again [OF 3 refl ctx2(3)])
  ultimately show ?thesis
    using cfg ctx1 ctx2 by (simp add: settle_config_def Let_def keys_of_def)
qed

text \<open>C5: the keys of a registry are generated once. When the secret that Kustomize builds from one inflation's
  literals is read back into the context, the next settling of the same config keeps both secret keys and
  the database URI, draws no random bytes, and sees no change of the database, so it asks for no upgrade.
\<close>

theorem managed_keys_survive:
  assumes "rand_fills (ie_Config env)"
    and "Inflate env ctx quay bundle skip w = (Inr (objs, ctx1), w1)"
    and "holds_literals (sec_Data secret) (managed_keys_sources ctx1)"
    and "me_Unmarshal (ke_Middleware (ie_Config env)) (gstr (sec_Data bundle) ''config.yaml'') = Inr parsed"
  shows "\<exists>m ctx2. settle_config (ie_Config env) (config_of parsed) (populate_keys secret ctx') quay w2 = (Inr (m, ctx2, False), w2) \<and>
    keys_of ctx2 = keys_of ctx1"
proof -
  obtain m0 ctx0 changed w0 where run: "settle_config (ie_Config env) (config_of parsed) ctx quay w = (Inr (m0, ctx0, changed), w0)"
    and keys: "keys_of ctx1 = keys_of ctx0"
    using assms(2,4) by (elim Inflate_settled) auto
  have "gget (sec_Data secret) ''DATABASE_SECRET_KEY'' = Some (DatabaseSecretKey ctx1)"
    "gget (sec_Data secret) ''SECRET_KEY'' = Some (SecretKey ctx1)" "gget (sec_Data secret) ''DB_URI'' = Some (DbUri ctx1)"
    using assms(3) unfolding holds_literals_def managed_keys_sources_def by simp_all
  then have "keys_of (populate_keys secret ctx') = keys_of ctx0"
    using keys by (simp add: keys_of_def populate_keys_def gstr_def)
  from settle_config_again [OF assms(1) run this] keys show ?thesis by simp
qed

text \<open>A secret built from literals.\<close>

definition split_literal :: "string \<Rightarrow> string \<times> string" where
  "split_literal l = (takeWhile (\<lambda>c. c \<noteq> CHR ''='') l, drop 1 (dropWhile (\<lambda>c. c \<noteq> CHR ''='') l))"

definition literal_data :: "string list \<Rightarrow> strmap" where
  "literal_data ls = Some (map_of (map split_literal ls))"

lemma split_literal_eq: "CHR ''='' \<notin> set k \<Longrightarrow> split_literal (k @ ''='' @ v) = (k, v)"
proof -
  assume k: "CHR ''='' \<notin> set k"
  then have "\<And>c. c \<in> set k \<Longrightarrow> c \<noteq> CHR ''=''" by blast
  then show ?thesis by (simp add: split_literal_def takeWhile_append2 dropWhile_append2)
qed

lemma holds_literal_data: "distinct (map (fst \<circ> split_literal) ls) \<Longrightarrow> holds_literals (literal_data ls) ls"
  unfolding holds_literals_def literal_data_def
proof (intro allI impI)
  fix k v
  assume dist: "distinct (map (fst \<circ> split_literal) ls)" and k: "CHR ''='' \<notin> set k" and l: "k @ ''='' @ v \<in> set ls"
  from l have "split_literal (k @ ''='' @ v) \<in> set (map split_literal ls)"
    unfolding set_map by (rule imageI)
  then have "(k, v) \<in> set (map split_literal ls)"
    unfolding split_literal_eq [OF k] .
  with dist show "gget (Some (map_of (map split_literal ls))) k = Some v" by simp
qed

lemma managed_keys_distinct: "distinct (map (fst \<circ> split_literal) (managed_keys_sources ctx))"
proof -
  have "split_literal (n @ ''='' @ v) = (n, v)" if "CHR ''='' \<notin> set n" for n v
    using that by (rule split_literal_eq)
  then have "map (fst \<circ> split_literal) (managed_keys_sources ctx) =
      [''DATABASE_SECRET_KEY'', ''SECRET_KEY'', ''DB_URI'', ''DB_ROOT_PW'', ''SECURITY_SCANNER_V4_PSK'', ''CLAIR_DB_USER'',
       ''CLAIR_DB_PASSWORD'', ''CLAIR_DB_ROOT_PW'', ''CLAIR_DB_NAME'']"
    by (simp add: managed_keys_sources_def split_literal_def)
  then show ?thesis by simp
qed

lemma demo_rand_fills: "rand_fills demo_config"
  by (simp add: rand_fills_def demo_config_def)

lemma demo_inflates: "case Inflate (demo_inflate :: unit InflateEnv) NewQuayRegistryContext serving_registry serving_bundle False () of
    (Inr _, _) \<Rightarrow> True | _ \<Rightarrow> False"
  by code_simp

theorem managed_keys_survive_witness:
  "\<exists>secret m ctx2. settle_config (demo_config :: unit KustomizeEnv) (Some [''cfg'' \<mapsto> YBool True])
     (populate_keys secret NewQuayRegistryContext) serving_registry () = (Inr (m, ctx2, False), ())"
proof -
  let ?env = "demo_inflate :: unit InflateEnv"
  obtain objs ctx1 where run: "Inflate ?env NewQuayRegistryContext serving_registry serving_bundle False () = (Inr (objs, ctx1), ())"
    using demo_inflates by (auto split: prod.splits sum.splits)
  let ?secret = "demo_bundle\<lparr>sec_Data := literal_data (managed_keys_sources ctx1)\<rparr>"
  have "rand_fills (ie_Config ?env)"
    by (simp add: demo_inflate_def demo_rand_fills)
  moreover have "holds_literals (sec_Data ?secret) (managed_keys_sources ctx1)"
    using holds_literal_data [OF managed_keys_distinct] by simp
  moreover have "me_Unmarshal (ke_Middleware (ie_Config ?env)) (gstr (sec_Data serving_bundle) ''config.yaml'') =
      Inr (Some [(''cfg'', YBool True)])"
    by (simp add: demo_inflate_def demo_config_def demo_env_def serving_bundle_def gstr_def)
  ultimately have "\<exists>m ctx2. settle_config (ie_Config ?env) (config_of (Some [(''cfg'', YBool True)]))
      (populate_keys ?secret NewQuayRegistryContext) serving_registry () = (Inr (m, ctx2, False), ()) \<and> keys_of ctx2 = keys_of ctx1"
    using managed_keys_survive [OF _ run] by blast
  then show ?thesis
    by (auto simp: demo_inflate_def config_of_def intro: exI [of _ ?secret])
qed

section \<open>The completed config\<close>





section \<open>The kustomization\<close>

lemma add_component_paths:
  assumes "add_component env ctx quay files acc c = Inr acc'"
  shows "fst acc' = fst acc @ (if cmp_Managed c \<and> cmp_Kind c \<noteq> ComponentQuay then [''../components/'' @ kind_name (cmp_Kind c)] else [])"
  using assms by (auto simp: add_component_def Let_def split: if_splits sum.splits option.splits)

lemma add_components_paths:
  "fold_result (add_component env ctx quay files) acc cs = Inr acc' \<Longrightarrow>
     fst acc' = fst acc @ map (\<lambda>c. ''../components/'' @ kind_name (cmp_Kind c))
       (filter (\<lambda>c. cmp_Managed c \<and> cmp_Kind c \<noteq> ComponentQuay) cs)"
proof (induction cs arbitrary: acc)
  case Nil
  then show ?case by simp
next
  case (Cons c cs)
  then obtain acc1 where 1: "add_component env ctx quay files acc c = Inr acc1"
    and 2: "fold_result (add_component env ctx quay files) acc1 cs = Inr acc'"
    by (auto simp: and_then_Inr_iff)
  from Cons.IH [OF 2] add_component_paths [OF 1] show ?case by simp
qed

lemma job_paths_overlay:
  "job_paths env ctx quay (choose_overlay env quay changed) =
     (if (version_of quay \<noteq> ie_Version env \<or> changed) \<and>
         (ComponentIsManaged (qr_Components quay) ComponentObjectStorage \<longrightarrow> ObjectStorageInitialized ctx)
      then [''../components/job''] else [])"
  by (auto simp: job_paths_def choose_overlay_def Let_def overlayDir_def upgradeOverlayDir_def unmanagedTLSOverlayDir_def)

text \<open>C30: what a kustomization asks for, in order: the upgrade job, when the version or the database has changed
  and a managed object storage is ready; the manifests of every managed component, in the order of the
  spec, Quay itself being in the base; the database upgrades the context asks for. The names of the
  registry prefix every object.
\<close>

theorem kustomization_components:
  assumes "KustomizationFor env ctx quay files (choose_overlay env quay changed) w = (Inr (kz, ctx'), w')"
  shows "kz_Components kz =
      (if (version_of quay \<noteq> ie_Version env \<or> changed) \<and>
          (ComponentIsManaged (qr_Components quay) ComponentObjectStorage \<longrightarrow> ObjectStorageInitialized ctx)
       then [''../components/job''] else []) @
      map (\<lambda>c. ''../components/'' @ kind_name (cmp_Kind c))
        (filter (\<lambda>c. cmp_Managed c \<and> cmp_Kind c \<noteq> ComponentQuay) (qr_Components quay)) @
      upgrade_paths ctx quay \<and>
    kz_Namespace kz = qr_Namespace quay \<and> kz_NamePrefix kz = qr_Name quay @ ''-''"
proof -
  obtain ctx1 w1 where 1: "ensure_clair_credentials (ie_Config env) ctx quay w = (Inr ctx1, w1)"
    and 2: "ensure_root_password (ie_Config env) ctx1 w1 = (Inr ctx', w')"
    and 3: "and_then (fold_result (add_component env ctx' quay files)
        (job_paths env ctx' quay (choose_overlay env quay changed), base_secrets env ctx' files) (qr_Components quay))
      (\<lambda>(paths, secrets). and_then (kustomization_images (ke_Getenv (ie_Config env)) ctx' quay) (\<lambda>images.
        Inr (kz_Components kz = paths @ upgrade_paths ctx' quay \<and>
          kz_Namespace kz = qr_Namespace quay \<and> kz_NamePrefix kz = qr_Name quay @ ''-''))) = Inr True"
    using assms by (auto simp: KustomizationFor_def and_then_Inr_iff split: sum.splits prod.splits)
  have "ObjectStorageInitialized ctx' = ObjectStorageInitialized ctx \<and> upgrade_paths ctx' quay = upgrade_paths ctx quay"
    using 1 2 by (auto simp: ensure_clair_credentials_def ensure_root_password_def upgrade_paths_def
        split: if_splits sum.splits prod.splits)
  with 3 show ?thesis
    by (auto simp: and_then_Inr_iff job_paths_overlay dest!: add_components_paths)
qed

theorem kustomization_components_witness:
  "\<exists>kz ctx'. KustomizationFor (demo_inflate :: unit InflateEnv) NewQuayRegistryContext (demo_registry [demo_component ComponentRedis True])
     (Some Map.empty) (choose_overlay (demo_inflate :: unit InflateEnv) (demo_registry [demo_component ComponentRedis True]) False) () = (Inr (kz, ctx'), ()) \<and>
     kz_Components kz = [''../components/job'', ''../components/redis'']"
proof -
  let ?q = "demo_registry [demo_component ComponentRedis True]"
  let ?run = "KustomizationFor (demo_inflate :: unit InflateEnv) NewQuayRegistryContext ?q (Some Map.empty) (choose_overlay (demo_inflate :: unit InflateEnv) ?q False) ()"
  have "case ?run of (Inr _, _) \<Rightarrow> True | _ \<Rightarrow> False"
    by code_simp
  then obtain kz ctx' where run: "?run = (Inr (kz, ctx'), ())"
    by (auto split: prod.splits sum.splits)
  moreover have "kz_Components kz = [''../components/job'', ''../components/redis'']"
    unfolding kustomization_components [OF run, THEN conjunct1]
    by (simp add: demo_registry_def demo_component_def demo_inflate_def ComponentIsManaged_def upgrade_paths_def
        NewQuayRegistryContext_def)
  ultimately show ?thesis by blast
qed

text \<open>One run visits the entries of a map in some order: each once.\<close>

definition visits :: "'w InflateEnv \<Rightarrow> bool" where
  "visits env \<longleftrightarrow> (\<forall>m. finite (dom m) \<longrightarrow> distinct (map fst (ie_Visit env m)) \<and> map_of (ie_Visit env m) = m)"

lemma visited_keys:
  assumes "visits env" and "finite (dom (case files of None \<Rightarrow> Map.empty | Some f \<Rightarrow> f))"
  shows "distinct (map_keys env files) \<and> set (map_keys env files) = {k. gget files k \<noteq> None}"
proof (cases files)
  case None
  then show ?thesis by (simp add: map_keys_def visit_map_def)
next
  case (Some f)
  with assms have "distinct (map fst (ie_Visit env f))" "map_of (ie_Visit env f) = f"
    by (auto simp: visits_def)
  then have "distinct (map fst (ie_Visit env f))" "fst ` set (ie_Visit env f) = dom f"
    using dom_map_of_conv_image_fst [of "ie_Visit env f"] by simp_all
  with Some show ?thesis by (auto simp: map_keys_def visit_map_def)
qed

text \<open>the secrets generated from the config files do not depend on the order in which Go visits their map:
  two runs over the same files hand Kustomize the same sources, so the hash in the names of the secrets,
  and with it the deployments, change only with the content.
\<close>

theorem secret_sources_are_deterministic:
  assumes "visits env" and "visits env'" and "ie_Proxy env' = ie_Proxy env"
    and "finite (dom (case files of None \<Rightarrow> Map.empty | Some f \<Rightarrow> f))"
  shows "base_secrets env' ctx files = base_secrets env ctx files"
proof -
  have eq: "sort (filter P (map_keys env' files)) = sort (filter P (map_keys env files))" for P
    using visited_keys [OF assms(1,4)] visited_keys [OF assms(2,4)]
    by (intro sorted_distinct_set_unique) auto
  have "sort (map_keys env' files) = sort (map_keys env files)"
    using eq [of "\<lambda>_. True"] by simp
  then have "config_file_sources env' files = config_file_sources env files"
    by (simp add: config_file_sources_def)
  moreover have "ca_cert_sources env' files = ca_cert_sources env files"
    using eq by (simp add: ca_cert_sources_def)
  ultimately show ?thesis
    using assms(3) by (simp add: base_secrets_def proxy_sources_def)
qed

definition listing :: "(string \<rightharpoonup> string) \<Rightarrow> (string \<times> string) list" where
  "listing m = map (\<lambda>k. (k, the (m k))) (sorted_list_of_set (dom m))"

abbreviation demo_unit :: "unit InflateEnv" where
  "demo_unit \<equiv> demo_inflate"

lemma listing_visits: "visits (demo_unit\<lparr>ie_Visit := listing\<rparr>)" "visits (demo_unit\<lparr>ie_Visit := rev \<circ> listing\<rparr>)"
proof -
  have "map_of (listing m) = m \<and> distinct (map fst (listing m))" if "finite (dom m)" for m
  proof
    show "map_of (listing m) = m"
    proof
      fix k
      show "map_of (listing m) k = m k"
        using that by (cases "m k") (auto simp: listing_def map_of_map_restrict restrict_map_def)
    qed
    show "distinct (map fst (listing m))"
      by (simp add: listing_def o_def)
  qed
  moreover from this have "map_of (rev (listing m)) = m \<and> distinct (map fst (rev (listing m)))" if "finite (dom m)" for m
    using that map_of_inject_set [of "rev (listing m)" "listing m"] by (simp add: rev_map [symmetric])
  ultimately show "visits (demo_unit\<lparr>ie_Visit := listing\<rparr>)" "visits (demo_unit\<lparr>ie_Visit := rev \<circ> listing\<rparr>)"
    by (simp_all add: visits_def)
qed

theorem secret_sources_are_deterministic_witness:
  "base_secrets (demo_unit\<lparr>ie_Visit := rev \<circ> listing\<rparr>) NewQuayRegistryContext (Some [''b'' \<mapsto> ''1'', ''a'' \<mapsto> ''2'']) =
   base_secrets (demo_unit\<lparr>ie_Visit := listing\<rparr>) NewQuayRegistryContext (Some [''b'' \<mapsto> ''1'', ''a'' \<mapsto> ''2''])"
  by (rule secret_sources_are_deterministic [OF listing_visits]) simp_all

section \<open>Generated secrets\<close>



section \<open>The objects that come back\<close>









end
