(* ===== verification/Spec2Isabelle.thy ===== *)
theory Spec2Isabelle
  imports Registry_Properties Status_Properties Middleware_Properties Feature_Properties
    Controller_Properties Rollout_Properties Progress_Properties Setup_Properties Kustomize_Properties
begin

text \<open>
  \<^bold>\<open>A verification library for the Quay operator.\<close>

  The operator reconciles \<open>QuayRegistry\<close> resources. Its main controller
  (\<open>controllers/quay/quayregistry_controller.go\<close>) reads a registry, learns what the cluster offers
  (\<open>features.go\<close>, \<open>tls.go\<close>), completes and validates the components the user declares (\<open>apis/quay/v1\<close>),
  renders manifests (\<open>pkg/kustomize\<close>), changes every object last in \<open>pkg/middleware\<close>, creates or updates
  them in order, and then waits: for a database upgrade, for a migration, or for its next turn. Once a
  minute a second controller (\<open>quayregistry_status_controller.go\<close>) evaluates the health of each component
  (\<open>pkg/cmpstatus\<close>) and writes it to the same status. \<open>main.go\<close> sets both up.

  \<^bold>\<open>Conventions.\<close> A Go struct is a record with the Go field names behind a prefix, a pointer an option, a
  slice a list, a map a \<open>gomap\<close> (nil, or a partial function), a string type with constants a datatype
  with one more constructor for every other string. An error is a value of \<open>go_error\<close>; a run time
  panic is one too, marked as such, so that nil maps, failed type assertions and bad indices show in
  results. Handlers are steps: from a world they either leave the handler with its outcome or hand a
  value on. Nothing is assumed about the cluster: the client is a record of parameters over an opaque
  world, which may answer every read and write with anything. \<open>logged\<close> wraps it and records the writes
  attempted; the statements about writes are about that log, for every client. An update is modelled by
  the object sent; the server's answer is the error alone. Libraries that are not in the repository are
  parameters too: Kustomize, YAML and JSON, the config-tool, the English title case, quantities,
  SHA-256, the TLS handshake, the random source, the conversion of an autoscaler to
  \<open>v2beta2\<close>. Times are integers read from a clock parameter. The order in which Go visits a map is a
  parameter where it could show. The cached hostname of the reconciler is passed from one reconcile to
  the next.

  \<^bold>\<open>Theories: objects and API.\<close>
  \<^item> \<open>Prelude\<close>: errors, panics, Go maps, the \<open>strings\<close> functions, loops with early return.
  \<^item> \<open>Kube_Objects\<close>, \<open>Kube_Store\<close>: the Kubernetes objects and the reader; objects as one sum type.
  \<^item> \<open>Quay_Types\<close>: the API types and constants of \<open>quayregistry_types.go\<close>, the reconcile context.
  \<^item> \<open>Keyed_Store\<close>: the interface of a slice used as a map, a locale. Conditions and environment
    variables are its two models.
  \<^item> \<open>Conditions\<close>, \<open>Components\<close>, \<open>Overrides\<close>, \<open>Ownership\<close>: the functions of \<open>quayregistry_types.go\<close>
    on conditions, component lists, user overrides (the accessors share the locale
    \<open>override_accessor\<close>), owner references (locale \<open>ownership\<close>), field groups and the endpoint.

  \<^bold>\<open>Theories: the status controller.\<close>
  \<^item> \<open>Cmp_Deploy\<close>, \<open>Cmp_Checkers\<close>, \<open>Cmp_Evaluate\<close>: the checkers of \<open>pkg/cmpstatus\<close> and
    \<open>pkg/tls/validate.go\<close>, all in the contract \<open>status_checker\<close>, and the order of the evaluation.
  \<^item> \<open>Status_Controller\<close>: the status reconciler.

  \<^bold>\<open>Theories: what a reconcile renders.\<close>
  \<^item> \<open>Middleware\<close>, \<open>Middleware_Laws\<close>: \<open>pkg/middleware/middleware.go\<close>, one definition per block of
    \<open>Process\<close>, and the pipeline field by field.
  \<^item> \<open>Cluster_Client\<close>: the client, steps, the log, and \<open>emits\<close>, the calculus of what a step may write.
  \<^item> \<open>Images\<close>, \<open>Features\<close>: the image overrides of \<open>kustomize.go\<close>, and \<open>features.go\<close> and \<open>tls.go\<close>: what
    a reconcile learns before it builds anything.
  \<^item> \<open>Field_Groups\<close>, \<open>Component_Config\<close>: \<open>pkg/kustomize/secrets.go\<close>; base64 and the random keys are over
    words of 8 bits.
  \<^item> \<open>Go_Sort\<close>, \<open>Go_Sort_Laws\<close>: \<open>sort.Slice\<close> of Go's standard library as it is implemented, which sorts the
    objects by a comparison that is no strict weak order: it permutes, and the two classes come out apart.
  \<^item> \<open>Inflate\<close>: \<open>pkg/kustomize/kustomize.go\<close>, from a registry and its bundle to the objects in the order
    of their creation.

  \<^bold>\<open>Theories: the main controller.\<close>
  \<^item> \<open>Controller_Status\<close>: outcomes, conditions, deletion, the two waits for jobs, the first bundle.
  \<^item> \<open>Controller_Objects\<close>: one object created or updated, jobs, dashboards, namespace labels, deferral,
    old secrets, the watch on secrets.
  \<^item> \<open>Reconcile\<close>: the handler in the stages of the source.
  \<^item> \<open>Controller_Laws\<close>, \<open>Context_Laws\<close>: what each step may write and what it hands on.
  \<^item> \<open>Write_Policy\<close>: the locales \<open>status_policy\<close>, \<open>gate_policy\<close>, \<open>cleanup_policy\<close>, \<open>label_policy\<close>,
    \<open>rollout_policy\<close> and \<open>write_policy\<close>: a predicate on writes that meets their laws holds of everything a
    rollout writes. Each safety property is an interpretation of one of them.
  \<^item> \<open>Lifecycle\<close>: the abstract machine of a registry (serving, upgrading, migrating, deleting, with the
    version it reports) as an executable inductive relation without
    traps, and the interleaving of both controllers and the user.
  \<^item> \<open>Outcomes\<close>: how the handlers end, in the locale \<open>requeueing\<close>.
  \<^item> \<open>Progress\<close>: the order of the objects, what is done when a reconcile comes back late, the run of a
    database upgrade.
  \<^item> \<open>Setup\<close>: \<open>main.go\<close> and both \<open>SetupWithManager\<close>: which events become requests. The predicates and
    handlers of controller-runtime they name are modelled as it documents them.

  \<^item> \<open>Demo_Cluster\<close>, \<open>Demo_Client\<close>, \<open>Demo_Reconcile\<close>: the registries, clusters and clients the witnesses run on.
  \<^item> The theories that end in \<open>_Properties\<close>: the properties, numbered.

  \<^bold>\<open>What is shown.\<close>
  \<^item> The life cycle: every reconcile refines the abstract machine, the version changes only by a finished
    migration, the status controller and the user do not disturb it (\<open>Controller_Properties\<close>).
  \<^item> Safety of a rollout: nothing is applied before every check has passed, workloads come after
    everything else and wait for their databases, jobs run once, old secrets go last, deletion cleans up first, an operator restricted to a
    namespace stays in it (\<open>Rollout_Properties\<close>, \<open>Controller_Properties\<close>, \<open>Setup_Properties\<close>).
  \<^item> Progress: a reconcile asks to come back unless the registry is gone or going; when it comes back
    late everything was rendered, applied and reported; completing a spec settles; the wait for a database
    upgrade ends with its jobs; a watched secret wakes the controller, an owned object does not
    (\<open>Rollout_Properties\<close>, \<open>Progress_Properties\<close>, \<open>Setup_Properties\<close>).
  \<^item> Rendering: keys survive from one reconcile to the next, the config is the user's file completed, the
    certificate fits every host, every object is owned (\<open>Kustomize_Properties\<close>).
  \<^item> The API: defaulting in closed form, its idempotence and errors, validation as a table, conditions as
    a map, ownership (\<open>Registry_Properties\<close>).
  \<^item> The status: the meaning of \<open>Available\<close>, the order of the evaluation, the exact readiness of every
    component (\<open>Status_Properties\<close>).
  \<^item> The middleware: the environment, labels, replicas and hashes a deployment ends with, volumes that
    never shrink, what is dropped, what the mounted config holds (\<open>Middleware_Properties\<close>).
  \<^item> The features: how images are split and when a database is upgraded, the cache of the hostname probe,
    the translation of TLS profiles, and that reconcile and status agree on external TLS secrets
    (\<open>Feature_Properties\<close>).

  No loop needs fuel: all of them run over finite lists and are structural recursions, except
  \<open>ReplaceAll\<close>, whose string gets shorter, and the loops of \<open>Go_Sort\<close>, whose range does.

  \<^bold>\<open>Not modelled.\<close> The generated deep copies (the identity on values), the registration of the schemes,
  logging, the start of the manager beyond the order and the exits of its calls, and the libraries above.
\<close>

end
